(* ===== verification/Prelude.thy ===== *)
theory Prelude
  imports Main "HOL-Library.Word" "HOL-Library.Finite_Map"
begin

section \<open>Prelude: the part of Rust the program uses\<close>

text \<open>
  This theory holds what every component shares: the fixed-width integers, the enums of the
  Rust standard library (\<open>Result\<close>, \<open>Poll\<close>), panics as values, the arithmetic
  whose overflow behaviour depends on the build profile, and three interfaces as locales: a
  transition system with an inductive invariant, a simulation of one transition system by another, and
  a first-in first-out queue of events.

  A computation that may panic has type \<open>'a run\<close>, that is \<open>panic + 'a\<close>: \<open>Inl\<close> is the
  panic, \<open>Inr\<close> the value. A Rust \<open>Result\<close> is a value of its own type, so that an error that
  is returned is never confused with a panic.
\<close>

named_theorems run_simps \<open>how the panic monad distributes over its results\<close>

subsection \<open>Integers\<close>

type_synonym u8 = "8 word"
type_synonym u32 = "32 word"
type_synonym u64 = "64 word"
type_synonym usize = "64 word"
type_synonym bytes = "u8 list"

text \<open>
  \<open>Instant\<close> and \<open>Duration\<close> count nanoseconds. \<open>Instant::duration_since\<close> and the
  subtraction of instants saturate at zero, as subtraction on \<open>nat\<close> does.
\<close>

type_synonym instant = nat
type_synonym duration = nat

definition from_secs :: "nat \<Rightarrow> duration" where
  "from_secs n = n * 1000000000"

definition as_millis :: "duration \<Rightarrow> nat" where
  "as_millis d = d div 1000000"

subsection \<open>Results, polls and panics\<close>

datatype ('t, 'e) result = Ok 't | Err 'e

datatype 'a poll = Ready 'a | Pending

datatype panic =
    UnwrapNone
  | Expect string
  | Unreachable string
  | ArithmeticOverflow
  | OutOfRange
  | MissingKey
  | Explicit string
  | Todo
  | OutOfFuel

text \<open>
  \<open>OutOfFuel\<close> is no panic of the program: a loop whose end depends on another crate runs on fuel,
  and this value says that the fuel was used up. A theorem that a computation does not panic
  therefore also says that its loops end.
\<close>

type_synonym 'a run = "panic + 'a"

definition run_bind :: "'a run \<Rightarrow> ('a \<Rightarrow> 'b run) \<Rightarrow> 'b run" where
  "run_bind m f = (case m of Inl p \<Rightarrow> Inl p | Inr x \<Rightarrow> f x)"

definition panics :: "'a run \<Rightarrow> bool" where
  "panics m = (case m of Inl _ \<Rightarrow> True | Inr _ \<Rightarrow> False)"

fun is_ok :: "('t, 'e) result \<Rightarrow> bool" where
  "is_ok (Ok _) = True"
| "is_ok (Err _) = False"

fun is_err :: "('t, 'e) result \<Rightarrow> bool" where
  "is_err (Ok _) = False"
| "is_err (Err _) = True"

subsection \<open>Arithmetic under the two build profiles\<close>

text \<open>
  Cargo's \<open>dev\<close> profile compiles integer arithmetic with overflow checks, the \<open>release\<close>
  profile without them; the repository overrides neither. Every operation whose result can
  leave its type takes the profile as an argument.
\<close>

datatype profile = Dev | Release

definition add_ovf :: "profile \<Rightarrow> 'a::len word \<Rightarrow> 'a word \<Rightarrow> 'a word run" where
  "add_ovf p a b =
     (if unat a + unat b < 2 ^ LENGTH('a) \<or> p = Release then Inr (a + b)
      else Inl ArithmeticOverflow)"

definition sub_ovf :: "profile \<Rightarrow> 'a::len word \<Rightarrow> 'a word \<Rightarrow> 'a word run" where
  "sub_ovf p a b =
     (if unat b \<le> unat a \<or> p = Release then Inr (a - b) else Inl ArithmeticOverflow)"

definition mul_ovf :: "profile \<Rightarrow> 'a::len word \<Rightarrow> 'a word \<Rightarrow> 'a word run" where
  "mul_ovf p a b =
     (if unat a * unat b < 2 ^ LENGTH('a) \<or> p = Release then Inr (a * b)
      else Inl ArithmeticOverflow)"

definition saturating_sub :: "'a::len word \<Rightarrow> 'a word \<Rightarrow> 'a word" where
  "saturating_sub a b = (if b \<le> a then a - b else 0)"

lemma run_bind_Inr [simp]: "run_bind (Inr x) f = f x"
  by (simp add: run_bind_def)

lemma run_bind_Inl [simp]: "run_bind (Inl p) f = Inl p"
  by (simp add: run_bind_def)

lemma run_bind_eq_Inr [run_simps]:
  "run_bind m f = Inr y \<longleftrightarrow> (\<exists>x. m = Inr x \<and> f x = Inr y)"
  by (cases m) auto

lemma run_bind_eq_Inl [run_simps]:
  "run_bind m f = Inl p \<longleftrightarrow> m = Inl p \<or> (\<exists>x. m = Inr x \<and> f x = Inl p)"
  by (cases m) auto

lemma panics_simps [simp]: "panics (Inl p)" "\<not> panics (Inr x)"
  by (simp_all add: panics_def)

lemma not_panics_iff: "\<not> panics m \<longleftrightarrow> (\<exists>x. m = Inr x)"
  by (cases m) simp_all

lemma panics_run_bind [run_simps]:
  "panics (run_bind m f) \<longleftrightarrow> panics m \<or> (\<exists>x. m = Inr x \<and> panics (f x))"
  by (cases m) auto

lemma add_ovf_no_overflow:
  "unat a + unat b < 2 ^ LENGTH('a::len) \<Longrightarrow> add_ovf p (a :: 'a word) b = Inr (a + b)"
  by (simp add: add_ovf_def)

lemma sub_ovf_no_underflow: "unat b \<le> unat a \<Longrightarrow> sub_ovf p a b = Inr (a - b)"
  by (simp add: sub_ovf_def)

lemma sub_ovf_dev_underflow: "unat a < unat b \<Longrightarrow> sub_ovf Dev a b = Inl ArithmeticOverflow"
  by (simp add: sub_ovf_def)

lemma sub_ovf_Release [simp]: "sub_ovf Release a b = Inr (a - b)"
  by (simp add: sub_ovf_def)

lemma add_ovf_Release [simp]: "add_ovf Release a b = Inr (a + b)"
  by (simp add: add_ovf_def)

lemma mul_ovf_Release [simp]: "mul_ovf Release a b = Inr (a * b)"
  by (simp add: mul_ovf_def)

lemma unat_minus_1: "0 < unat x \<Longrightarrow> unat (x - 1) = unat x - 1"
  by (metis less_irrefl unat_0 unat_minus_one)

lemma saturating_sub_le: "saturating_sub a b \<le> a"
  by (auto simp: saturating_sub_def word_sub_le)

subsection \<open>Transition systems and inductive invariants\<close>

inductive reach :: "('s \<Rightarrow> bool) \<Rightarrow> ('s \<Rightarrow> 'l \<Rightarrow> 's \<Rightarrow> bool) \<Rightarrow> 's \<Rightarrow> bool"
  for init :: "'s \<Rightarrow> bool" and step :: "'s \<Rightarrow> 'l \<Rightarrow> 's \<Rightarrow> bool"
where
  reach_init: "init s \<Longrightarrow> reach init step s"
| reach_step: "reach init step s \<Longrightarrow> step s l t \<Longrightarrow> reach init step t"

locale inductive_invariant =
  fixes init :: "'s \<Rightarrow> bool"
    and step :: "'s \<Rightarrow> 'l \<Rightarrow> 's \<Rightarrow> bool"
    and inv :: "'s \<Rightarrow> bool"
  assumes inv_init: "init s \<Longrightarrow> inv s"
    and inv_step: "inv s \<Longrightarrow> step s l t \<Longrightarrow> inv t"
begin

lemma reach_inv: "reach init step s \<Longrightarrow> inv s"
  by (induction rule: reach.induct) (auto intro: inv_init inv_step)

end

text \<open>A path is a run of the system with the labels of its steps.\<close>

inductive path :: "('s \<Rightarrow> 'l \<Rightarrow> 's \<Rightarrow> bool) \<Rightarrow> 's \<Rightarrow> 'l list \<Rightarrow> 's \<Rightarrow> bool"
  for step :: "'s \<Rightarrow> 'l \<Rightarrow> 's \<Rightarrow> bool"
where
  path_Nil [intro]: "path step s [] s"
| path_Cons: "step s l t \<Longrightarrow> path step t ls u \<Longrightarrow> path step s (l # ls) u"

lemma path_single: "step s l t \<Longrightarrow> path step s [l] t"
  by (rule path_Cons) (auto intro: path_Nil)

lemma path_append: "path step s ls t \<Longrightarrow> path step t ms u \<Longrightarrow> path step s (ls @ ms) u"
  by (induction rule: path.induct) (auto intro: path_Cons)

lemma reach_path:
  assumes "path step s ls t" "reach init step s"
  shows "reach init step t"
  using assms by (induction rule: path.induct) (auto intro: reach_step)

text \<open>
  A simulation maps a detailed state to an abstract one. A detailed step is matched by a run of
  the abstract system whose observable events are those of the step. The invariant of the detailed
  system may be used.
\<close>

locale simulation = inductive_invariant init step inv
  for init :: "'s \<Rightarrow> bool" and step :: "'s \<Rightarrow> 'l \<Rightarrow> 's \<Rightarrow> bool" and inv :: "'s \<Rightarrow> bool" +
  fixes ainit :: "'a \<Rightarrow> bool"
    and astep :: "'a \<Rightarrow> 'e \<Rightarrow> 'a \<Rightarrow> bool"
    and abs :: "'s \<Rightarrow> 'a"
    and observable :: "'e \<Rightarrow> bool"
    and observation :: "'l \<Rightarrow> 'e list"
  assumes sim_init: "init s \<Longrightarrow> ainit (abs s)"
    and sim_step: "inv s \<Longrightarrow> step s l t \<Longrightarrow>
      \<exists>es. path astep (abs s) es (abs t) \<and> filter observable es = observation l"
begin

lemma sim_path:
  assumes "path step s ls t" "inv s"
  shows "\<exists>es. path astep (abs s) es (abs t) \<and> filter observable es = concat (map observation ls)"
  using assms
proof (induction rule: path.induct)
  case (path_Nil s)
  show ?case by (intro exI [of _ "[]"]) (auto intro: path.path_Nil)
next
  case (path_Cons s l t ls u)
  obtain es where "path astep (abs s) es (abs t)" "filter observable es = observation l"
    using sim_step [OF path_Cons.prems path_Cons.hyps(1)] by blast
  moreover obtain fs where "path astep (abs t) fs (abs u)" "filter observable fs = concat (map observation ls)"
    using path_Cons.IH inv_step [OF path_Cons.prems path_Cons.hyps(1)] by blast
  ultimately show ?case by (intro exI [of _ "es @ fs"]) (auto intro: path_append)
qed

lemma reach_abs: "reach init step s \<Longrightarrow> reach ainit astep (abs s)"
proof (induction rule: reach.induct)
  case (reach_init s)
  then show ?case by (intro reach.reach_init sim_init)
next
  case (reach_step s l t)
  from sim_step [OF reach_inv [OF reach_step.hyps(1)] reach_step.hyps(2)] reach_step.IH
  show ?case by (auto intro: reach_path)
qed

end

subsection \<open>Queues of events\<close>

text \<open>
  \<open>take_events poll n q\<close> polls \<open>n\<close> times and collects what was ready.
\<close>

fun take_events :: "('q \<Rightarrow> 'q \<times> 'a poll) \<Rightarrow> nat \<Rightarrow> 'q \<Rightarrow> 'q \<times> 'a list" where
  "take_events next_event 0 q = (q, [])"
| "take_events next_event (Suc n) q =
     (case next_event q of
        (q', Pending) \<Rightarrow> take_events next_event n q'
      | (q', Ready x) \<Rightarrow> (case take_events next_event n q' of (q'', xs) \<Rightarrow> (q'', x # xs)))"

locale event_fifo =
  fixes push :: "'a \<Rightarrow> 'q \<Rightarrow> 'q"
    and next_event :: "'q \<Rightarrow> 'q \<times> 'a poll"
    and contents :: "'q \<Rightarrow> 'a list"
  assumes contents_push: "contents (push x q) = contents q @ [x]"
    and next_event_Cons:
      "contents q = x # xs \<Longrightarrow> \<exists>q'. next_event q = (q', Ready x) \<and> contents q' = xs"
begin

lemma contents_fold_push: "contents (fold push xs q) = contents q @ xs"
  by (induction xs arbitrary: q) (simp_all add: contents_push)

lemma take_contents: "contents q = xs @ ys \<Longrightarrow>
  \<exists>q'. take_events next_event (length xs) q = (q', xs) \<and> contents q' = ys"
proof (induction xs arbitrary: q)
  case Nil
  then show ?case by simp
next
  case (Cons x xs)
  then obtain q1 where q1: "next_event q = (q1, Ready x)" "contents q1 = xs @ ys"
    using next_event_Cons [of q x "xs @ ys"] by auto
  from Cons.IH [OF q1(2)] q1(1) show ?case by auto
qed

lemma fifo_order: "contents q = [] \<Longrightarrow>
  snd (take_events next_event (length xs) (fold push xs q)) = xs"
  using take_contents [of "fold push xs q" xs "[]"] by (auto simp: contents_fold_push)

end

subsection \<open>Finite maps as hash maps\<close>

text \<open>
  A hash map is a finite map; \<open>fcard (fmdom m)\<close> is its \<open>len\<close>. Its iteration order is
  not specified, so an operation that iterates takes the order as an argument:
  a list that enumerates the keys without repetition.
\<close>

definition enumerates :: "'k list \<Rightarrow> 'k fset \<Rightarrow> bool" where
  "enumerates ks S \<longleftrightarrow> distinct ks \<and> fset_of_list ks = S"

lemma enumerates_set: "enumerates ks S \<Longrightarrow> set ks = fset S"
  by (auto simp: enumerates_def fset_of_list.rep_eq)

lemma enumerates_length: "enumerates ks S \<Longrightarrow> length ks = fcard S"
  by (metis distinct_card enumerates_def enumerates_set fcard.rep_eq)

lemma fcard_fmupd_le: "fcard (fmdom (fmupd k v m)) \<le> Suc (fcard (fmdom m))"
  by (simp add: fcard_finsert_if)

lemma fcard_fmdrop_le: "fcard (fmdom (fmdrop k m)) \<le> fcard (fmdom m)"
  by (simp add: fcard.rep_eq card_mono)

end
