(* ===== verification/Methods.thy ===== *)
theory Methods
  imports Prelude
begin

section \<open>RPC messages (\<open>src/rpc/methods.rs\<close>)\<close>

text \<open>
  The messages of the Req/Resp domain. A fixed-size array or hash is a list of bytes whose length
  is stated by a well-formedness predicate. The SSZ encoders, decoders and fixed lengths that
  \<open>ssz_derive\<close> generates come from a crate outside the repository: they are the fields of
  \<open>ssz_ext\<close>, an argument of every definition that calls them, and \<open>ssz_laws\<close> states what the
  SSZ specification promises of them. A decoder returns \<open>None\<close> for a \<open>DecodeError\<close>.
\<close>

type_synonym Hash256 = bytes

text \<open>A \<open>BitVector<N>\<close> is its list of \<open>N\<close> bits.\<close>

type_synonym BitVector = "bool list"

definition SubnetBitfieldLength :: nat where
  "SubnetBitfieldLength = 64"

definition SyncCommitteeSubnetCount :: nat where
  "SyncCommitteeSubnetCount = 4"

definition MaxErrorLen :: nat where
  "MaxErrorLen = 256"

definition EnrAttestationBitfield_default :: BitVector where
  "EnrAttestationBitfield_default = replicate SubnetBitfieldLength False"

definition EnrSyncCommitteeBitfield_default :: BitVector where
  "EnrSyncCommitteeBitfield_default = replicate SyncCommitteeSubnetCount False"

datatype ErrorType = ErrorType bytes

record StatusMessage =
  fork_digest :: bytes
  finalized_root :: Hash256
  finalized_epoch :: u64
  head_root :: Hash256
  head_slot :: u64

record Ping =
  data :: u64

record MetaData =
  seq_number :: u64
  attnets :: BitVector
  syncnets :: BitVector

datatype RPCResponse =
    RPCResponse_Status StatusMessage
  | RPCResponse_Pong Ping
  | RPCResponse_MetaData MetaData

datatype RPCCodedResponse =
    RPCCodedResponse_Success RPCResponse
  | RPCCodedResponse_Error

fun as_u8 :: "RPCCodedResponse \<Rightarrow> u8 option" where
  "as_u8 (RPCCodedResponse_Success _) = Some 0"
| "as_u8 RPCCodedResponse_Error = Some 4"

definition is_response :: "u8 \<Rightarrow> bool" where
  "is_response response_code \<longleftrightarrow> response_code = 0"

fun close_after :: "RPCCodedResponse \<Rightarrow> bool" where
  "close_after (RPCCodedResponse_Success _) = False"
| "close_after RPCCodedResponse_Error = True"

subsection \<open>Well-formed messages\<close>

definition wf_status :: "StatusMessage \<Rightarrow> bool" where
  "wf_status s \<longleftrightarrow>
     length (fork_digest s) = 4 \<and> length (finalized_root s) = 32 \<and> length (head_root s) = 32"

definition wf_metadata :: "MetaData \<Rightarrow> bool" where
  "wf_metadata m \<longleftrightarrow>
     length (attnets m) = SubnetBitfieldLength \<and> length (syncnets m) = SyncCommitteeSubnetCount"

fun wf_response :: "RPCResponse \<Rightarrow> bool" where
  "wf_response (RPCResponse_Status s) = wf_status s"
| "wf_response (RPCResponse_Pong _) = True"
| "wf_response (RPCResponse_MetaData m) = wf_metadata m"

fun wf_coded_response :: "RPCCodedResponse \<Rightarrow> bool" where
  "wf_coded_response (RPCCodedResponse_Success r) = wf_response r"
| "wf_coded_response RPCCodedResponse_Error = True"

subsection \<open>The SSZ crate\<close>

record ssz_ext =
  status_as_ssz_bytes :: "StatusMessage \<Rightarrow> bytes"
  status_from_ssz_bytes :: "bytes \<Rightarrow> StatusMessage option"
  status_ssz_fixed_len :: nat
  ping_as_ssz_bytes :: "Ping \<Rightarrow> bytes"
  ping_ssz_fixed_len :: nat
  u64_as_ssz_bytes :: "u64 \<Rightarrow> bytes"
  u64_from_ssz_bytes :: "bytes \<Rightarrow> u64 option"
  metadata_as_ssz_bytes :: "MetaData \<Rightarrow> bytes"
  metadata_from_ssz_bytes :: "bytes \<Rightarrow> MetaData option"
  metadata_ssz_fixed_len :: nat
  error_list_from_ssz_bytes :: "bytes \<Rightarrow> bytes option"

text \<open>
  What SSZ promises: a fixed-size container is encoded in its fixed length and decoded back;
  a container whose fields are arrays, hashes and integers decodes every buffer of its fixed
  length (a bit vector need not: its unused high bits have to be zero); an empty buffer is the
  empty list.
\<close>

definition ssz_laws :: "'a ssz_ext_scheme \<Rightarrow> bool" where
  "ssz_laws E \<longleftrightarrow>
     status_ssz_fixed_len E = 84 \<and> ping_ssz_fixed_len E = 8 \<and> metadata_ssz_fixed_len E = 17 \<and>
     (\<forall>s. wf_status s \<longrightarrow> length (status_as_ssz_bytes E s) = 84 \<and>
        status_from_ssz_bytes E (status_as_ssz_bytes E s) = Some s) \<and>
     (\<forall>p. length (ping_as_ssz_bytes E p) = 8) \<and>
     (\<forall>n. length (u64_as_ssz_bytes E n) = 8 \<and>
        u64_from_ssz_bytes E (u64_as_ssz_bytes E n) = Some n) \<and>
     (\<forall>m. wf_metadata m \<longrightarrow> length (metadata_as_ssz_bytes E m) = 17 \<and>
        metadata_from_ssz_bytes E (metadata_as_ssz_bytes E m) = Some m) \<and>
     (\<forall>bs. length bs = 84 \<longrightarrow> status_from_ssz_bytes E bs \<noteq> None) \<and>
     (\<forall>bs. length bs = 8 \<longrightarrow> u64_from_ssz_bytes E bs \<noteq> None) \<and>
     error_list_from_ssz_bytes E [] = Some []"

lemma as_u8_Some: "\<exists>c. as_u8 r = Some c"
  by (cases r) simp_all

lemma is_response_as_u8: "as_u8 r = Some c \<Longrightarrow> is_response c \<longleftrightarrow> \<not> close_after r"
  by (cases r) (auto simp: is_response_def)

lemma ssz_laws_status:
  "ssz_laws E \<Longrightarrow> wf_status s \<Longrightarrow> length (status_as_ssz_bytes E s) = 84"
  "ssz_laws E \<Longrightarrow> wf_status s \<Longrightarrow> status_from_ssz_bytes E (status_as_ssz_bytes E s) = Some s"
  "ssz_laws E \<Longrightarrow> status_ssz_fixed_len E = 84"
  "ssz_laws E \<Longrightarrow> length bs = 84 \<Longrightarrow> status_from_ssz_bytes E bs \<noteq> None"
  by (simp_all add: ssz_laws_def)

lemma ssz_laws_u64:
  "ssz_laws E \<Longrightarrow> length (u64_as_ssz_bytes E n) = 8"
  "ssz_laws E \<Longrightarrow> u64_from_ssz_bytes E (u64_as_ssz_bytes E n) = Some n"
  "ssz_laws E \<Longrightarrow> ping_ssz_fixed_len E = 8"
  "ssz_laws E \<Longrightarrow> length (ping_as_ssz_bytes E p) = 8"
  "ssz_laws E \<Longrightarrow> length bs = 8 \<Longrightarrow> u64_from_ssz_bytes E bs \<noteq> None"
  by (simp_all add: ssz_laws_def)

lemma ssz_laws_metadata:
  "ssz_laws E \<Longrightarrow> wf_metadata m \<Longrightarrow> length (metadata_as_ssz_bytes E m) = 17"
  "ssz_laws E \<Longrightarrow> wf_metadata m \<Longrightarrow>
     metadata_from_ssz_bytes E (metadata_as_ssz_bytes E m) = Some m"
  "ssz_laws E \<Longrightarrow> metadata_ssz_fixed_len E = 17"
  by (simp_all add: ssz_laws_def)

lemma ssz_laws_error: "ssz_laws E \<Longrightarrow> error_list_from_ssz_bytes E [] = Some []"
  by (simp add: ssz_laws_def)

lemmas ssz_facts = ssz_laws_status ssz_laws_u64 ssz_laws_metadata ssz_laws_error

end
