(* ===== verification/Rpc_Protocol.thy ===== *)
theory Rpc_Protocol
  imports Methods
begin

section \<open>Protocols and requests (\<open>src/rpc/protocol.rs\<close>)\<close>

text \<open>
  The protocol identifiers and their names on the wire, the SSZ length limits, the requests of both
  directions with the number of responses they expect, and the RPC error. The stream upgrades of
  the same file need the codecs and are in theory \<open>Upgrade\<close>.
\<close>

definition MAX_RPC_SIZE_POST_MERGE :: nat where
  "MAX_RPC_SIZE_POST_MERGE = 10 * 1048576"

definition PROTOCOL_PREFIX :: string where
  "PROTOCOL_PREFIX = ''/eth2/beacon_chain/req''"

definition ENCODING :: string where
  "ENCODING = ''ssz_snappy''"

definition TTFB_TIMEOUT :: nat where
  "TTFB_TIMEOUT = 5"

definition REQUEST_TIMEOUT :: nat where
  "REQUEST_TIMEOUT = 15"

subsection \<open>Protocol identifiers\<close>

datatype Protocol =
    Protocol_Status
  | Protocol_Goodbye
  | Protocol_BlocksByRange
  | Protocol_BlocksByRoot
  | Protocol_Ping
  | Protocol_MetaData
  | Protocol_LightClientBootstrap

fun Protocol_fmt :: "Protocol \<Rightarrow> string" where
  "Protocol_fmt Protocol_Status = ''status''"
| "Protocol_fmt Protocol_Goodbye = ''goodbye''"
| "Protocol_fmt Protocol_BlocksByRange = ''beacon_blocks_by_range''"
| "Protocol_fmt Protocol_BlocksByRoot = ''beacon_blocks_by_root''"
| "Protocol_fmt Protocol_Ping = ''ping''"
| "Protocol_fmt Protocol_MetaData = ''metadata''"
| "Protocol_fmt Protocol_LightClientBootstrap = ''light_client_bootstrap''"

datatype Version = V1 | V2

fun Version_fmt :: "Version \<Rightarrow> string" where
  "Version_fmt V1 = ''1''"
| "Version_fmt V2 = ''2''"

record ProtocolId =
  message_name :: Protocol
  version :: Version
  protocol_id :: string

definition ProtocolId_new :: "Protocol \<Rightarrow> Version \<Rightarrow> ProtocolId" where
  "ProtocolId_new name ver =
     \<lparr>message_name = name, version = ver,
      protocol_id = PROTOCOL_PREFIX @ ''/'' @ Protocol_fmt name @ ''/'' @ Version_fmt ver
        @ ''/'' @ ENCODING\<rparr>"

definition protocol_name :: "ProtocolId \<Rightarrow> bytes" where
  "protocol_name p = map of_char (protocol_id p)"

subsection \<open>SSZ length limits\<close>

record RpcLimits =
  lim_min :: nat
  lim_max :: nat

definition RpcLimits_new :: "nat \<Rightarrow> nat \<Rightarrow> RpcLimits" where
  "RpcLimits_new mn mx = \<lparr>lim_min = mn, lim_max = mx\<rparr>"

definition is_out_of_bounds :: "RpcLimits \<Rightarrow> nat \<Rightarrow> nat \<Rightarrow> bool" where
  "is_out_of_bounds limits len max_rpc_size \<longleftrightarrow>
     len > min (lim_max limits) max_rpc_size \<or> len < lim_min limits"

definition rpc_request_limits :: "'a ssz_ext_scheme \<Rightarrow> ProtocolId \<Rightarrow> RpcLimits" where
  "rpc_request_limits E p =
     (case message_name p of
        Protocol_Status \<Rightarrow> RpcLimits_new (status_ssz_fixed_len E) (status_ssz_fixed_len E)
      | Protocol_Ping \<Rightarrow> RpcLimits_new (ping_ssz_fixed_len E) (ping_ssz_fixed_len E)
      | _ \<Rightarrow> RpcLimits_new 0 0)"

definition rpc_response_limits :: "'a ssz_ext_scheme \<Rightarrow> ProtocolId \<Rightarrow> RpcLimits" where
  "rpc_response_limits E p =
     (case message_name p of
        Protocol_Status \<Rightarrow> RpcLimits_new (status_ssz_fixed_len E) (status_ssz_fixed_len E)
      | Protocol_Ping \<Rightarrow> RpcLimits_new (ping_ssz_fixed_len E) (ping_ssz_fixed_len E)
      | Protocol_MetaData \<Rightarrow> RpcLimits_new (metadata_ssz_fixed_len E) (metadata_ssz_fixed_len E)
      | _ \<Rightarrow> RpcLimits_new 0 0)"

definition has_context_bytes :: "ProtocolId \<Rightarrow> bool" where
  "has_context_bytes p =
     (case message_name p of
        Protocol_BlocksByRange \<Rightarrow> True
      | Protocol_BlocksByRoot \<Rightarrow> True
      | _ \<Rightarrow> False)"

subsection \<open>What the listener advertises\<close>

datatype RPCProtocol = RPCProtocol

definition RPCProtocol_protocol_info :: "RPCProtocol \<Rightarrow> ProtocolId list" where
  "RPCProtocol_protocol_info _ =
     [ProtocolId_new Protocol_Status V1,
      ProtocolId_new Protocol_Goodbye V1,
      ProtocolId_new Protocol_Ping V1,
      ProtocolId_new Protocol_MetaData V2]"

subsection \<open>Requests\<close>

datatype InboundRequest =
    InboundRequest_Status StatusMessage
  | InboundRequest_Goodbye u64
  | InboundRequest_Ping Ping
  | InboundRequest_MetaData

fun in_expected_responses :: "InboundRequest \<Rightarrow> u64" where
  "in_expected_responses (InboundRequest_Status _) = 1"
| "in_expected_responses (InboundRequest_Goodbye _) = 0"
| "in_expected_responses (InboundRequest_Ping _) = 1"
| "in_expected_responses InboundRequest_MetaData = 1"

fun in_protocol :: "InboundRequest \<Rightarrow> Protocol" where
  "in_protocol (InboundRequest_Status _) = Protocol_Status"
| "in_protocol (InboundRequest_Goodbye _) = Protocol_Goodbye"
| "in_protocol (InboundRequest_Ping _) = Protocol_Ping"
| "in_protocol InboundRequest_MetaData = Protocol_MetaData"

datatype OutboundRequest =
    OutboundRequest_Status StatusMessage
  | OutboundRequest_Goodbye u64
  | OutboundRequest_Ping Ping
  | OutboundRequest_MetaData

fun supported_protocols :: "OutboundRequest \<Rightarrow> ProtocolId list" where
  "supported_protocols (OutboundRequest_Status _) = [ProtocolId_new Protocol_Status V1]"
| "supported_protocols (OutboundRequest_Goodbye _) = [ProtocolId_new Protocol_Goodbye V1]"
| "supported_protocols (OutboundRequest_Ping _) = [ProtocolId_new Protocol_Ping V1]"
| "supported_protocols OutboundRequest_MetaData = [ProtocolId_new Protocol_MetaData V2]"

fun out_expected_responses :: "OutboundRequest \<Rightarrow> u64" where
  "out_expected_responses (OutboundRequest_Status _) = 1"
| "out_expected_responses (OutboundRequest_Goodbye _) = 0"
| "out_expected_responses (OutboundRequest_Ping _) = 1"
| "out_expected_responses OutboundRequest_MetaData = 1"

fun out_protocol :: "OutboundRequest \<Rightarrow> Protocol" where
  "out_protocol (OutboundRequest_Status _) = Protocol_Status"
| "out_protocol (OutboundRequest_Goodbye _) = Protocol_Goodbye"
| "out_protocol (OutboundRequest_Ping _) = Protocol_Ping"
| "out_protocol OutboundRequest_MetaData = Protocol_MetaData"

datatype OutboundRequestContainer = OutboundRequestContainer (req: OutboundRequest)

definition OutboundRequestContainer_protocol_info :: "OutboundRequestContainer \<Rightarrow> ProtocolId list" where
  "OutboundRequestContainer_protocol_info c = supported_protocols (req c)"

subsection \<open>Errors\<close>

datatype RPCError = RPCError_Error

fun RPCError_fmt :: "RPCError \<Rightarrow> string" where
  "RPCError_fmt RPCError_Error = ''RPC Error''"

text \<open>
  \<open>From<Elapsed>\<close> and \<open>From<io::Error>\<close> drop their argument; an error of another crate is
  modelled by the unit type.
\<close>

fun RPCError_source :: "RPCError \<Rightarrow> RPCError option" where
  "RPCError_source e = None"

fun RPCError_description :: "RPCError \<Rightarrow> string" where
  "RPCError_description e = ''description() is deprecated; use Display''"

definition RPCError_cause :: "RPCError \<Rightarrow> RPCError option" where
  "RPCError_cause e = RPCError_source e"

definition RPCError_from_elapsed :: "unit \<Rightarrow> RPCError" where
  "RPCError_from_elapsed _ = RPCError_Error"

definition RPCError_from_io :: "unit \<Rightarrow> RPCError" where
  "RPCError_from_io _ = RPCError_Error"

lemma message_name_new [simp]: "message_name (ProtocolId_new n v) = n"
  and version_new [simp]: "version (ProtocolId_new n v) = v"
  by (simp_all add: ProtocolId_new_def)

lemma RPCError_eq [simp]: "e = RPCError_Error"
  by (cases e) simp

lemma split_at_separator:
  assumes "xs @ c # ys = xs' @ c # ys'" "c \<notin> set xs" "c \<notin> set xs'"
  shows "xs = xs' \<and> ys = ys'"
  using assms
proof (induction xs arbitrary: xs')
  case Nil
  then show ?case by (cases xs') auto
next
  case (Cons x xs)
  then show ?case by (cases xs') auto
qed

lemma Protocol_fmt_no_slash: "CHR ''/'' \<notin> set (Protocol_fmt p)"
  by (cases p) simp_all

lemma Version_fmt_no_slash: "CHR ''/'' \<notin> set (Version_fmt v)"
  by (cases v) simp_all

lemma Protocol_fmt_inj: "Protocol_fmt p = Protocol_fmt q \<Longrightarrow> p = q"
  by (cases p; cases q) simp_all

lemma Version_fmt_inj: "Version_fmt v = Version_fmt w \<Longrightarrow> v = w"
  by (cases v; cases w) simp_all

lemma is_out_of_bounds_iff:
  "is_out_of_bounds l n m \<longleftrightarrow> \<not> (lim_min l \<le> n \<and> n \<le> lim_max l \<and> n \<le> m)"
  by (auto simp: is_out_of_bounds_def)

lemma expected_responses_le_1: "in_expected_responses r \<le> 1" "out_expected_responses q \<le> 1"
  by (cases r; simp) (cases q; simp)

lemma of_char_u8_inj: "(of_char c :: u8) = of_char d \<longleftrightarrow> c = d"
proof
  have unat_char: "unat (of_char x :: u8) = of_char x" for x
  proof -
    have "unat (of_nat (of_char x) :: u8) = of_char x"
      using of_char_mod_256 [of x, where 'a = nat] by (simp add: unat_of_nat)
    then show ?thesis by (simp only: of_nat_of_char)
  qed
  assume "(of_char c :: u8) = of_char d"
  then have "(of_char c :: nat) = of_char d" by (metis unat_char)
  then show "c = d" by simp
qed simp

lemma protocol_name_inj_list: "map (of_char :: char \<Rightarrow> u8) xs = map of_char ys \<longleftrightarrow> xs = ys"
  by (rule inj_map_eq_map) (auto simp: inj_def of_char_u8_inj)

lemma protocol_name_new_eq:
  "protocol_name (ProtocolId_new n v) = protocol_name (ProtocolId_new n' v') \<longleftrightarrow> n = n' \<and> v = v'"
proof
  assume "protocol_name (ProtocolId_new n v) = protocol_name (ProtocolId_new n' v')"
  then have "protocol_id (ProtocolId_new n v) = protocol_id (ProtocolId_new n' v')"
    unfolding protocol_name_def protocol_name_inj_list .
  then have "Protocol_fmt n @ CHR ''/'' # Version_fmt v @ CHR ''/'' # ENCODING
    = Protocol_fmt n' @ CHR ''/'' # Version_fmt v' @ CHR ''/'' # ENCODING"
    by (simp add: ProtocolId_new_def)
  from split_at_separator [OF this Protocol_fmt_no_slash Protocol_fmt_no_slash]
  have "Protocol_fmt n = Protocol_fmt n'"
    and "Version_fmt v @ CHR ''/'' # ENCODING = Version_fmt v' @ CHR ''/'' # ENCODING"
    by (rule conjunct1, rule conjunct2)
  then show "n = n' \<and> v = v'" by (simp add: Protocol_fmt_inj Version_fmt_inj)
qed simp

subsection \<open>Properties\<close>

text \<open>The name a protocol negotiates on the wire determines the message type and the version, so
  two different protocols never negotiate under the same name; in particular the four protocols the
  listener advertises have four different names.\<close>

lemma protocol_names_distinct:
  "(protocol_name (ProtocolId_new n v) = protocol_name (ProtocolId_new n' v') \<longleftrightarrow> n = n' \<and> v = v') \<and>
   distinct (map protocol_name (RPCProtocol_protocol_info x))"
  by (simp add: protocol_name_new_eq RPCProtocol_protocol_info_def)

text \<open>Every request the node can send offers exactly one protocol, which is the protocol of the
  request and one the listener of a peer running this code advertises.\<close>

lemma requests_offer_advertised_protocol:
  "\<exists>pid. OutboundRequestContainer_protocol_info (OutboundRequestContainer r) = [pid] \<and>
     message_name pid = out_protocol r \<and> pid \<in> set (RPCProtocol_protocol_info x)"
  by (cases r) (simp_all add: OutboundRequestContainer_protocol_info_def RPCProtocol_protocol_info_def)

end
