(* ===== verification/Ssz_Snappy.thy ===== *)
theory Ssz_Snappy
  imports Rpc_Protocol
begin

section \<open>The SSZ-snappy codecs (\<open>src/rpc/codec/ssz_snappy.rs\<close>)\<close>

text \<open>
  A message on the wire is the unsigned varint of its SSZ length followed by its SSZ bytes in
  snappy frames. The varint codec (\<open>unsigned_varint::codec::Uvi\<close>) and the snappy crate are
  not part of the repository: they are the fields \<open>codec_ext\<close> adds to \<open>ssz_ext\<close>.
  \<^item> \<open>uvi_encode u n dst\<close> and \<open>uvi_decode u src\<close> are \<open>Uvi::encode\<close> and \<open>Uvi::decode\<close>:
    they return the codec, the buffer they leave and \<open>None\<close> for an I/O error;
  \<^item> \<open>frame_compress bs\<close> is what a new \<open>FrameEncoder\<close> has written after
    \<open>write_all\<close> and \<open>flush\<close>;
  \<^item> \<open>frame_read_exact src n\<close> is \<open>FrameDecoder::read_exact\<close> into a buffer of length \<open>n\<close>
    over a cursor on \<open>src\<close>: the buffer and the position of the cursor.

  Lengths are \<open>usize\<close> values on which the code does no arithmetic, so they are natural numbers.
  A decoder returns the codec and the buffer it leaves beside its result; \<open>BytesMut::split_to\<close>
  beyond the end of the buffer and \<open>unwrap\<close> on a decoding error are panics.
\<close>

record 'u codec_ext = ssz_ext +
  uvi_default :: 'u
  uvi_encode :: "'u \<Rightarrow> nat \<Rightarrow> bytes \<Rightarrow> 'u \<times> bytes \<times> unit option"
  uvi_decode :: "'u \<Rightarrow> bytes \<Rightarrow> 'u \<times> bytes \<times> nat option option"
  max_compress_len :: "nat \<Rightarrow> nat"
  frame_compress :: "bytes \<Rightarrow> bytes option"
  frame_read_exact :: "bytes \<Rightarrow> nat \<Rightarrow> (bytes \<times> nat) option"

definition split_to :: "bytes \<Rightarrow> nat \<Rightarrow> (bytes \<times> bytes) run" where
  "split_to src n = (if n \<le> length src then Inr (take n src, drop n src) else Inl OutOfRange)"

subsection \<open>The length prefix\<close>

definition handle_length ::
  "('u, 'a) codec_ext_scheme \<Rightarrow> 'u \<Rightarrow> nat option \<Rightarrow> bytes
   \<Rightarrow> 'u \<times> nat option \<times> bytes \<times> (nat option, RPCError) result" where
  "handle_length E uvi_codec len bs =
     (case len of
        Some l \<Rightarrow> (uvi_codec, len, bs, Ok (Some l))
      | None \<Rightarrow>
          (case uvi_decode E uvi_codec bs of
             (u, bs', None) \<Rightarrow> (u, None, bs', Err (RPCError_from_io ()))
           | (u, bs', Some (Some l)) \<Rightarrow> (u, Some l, bs', Ok (Some l))
           | (u, bs', Some None) \<Rightarrow> (u, None, bs', Ok None)))"

subsection \<open>Inbound codec: decodes requests, encodes responses\<close>

record 'u SSZSnappyInboundCodec =
  ic_protocol :: ProtocolId
  ic_inner :: 'u
  ic_len :: "nat option"

definition SSZSnappyInboundCodec_new ::
  "('u, 'a) codec_ext_scheme \<Rightarrow> ProtocolId \<Rightarrow> 'u SSZSnappyInboundCodec" where
  "SSZSnappyInboundCodec_new E p = \<lparr>ic_protocol = p, ic_inner = uvi_default E, ic_len = None\<rparr>"

text \<open>The tail both encoders share: the length check, the length prefix, the snappy frames.\<close>

definition write_message ::
  "('u, 'a) codec_ext_scheme \<Rightarrow> 'u \<Rightarrow> bytes \<Rightarrow> bytes \<Rightarrow> 'u \<times> bytes \<times> (unit, RPCError) result" where
  "write_message E u bs dst =
     (if length bs > MAX_RPC_SIZE_POST_MERGE then (u, dst, Err RPCError_Error)
      else case uvi_encode E u (length bs) dst of
        (u', dst', None) \<Rightarrow> (u', dst', Err (RPCError_from_io ()))
      | (u', dst', Some _) \<Rightarrow>
          (case frame_compress E bs of
             None \<Rightarrow> (u', dst', Err (RPCError_from_io ()))
           | Some c \<Rightarrow> (u', dst' @ c, Ok ())))"

fun response_ssz_bytes :: "'a ssz_ext_scheme \<Rightarrow> RPCCodedResponse \<Rightarrow> bytes" where
  "response_ssz_bytes E (RPCCodedResponse_Success (RPCResponse_Status res)) = status_as_ssz_bytes E res"
| "response_ssz_bytes E (RPCCodedResponse_Success (RPCResponse_Pong res)) = u64_as_ssz_bytes E (data res)"
| "response_ssz_bytes E (RPCCodedResponse_Success (RPCResponse_MetaData res)) = metadata_as_ssz_bytes E res"
| "response_ssz_bytes E RPCCodedResponse_Error = []"

definition ssz_inbound_encode ::
  "('u, 'a) codec_ext_scheme \<Rightarrow> 'u SSZSnappyInboundCodec \<Rightarrow> RPCCodedResponse \<Rightarrow> bytes
   \<Rightarrow> 'u SSZSnappyInboundCodec \<times> bytes \<times> (unit, RPCError) result" where
  "ssz_inbound_encode E c item dst =
     (case write_message E (ic_inner c) (response_ssz_bytes E item) dst of
        (u, dst', r) \<Rightarrow> (c\<lparr>ic_inner := u\<rparr>, dst', r))"

definition ssz_inbound_decode ::
  "('u, 'a) codec_ext_scheme \<Rightarrow> 'u SSZSnappyInboundCodec \<Rightarrow> bytes
   \<Rightarrow> ('u SSZSnappyInboundCodec \<times> bytes \<times> (InboundRequest option, RPCError) result) run" where
  "ssz_inbound_decode E c src =
     (if message_name (ic_protocol c) = Protocol_MetaData
      then Inr (c, src, Ok (Some InboundRequest_MetaData))
      else case handle_length E (ic_inner c) (ic_len c) src of
        (u, ln, src1, Err e) \<Rightarrow> Inr (c\<lparr>ic_inner := u, ic_len := ln\<rparr>, src1, Err e)
      | (u, ln, src1, Ok None) \<Rightarrow> Inr (c\<lparr>ic_inner := u, ic_len := ln\<rparr>, src1, Ok None)
      | (u, ln, src1, Ok (Some len)) \<Rightarrow>
          (let c1 = c\<lparr>ic_inner := u, ic_len := ln\<rparr>;
               ssz_limits = rpc_response_limits E (ic_protocol c)
           in if is_out_of_bounds ssz_limits len MAX_RPC_SIZE_POST_MERGE
              then Inr (c1, src1, Err RPCError_Error)
              else case frame_read_exact E (take (max_compress_len E len) src1) len of
                Some (decoded_buffer, n) \<Rightarrow>
                  run_bind (split_to src1 n) (\<lambda>(_, src2).
                    let c2 = c1\<lparr>ic_len := None\<rparr>
                    in if message_name (ic_protocol c) = Protocol_MetaData
                       then if decoded_buffer \<noteq> [] then Inr (c2, src2, Err RPCError_Error)
                            else Inr (c2, src2, Ok (Some InboundRequest_MetaData))
                       else Inr (c2, src2, Err RPCError_Error))
              | None \<Rightarrow> Inr (c1, src1, Err RPCError_Error)))"

subsection \<open>Outbound codec: encodes requests, decodes responses\<close>

record 'u SSZSnappyOutboundCodec =
  oc_protocol :: ProtocolId
  oc_inner :: 'u
  oc_len :: "nat option"

definition SSZSnappyOutboundCodec_new ::
  "('u, 'a) codec_ext_scheme \<Rightarrow> ProtocolId \<Rightarrow> 'u SSZSnappyOutboundCodec" where
  "SSZSnappyOutboundCodec_new E p = \<lparr>oc_protocol = p, oc_inner = uvi_default E, oc_len = None\<rparr>"

text \<open>The SSZ bytes of a request; a MetaData request has no payload and returns early.\<close>

fun request_ssz_bytes :: "'a ssz_ext_scheme \<Rightarrow> OutboundRequest \<Rightarrow> bytes option" where
  "request_ssz_bytes E (OutboundRequest_Status r) = Some (status_as_ssz_bytes E r)"
| "request_ssz_bytes E (OutboundRequest_Goodbye r) = Some (u64_as_ssz_bytes E r)"
| "request_ssz_bytes E (OutboundRequest_Ping r) = Some (ping_as_ssz_bytes E r)"
| "request_ssz_bytes E OutboundRequest_MetaData = None"

definition ssz_outbound_encode ::
  "('u, 'a) codec_ext_scheme \<Rightarrow> 'u SSZSnappyOutboundCodec \<Rightarrow> OutboundRequest \<Rightarrow> bytes
   \<Rightarrow> 'u SSZSnappyOutboundCodec \<times> bytes \<times> (unit, RPCError) result" where
  "ssz_outbound_encode E c item dst =
     (case request_ssz_bytes E item of
        None \<Rightarrow> (c, dst, Ok ())
      | Some bs \<Rightarrow>
          (case write_message E (oc_inner c) bs dst of
             (u, dst', r) \<Rightarrow> (c\<lparr>oc_inner := u\<rparr>, dst', r)))"

definition unwrap :: "'a option \<Rightarrow> 'a run" where
  "unwrap x = (case x of None \<Rightarrow> Inl UnwrapNone | Some v \<Rightarrow> Inr v)"

definition handle_response ::
  "'a ssz_ext_scheme \<Rightarrow> Protocol \<Rightarrow> bytes \<Rightarrow> (RPCResponse option, RPCError) result run" where
  "handle_response E p decoded_buffer =
     (case p of
        Protocol_Status \<Rightarrow>
          run_bind (unwrap (status_from_ssz_bytes E decoded_buffer))
            (\<lambda>s. Inr (Ok (Some (RPCResponse_Status s))))
      | Protocol_Ping \<Rightarrow>
          run_bind (unwrap (u64_from_ssz_bytes E decoded_buffer))
            (\<lambda>d. Inr (Ok (Some (RPCResponse_Pong \<lparr>data = d\<rparr>))))
      | Protocol_MetaData \<Rightarrow>
          run_bind (unwrap (metadata_from_ssz_bytes E decoded_buffer))
            (\<lambda>m. Inr (Ok (Some (RPCResponse_MetaData m))))
      | _ \<Rightarrow> Inr (Err RPCError_Error))"

definition ssz_outbound_decode ::
  "('u, 'a) codec_ext_scheme \<Rightarrow> 'u SSZSnappyOutboundCodec \<Rightarrow> bytes
   \<Rightarrow> ('u SSZSnappyOutboundCodec \<times> bytes \<times> (RPCResponse option, RPCError) result) run" where
  "ssz_outbound_decode E c src =
     (case handle_length E (oc_inner c) (oc_len c) src of
        (u, ln, src1, Err e) \<Rightarrow> Inr (c\<lparr>oc_inner := u, oc_len := ln\<rparr>, src1, Err e)
      | (u, ln, src1, Ok None) \<Rightarrow> Inr (c\<lparr>oc_inner := u, oc_len := ln\<rparr>, src1, Ok None)
      | (u, ln, src1, Ok (Some len)) \<Rightarrow>
          (let c1 = c\<lparr>oc_inner := u, oc_len := ln\<rparr>;
               ssz_limits = rpc_response_limits E (oc_protocol c)
           in if is_out_of_bounds ssz_limits len MAX_RPC_SIZE_POST_MERGE
              then Inr (c1, src1, Err RPCError_Error)
              else case frame_read_exact E (take (max_compress_len E len) src1) len of
                Some (decoded_buffer, n) \<Rightarrow>
                  run_bind (split_to src1 n) (\<lambda>(_, src2).
                    run_bind (handle_response E (message_name (oc_protocol c)) decoded_buffer)
                      (\<lambda>r. Inr (c1\<lparr>oc_len := None\<rparr>, src2, r)))
              | None \<Rightarrow> Inr (c1, src1, Err RPCError_Error)))"

definition ssz_outbound_decode_error ::
  "('u, 'a) codec_ext_scheme \<Rightarrow> 'u SSZSnappyOutboundCodec \<Rightarrow> bytes
   \<Rightarrow> ('u SSZSnappyOutboundCodec \<times> bytes \<times> (ErrorType option, RPCError) result) run" where
  "ssz_outbound_decode_error E c src =
     (case handle_length E (oc_inner c) (oc_len c) src of
        (u, ln, src1, Err e) \<Rightarrow> Inr (c\<lparr>oc_inner := u, oc_len := ln\<rparr>, src1, Err e)
      | (u, ln, src1, Ok None) \<Rightarrow> Inr (c\<lparr>oc_inner := u, oc_len := ln\<rparr>, src1, Ok None)
      | (u, ln, src1, Ok (Some len)) \<Rightarrow>
          (let c1 = c\<lparr>oc_inner := u, oc_len := ln\<rparr>
           in if len > MAX_RPC_SIZE_POST_MERGE
              then Inr (c1, src1, Err RPCError_Error)
              else case frame_read_exact E (take (max_compress_len E len) src1) len of
                Some (decoded_buffer, n) \<Rightarrow>
                  run_bind (split_to src1 n) (\<lambda>(_, src2).
                    Inr (c1\<lparr>oc_len := None\<rparr>, src2,
                      (case error_list_from_ssz_bytes E decoded_buffer of
                         None \<Rightarrow> Err RPCError_Error
                       | Some l \<Rightarrow> Ok (Some (ErrorType l)))))
              | None \<Rightarrow> Inr (c1, src1, Err RPCError_Error)))"

subsection \<open>The laws of the varint and snappy crates\<close>

text \<open>
  An encoded length is appended to the buffer and decodes back, leaving what follows; a
  compressed message fits the bound the decoder allows and reads back, with the cursor just behind
  it; reading a truncated message fails; a cursor never stands beyond its source.
\<close>

definition uvi_laws :: "('u, 'a) codec_ext_scheme \<Rightarrow> bool" where
  "uvi_laws E \<longleftrightarrow>
     (\<forall>u n dst. n \<le> MAX_RPC_SIZE_POST_MERGE \<longrightarrow>
        (\<exists>u' pre. pre \<noteq> [] \<and> uvi_encode E u n dst = (u', dst @ pre, Some ()) \<and>
           (\<forall>v rest. \<exists>v'. uvi_decode E v (pre @ rest) = (v', rest, Some (Some n)))))"

definition frame_laws :: "('u, 'a) codec_ext_scheme \<Rightarrow> bool" where
  "frame_laws E \<longleftrightarrow>
     (\<forall>bs. length bs \<le> MAX_RPC_SIZE_POST_MERGE \<longrightarrow>
        (\<exists>c. frame_compress E bs = Some c \<and> length c \<le> max_compress_len E (length bs) \<and>
           (\<forall>rest. frame_read_exact E (c @ rest) (length bs) = Some (bs, length c)) \<and>
           (\<forall>k < length c. frame_read_exact E (take k c) (length bs) = None))) \<and>
     (\<forall>src n buf pos. frame_read_exact E src n = Some (buf, pos) \<longrightarrow>
        length buf = n \<and> pos \<le> length src)"

definition codec_laws :: "('u, 'a) codec_ext_scheme \<Rightarrow> bool" where
  "codec_laws E \<longleftrightarrow> ssz_laws E \<and> uvi_laws E \<and> frame_laws E"

subsection \<open>Lemmas on the length prefix and the frames\<close>

lemma frame_laws_ok:
  assumes "frame_laws E" "length bs \<le> MAX_RPC_SIZE_POST_MERGE"
  obtains c where "frame_compress E bs = Some c" "length c \<le> max_compress_len E (length bs)"
    "\<And>rest. frame_read_exact E (c @ rest) (length bs) = Some (bs, length c)"
    "\<And>k. k < length c \<Longrightarrow> frame_read_exact E (take k c) (length bs) = None"
  using assms unfolding frame_laws_def by blast

lemma frame_laws_bound:
  "frame_laws E \<Longrightarrow> frame_read_exact E src n = Some (buf, pos) \<Longrightarrow>
   length buf = n \<and> pos \<le> length src"
  unfolding frame_laws_def by blast

lemma uvi_laws_ok:
  assumes "uvi_laws E" "n \<le> MAX_RPC_SIZE_POST_MERGE"
  obtains u' pre where "pre \<noteq> []" "uvi_encode E u n dst = (u', dst @ pre, Some ())"
    "\<And>v rest. \<exists>v'. uvi_decode E v (pre @ rest) = (v', rest, Some (Some n))"
  using assms unfolding uvi_laws_def by meson

lemma split_to_prefix [simp]: "split_to (xs @ ys) (length xs) = Inr (xs, ys)"
  by (simp add: split_to_def)

lemma handle_length_Some [simp]: "handle_length E u (Some l) bs = (u, Some l, bs, Ok (Some l))"
  by (simp add: handle_length_def)

lemma handle_length_cases:
  assumes "handle_length E u len bs = (u', ln, bs', r)"
  shows "(\<exists>l. r = Ok (Some l) \<and> ln = Some l) \<or> (r = Ok None \<and> len = None \<and> ln = None) \<or>
    (\<exists>e. r = Err e \<and> len = None \<and> ln = None)"
  using assms by (auto simp: handle_length_def split: option.splits prod.splits)

lemma write_message_ok:
  assumes "uvi_laws E" "frame_laws E" "length bs \<le> MAX_RPC_SIZE_POST_MERGE"
  obtains u' pre c where "pre \<noteq> []" "frame_compress E bs = Some c"
    "write_message E u bs dst = (u', dst @ pre @ c, Ok ())"
    "\<And>v rest. \<exists>v'. uvi_decode E v (pre @ rest) = (v', rest, Some (Some (length bs)))"
proof -
  obtain u' pre where u: "pre \<noteq> []" "uvi_encode E u (length bs) dst = (u', dst @ pre, Some ())"
    "\<And>v rest. \<exists>v'. uvi_decode E v (pre @ rest) = (v', rest, Some (Some (length bs)))"
    using uvi_laws_ok [OF assms(1,3)] by metis
  obtain c where c: "frame_compress E bs = Some c"
    using frame_laws_ok [OF assms(2,3)] by metis
  have "write_message E u bs dst = (u', dst @ pre @ c, Ok ())"
    using assms(3) u(2) c by (simp add: write_message_def)
  from that [OF u(1) c this u(3)] show thesis .
qed

lemma read_back:
  assumes "frame_laws E" "length bs \<le> MAX_RPC_SIZE_POST_MERGE" "frame_compress E bs = Some c"
  shows "frame_read_exact E (take (max_compress_len E (length bs)) (c @ rest)) (length bs)
    = Some (bs, length c)"
proof -
  obtain c' where c': "frame_compress E bs = Some c'" "length c' \<le> max_compress_len E (length bs)"
    "\<And>rest. frame_read_exact E (c' @ rest) (length bs) = Some (bs, length c')"
    using frame_laws_ok [OF assms(1,2)] by metis
  with assms(3) show ?thesis by simp
qed

lemma read_truncated:
  assumes "frame_laws E" "length bs \<le> MAX_RPC_SIZE_POST_MERGE" "frame_compress E bs = Some c"
    and "k < length c"
  shows "frame_read_exact E (take (max_compress_len E (length bs)) (take k c)) (length bs) = None"
proof -
  obtain c' where c': "frame_compress E bs = Some c'" "length c' \<le> max_compress_len E (length bs)"
    "\<And>k. k < length c' \<Longrightarrow> frame_read_exact E (take k c') (length bs) = None"
    using frame_laws_ok [OF assms(1,2)] by metis
  with assms(3,4) show ?thesis by (simp add: min_def)
qed

subsection \<open>Lemmas on responses\<close>

fun response_protocol :: "RPCResponse \<Rightarrow> Protocol" where
  "response_protocol (RPCResponse_Status _) = Protocol_Status"
| "response_protocol (RPCResponse_Pong _) = Protocol_Ping"
| "response_protocol (RPCResponse_MetaData _) = Protocol_MetaData"

lemma response_bytes_in_limits:
  assumes "ssz_laws E" "wf_response r" "message_name p = response_protocol r"
  shows "\<not> is_out_of_bounds (rpc_response_limits E p)
    (length (response_ssz_bytes E (RPCCodedResponse_Success r))) MAX_RPC_SIZE_POST_MERGE"
  using assms
  by (cases r) (auto simp: is_out_of_bounds_iff rpc_response_limits_def RpcLimits_new_def
      MAX_RPC_SIZE_POST_MERGE_def ssz_facts)

lemma response_bytes_le_max:
  assumes "ssz_laws E" "wf_coded_response r"
  shows "length (response_ssz_bytes E r) \<le> MAX_RPC_SIZE_POST_MERGE"
  using assms
  by (induction E r rule: response_ssz_bytes.induct)
    (auto simp: MAX_RPC_SIZE_POST_MERGE_def ssz_facts)

lemma handle_response_back:
  assumes "ssz_laws E" "wf_response r"
  shows "handle_response E (response_protocol r)
    (response_ssz_bytes E (RPCCodedResponse_Success r)) = Inr (Ok (Some r))"
  using assms by (cases r) (auto simp: handle_response_def unwrap_def ssz_facts)

lemma handle_response_item:
  assumes "handle_response E p buf = Inr (Ok x)"
  shows "\<exists>r. x = Some r \<and> response_protocol r = p"
  using assms
  by (auto simp: handle_response_def run_simps unwrap_def split: Protocol.splits option.splits)

lemma handle_response_panics:
  assumes "ssz_laws E"
    and "\<not> is_out_of_bounds (rpc_response_limits E p) (length buf) MAX_RPC_SIZE_POST_MERGE"
  shows "panics (handle_response E (message_name p) buf) \<longleftrightarrow>
    message_name p = Protocol_MetaData \<and> metadata_from_ssz_bytes E buf = None"
  using assms
  by (cases "message_name p")
    (auto simp: handle_response_def unwrap_def run_simps is_out_of_bounds_iff
      rpc_response_limits_def RpcLimits_new_def ssz_facts split: option.splits)

lemma outbound_decode_back:
  assumes "codec_laws E" "oc_len c = None" "length bs \<le> MAX_RPC_SIZE_POST_MERGE"
    and "frame_compress E bs = Some f"
    and "\<And>v rest. \<exists>v'. uvi_decode E v (pre @ rest) = (v', rest, Some (Some (length bs)))"
    and "\<not> is_out_of_bounds (rpc_response_limits E (oc_protocol c)) (length bs)
      MAX_RPC_SIZE_POST_MERGE"
  shows "\<exists>c'. oc_len c' = None \<and> oc_protocol c' = oc_protocol c \<and>
    ssz_outbound_decode E c (pre @ f @ rest) =
      run_bind (handle_response E (message_name (oc_protocol c)) bs) (\<lambda>r. Inr (c', rest, r))"
proof -
  obtain v where "uvi_decode E (oc_inner c) (pre @ f @ rest) = (v, f @ rest, Some (Some (length bs)))"
    using assms(5) by blast
  with assms show ?thesis
    by (intro exI [where x = "c\<lparr>oc_inner := v, oc_len := None\<rparr>"])
      (auto simp: ssz_outbound_decode_def handle_length_def Let_def read_back codec_laws_def simp del: take_append)
qed

lemma outbound_decode_error_back:
  assumes "codec_laws E" "oc_len c = None" "length bs \<le> MAX_RPC_SIZE_POST_MERGE"
    and "frame_compress E bs = Some f"
    and "\<And>v rest. \<exists>v'. uvi_decode E v (pre @ rest) = (v', rest, Some (Some (length bs)))"
    and "error_list_from_ssz_bytes E bs = Some l"
  shows "\<exists>c'. oc_len c' = None \<and> oc_protocol c' = oc_protocol c \<and>
    ssz_outbound_decode_error E c (pre @ f @ rest) = Inr (c', rest, Ok (Some (ErrorType l)))"
proof -
  obtain v where "uvi_decode E (oc_inner c) (pre @ f @ rest) = (v, f @ rest, Some (Some (length bs)))"
    using assms(5) by blast
  with assms show ?thesis
    by (intro exI [where x = "c\<lparr>oc_inner := v, oc_len := None\<rparr>"])
      (auto simp: ssz_outbound_decode_error_def handle_length_def Let_def read_back codec_laws_def simp del: take_append)
qed

end
