(* ===== verification/Le_Bytes.thy ===== *)
theory Le_Bytes
  imports Prelude
begin

section \<open>Little-endian bytes\<close>

text \<open>
  A number as its digits, least significant first, and as bytes (Rust's \<open>to_le_bytes\<close>), with the
  conversion back.
\<close>

fun digits_le :: "nat \<Rightarrow> nat \<Rightarrow> nat \<Rightarrow> nat list" where
  "digits_le b 0 n = []"
| "digits_le b (Suc k) n = n mod b # digits_le b k (n div b)"

fun of_digits_le :: "nat \<Rightarrow> nat list \<Rightarrow> nat" where
  "of_digits_le b [] = 0"
| "of_digits_le b (d # ds) = d + b * of_digits_le b ds"

definition le_bytes :: "nat \<Rightarrow> nat \<Rightarrow> bytes" where
  "le_bytes k n = map of_nat (digits_le 256 k n)"

definition of_le_bytes :: "bytes \<Rightarrow> nat" where
  "of_le_bytes bs = of_digits_le 256 (map unat bs)"

lemma length_digits_le [simp]: "length (digits_le b k n) = k"
  by (induction b k n rule: digits_le.induct) simp_all

lemma length_le_bytes [simp]: "length (le_bytes k n) = k"
  by (simp add: le_bytes_def)

lemma of_digits_le_digits: "of_digits_le b (digits_le b k n) = n mod b ^ k"
proof (induction b k n rule: digits_le.induct)
  case (2 b k n)
  have "n mod (b * b ^ k) = n mod b + b * (n div b mod b ^ k)"
    by (metis add.commute mod_mult2_eq)
  with 2 show ?case by simp
qed simp

lemma digits_le_of_digits:
  "\<forall>d\<in>set ds. d < b \<Longrightarrow> digits_le b (length ds) (of_digits_le b ds) = ds"
  by (induction ds) auto

lemma digits_le_lt: "0 < b \<Longrightarrow> d \<in> set (digits_le b k n) \<Longrightarrow> d < b"
  by (induction b k n rule: digits_le.induct) auto

lemma of_digits_le_bound: "\<forall>d\<in>set ds. d < b \<Longrightarrow> of_digits_le b ds < b ^ length ds"
proof (induction ds)
  case (Cons d ds)
  then have "of_digits_le b ds + 1 \<le> b ^ length ds" and "d < b" by auto
  then have "b * (of_digits_le b ds + 1) \<le> b * b ^ length ds" by (intro mult_le_mono2)
  with \<open>d < b\<close> show ?case by simp
qed simp

lemma of_le_bytes_le_bytes: "of_le_bytes (le_bytes k n) = n mod 256 ^ k"
proof -
  have "map (unat \<circ> (of_nat :: nat \<Rightarrow> u8)) (digits_le 256 k n) = digits_le 256 k n"
    by (rule map_idI) (auto simp: unat_of_nat dest: digits_le_lt [rotated])
  then show ?thesis by (simp add: of_le_bytes_def le_bytes_def of_digits_le_digits)
qed

text \<open>\<open>usize::to_le_bytes\<close> on a 64-bit target, and its inverse.\<close>

definition to_le_bytes :: "usize \<Rightarrow> bytes" where
  "to_le_bytes n = le_bytes 8 (unat n)"

definition from_le_bytes :: "bytes \<Rightarrow> usize" where
  "from_le_bytes bs = of_nat (of_le_bytes bs)"

lemma length_to_le_bytes [simp]: "length (to_le_bytes n) = 8"
  by (simp add: to_le_bytes_def)

lemma from_to_le_bytes [simp]: "from_le_bytes (to_le_bytes n) = n"
proof -
  have "unat n < 256 ^ 8" using unsigned_less [of n, where ?'a = nat] by simp
  then show ?thesis by (simp add: from_le_bytes_def to_le_bytes_def of_le_bytes_le_bytes)
qed

lemma to_le_bytes_inject [simp]: "to_le_bytes m = to_le_bytes n \<longleftrightarrow> m = n"
  by (metis from_to_le_bytes)

end
