(* ===== verification/Codec_Instance.thy ===== *)
theory Codec_Instance
  imports Ssz_Snappy Le_Bytes
begin

section \<open>A concrete instance of the codec crates\<close>

text \<open>
  The codec definitions take the SSZ, varint and snappy crates as an argument. This theory gives one
  concrete value for it, little-endian SSZ, LEB128 lengths and stored (uncompressed) frames, and
  proves that it obeys \<open>codec_laws\<close>: the hypotheses on the crates can hold together, and the
  properties can be applied at a concrete input. Nothing else rests on this instance.
\<close>

definition bits_to_nat :: "bool list \<Rightarrow> nat" where
  "bits_to_nat bits = of_digits_le 2 (map of_bool bits)"

definition nat_to_bits :: "nat \<Rightarrow> nat \<Rightarrow> bool list" where
  "nat_to_bits k n = map (\<lambda>d. d = 1) (digits_le 2 k n)"

fun leb128 :: "nat \<Rightarrow> bytes" where
  "leb128 n = (if n < 128 then [of_nat n] else of_nat (n mod 128 + 128) # leb128 (n div 128))"

declare leb128.simps [simp del]

fun of_leb128 :: "bytes \<Rightarrow> (nat \<times> bytes) option" where
  "of_leb128 [] = None"
| "of_leb128 (b # bs) =
     (if unat b < 128 then Some (unat b, bs)
      else map_option (\<lambda>(m, rest). (unat b - 128 + 128 * m, rest)) (of_leb128 bs))"

definition ref_status_bytes :: "StatusMessage \<Rightarrow> bytes" where
  "ref_status_bytes s = fork_digest s @ finalized_root s @ le_bytes 8 (unat (finalized_epoch s))
     @ head_root s @ le_bytes 8 (unat (head_slot s))"

definition ref_status_of_bytes :: "bytes \<Rightarrow> StatusMessage option" where
  "ref_status_of_bytes bs =
     (if length bs = 84 then
        Some \<lparr>fork_digest = take 4 bs, finalized_root = take 32 (drop 4 bs),
              finalized_epoch = of_nat (of_le_bytes (take 8 (drop 36 bs))),
              head_root = take 32 (drop 44 bs),
              head_slot = of_nat (of_le_bytes (drop 76 bs))\<rparr>
      else None)"

definition ref_metadata_bytes :: "MetaData \<Rightarrow> bytes" where
  "ref_metadata_bytes m = le_bytes 8 (unat (seq_number m)) @ le_bytes 8 (bits_to_nat (attnets m))
     @ le_bytes 1 (bits_to_nat (syncnets m))"

definition ref_metadata_of_bytes :: "bytes \<Rightarrow> MetaData option" where
  "ref_metadata_of_bytes bs =
     (if length bs = 17 \<and> of_le_bytes (drop 16 bs) < 16 then
        Some \<lparr>seq_number = of_nat (of_le_bytes (take 8 bs)),
              attnets = nat_to_bits 64 (of_le_bytes (take 8 (drop 8 bs))),
              syncnets = nat_to_bits 4 (of_le_bytes (drop 16 bs))\<rparr>
      else None)"

definition ref_ext :: "unit codec_ext" where
  "ref_ext =
     \<lparr>status_as_ssz_bytes = ref_status_bytes,
      status_from_ssz_bytes = ref_status_of_bytes,
      status_ssz_fixed_len = 84,
      ping_as_ssz_bytes = (\<lambda>p. le_bytes 8 (unat (data p))),
      ping_ssz_fixed_len = 8,
      u64_as_ssz_bytes = (\<lambda>n. le_bytes 8 (unat n)),
      u64_from_ssz_bytes = (\<lambda>bs. if length bs = 8 then Some (of_nat (of_le_bytes bs)) else None),
      metadata_as_ssz_bytes = ref_metadata_bytes,
      metadata_from_ssz_bytes = ref_metadata_of_bytes,
      metadata_ssz_fixed_len = 17,
      error_list_from_ssz_bytes = (\<lambda>bs. if length bs \<le> MaxErrorLen then Some bs else None),
      uvi_default = (),
      uvi_encode = (\<lambda>u n dst. (u, dst @ leb128 n, Some ())),
      uvi_decode = (\<lambda>u src.
        case of_leb128 src of None \<Rightarrow> (u, src, Some None) | Some (n, rest) \<Rightarrow> (u, rest, Some (Some n))),
      max_compress_len = (\<lambda>n. 32 + n + n div 6),
      frame_compress = Some,
      frame_read_exact = (\<lambda>src n. if n \<le> length src then Some (take n src, n) else None)\<rparr>"

lemma nat_to_bits_bits: "nat_to_bits (length bits) (bits_to_nat bits) = bits"
proof -
  have *: "digits_le 2 (length ds) (of_digits_le 2 ds) = ds" if "ds = map of_bool bits" for ds
    by (rule digits_le_of_digits) (auto simp: that)
  show ?thesis
    using * [OF refl] by (simp add: nat_to_bits_def bits_to_nat_def comp_def)
qed

lemma bits_to_nat_bound: "bits_to_nat bits < 2 ^ length bits"
  using of_digits_le_bound [of "map of_bool bits" 2] by (auto simp: bits_to_nat_def)

lemma of_leb128_leb128: "of_leb128 (leb128 n @ rest) = Some (n, rest)"
proof (induction n rule: leb128.induct)
  case (1 n)
  show ?case
  proof (cases "n < 128")
    case True
    then show ?thesis by (simp add: leb128.simps [of n] unat_of_nat)
  next
    case False
    have "unat (of_nat (n mod 128 + 128) :: u8) = n mod 128 + 128"
      by (simp add: unat_of_nat del: of_nat_add)
    with False 1 show ?thesis
      by (simp add: leb128.simps [of n] del: of_nat_add)
  qed
qed

lemma leb128_nonempty: "leb128 n \<noteq> []"
  by (simp add: leb128.simps [of n])

lemma u64_le_back_bound: "unat (n :: u64) < 2 ^ 64"
  by (rule order_less_le_trans [OF unsigned_less]) simp

lemma u64_le_back: "of_nat (of_le_bytes (le_bytes 8 (unat (n :: u64)))) = n"
  using u64_le_back_bound [of n] by (simp add: of_le_bytes_le_bytes)

lemma u64_unat_mod: "unat (n :: u64) mod 18446744073709551616 = unat n"
  using u64_le_back_bound [of n] by simp

lemma ref_status_back: "wf_status s \<Longrightarrow> ref_status_of_bytes (ref_status_bytes s) = Some s"
  by (cases s) (simp add: wf_status_def ref_status_of_bytes_def ref_status_bytes_def u64_le_back)

lemma ref_metadata_back:
  assumes "wf_metadata m"
  shows "ref_metadata_of_bytes (ref_metadata_bytes m) = Some m"
proof -
  have a: "length (attnets m) = 64" and s: "length (syncnets m) = 4"
    using assms by (simp_all add: wf_metadata_def SubnetBitfieldLength_def SyncCommitteeSubnetCount_def)
  have "bits_to_nat (attnets m) < 256 ^ 8" and "bits_to_nat (syncnets m) < 16"
    using bits_to_nat_bound [of "attnets m"] bits_to_nat_bound [of "syncnets m"] a s by simp_all
  with a s show ?thesis
    using nat_to_bits_bits [of "attnets m"] nat_to_bits_bits [of "syncnets m"]
    by (cases m) (simp add: ref_metadata_of_bytes_def ref_metadata_bytes_def of_le_bytes_le_bytes
        u64_unat_mod)
qed

lemma ref_ssz_laws: "ssz_laws ref_ext"
  by (simp add: ssz_laws_def ref_ext_def ref_status_back ref_metadata_back u64_le_back)
    (simp add: ref_status_bytes_def ref_metadata_bytes_def ref_status_of_bytes_def wf_status_def)

lemma ref_uvi_laws: "uvi_laws ref_ext"
  by (auto simp: uvi_laws_def ref_ext_def leb128_nonempty of_leb128_leb128)

lemma ref_frame_laws: "frame_laws ref_ext"
  by (auto simp: frame_laws_def ref_ext_def split: if_splits)

lemma ref_codec_laws: "codec_laws ref_ext"
  by (simp add: codec_laws_def ref_ssz_laws ref_uvi_laws ref_frame_laws)

end
