(* ===== verification/Base_Codec.thy ===== *)
theory Base_Codec
  imports Codec_Instance
begin

section \<open>The base codecs (\<open>src/rpc/codec/base.rs\<close>, \<open>src/rpc/codec/mod.rs\<close>)\<close>

text \<open>
  The base codecs add the response code to an inner codec. They are generic in the inner codec,
  as the Rust types are: its operations are arguments. The contract the outbound base codec relies
  on, the Rust trait \<open>OutboundCodec\<close>, is the locale \<open>outbound_codec\<close>; the SSZ-snappy codec
  interprets it. The enums of \<open>codec/mod.rs\<close> dispatch to the only variant there is.
\<close>

subsection \<open>Inbound\<close>

record 'c BaseInboundCodec =
  bic_inner :: 'c

definition BaseInboundCodec_new :: "'c \<Rightarrow> 'c BaseInboundCodec" where
  "BaseInboundCodec_new codec = \<lparr>bic_inner = codec\<rparr>"

definition base_inbound_encode ::
  "('c \<Rightarrow> RPCCodedResponse \<Rightarrow> bytes \<Rightarrow> 'c \<times> bytes \<times> (unit, 'e) result)
   \<Rightarrow> 'c BaseInboundCodec \<Rightarrow> RPCCodedResponse \<Rightarrow> bytes
   \<Rightarrow> ('c BaseInboundCodec \<times> bytes \<times> (unit, 'e) result) run" where
  "base_inbound_encode inner_encode c item dst =
     (case as_u8 item of
        None \<Rightarrow> Inl (Expect ''Should never encode a stream termination'')
      | Some code \<Rightarrow>
          (case inner_encode (bic_inner c) item [code] of
             (i, dst', r) \<Rightarrow> Inr (c\<lparr>bic_inner := i\<rparr>, dst', r)))"

definition base_inbound_decode ::
  "('c \<Rightarrow> bytes \<Rightarrow> ('c \<times> bytes \<times> (InboundRequest option, 'e) result) run)
   \<Rightarrow> 'c BaseInboundCodec \<Rightarrow> bytes
   \<Rightarrow> ('c BaseInboundCodec \<times> bytes \<times> (InboundRequest option, 'e) result) run" where
  "base_inbound_decode inner_decode c src =
     run_bind (inner_decode (bic_inner c) src) (\<lambda>(i, src', r). Inr (c\<lparr>bic_inner := i\<rparr>, src', r))"

subsection \<open>Outbound\<close>

record 'c BaseOutboundCodec =
  boc_inner :: 'c
  current_response_code :: "u8 option"

definition BaseOutboundCodec_new :: "'c \<Rightarrow> 'c BaseOutboundCodec" where
  "BaseOutboundCodec_new codec = \<lparr>boc_inner = codec, current_response_code = None\<rparr>"

definition base_outbound_encode ::
  "('c \<Rightarrow> OutboundRequest \<Rightarrow> bytes \<Rightarrow> 'c \<times> bytes \<times> (unit, 'e) result)
   \<Rightarrow> 'c BaseOutboundCodec \<Rightarrow> OutboundRequest \<Rightarrow> bytes
   \<Rightarrow> 'c BaseOutboundCodec \<times> bytes \<times> (unit, 'e) result" where
  "base_outbound_encode inner_encode c item dst =
     (case inner_encode (boc_inner c) item dst of (i, dst', r) \<Rightarrow> (c\<lparr>boc_inner := i\<rparr>, dst', r))"

fun map_item :: "('a \<Rightarrow> 'b) \<Rightarrow> ('a option, 'e) result \<Rightarrow> ('b option, 'e) result" where
  "map_item f (Ok x) = Ok (map_option f x)"
| "map_item f (Err e) = Err e"

text \<open>The response code: the one kept from an earlier call, or the first byte of the buffer.\<close>

definition take_response_code ::
  "'c BaseOutboundCodec \<Rightarrow> bytes \<Rightarrow> u8 \<times> 'c BaseOutboundCodec \<times> bytes" where
  "take_response_code c src =
     (case current_response_code c of
        Some code \<Rightarrow> (code, c, src)
      | None \<Rightarrow> (hd src, c\<lparr>current_response_code := Some (hd src)\<rparr>, tl src))"

definition base_outbound_decode ::
  "('c \<Rightarrow> bytes \<Rightarrow> ('c \<times> bytes \<times> (RPCResponse option, 'e) result) run)
   \<Rightarrow> ('c \<Rightarrow> bytes \<Rightarrow> ('c \<times> bytes \<times> (ErrorType option, 'e) result) run)
   \<Rightarrow> 'c BaseOutboundCodec \<Rightarrow> bytes
   \<Rightarrow> ('c BaseOutboundCodec \<times> bytes \<times> (RPCCodedResponse option, 'e) result) run" where
  "base_outbound_decode inner_decode inner_decode_error c src =
     (if length src \<le> 1 then Inr (c, src, Ok None)
      else case take_response_code c src of (response_code, c1, src1) \<Rightarrow>
        run_bind
          (if is_response response_code
           then run_bind (inner_decode (boc_inner c1) src1)
                  (\<lambda>(i, src2, r). Inr (i, src2, map_item RPCCodedResponse_Success r))
           else run_bind (inner_decode_error (boc_inner c1) src1)
                  (\<lambda>(i, src2, r). Inr (i, src2, map_item (\<lambda>_. RPCCodedResponse_Error) r)))
          (\<lambda>(i, src2, inner_result).
             let c2 = c1\<lparr>boc_inner := i\<rparr>
             in Inr (case inner_result of
                       Ok (Some _) \<Rightarrow> c2\<lparr>current_response_code := None\<rparr>
                     | _ \<Rightarrow> c2,
                     src2, inner_result)))"

subsection \<open>The codec enums of \<open>codec/mod.rs\<close>\<close>

datatype 'u InboundCodec = InboundCodec_SSZSnappy "'u SSZSnappyInboundCodec BaseInboundCodec"

datatype 'u OutboundCodec = OutboundCodec_SSZSnappy "'u SSZSnappyOutboundCodec BaseOutboundCodec"

fun InboundCodec_encode ::
  "('u, 'a) codec_ext_scheme \<Rightarrow> 'u InboundCodec \<Rightarrow> RPCCodedResponse \<Rightarrow> bytes
   \<Rightarrow> ('u InboundCodec \<times> bytes \<times> (unit, RPCError) result) run" where
  "InboundCodec_encode E (InboundCodec_SSZSnappy codec) item dst =
     run_bind (base_inbound_encode (ssz_inbound_encode E) codec item dst)
       (\<lambda>(c, dst', r). Inr (InboundCodec_SSZSnappy c, dst', r))"

fun InboundCodec_decode ::
  "('u, 'a) codec_ext_scheme \<Rightarrow> 'u InboundCodec \<Rightarrow> bytes
   \<Rightarrow> ('u InboundCodec \<times> bytes \<times> (InboundRequest option, RPCError) result) run" where
  "InboundCodec_decode E (InboundCodec_SSZSnappy codec) src =
     run_bind (base_inbound_decode (ssz_inbound_decode E) codec src)
       (\<lambda>(c, src', r). Inr (InboundCodec_SSZSnappy c, src', r))"

fun OutboundCodec_encode ::
  "('u, 'a) codec_ext_scheme \<Rightarrow> 'u OutboundCodec \<Rightarrow> OutboundRequest \<Rightarrow> bytes
   \<Rightarrow> 'u OutboundCodec \<times> bytes \<times> (unit, RPCError) result" where
  "OutboundCodec_encode E (OutboundCodec_SSZSnappy codec) item dst =
     (case base_outbound_encode (ssz_outbound_encode E) codec item dst of
        (c, dst', r) \<Rightarrow> (OutboundCodec_SSZSnappy c, dst', r))"

fun OutboundCodec_decode ::
  "('u, 'a) codec_ext_scheme \<Rightarrow> 'u OutboundCodec \<Rightarrow> bytes
   \<Rightarrow> ('u OutboundCodec \<times> bytes \<times> (RPCCodedResponse option, RPCError) result) run" where
  "OutboundCodec_decode E (OutboundCodec_SSZSnappy codec) src =
     run_bind
       (base_outbound_decode (ssz_outbound_decode E) (ssz_outbound_decode_error E) codec src)
       (\<lambda>(c, src', r). Inr (OutboundCodec_SSZSnappy c, src', r))"

text \<open>The codecs as the stream upgrades build them, the protocol a codec decodes and whether it is
  between two messages.\<close>

definition InboundCodec_new :: "('u, 'a) codec_ext_scheme \<Rightarrow> ProtocolId \<Rightarrow> 'u InboundCodec" where
  "InboundCodec_new E p =
     InboundCodec_SSZSnappy (BaseInboundCodec_new (SSZSnappyInboundCodec_new E p))"

definition OutboundCodec_new :: "('u, 'a) codec_ext_scheme \<Rightarrow> ProtocolId \<Rightarrow> 'u OutboundCodec" where
  "OutboundCodec_new E p =
     OutboundCodec_SSZSnappy (BaseOutboundCodec_new (SSZSnappyOutboundCodec_new E p))"

fun in_codec_protocol :: "'u InboundCodec \<Rightarrow> ProtocolId" where
  "in_codec_protocol (InboundCodec_SSZSnappy c) = ic_protocol (bic_inner c)"

fun out_codec_protocol :: "'u OutboundCodec \<Rightarrow> ProtocolId" where
  "out_codec_protocol (OutboundCodec_SSZSnappy c) = oc_protocol (boc_inner c)"

fun out_codec_idle :: "'u OutboundCodec \<Rightarrow> bool" where
  "out_codec_idle (OutboundCodec_SSZSnappy c) \<longleftrightarrow>
     current_response_code c = None \<and> oc_len (boc_inner c) = None"

lemma map_item_eq_item [simp]: "map_item f y = Ok (Some x) \<longleftrightarrow> (\<exists>z. y = Ok (Some z) \<and> x = f z)"
  and map_item_eq_more [simp]: "map_item f y = Ok None \<longleftrightarrow> y = Ok None"
  by (cases y; auto)+

subsection \<open>The contract of an inner codec\<close>

text \<open>
  A codec is idle between two messages. A decoder that returns a message is idle afterwards, and
  one that asks for more bytes has not begun a message. The base codec keeps the matching
  invariant: without a response code, its inner codec is idle.
\<close>

locale outbound_codec =
  fixes decode :: "'c \<Rightarrow> bytes \<Rightarrow> ('c \<times> bytes \<times> (RPCResponse option, 'e) result) run"
    and decode_error :: "'c \<Rightarrow> bytes \<Rightarrow> ('c \<times> bytes \<times> (ErrorType option, 'e) result) run"
    and idle :: "'c \<Rightarrow> bool"
  assumes decode_item: "decode c src = Inr (c', src', Ok (Some r)) \<Longrightarrow> idle c'"
    and decode_more: "decode c src = Inr (c', src', Ok None) \<Longrightarrow> idle c \<and> idle c'"
    and decode_error_item: "decode_error c src = Inr (c', src', Ok (Some x)) \<Longrightarrow> idle c'"
    and decode_error_more: "decode_error c src = Inr (c', src', Ok None) \<Longrightarrow> idle c \<and> idle c'"
begin

lemma base_item_idle:
  "base_outbound_decode decode decode_error c src = Inr (c', src', Ok (Some r)) \<Longrightarrow>
   current_response_code c' = None \<and> idle (boc_inner c')"
  by (auto simp: base_outbound_decode_def Let_def run_simps split: if_splits prod.splits
      dest: decode_item decode_error_item)

lemma base_more_idle:
  assumes "base_outbound_decode decode decode_error c src = Inr (c', src', Ok None)"
  shows "idle (boc_inner c) \<longleftrightarrow> idle (boc_inner c')"
  using assms
  by (auto simp: base_outbound_decode_def take_response_code_def Let_def run_simps
      split: if_splits prod.splits option.splits dest: decode_more decode_error_more)

end

interpretation ssz_codec: outbound_codec "ssz_outbound_decode E" "ssz_outbound_decode_error E"
  "\<lambda>c. oc_len c = None" for E :: "('u, 'a) codec_ext_scheme"
proof
  fix c c' :: "'u SSZSnappyOutboundCodec" and src src' r
  show "ssz_outbound_decode E c src = Inr (c', src', Ok (Some r)) \<Longrightarrow> oc_len c' = None"
    by (auto simp: ssz_outbound_decode_def run_simps Let_def
        split: prod.splits result.splits option.splits if_splits)
next
  fix c c' :: "'u SSZSnappyOutboundCodec" and src src'
  assume "ssz_outbound_decode E c src = Inr (c', src', Ok None)"
  then show "oc_len c = None \<and> oc_len c' = None"
    by (auto simp: ssz_outbound_decode_def run_simps Let_def
        split: prod.splits result.splits option.splits if_splits
        dest!: handle_response_item dest: handle_length_cases)
next
  fix c c' :: "'u SSZSnappyOutboundCodec" and src src' x
  show "ssz_outbound_decode_error E c src = Inr (c', src', Ok (Some x)) \<Longrightarrow> oc_len c' = None"
    by (auto simp: ssz_outbound_decode_error_def run_simps Let_def
        split: prod.splits result.splits option.splits if_splits)
next
  fix c c' :: "'u SSZSnappyOutboundCodec" and src src'
  assume "ssz_outbound_decode_error E c src = Inr (c', src', Ok None)"
  then show "oc_len c = None \<and> oc_len c' = None"
    by (auto simp: ssz_outbound_decode_error_def run_simps Let_def
        split: prod.splits result.splits option.splits if_splits dest: handle_length_cases)
qed

subsection \<open>The wire format\<close>

lemma inbound_encode_wire:
  assumes "codec_laws E" "wf_coded_response item"
  obtains ic' code pre f where "as_u8 item = Some code" "pre \<noteq> []"
    "frame_compress E (response_ssz_bytes E item) = Some f"
    "InboundCodec_encode E ic item dst = Inr (ic', code # pre @ f, Ok ())"
    "\<And>v rest. \<exists>v'. uvi_decode E v (pre @ rest)
        = (v', rest, Some (Some (length (response_ssz_bytes E item))))"
proof -
  obtain code where code: "as_u8 item = Some code" using as_u8_Some by blast
  obtain b where ic: "ic = InboundCodec_SSZSnappy b" by (cases ic)
  have "length (response_ssz_bytes E item) \<le> MAX_RPC_SIZE_POST_MERGE"
    using assms by (simp add: codec_laws_def response_bytes_le_max)
  then obtain u pre f where w: "pre \<noteq> []" "frame_compress E (response_ssz_bytes E item) = Some f"
    "write_message E (ic_inner (bic_inner b)) (response_ssz_bytes E item) [code]
       = (u, [code] @ pre @ f, Ok ())"
    "\<And>v rest. \<exists>v'. uvi_decode E v (pre @ rest)
        = (v', rest, Some (Some (length (response_ssz_bytes E item))))"
    using assms(1) write_message_ok unfolding codec_laws_def by metis
  then have "InboundCodec_encode E ic item dst
    = Inr (InboundCodec_SSZSnappy (b\<lparr>bic_inner := (bic_inner b)\<lparr>ic_inner := u\<rparr>\<rparr>), code # pre @ f, Ok ())"
    by (simp add: ic base_inbound_encode_def ssz_inbound_encode_def code)
  from that [OF code w(1,2) this w(4)] show thesis .
qed

text \<open>A decoder of the outbound codec, between two messages, at the first byte of a response.\<close>

lemma outbound_codec_decode_Cons:
  assumes "pre \<noteq> []" "out_codec_idle (OutboundCodec_SSZSnappy b)"
  shows "OutboundCodec_decode E (OutboundCodec_SSZSnappy b) (code # pre @ rest) =
    (if is_response code
     then run_bind (ssz_outbound_decode E (boc_inner b) (pre @ rest)) (\<lambda>(i, src, r).
       Inr (OutboundCodec_SSZSnappy \<lparr>boc_inner = i, current_response_code =
         (case r of Ok (Some _) \<Rightarrow> None | _ \<Rightarrow> Some code)\<rparr>, src, map_item RPCCodedResponse_Success r))
     else run_bind (ssz_outbound_decode_error E (boc_inner b) (pre @ rest)) (\<lambda>(i, src, r).
       Inr (OutboundCodec_SSZSnappy \<lparr>boc_inner = i, current_response_code =
         (case r of Ok (Some _) \<Rightarrow> None | _ \<Rightarrow> Some code)\<rparr>, src,
         map_item (\<lambda>_. RPCCodedResponse_Error) r)))"
  using assms
  by (cases b, cases pre)
    (auto simp: base_outbound_decode_def take_response_code_def run_bind_def Let_def
      split: sum.splits prod.splits result.splits option.splits)


text \<open>The inbound codec knows one request: every path of its decoder but one ends in an error.\<close>

lemma inbound_decode_item:
  assumes "InboundCodec_decode E ic src = Inr (ic', src', Ok (Some r))"
  shows "r = InboundRequest_MetaData \<and> message_name (in_codec_protocol ic) = Protocol_MetaData \<and>
    src' = src \<and> ic' = ic"
proof -
  obtain b where ic: "ic = InboundCodec_SSZSnappy b" by (cases ic)
  from assms show ?thesis
    by (cases b) (auto simp: ic base_inbound_decode_def ssz_inbound_decode_def Let_def run_simps
        split: prod.splits result.splits option.splits if_splits)
qed

end
