(* ===== verification/Codec_Properties.thy ===== *)
theory Codec_Properties
  imports Base_Codec
begin

section \<open>Properties of the codecs\<close>

text \<open>
  What the codec stack as a whole does: a response written by the inbound codec is read back by the
  outbound codec, a response cut off in its payload is an error, no response decodes to a panic
  unless the SSZ decoder rejects a MetaData payload, and the inbound codec never produces a request
  with a payload.
\<close>

definition sample_status :: StatusMessage where
  "sample_status = \<lparr>fork_digest = [74, 38, 197, 139], finalized_root = replicate 32 1,
     finalized_epoch = 7, head_root = replicate 32 2, head_slot = 9\<rparr>"

lemma wf_sample_status [simp]: "wf_status sample_status"
  by (simp add: wf_status_def sample_status_def)

text \<open>C7: a response encoded by the inbound codec (response code, length prefix, snappy frames) is
  read back unchanged by an outbound codec of the matching protocol that is between two messages,
  which consumes exactly the encoded bytes and is again between two messages.\<close>

theorem response_roundtrip:
  assumes laws: "codec_laws E" and wf: "wf_coded_response item"
    and matching: "\<And>r. item = RPCCodedResponse_Success r \<Longrightarrow> response_protocol r = message_name p"
  shows "\<exists>ic' wire. InboundCodec_encode E ic item dst = Inr (ic', wire, Ok ()) \<and>
    (\<forall>oc rest. out_codec_protocol oc = p \<and> out_codec_idle oc \<longrightarrow>
      (\<exists>oc'. OutboundCodec_decode E oc (wire @ rest) = Inr (oc', rest, Ok (Some item)) \<and>
         out_codec_idle oc' \<and> out_codec_protocol oc' = p))"
proof -
  obtain ic' code pre f where w: "as_u8 item = Some code" "pre \<noteq> []"
    "frame_compress E (response_ssz_bytes E item) = Some f"
    "InboundCodec_encode E ic item dst = Inr (ic', code # pre @ f, Ok ())"
    "\<And>v rest. \<exists>v'. uvi_decode E v (pre @ rest)
        = (v', rest, Some (Some (length (response_ssz_bytes E item))))"
    using inbound_encode_wire [OF laws wf] by metis
  have ssz: "ssz_laws E" using laws by (simp add: codec_laws_def)
  have len: "length (response_ssz_bytes E item) \<le> MAX_RPC_SIZE_POST_MERGE"
    using ssz wf by (rule response_bytes_le_max)
  have "\<exists>oc'. OutboundCodec_decode E oc ((code # pre @ f) @ rest) = Inr (oc', rest, Ok (Some item)) \<and>
     out_codec_idle oc' \<and> out_codec_protocol oc' = p"
    if p: "out_codec_protocol oc = p" and idle: "out_codec_idle oc" for oc rest
  proof -
    obtain b where oc: "oc = OutboundCodec_SSZSnappy b" by (cases oc)
    from p idle have b: "oc_protocol (boc_inner b) = p" "oc_len (boc_inner b) = None"
      by (simp_all add: oc)
    have step: "OutboundCodec_decode E oc ((code # pre @ f) @ rest) =
        OutboundCodec_decode E (OutboundCodec_SSZSnappy b) (code # pre @ (f @ rest))"
      by (simp add: oc)
    show ?thesis
    proof (cases item)
      case (RPCCodedResponse_Success r)
      then have r: "is_response code" "wf_response r" "response_protocol r = message_name p"
        using w(1) wf matching by (auto simp: is_response_def)
      obtain c' where "oc_len c' = None" "oc_protocol c' = p"
        "ssz_outbound_decode E (boc_inner b) (pre @ f @ rest) =
          run_bind (handle_response E (message_name p) (response_ssz_bytes E item))
            (\<lambda>x. Inr (c', rest, x))"
        using outbound_decode_back [OF laws b(2) len w(3,5)] response_bytes_in_limits [OF ssz r(2)] b(1)
          r(3) RPCCodedResponse_Success by metis
      with r ssz w(2) idle show ?thesis
        unfolding step
        by (simp add: outbound_codec_decode_Cons oc RPCCodedResponse_Success
            handle_response_back [OF ssz r(2), unfolded r(3)] del: OutboundCodec_decode.simps)
    next
      case RPCCodedResponse_Error
      then have "\<not> is_response code" "response_ssz_bytes E item = []"
        using w(1) by (auto simp: is_response_def)
      moreover from this(2) obtain c' where "oc_len c' = None" "oc_protocol c' = p"
        "ssz_outbound_decode_error E (boc_inner b) (pre @ f @ rest)
          = Inr (c', rest, Ok (Some (ErrorType [])))"
        using outbound_decode_error_back [OF laws b(2) len w(3,5)] ssz b(1)
        by (metis ssz_laws_error)
      ultimately show ?thesis
        using w(2) idle unfolding step
        by (simp add: outbound_codec_decode_Cons oc RPCCodedResponse_Error
            del: OutboundCodec_decode.simps)
    qed
  qed
  with w(4) show ?thesis by blast
qed

theorem response_roundtrip_witness:
  "codec_laws ref_ext \<and> wf_coded_response (RPCCodedResponse_Success (RPCResponse_Status sample_status)) \<and>
   (\<exists>ic' wire. InboundCodec_encode ref_ext (InboundCodec_new ref_ext (ProtocolId_new Protocol_Status V1))
      (RPCCodedResponse_Success (RPCResponse_Status sample_status)) [] = Inr (ic', wire, Ok ()) \<and>
    (\<exists>oc'. OutboundCodec_decode ref_ext (OutboundCodec_new ref_ext (ProtocolId_new Protocol_Status V1)) wire
      = Inr (oc', [], Ok (Some (RPCCodedResponse_Success (RPCResponse_Status sample_status))))))"
proof -
  let ?item = "RPCCodedResponse_Success (RPCResponse_Status sample_status)"
  let ?p = "ProtocolId_new Protocol_Status V1"
  let ?oc = "OutboundCodec_new ref_ext ?p"
  have oc: "out_codec_protocol ?oc = ?p" "out_codec_idle ?oc"
    by (simp_all add: OutboundCodec_new_def BaseOutboundCodec_new_def SSZSnappyOutboundCodec_new_def)
  obtain ic' wire where "InboundCodec_encode ref_ext (InboundCodec_new ref_ext ?p) ?item [] = Inr (ic', wire, Ok ())"
    "\<forall>oc rest. out_codec_protocol oc = ?p \<and> out_codec_idle oc \<longrightarrow>
      (\<exists>oc'. OutboundCodec_decode ref_ext oc (wire @ rest) = Inr (oc', rest, Ok (Some ?item)) \<and>
         out_codec_idle oc' \<and> out_codec_protocol oc' = ?p)"
    using response_roundtrip [OF ref_codec_laws, of ?item ?p "InboundCodec_new ref_ext ?p" "[]"] by auto
  with oc show ?thesis
    using ref_codec_laws by (metis append.right_neutral wf_coded_response.simps(1) wf_response.simps(1)
        wf_sample_status)
qed

subsection \<open>Incomplete responses\<close>

lemma response_bytes_nonempty:
  assumes "ssz_laws E" "wf_response r"
  shows "response_ssz_bytes E (RPCCodedResponse_Success r) \<noteq> []"
proof -
  have "0 < length (response_ssz_bytes E (RPCCodedResponse_Success r))"
    using assms by (cases r) (auto simp: ssz_facts simp del: length_greater_0_conv)
  then show ?thesis by simp
qed

text \<open>The frames of a message are not empty: they tell messages of the same length apart.\<close>

lemma frame_compress_nonempty:
  assumes "frame_laws E" "frame_compress E bs = Some c" "bs \<noteq> []" "length bs \<le> MAX_RPC_SIZE_POST_MERGE"
  shows "c \<noteq> []"
proof
  assume "c = []"
  then have any: "frame_read_exact E rest (length bs) = Some (bs, 0)" for rest
    using frame_laws_ok [OF assms(1,4)] assms(2) by (metis append_Nil list.size(3) option.inject)
  let ?bs = "(hd bs + 1) # tl bs"
  have len: "length ?bs = length bs" using assms(3) by simp
  then obtain c' where "frame_read_exact E (c' @ []) (length bs) = Some (?bs, length c')"
    using frame_laws_ok [OF assms(1), of ?bs] assms(4) by metis
  with any have "?bs = bs" by simp
  with assms(3) show False by (cases bs) auto
qed

text \<open>C21: a successful response whose snappy payload has not arrived completely makes the decoder fail
  with an error; it does not wait for the missing bytes. The encoded response is a header (response code and length
  prefix) followed by the payload, the snappy frames of the SSZ bytes, which are never empty; every
  proper prefix of the payload behind the header is an error, the empty one included.\<close>

theorem truncated_response_error:
  assumes laws: "codec_laws E" and wf: "wf_response r" and p: "response_protocol r = message_name p"
  shows "\<exists>ic' header payload.
    InboundCodec_encode E ic (RPCCodedResponse_Success r) dst = Inr (ic', header @ payload, Ok ()) \<and>
    frame_compress E (response_ssz_bytes E (RPCCodedResponse_Success r)) = Some payload \<and> payload \<noteq> [] \<and>
    (\<forall>oc k. out_codec_protocol oc = p \<and> out_codec_idle oc \<and> k < length payload \<longrightarrow>
      (\<exists>oc' src'. OutboundCodec_decode E oc (header @ take k payload)
         = Inr (oc', src', Err RPCError_Error)))"
proof -
  let ?item = "RPCCodedResponse_Success r"
  obtain ic' code pre f where w: "as_u8 ?item = Some code" "pre \<noteq> []"
    "frame_compress E (response_ssz_bytes E ?item) = Some f"
    "InboundCodec_encode E ic ?item dst = Inr (ic', code # pre @ f, Ok ())"
    "\<And>v rest. \<exists>v'. uvi_decode E v (pre @ rest)
        = (v', rest, Some (Some (length (response_ssz_bytes E ?item))))"
    using inbound_encode_wire [OF laws, of ?item] wf by (metis wf_coded_response.simps(1))
  have ssz: "ssz_laws E" and frames: "frame_laws E" using laws by (simp_all add: codec_laws_def)
  have len: "length (response_ssz_bytes E ?item) \<le> MAX_RPC_SIZE_POST_MERGE"
    using ssz wf by (simp add: response_bytes_le_max)
  have "\<exists>oc' src'. OutboundCodec_decode E oc ((code # pre) @ take k f) = Inr (oc', src', Err RPCError_Error)"
    if "out_codec_protocol oc = p" and idle: "out_codec_idle oc" and k: "k < length f" for oc k
  proof -
    obtain b where oc: "oc = OutboundCodec_SSZSnappy b" by (cases oc)
    then have b: "oc_protocol (boc_inner b) = p" "oc_len (boc_inner b) = None"
      using that by simp_all
    obtain v where "uvi_decode E (oc_inner (boc_inner b)) (pre @ take k f)
        = (v, take k f, Some (Some (length (response_ssz_bytes E ?item))))"
      using w(5) by blast
    then have "\<exists>c'. ssz_outbound_decode E (boc_inner b) (pre @ take k f)
        = Inr (c', take k f, Err RPCError_Error)"
      using read_truncated [OF frames len w(3) k] response_bytes_in_limits [OF ssz wf, of p] p b
      by (auto simp: ssz_outbound_decode_def handle_length_def Let_def simp del: take_take)
    moreover have "is_response code" using w(1) by (auto simp: is_response_def)
    ultimately show ?thesis
      using idle w(2) oc by (auto simp: outbound_codec_decode_Cons simp del: OutboundCodec_decode.simps)
  qed
  moreover have "f \<noteq> []"
    using frame_compress_nonempty [OF frames w(3) _ len] response_bytes_nonempty [OF ssz wf] by blast
  ultimately show ?thesis
    using w(3,4) by (intro exI [where x = ic'] exI [where x = "code # pre"] exI [where x = f]) auto
qed

theorem truncated_response_error_witness:
  "\<exists>ic' header payload oc' src'.
    InboundCodec_encode ref_ext (InboundCodec_new ref_ext (ProtocolId_new Protocol_Status V1))
      (RPCCodedResponse_Success (RPCResponse_Status sample_status)) [] = Inr (ic', header @ payload, Ok ()) \<and>
    payload \<noteq> [] \<and>
    OutboundCodec_decode ref_ext (OutboundCodec_new ref_ext (ProtocolId_new Protocol_Status V1)) (header @ butlast payload)
      = Inr (oc', src', Err RPCError_Error)"
proof -
  let ?p = "ProtocolId_new Protocol_Status V1"
  let ?oc = "OutboundCodec_new ref_ext ?p"
  have oc: "out_codec_protocol ?oc = ?p" "out_codec_idle ?oc"
    by (simp_all add: OutboundCodec_new_def BaseOutboundCodec_new_def SSZSnappyOutboundCodec_new_def)
  have "wf_response (RPCResponse_Status sample_status)" "response_protocol (RPCResponse_Status sample_status) = message_name ?p"
    by simp_all
  from truncated_response_error [OF ref_codec_laws this, of "InboundCodec_new ref_ext ?p" "[]"] obtain ic' header payload
    where t: "InboundCodec_encode ref_ext (InboundCodec_new ref_ext ?p) (RPCCodedResponse_Success (RPCResponse_Status sample_status)) []
        = Inr (ic', header @ payload, Ok ())" "payload \<noteq> []"
      "\<And>oc k. out_codec_protocol oc = ?p \<and> out_codec_idle oc \<and> k < length payload \<Longrightarrow>
        \<exists>oc' src'. OutboundCodec_decode ref_ext oc (header @ take k payload) = Inr (oc', src', Err RPCError_Error)"
    by blast
  have "\<exists>oc' src'. OutboundCodec_decode ref_ext ?oc (header @ butlast payload) = Inr (oc', src', Err RPCError_Error)"
    using t(3) [of ?oc "length payload - 1"] oc t(2) by (simp add: butlast_conv_take)
  with t(1,2) show ?thesis by blast
qed

subsection \<open>Panics\<close>

lemma ssz_decode_error_no_panic:
  "codec_laws E \<Longrightarrow> \<not> panics (ssz_outbound_decode_error E c src)"
  by (auto simp: ssz_outbound_decode_error_def Let_def run_simps split_to_def codec_laws_def
      split: prod.splits result.splits option.splits dest!: frame_laws_bound)

lemma ssz_decode_panics:
  assumes "codec_laws E" "panics (ssz_outbound_decode E c src)"
  shows "message_name (oc_protocol c) = Protocol_MetaData \<and>
    (\<exists>buf. length buf = 17 \<and> metadata_from_ssz_bytes E buf = None)"
proof -
  have ssz: "ssz_laws E" and frames: "frame_laws E" using assms(1) by (simp_all add: codec_laws_def)
  from assms(2) obtain src1 len buf n where
    lim: "\<not> is_out_of_bounds (rpc_response_limits E (oc_protocol c)) len MAX_RPC_SIZE_POST_MERGE"
    and rd: "frame_read_exact E (take (max_compress_len E len) src1) len = Some (buf, n)"
    and pn: "panics (split_to src1 n) \<or> panics (handle_response E (message_name (oc_protocol c)) buf)"
    by (auto simp: ssz_outbound_decode_def Let_def run_simps
        split: prod.splits result.splits option.splits if_splits)
  from frame_laws_bound [OF frames rd] have buf: "length buf = len" and "n \<le> length src1" by auto
  with pn have "panics (handle_response E (message_name (oc_protocol c)) buf)"
    by (simp add: split_to_def)
  with lim buf ssz have *: "message_name (oc_protocol c) = Protocol_MetaData"
    "metadata_from_ssz_bytes E buf = None"
    using handle_response_panics [of E "oc_protocol c" buf] by auto
  with lim buf ssz have "length buf = 17"
    by (simp add: is_out_of_bounds_iff rpc_response_limits_def RpcLimits_new_def ssz_facts)
  with * show ?thesis by blast
qed

text \<open>C19: whatever bytes a peer sends, decoding them as a response panics only on a MetaData stream,
  and only if the SSZ decoder rejects some buffer of exactly the fixed MetaData length.\<close>

theorem outbound_decode_panics_only_metadata:
  assumes "codec_laws E" "panics (OutboundCodec_decode E oc src)"
  shows "message_name (out_codec_protocol oc) = Protocol_MetaData \<and>
    (\<exists>buf. length buf = 17 \<and> metadata_from_ssz_bytes E buf = None)"
proof -
  obtain b where oc: "oc = OutboundCodec_SSZSnappy b" by (cases oc)
  obtain code c1 src1 where t: "take_response_code b src = (code, c1, src1)"
    by (metis prod_cases3)
  then have c1: "boc_inner c1 = boc_inner b"
    by (auto simp: take_response_code_def split: option.splits)
  from assms(2) have "panics (ssz_outbound_decode E (boc_inner b) src1)"
    using ssz_decode_error_no_panic [OF assms(1)]
    by (auto simp: oc base_outbound_decode_def t c1 run_simps Let_def split: if_splits)
  from ssz_decode_panics [OF assms(1) this] show ?thesis by (simp add: oc)
qed

text \<open>C20: a peer can make the node panic with one MetaData response: if the SSZ decoder rejects a buffer
  of the fixed MetaData length (a bit vector with a bit set beyond its length), the encoding of
  that buffer under response code 0 makes an outbound MetaData codec panic.\<close>

theorem metadata_response_panic:
  assumes laws: "codec_laws E" and buf: "length buf = 17" "metadata_from_ssz_bytes E buf = None"
    and oc: "message_name (out_codec_protocol oc) = Protocol_MetaData" "out_codec_idle oc"
  shows "\<exists>u' wire. write_message E u buf [0] = (u', wire, Ok ()) \<and>
    OutboundCodec_decode E oc wire = Inl UnwrapNone"
proof -
  have len: "length buf \<le> MAX_RPC_SIZE_POST_MERGE" using buf by (simp add: MAX_RPC_SIZE_POST_MERGE_def)
  have laws': "ssz_laws E" "uvi_laws E" "frame_laws E" using laws by (simp_all add: codec_laws_def)
  obtain u' pre f where w: "pre \<noteq> []" "frame_compress E buf = Some f"
    "write_message E u buf [0] = (u', [0] @ pre @ f, Ok ())"
    "\<And>v rest. \<exists>v'. uvi_decode E v (pre @ rest) = (v', rest, Some (Some (length buf)))"
    using write_message_ok [OF laws'(2,3) len] by metis
  obtain b where b: "oc = OutboundCodec_SSZSnappy b" by (cases oc)
  have "\<not> is_out_of_bounds (rpc_response_limits E (oc_protocol (boc_inner b))) (length buf)
      MAX_RPC_SIZE_POST_MERGE"
    using oc(1) buf laws'(1) len
    by (simp add: b is_out_of_bounds_iff rpc_response_limits_def RpcLimits_new_def ssz_facts)
  from outbound_decode_back [OF laws _ len w(2,4) this, where rest = "[]"] oc b
  have "ssz_outbound_decode E (boc_inner b) (pre @ f) = Inl UnwrapNone"
    using buf(2) by (auto simp: handle_response_def unwrap_def)
  moreover have "is_response (0 :: u8)" by (simp add: is_response_def)
  ultimately have "OutboundCodec_decode E oc (0 # pre @ f) = Inl UnwrapNone"
    using oc(2) w(1) unfolding b by (simp add: outbound_codec_decode_Cons del: OutboundCodec_decode.simps)
  with w(3) show ?thesis by simp
qed

definition metadata_codec :: "unit OutboundCodec" where
  "metadata_codec = OutboundCodec_new ref_ext (ProtocolId_new Protocol_MetaData V2)"

lemma metadata_codec_simps [simp]:
  "out_codec_protocol metadata_codec = ProtocolId_new Protocol_MetaData V2"
  "out_codec_idle metadata_codec"
  by (simp_all add: metadata_codec_def OutboundCodec_new_def BaseOutboundCodec_new_def
      SSZSnappyOutboundCodec_new_def)

lemma ref_rejects_excess_bits: "metadata_from_ssz_bytes ref_ext (replicate 17 255) = None"
  by (simp add: ref_ext_def ref_metadata_of_bytes_def of_le_bytes_def)

theorem metadata_response_panic_witness:
  "\<exists>u' wire. write_message ref_ext () (replicate 17 255) [0] = (u', wire, Ok ()) \<and>
    OutboundCodec_decode ref_ext metadata_codec wire = Inl UnwrapNone"
  by (rule metadata_response_panic [OF ref_codec_laws _ ref_rejects_excess_bits]) simp_all

theorem outbound_decode_panics_only_metadata_witness:
  "\<exists>src. panics (OutboundCodec_decode ref_ext metadata_codec src) \<and>
     message_name (out_codec_protocol metadata_codec) = Protocol_MetaData \<and>
     (\<exists>buf. length buf = 17 \<and> metadata_from_ssz_bytes ref_ext buf = None)"
proof -
  let ?src = "0 # 17 # replicate 17 255"
  have "OutboundCodec_decode ref_ext metadata_codec ?src = Inl UnwrapNone"
    by (simp add: metadata_codec_def OutboundCodec_new_def BaseOutboundCodec_new_def
        SSZSnappyOutboundCodec_new_def base_outbound_decode_def take_response_code_def is_response_def
        ssz_outbound_decode_def handle_length_def Let_def is_out_of_bounds_iff rpc_response_limits_def
        RpcLimits_new_def MAX_RPC_SIZE_POST_MERGE_def handle_response_def unwrap_def split_to_def
        ref_ext_def ref_metadata_of_bytes_def of_le_bytes_def)
  then have "panics (OutboundCodec_decode ref_ext metadata_codec ?src)" by simp
  from outbound_decode_panics_only_metadata [OF ref_codec_laws this] this show ?thesis by blast
qed

subsection \<open>What a decoder produces\<close>

text \<open>C18: a response the outbound codec returns belongs to the protocol of its stream, and the codec is
  between two messages afterwards: no response code and no length are kept.\<close>

theorem outbound_decode_item_sound:
  assumes "OutboundCodec_decode E oc src = Inr (oc', src', Ok (Some item))"
  shows "out_codec_idle oc' \<and>
    (\<forall>r. item = RPCCodedResponse_Success r \<longrightarrow> response_protocol r = message_name (out_codec_protocol oc))"
proof -
  obtain b where oc: "oc = OutboundCodec_SSZSnappy b" by (cases oc)
  with assms obtain b' where oc': "oc' = OutboundCodec_SSZSnappy b'" and
    d: "base_outbound_decode (ssz_outbound_decode E) (ssz_outbound_decode_error E) b src
      = Inr (b', src', Ok (Some item))"
    by (auto simp: run_simps)
  have "response_protocol r = message_name (oc_protocol (boc_inner b))"
    if "item = RPCCodedResponse_Success r" for r
    using d that
    by (auto simp: base_outbound_decode_def take_response_code_def ssz_outbound_decode_def Let_def run_simps
        split: if_splits prod.splits result.splits option.splits dest!: handle_response_item)
  with ssz_codec.base_item_idle [OF d] show ?thesis by (simp add: oc oc')
qed

theorem outbound_decode_item_sound_witness:
  "\<exists>oc' item. OutboundCodec_decode ref_ext metadata_codec [4, 0] = Inr (oc', [], Ok (Some item)) \<and>
     out_codec_idle oc'"
proof -
  have "\<exists>oc'. OutboundCodec_decode ref_ext metadata_codec [4, 0]
      = Inr (oc', [], Ok (Some RPCCodedResponse_Error))"
    by (simp add: metadata_codec_def OutboundCodec_new_def BaseOutboundCodec_new_def
        SSZSnappyOutboundCodec_new_def base_outbound_decode_def take_response_code_def is_response_def
        ssz_outbound_decode_error_def handle_length_def Let_def MAX_RPC_SIZE_POST_MERGE_def split_to_def
        ref_ext_def MaxErrorLen_def)
  then show ?thesis using outbound_decode_item_sound by metis
qed

end
