(* ===== verification/Upgrade.thy ===== *)
theory Upgrade
  imports Base_Codec
begin

section \<open>Upgrading a substream (\<open>upgrade_inbound\<close> and \<open>upgrade_outbound\<close> in \<open>src/rpc/protocol.rs\<close>)\<close>

text \<open>
  Upgrading wraps a negotiated substream in its codec. On an inbound substream the request is read with a
  time limit, unless the protocol is MetaData, whose request has no content. Sockets, the read timeout and
  tokio's \<open>Framed\<close> are other crates' code and are the fields of \<open>upgrade_ext\<close>;
  \<open>in_next\<close> is \<open>timeout(d, socket.into_future())\<close>: the outer \<open>Err\<close> says that the time is over, otherwise
  the next item, if the stream has one, comes with the stream.
\<close>

record ('sock, 'u, 'i, 'o) upgrade_ext =
  set_read_timeout :: "'sock \<Rightarrow> duration \<Rightarrow> 'sock"
  in_framed_new :: "'sock \<Rightarrow> 'u InboundCodec \<Rightarrow> 'i"
  in_next :: "duration \<Rightarrow> 'i \<Rightarrow> ((InboundRequest, RPCError) result option \<times> 'i, unit) result"
  out_framed_new :: "'sock \<Rightarrow> 'u OutboundCodec \<Rightarrow> 'o"
  out_send :: "'o \<Rightarrow> OutboundRequest \<Rightarrow> ('o, RPCError) result"
  out_close :: "'o \<Rightarrow> ('o, RPCError) result"

definition upgrade_inbound ::
  "('u, 'a) codec_ext_scheme \<Rightarrow> ('sock, 'u, 'i, 'o) upgrade_ext \<Rightarrow> 'sock \<Rightarrow> ProtocolId
   \<Rightarrow> (InboundRequest \<times> 'i, RPCError) result" where
  "upgrade_inbound E X socket protocol =
     (let codec = InboundCodec_new E protocol;
          timed_socket = set_read_timeout X socket (from_secs TTFB_TIMEOUT);
          socket = in_framed_new X timed_socket codec
      in case message_name protocol of
           Protocol_MetaData \<Rightarrow> Ok (InboundRequest_MetaData, socket)
         | _ \<Rightarrow>
             (case in_next X (from_secs REQUEST_TIMEOUT) socket of
                Err e \<Rightarrow> Err (RPCError_from_elapsed e)
              | Ok (Some (Ok request), stream) \<Rightarrow> Ok (request, stream)
              | Ok (Some (Err e), _) \<Rightarrow> Err e
              | Ok (None, _) \<Rightarrow> Err RPCError_Error))"

definition upgrade_outbound ::
  "('u, 'a) codec_ext_scheme \<Rightarrow> ('sock, 'u, 'i, 'o) upgrade_ext \<Rightarrow> OutboundRequestContainer \<Rightarrow> 'sock
   \<Rightarrow> ProtocolId \<Rightarrow> ('o, RPCError) result" where
  "upgrade_outbound E X self socket protocol =
     (let codec = OutboundCodec_new E protocol;
          socket = out_framed_new X socket codec
      in case out_send X socket (req self) of
           Err e \<Rightarrow> Err e
         | Ok socket \<Rightarrow> (case out_close X socket of Err e \<Rightarrow> Err e | Ok socket \<Rightarrow> Ok socket))"

text \<open>
  What \<open>Framed\<close> documents: an item it yields was returned by the decoder it was built with, in some state
  of that decoder, on some buffered bytes. The decoder's protocol never changes.
\<close>

definition framed_yields_decoded ::
  "('u, 'a) codec_ext_scheme \<Rightarrow> ('sock, 'u, 'i, 'o) upgrade_ext \<Rightarrow> bool" where
  "framed_yields_decoded E X \<longleftrightarrow>
     (\<forall>sock codec d r s. in_next X d (in_framed_new X sock codec) = Ok (Some (Ok r), s) \<longrightarrow>
        (\<exists>codec1 src codec2 src2. in_codec_protocol codec1 = in_codec_protocol codec \<and>
           InboundCodec_decode E codec1 src = Inr (codec2, src2, Ok (Some r))))"


text \<open>
  C34: an inbound upgrade that succeeds delivers a MetaData request on a MetaData stream: whatever a peer
  sends, the streams of the other protocols the node advertises end in an error, so no Status,
  Goodbye or Ping request ever reaches the handler.
\<close>

theorem upgrade_yields_only_metadata:
  assumes "framed_yields_decoded E X" "upgrade_inbound E X socket protocol = Ok (r, s)"
  shows "r = InboundRequest_MetaData \<and> message_name protocol = Protocol_MetaData"
proof (cases "message_name protocol = Protocol_MetaData")
  case True
  with assms(2) show ?thesis by (simp add: upgrade_inbound_def Let_def)
next
  case False
  let ?s = "in_framed_new X (set_read_timeout X socket (from_secs TTFB_TIMEOUT)) (InboundCodec_new E protocol)"
  have "in_next X (from_secs REQUEST_TIMEOUT) ?s = Ok (Some (Ok r), s)"
    using assms(2) False
    by (auto simp: upgrade_inbound_def Let_def split: Protocol.splits result.splits option.splits)
  then obtain codec1 src codec2 src2 where
    c: "in_codec_protocol codec1 = in_codec_protocol (InboundCodec_new E protocol)"
    "InboundCodec_decode E codec1 src = Inr (codec2, src2, Ok (Some r))"
    using assms(1) unfolding framed_yields_decoded_def by blast
  have "in_codec_protocol (InboundCodec_new E protocol) = protocol"
    by (simp add: InboundCodec_new_def BaseInboundCodec_new_def SSZSnappyInboundCodec_new_def)
  with inbound_decode_item [OF c(2)] c(1) False show ?thesis by simp
qed

text \<open>A stream whose whole content has arrived: its next item is what the decoder makes of the content.\<close>

definition whole_stream_ext ::
  "('u, 'a) codec_ext_scheme \<Rightarrow> (bytes, 'u, bytes \<times> 'u InboundCodec, bytes \<times> 'u OutboundCodec) upgrade_ext" where
  "whole_stream_ext E =
     \<lparr>set_read_timeout = (\<lambda>sock d. sock),
      in_framed_new = Pair,
      in_next = (\<lambda>d (src, codec).
        case InboundCodec_decode E codec src of
          Inr (codec', src', Ok (Some r)) \<Rightarrow> Ok (Some (Ok r), (src', codec'))
        | Inr (codec', src', Err e) \<Rightarrow> Ok (Some (Err e), (src', codec'))
        | _ \<Rightarrow> Ok (None, (src, codec))),
      out_framed_new = Pair,
      out_send = (\<lambda>(buf, codec) r.
        case OutboundCodec_encode E codec r buf of
          (codec', buf', Ok _) \<Rightarrow> Ok (buf', codec') | (_, _, Err e) \<Rightarrow> Err e),
      out_close = Ok\<rparr>"

lemma whole_stream_yields_decoded: "framed_yields_decoded E (whole_stream_ext E)"
  unfolding framed_yields_decoded_def whole_stream_ext_def
  by (fastforce split: sum.splits prod.splits result.splits option.splits)

theorem upgrade_yields_only_metadata_witness:
  "\<exists>r s. upgrade_inbound ref_ext (whole_stream_ext ref_ext) [] (ProtocolId_new Protocol_MetaData V2) = Ok (r, s) \<and>
     r = InboundRequest_MetaData"
proof -
  obtain r s where
    "upgrade_inbound ref_ext (whole_stream_ext ref_ext) [] (ProtocolId_new Protocol_MetaData V2) = Ok (r, s)"
    by (simp add: upgrade_inbound_def ProtocolId_new_def Let_def)
  with upgrade_yields_only_metadata [OF whole_stream_yields_decoded] show ?thesis by blast
qed

end
