(* ===== verification/Swarm.thy ===== *)
theory Swarm
  imports Prelude
begin

section \<open>What libp2p's swarm passes to and takes from a behaviour\<close>

text \<open>
  The enums of \<open>libp2p::swarm\<close> the behaviours of the program use, with the constructors and the
  fields the program reads or builds. Peer ids, connection ids and addresses are type variables: the
  program only compares and stores them.
\<close>

datatype 'conn NotifyHandler = NotifyHandler_One 'conn | NotifyHandler_Any

datatype ('ev, 'p, 'conn, 'msg) NetworkBehaviourAction =
    GenerateEvent 'ev
  | NotifyHandler 'p "'conn NotifyHandler" 'msg

datatype 'p FromSwarm =
    ConnectionEstablished 'p
  | ConnectionClosed 'p
  | DialFailure "'p option"
  | AddressChange
  | ListenFailure
  | NewListener
  | NewListenAddr
  | ExpiredListenAddr
  | ListenerError
  | ListenerClosed
  | NewExternalAddr
  | ExpiredExternalAddr

end
