(* ===== verification/Peer_Manager.thy ===== *)
theory Peer_Manager
  imports Swarm
begin

section \<open>The peer manager (\<open>src/peer_manager.rs\<close>)\<close>

text \<open>
  The behaviour that keeps the node at its target number of peers: it asks for discovery, chooses whom to
  dial, times out dials and keeps a history of connections per peer.

  The clock and the iteration order of the hash maps and sets come from the environment. The heartbeat
  is the list of the ticks that are due: \<open>heartbeat.poll_tick\<close> is ready once for each of them. A \<open>tick\<close>
  holds what the environment supplies while the program handles that tick: the clock when dials are
  checked for timeout, the clock when each peer is marked as connecting, and the three iteration orders.
  Logging is left out. Timestamps are nanoseconds.
\<close>

datatype ConnectionStatus = Connecting | Connected | Disconnected | Failed | Timeout

record ConnectionData =
  established_timestamp :: "instant option"
  failure_timestamp :: "instant option"
  disconnect_timestamp :: "instant option"
  dial_timestamp :: instant
  connection_status :: ConnectionStatus

record 'a PeerData =
  connection_history :: "ConnectionData list"
  average_connection_duration :: "usize option"
  multiaddr :: "'a option"

definition PeerData_new :: "'a option \<Rightarrow> 'a PeerData" where
  "PeerData_new addr =
     \<lparr>connection_history = [], average_connection_duration = None, multiaddr = addr\<rparr>"

definition MIN_AVERAGE_CONNECTION_DURATION :: usize where
  "MIN_AVERAGE_CONNECTION_DURATION = 3000"

definition HEARTBEAT_INTERVAL :: nat where
  "HEARTBEAT_INTERVAL = 500"

definition DIAL_TIMEOUT :: nat where
  "DIAL_TIMEOUT = 5000"

datatype 'p PeerManagerEvent = DiscoverPeers u32 | DialPeers "'p list"

record 'p tick =
  timeout_now :: instant
  dial_now :: "'p \<Rightarrow> instant"
  dialling_order :: "'p fset \<Rightarrow> 'p list"
  new_order :: "'p fset \<Rightarrow> 'p list"
  data_order :: "'p fset \<Rightarrow> 'p list"

record ('p, 'a, 'info) PeerManager =
  connected_peers :: "'p fset"
  dialling_peers :: "'p fset"
  new_peers :: "'p fset"
  peer_data :: "('p, 'a PeerData) fmap"
  peer_identities :: "('p, 'info) fmap"
  target_peer_number :: u32
  peers_to_discover :: u32
  heartbeat :: "'p tick list"
  waiting_for_peer_discovery :: bool

definition PeerManager_new :: "u32 \<Rightarrow> ('p, 'a, 'info) PeerManager" where
  "PeerManager_new target =
     \<lparr>connected_peers = {||}, dialling_peers = {||}, new_peers = {||}, peer_data = fmempty,
      peer_identities = fmempty, target_peer_number = target, peers_to_discover = 0,
      heartbeat = [], waiting_for_peer_discovery = False\<rparr>"

subsection \<open>The connection history of a peer\<close>

text \<open>\<open>connection_history.last_mut()\<close>: the last entry is changed in place.\<close>

definition update_last :: "(ConnectionData \<Rightarrow> ConnectionData) \<Rightarrow> 'a PeerData \<Rightarrow> 'a PeerData" where
  "update_last f d =
     d\<lparr>connection_history := butlast (connection_history d) @ [f (last (connection_history d))]\<rparr>"

text \<open>
  \<open>let peer_data = self.peer_data.get_mut(&peer_id).unwrap()\<close> followed by
  \<open>connection_history.last_mut().expect(...)\<close>.
\<close>

definition with_last ::
  "(ConnectionData \<Rightarrow> ConnectionData) \<Rightarrow> 'p \<Rightarrow> ('p, 'a, 'info) PeerManager \<Rightarrow> 'a PeerData run" where
  "with_last f peer_id pm =
     (case fmlookup (peer_data pm) peer_id of
        None \<Rightarrow> Inl UnwrapNone
      | Some d \<Rightarrow>
          if connection_history d = []
          then Inl (Expect ''Missing connectio_data entry for established peer'')
          else Inr (update_last f d))"

definition new_duration :: "ConnectionData \<Rightarrow> duration run" where
  "new_duration c =
     (case connection_status c of
        Failed \<Rightarrow> Inr (from_secs 0)
      | Disconnected \<Rightarrow>
          Inr (case disconnect_timestamp c of
                 Some disconnected \<Rightarrow>
                   (case established_timestamp c of
                      Some established \<Rightarrow> disconnected - established
                    | None \<Rightarrow> from_secs 0)
               | None \<Rightarrow> from_secs 0)
      | _ \<Rightarrow> Inl (Explicit ''Connection status should be either failed or disconnected when updating score''))"

definition update_average_connection_duration :: "profile \<Rightarrow> 'a PeerData \<Rightarrow> 'a PeerData run" where
  "update_average_connection_duration P d =
     (if connection_history d = []
      then Inl (Expect ''Missing connection_data entry when updating average connection'')
      else
        run_bind (new_duration (last (connection_history d))) (\<lambda>dur.
        let num_connection_attempts = (of_nat (length (connection_history d)) :: usize);
            millis = (of_nat (as_millis dur) :: usize)
        in case average_connection_duration d of
             Some old_average \<Rightarrow>
               run_bind (sub_ovf P num_connection_attempts 1) (\<lambda>earlier.
               run_bind (mul_ovf P old_average earlier) (\<lambda>weighted.
               run_bind (add_ovf P weighted millis) (\<lambda>total.
               Inr (d\<lparr>average_connection_duration := Some (total div num_connection_attempts)\<rparr>))))
           | None \<Rightarrow> Inr (d\<lparr>average_connection_duration := Some millis\<rparr>)))"

subsection \<open>Events from the swarm\<close>

definition set_peer_data ::
  "'p \<Rightarrow> 'a PeerData \<Rightarrow> ('p, 'a, 'info) PeerManager \<Rightarrow> ('p, 'a, 'info) PeerManager" where
  "set_peer_data peer_id d pm = pm\<lparr>peer_data := fmupd peer_id d (peer_data pm)\<rparr>"

definition on_connection_established ::
  "instant \<Rightarrow> 'p \<Rightarrow> ('p, 'a, 'info) PeerManager \<Rightarrow> ('p, 'a, 'info) PeerManager run" where
  "on_connection_established now peer_id pm =
     run_bind (with_last (\<lambda>c. c\<lparr>established_timestamp := Some now, connection_status := Connected\<rparr>)
         peer_id pm) (\<lambda>d.
       let pm1 = set_peer_data peer_id d pm
       in Inr (pm1\<lparr>connected_peers := finsert peer_id (connected_peers pm1),
                   dialling_peers := dialling_peers pm1 |-| {|peer_id|}\<rparr>))"

definition on_connection_closed ::
  "profile \<Rightarrow> instant \<Rightarrow> 'p \<Rightarrow> ('p, 'a, 'info) PeerManager \<Rightarrow> ('p, 'a, 'info) PeerManager run" where
  "on_connection_closed P now peer_id pm =
     run_bind (with_last (\<lambda>c. c\<lparr>connection_status := Disconnected, disconnect_timestamp := Some now\<rparr>)
         peer_id pm) (\<lambda>d.
     run_bind (update_average_connection_duration P d) (\<lambda>d'.
       let pm1 = set_peer_data peer_id d' pm
       in Inr (pm1\<lparr>connected_peers := connected_peers pm1 |-| {|peer_id|}\<rparr>)))"

definition on_dial_failure ::
  "profile \<Rightarrow> instant \<Rightarrow> 'p option \<Rightarrow> ('p, 'a, 'info) PeerManager \<Rightarrow> ('p, 'a, 'info) PeerManager run" where
  "on_dial_failure P now peer pm =
     (case peer of
        None \<Rightarrow> Inr pm
      | Some peer_id \<Rightarrow>
          run_bind (with_last (\<lambda>c. c\<lparr>connection_status := Failed, failure_timestamp := Some now\<rparr>)
              peer_id pm) (\<lambda>d.
          run_bind (update_average_connection_duration P d) (\<lambda>d'.
            let pm1 = set_peer_data peer_id d' pm
            in Inr (pm1\<lparr>dialling_peers := dialling_peers pm1 |-| {|peer_id|}\<rparr>))))"

definition on_swarm_event ::
  "profile \<Rightarrow> instant \<Rightarrow> 'p FromSwarm \<Rightarrow> ('p, 'a, 'info) PeerManager
   \<Rightarrow> ('p, 'a, 'info) PeerManager run" where
  "on_swarm_event P now event pm =
     (case event of
        ConnectionEstablished peer_id \<Rightarrow> on_connection_established now peer_id pm
      | ConnectionClosed peer_id \<Rightarrow> on_connection_closed P now peer_id pm
      | DialFailure peer_id \<Rightarrow> on_dial_failure P now peer_id pm
      | _ \<Rightarrow> Inr pm)"

definition addresses_of_peer :: "'p \<Rightarrow> ('p, 'a, 'info) PeerManager \<Rightarrow> 'a list" where
  "addresses_of_peer peer_id pm =
     (case fmlookup (peer_data pm) peer_id of
        Some d \<Rightarrow> (case multiaddr d of Some address \<Rightarrow> [address] | None \<Rightarrow> [])
      | None \<Rightarrow> [])"


subsection \<open>Choosing whom to dial\<close>

definition get_peer_score :: "'a PeerData \<Rightarrow> usize" where
  "get_peer_score d = (case average_connection_duration d of Some score \<Rightarrow> score | None \<Rightarrow> 0)"

definition redialable :: "'a PeerData \<Rightarrow> bool" where
  "redialable d \<longleftrightarrow>
     (connection_history d \<noteq> [] \<and>
        (case connection_status (last (connection_history d)) of
           Failed \<Rightarrow> True | Disconnected \<Rightarrow> True | _ \<Rightarrow> False)) \<and>
     MIN_AVERAGE_CONNECTION_DURATION
       < (case average_connection_duration d of Some avg \<Rightarrow> avg | None \<Rightarrow> 0)"

text \<open>\<open>self.peer_data.iter()\<close>, in the order the environment chooses.\<close>

definition peer_data_iter ::
  "('p fset \<Rightarrow> 'p list) \<Rightarrow> ('p, 'a PeerData) fmap \<Rightarrow> ('p \<times> 'a PeerData) list" where
  "peer_data_iter order m =
     List.map_filter (\<lambda>p. map_option (Pair p) (fmlookup m p)) (order (fmdom m))"

definition get_best_peers_for_redial ::
  "('p fset \<Rightarrow> 'p list) \<Rightarrow> u32 \<Rightarrow> ('p, 'a, 'info) PeerManager \<Rightarrow> 'p list" where
  "get_best_peers_for_redial order num_peers pm =
     map fst (take (unat num_peers)
       (sort_key (\<lambda>(_, d). get_peer_score d)
         (filter (\<lambda>(_, d). redialable d) (peer_data_iter order (peer_data pm)))))"

fun take_new_peers :: "nat \<Rightarrow> 'p list \<Rightarrow> 'p list \<Rightarrow> 'p list" where
  "take_new_peers missing [] peers_to_dial = peers_to_dial"
| "take_new_peers missing (p # ps) peers_to_dial =
     (if length peers_to_dial = missing then peers_to_dial
      else take_new_peers missing ps (peers_to_dial @ [p]))"

definition get_new_peers_for_dialling ::
  "('p fset \<Rightarrow> 'p list) \<Rightarrow> u32 \<Rightarrow> ('p, 'a, 'info) PeerManager \<Rightarrow> 'p list" where
  "get_new_peers_for_dialling order missing_peers pm =
     take_new_peers (unat missing_peers) (order (new_peers pm)) []"

definition peer_connecting ::
  "instant \<Rightarrow> 'p \<Rightarrow> ('p, 'a, 'info) PeerManager \<Rightarrow> ('p, 'a, 'info) PeerManager run" where
  "peer_connecting now peer_id pm =
     (case fmlookup (peer_data pm) peer_id of
        None \<Rightarrow> Inl UnwrapNone
      | Some d \<Rightarrow>
          let pm1 = set_peer_data peer_id
            (d\<lparr>connection_history := connection_history d @
                 [\<lparr>established_timestamp = None, failure_timestamp = None, disconnect_timestamp = None,
                   dial_timestamp = now, connection_status = Connecting\<rparr>]\<rparr>) pm
          in Inr (pm1\<lparr>new_peers := new_peers pm1 |-| {|peer_id|}\<rparr>))"

fun start_dialling ::
  "('p \<Rightarrow> instant) \<Rightarrow> 'p list \<Rightarrow> ('p, 'a, 'info) PeerManager \<Rightarrow> ('p, 'a, 'info) PeerManager run" where
  "start_dialling now [] pm = Inr pm"
| "start_dialling now (p # ps) pm =
     run_bind (peer_connecting (now p) p (pm\<lparr>dialling_peers := finsert p (dialling_peers pm)\<rparr>))
       (\<lambda>pm'. start_dialling now ps pm')"

definition get_peers_to_dial ::
  "profile \<Rightarrow> 'p tick \<Rightarrow> u32 \<Rightarrow> ('p, 'a, 'info) PeerManager
   \<Rightarrow> ('p list \<times> ('p, 'a, 'info) PeerManager) run" where
  "get_peers_to_dial P t missing_peers pm =
     (let best = get_best_peers_for_redial (data_order t) missing_peers pm
      in run_bind (sub_ovf P missing_peers (of_nat (length best))) (\<lambda>new_peers_to_dial.
           let peers_to_dial =
             best @ (if new_peers_to_dial > 0
                     then get_new_peers_for_dialling (new_order t) new_peers_to_dial pm else [])
           in run_bind (start_dialling (dial_now t) peers_to_dial pm) (\<lambda>pm'.
                Inr (peers_to_dial, pm'))))"

subsection \<open>Heartbeat\<close>

text \<open>The loop of \<open>timeout_dialling_peers\<close>: it returns the changed peer data and the peers timed out.\<close>

fun timeout_loop ::
  "instant \<Rightarrow> 'p list \<Rightarrow> ('p, 'a PeerData) fmap \<Rightarrow> 'p list \<Rightarrow> ('p, 'a PeerData) fmap \<times> 'p list" where
  "timeout_loop now [] m timed_out_peers = (m, timed_out_peers)"
| "timeout_loop now (p # ps) m timed_out_peers =
     (case fmlookup m p of
        None \<Rightarrow> timeout_loop now ps m (timed_out_peers @ [p])
      | Some d \<Rightarrow>
          if connection_history d = [] then timeout_loop now ps m (timed_out_peers @ [p])
          else
            let c = last (connection_history d)
            in if connection_status c = Connecting \<and> as_millis (now - dial_timestamp c) > DIAL_TIMEOUT
               then timeout_loop now ps
                 (fmupd p (update_last (\<lambda>c. c\<lparr>connection_status := Timeout, failure_timestamp := Some now\<rparr>) d) m)
                 (timed_out_peers @ [p])
               else timeout_loop now ps m timed_out_peers)"

definition timeout_dialling_peers ::
  "'p tick \<Rightarrow> ('p, 'a, 'info) PeerManager \<Rightarrow> ('p, 'a, 'info) PeerManager" where
  "timeout_dialling_peers t pm =
     (case timeout_loop (timeout_now t) (dialling_order t (dialling_peers pm)) (peer_data pm) [] of
        (m, timed_out_peers) \<Rightarrow>
          pm\<lparr>peer_data := m, dialling_peers := dialling_peers pm |-| fset_of_list timed_out_peers\<rparr>)"

definition connected_and_dialling_peers :: "('p, 'a, 'info) PeerManager \<Rightarrow> 'p fset" where
  "connected_and_dialling_peers pm = connected_peers pm |\<union>| dialling_peers pm"

text \<open>One turn of the heartbeat loop: the peers to dial, if the manager looked for any.\<close>

definition heartbeat_tick ::
  "profile \<Rightarrow> 'p tick \<Rightarrow> ('p, 'a, 'info) PeerManager
   \<Rightarrow> ('p list \<times> ('p, 'a, 'info) PeerManager) run" where
  "heartbeat_tick P t pm =
     (let pm1 = timeout_dialling_peers t pm
      in run_bind (sub_ovf P (target_peer_number pm1) (of_nat (fcard (connected_and_dialling_peers pm1))))
           (\<lambda>missing_peers.
              if missing_peers > peers_to_discover pm1 div 4 then
                run_bind (get_peers_to_dial P t missing_peers pm1) (\<lambda>(peers_to_dial, pm2).
                run_bind (sub_ovf P missing_peers (of_nat (length peers_to_dial))) (\<lambda>d.
                  Inr (peers_to_dial, pm2\<lparr>peers_to_discover := d\<rparr>)))
              else Inr ([], pm1)))"

fun heartbeat_loop ::
  "profile \<Rightarrow> 'p tick list \<Rightarrow> ('p, 'a, 'info) PeerManager
   \<Rightarrow> (('p, 'a, 'info) PeerManager \<times> 'p PeerManagerEvent poll) run" where
  "heartbeat_loop P [] pm = Inr (pm\<lparr>heartbeat := []\<rparr>, Pending)"
| "heartbeat_loop P (t # ts) pm =
     run_bind (heartbeat_tick P t pm) (\<lambda>(peers_to_dial, pm').
       if peers_to_dial \<noteq> [] then Inr (pm'\<lparr>heartbeat := ts\<rparr>, Ready (DialPeers peers_to_dial))
       else heartbeat_loop P ts pm')"

definition PeerManager_poll ::
  "profile \<Rightarrow> ('p, 'a, 'info) PeerManager
   \<Rightarrow> (('p, 'a, 'info) PeerManager \<times> 'p PeerManagerEvent poll) run" where
  "PeerManager_poll P pm =
     (if \<not> waiting_for_peer_discovery pm \<and> peers_to_discover pm > 0
      then Inr (pm\<lparr>peers_to_discover := 0, waiting_for_peer_discovery := True\<rparr>,
                Ready (DiscoverPeers (peers_to_discover pm)))
      else heartbeat_loop P (heartbeat pm) pm)"

subsection \<open>The interface to the main loop\<close>

text \<open>\<open>add_peers\<close> iterates over the map it is given in the order \<open>order\<close>.\<close>

fun add_peers_loop ::
  "'p list \<Rightarrow> ('p, 'a option) fmap \<Rightarrow> ('p, 'a, 'info) PeerManager \<Rightarrow> ('p, 'a, 'info) PeerManager" where
  "add_peers_loop [] peer_ids pm = pm"
| "add_peers_loop (p # ps) peer_ids pm =
     (case fmlookup peer_ids p of
        None \<Rightarrow> add_peers_loop ps peer_ids pm
      | Some addr \<Rightarrow>
          if p |\<in>| fmdom (peer_data pm) then add_peers_loop ps peer_ids pm
          else add_peers_loop ps peer_ids
            (pm\<lparr>peer_data := fmupd p (PeerData_new addr) (peer_data pm),
                new_peers := finsert p (new_peers pm)\<rparr>))"

definition add_peers ::
  "('p fset \<Rightarrow> 'p list) \<Rightarrow> ('p, 'a option) fmap \<Rightarrow> ('p, 'a, 'info) PeerManager
   \<Rightarrow> ('p, 'a, 'info) PeerManager" where
  "add_peers order peer_ids pm =
     (add_peers_loop (order (fmdom peer_ids)) peer_ids pm)\<lparr>waiting_for_peer_discovery := False\<rparr>"

definition add_peer_identity ::
  "'p \<Rightarrow> 'info \<Rightarrow> ('p, 'a, 'info) PeerManager \<Rightarrow> ('p, 'a, 'info) PeerManager" where
  "add_peer_identity peer_id identity pm = pm\<lparr>peer_identities := fmupd peer_id identity (peer_identities pm)\<rparr>"

text \<open>The table \<open>log_metrics\<close> prints: peers by average connection duration, longest first.\<close>

definition log_metrics ::
  "('p fset \<Rightarrow> 'p list) \<Rightarrow> ('p, 'a, 'info) PeerManager
   \<Rightarrow> ('p \<times> nat \<times> duration \<times> ConnectionStatus option) list" where
  "log_metrics order pm =
     sort_key (\<lambda>(_, _, a, _). - int a)
       (map (\<lambda>(p, d).
          (p, length (connection_history d),
           unat (case average_connection_duration d of Some avg \<Rightarrow> avg | None \<Rightarrow> 0) * 1000000,
           if connection_history d = [] then None
           else Some (connection_status (last (connection_history d)))))
         (peer_data_iter order (peer_data pm)))"

fun close_all ::
  "profile \<Rightarrow> ('p \<Rightarrow> instant) \<Rightarrow> 'p list \<Rightarrow> ('p, 'a, 'info) PeerManager
   \<Rightarrow> ('p, 'a, 'info) PeerManager run" where
  "close_all P now [] pm = Inr pm"
| "close_all P now (p # ps) pm =
     run_bind (on_connection_closed P (now p) p pm) (\<lambda>pm'. close_all P now ps pm')"

definition disconnect_all_peers ::
  "profile \<Rightarrow> ('p \<Rightarrow> instant) \<Rightarrow> ('p fset \<Rightarrow> 'p list) \<Rightarrow> ('p, 'a, 'info) PeerManager
   \<Rightarrow> ('p, 'a, 'info) PeerManager run" where
  "disconnect_all_peers P now order pm = close_all P now (order (connected_peers pm)) pm"

text \<open>
  Files and JSON are other code: \<open>create\<close> and \<open>write_all\<close> say whether the operation succeeds,
  \<open>to_json\<close> and \<open>from_json\<close> are serde's conversions, \<open>file\<close> is what the path holds: nothing, a file that
  cannot be read, or a text.
\<close>

definition save_peer_data ::
  "profile \<Rightarrow> ('p \<Rightarrow> instant) \<Rightarrow> ('p fset \<Rightarrow> 'p list) \<Rightarrow> bool
   \<Rightarrow> (('p, 'a PeerData) fmap \<Rightarrow> string option) \<Rightarrow> (string \<Rightarrow> bool) \<Rightarrow> ('p, 'a, 'info) PeerManager
   \<Rightarrow> (('p, 'a, 'info) PeerManager \<times> string) run" where
  "save_peer_data P now order create to_json write_all pm =
     run_bind (disconnect_all_peers P now order pm) (\<lambda>pm1.
       if \<not> create then Inl (Expect ''Unable to create file'')
       else case to_json (peer_data pm1) of
              None \<Rightarrow> Inl (Expect ''Unable to serialize peer data'')
            | Some text \<Rightarrow>
                if write_all text then Inr (pm1, text) else Inl (Expect ''Unable to write to file''))"

datatype PeerDataFile = NoFile | Unopenable | Unreadable | Contents string

definition load_peer_data ::
  "(string \<Rightarrow> ('p, 'a PeerData) fmap option) \<Rightarrow> PeerDataFile \<Rightarrow> ('p, 'a, 'info) PeerManager
   \<Rightarrow> ('p, 'a, 'info) PeerManager run" where
  "load_peer_data from_json file pm =
     (case file of
        NoFile \<Rightarrow> Inr pm
      | Unopenable \<Rightarrow> Inl (Expect ''Unable to open file'')
      | Unreadable \<Rightarrow> Inl (Expect ''Unable to read file'')
      | Contents text \<Rightarrow>
          (case from_json text of
             None \<Rightarrow> Inl (Expect ''Unable to deserialize peer data'')
           | Some m \<Rightarrow> Inr (pm\<lparr>peer_data := m\<rparr>)))"

end
