(* ===== verification/Peer_Manager_Invariant.thy ===== *)
theory Peer_Manager_Invariant
  imports Peer_Manager
begin

section \<open>The invariant of the peer manager\<close>

text \<open>
  What holds of the manager whatever the swarm reports to it, in whatever order: a connected or dialling peer
  has a connection history, a new peer is known and has none. Connections may come from peers that were never dialled, arrive after
  their dial was given up, or be the second one to a peer; dials may fail at any time. Nothing is assumed of the
  swarm here. The only events that are not steps of the manager are those that make it panic.
\<close>

definition last_status :: "('p, 'a, 'info) PeerManager \<Rightarrow> 'p \<Rightarrow> ConnectionStatus option" where
  "last_status pm p =
     (case fmlookup (peer_data pm) p of
        None \<Rightarrow> None
      | Some d \<Rightarrow>
          if connection_history d = [] then None
          else Some (connection_status (last (connection_history d))))"

definition orderly :: "'p tick \<Rightarrow> bool" where
  "orderly t \<longleftrightarrow>
     (\<forall>S. enumerates (dialling_order t S) S \<and> enumerates (new_order t S) S \<and> enumerates (data_order t S) S)"

definition sets_ok :: "('p, 'a, 'info) PeerManager \<Rightarrow> bool" where
  "sets_ok pm \<longleftrightarrow>
     (\<forall>p. p |\<in>| connected_and_dialling_peers pm \<longrightarrow> last_status pm p \<noteq> None) \<and>
     (\<forall>p. p |\<in>| new_peers pm \<longrightarrow> p |\<in>| fmdom (peer_data pm) \<and> last_status pm p = None)"

definition pm_inv :: "u32 \<Rightarrow> ('p, 'a, 'info) PeerManager \<Rightarrow> bool" where
  "pm_inv target pm \<longleftrightarrow> target_peer_number pm = target \<and> list_all orderly (heartbeat pm) \<and> sets_ok pm"

text \<open>A peer may be dialled again after its last attempt failed or its last connection was closed.\<close>

abbreviation ended :: "('p, 'a, 'info) PeerManager \<Rightarrow> 'p \<Rightarrow> bool" where
  "ended pm p \<equiv> last_status pm p \<in> {Some Failed, Some Disconnected}"

lemma u32_less: "unat (n :: u32) < 2 ^ 32"
  using unsigned_less [of n, where ?'a = nat] by simp

lemma unat_of_nat_u32: "m < 2 ^ 32 \<Longrightarrow> unat (of_nat m :: u32) = m"
  by (simp add: unat_of_nat)

subsection \<open>Timing out dials\<close>

definition expired :: "instant \<Rightarrow> ('p, 'a PeerData) fmap \<Rightarrow> 'p \<Rightarrow> bool" where
  "expired now m p \<longleftrightarrow>
     (case fmlookup m p of
        None \<Rightarrow> False
      | Some d \<Rightarrow> connection_history d \<noteq> [] \<and> connection_status (last (connection_history d)) = Connecting \<and>
          as_millis (now - dial_timestamp (last (connection_history d))) > DIAL_TIMEOUT)"

definition no_history :: "('p, 'a PeerData) fmap \<Rightarrow> 'p \<Rightarrow> bool" where
  "no_history m p \<longleftrightarrow> (case fmlookup m p of None \<Rightarrow> True | Some d \<Rightarrow> connection_history d = [])"

lemma expired_upd [simp]: "q \<noteq> p \<Longrightarrow> expired now (fmupd p d m) q = expired now m q"
  by (simp add: expired_def)

lemma no_history_upd [simp]: "q \<noteq> p \<Longrightarrow> no_history (fmupd p d m) q = no_history m q"
  by (simp add: no_history_def)

lemma timeout_loop_result:
  assumes "distinct ps" "timeout_loop now ps m acc = (m', out)"
  shows "out = acc @ filter (\<lambda>p. expired now m p \<or> no_history m p) ps \<and>
    (\<forall>q. fmlookup m' q =
       (if q \<in> set ps \<and> expired now m q
        then map_option (update_last (\<lambda>c. c\<lparr>connection_status := Timeout, failure_timestamp := Some now\<rparr>)) (fmlookup m q)
        else fmlookup m q))"
  using assms
proof (induction ps arbitrary: m acc)
  case (Cons p ps)
  have eq: "filter (\<lambda>q. expired now (fmupd p d m) q \<or> no_history (fmupd p d m) q) ps =
      filter (\<lambda>q. expired now m q \<or> no_history m q) ps" for d
  proof (rule filter_cong)
    show "(expired now (fmupd p d m) q \<or> no_history (fmupd p d m) q) = (expired now m q \<or> no_history m q)"
      if "q \<in> set ps" for q
    proof -
      have "q \<noteq> p" using that Cons.prems(1) by auto
      then show ?thesis by simp
    qed
  qed simp
  show ?case
  proof (cases "fmlookup m p")
    case None
    then have "\<not> expired now m p" "no_history m p" by (simp_all add: expired_def no_history_def)
    with Cons.IH [of m "acc @ [p]"] Cons.prems None show ?thesis by auto
  next
    case (Some d)
    show ?thesis
    proof (cases "expired now m p")
      case True
      with Some have d: "connection_history d \<noteq> []" "connection_status (last (connection_history d)) = Connecting"
        "as_millis (now - dial_timestamp (last (connection_history d))) > DIAL_TIMEOUT"
        by (simp_all add: expired_def)
      let ?d = "update_last (\<lambda>c. c\<lparr>connection_status := Timeout, failure_timestamp := Some now\<rparr>) d"
      from Cons.prems(2) Some d have l: "timeout_loop now ps (fmupd p ?d m) (acc @ [p]) = (m', out)"
        by (simp add: Let_def)
      have IH: "out = (acc @ [p]) @ filter (\<lambda>q. expired now m q \<or> no_history m q) ps"
        "\<And>q. fmlookup m' q = (if q \<in> set ps \<and> expired now (fmupd p ?d m) q
          then map_option (update_last (\<lambda>c. c\<lparr>connection_status := Timeout, failure_timestamp := Some now\<rparr>)) (fmlookup (fmupd p ?d m) q)
          else fmlookup (fmupd p ?d m) q)"
        using Cons.IH [OF _ l] Cons.prems(1) eq [of ?d] by (simp_all del: fmupd_lookup)
      show ?thesis using IH Cons.prems(1) Some True by (auto split: if_splits)
    next
      case False
      with Some have "no_history m p \<longleftrightarrow> connection_history d = []"
        "connection_history d \<noteq> [] \<Longrightarrow> timeout_loop now (p # ps) m acc = timeout_loop now ps m acc"
        by (auto simp: Let_def expired_def no_history_def)
      with Cons.IH [of m acc] Cons.IH [of m "acc @ [p]"] Cons.prems Some False show ?thesis
        by (cases "connection_history d = []") auto
    qed
  qed
qed simp


lemma last_status_update_last [simp]:
  "fmlookup (peer_data pm) p = Some d \<Longrightarrow> fmlookup (peer_data pm') p = Some (update_last f d) \<Longrightarrow>
   last_status pm' p = Some (connection_status (f (last (connection_history d))))"
  by (simp add: last_status_def update_last_def)

lemma timeout_dialling_peers_result:
  assumes "enumerates (dialling_order t (dialling_peers pm)) (dialling_peers pm)"
  shows "let pm' = timeout_dialling_peers t pm in
    dialling_peers pm' = ffilter (\<lambda>p. \<not> expired (timeout_now t) (peer_data pm) p \<and> \<not> no_history (peer_data pm) p)
      (dialling_peers pm) \<and>
    (\<forall>q. last_status pm' q =
      (if q |\<in>| dialling_peers pm \<and> expired (timeout_now t) (peer_data pm) q then Some Timeout else last_status pm q)) \<and>
    fmdom (peer_data pm') = fmdom (peer_data pm) \<and> connected_peers pm' = connected_peers pm \<and>
    new_peers pm' = new_peers pm \<and> target_peer_number pm' = target_peer_number pm \<and>
    peers_to_discover pm' = peers_to_discover pm \<and> heartbeat pm' = heartbeat pm \<and>
    waiting_for_peer_discovery pm' = waiting_for_peer_discovery pm"
proof -
  let ?ps = "dialling_order t (dialling_peers pm)" and ?now = "timeout_now t"
  obtain m' out where l: "timeout_loop ?now ?ps (peer_data pm) [] = (m', out)" by fastforce
  have ps: "distinct ?ps" "set ?ps = fset (dialling_peers pm)"
    using assms enumerates_set [OF assms] by (auto simp: enumerates_def)
  note r = timeout_loop_result [OF ps(1) l]
  let ?pm = "timeout_dialling_peers t pm"
  have pm: "?pm = pm\<lparr>peer_data := m', dialling_peers := dialling_peers pm |-| fset_of_list out\<rparr>"
    by (simp add: timeout_dialling_peers_def l)
  have "dialling_peers ?pm = ffilter (\<lambda>p. \<not> expired ?now (peer_data pm) p \<and> \<not> no_history (peer_data pm) p) (dialling_peers pm)"
    using r ps(2) by (auto simp: pm fset_of_list.rep_eq fset_eq_iff)
  moreover have "last_status ?pm q =
      (if q |\<in>| dialling_peers pm \<and> expired ?now (peer_data pm) q then Some Timeout else last_status pm q)" for q
  proof (cases "q |\<in>| dialling_peers pm \<and> expired ?now (peer_data pm) q")
    case True
    then obtain d where "fmlookup (peer_data pm) q = Some d" by (auto simp: expired_def split: option.splits)
    with True r ps(2) show ?thesis by (simp add: pm last_status_def update_last_def)
  next
    case False
    with r ps(2) show ?thesis by (auto simp: pm last_status_def)
  qed
  moreover have "fmdom m' = fmdom (peer_data pm)"
    using r by (auto simp: fset_eq_iff fmlookup_dom_iff)
  ultimately show ?thesis by (simp add: pm Let_def)
qed

subsection \<open>The peers to dial\<close>

lemma peer_data_iter_props:
  assumes "enumerates (order (fmdom m)) (fmdom m)"
  shows "map fst (peer_data_iter order m) = order (fmdom m)"
    and "(p, d) \<in> set (peer_data_iter order m) \<longleftrightarrow> fmlookup m p = Some d"
proof -
  have dom: "set (order (fmdom m)) = fset (fmdom m)" using enumerates_set [OF assms] .
  have *: "map fst (List.map_filter (\<lambda>p. map_option (Pair p) (fmlookup m p)) ps) = ps"
    if "set ps \<subseteq> fset (fmdom m)" for ps
    using that by (induction ps) (auto simp: List.map_filter_simps fmlookup_dom_iff)
  show "map fst (peer_data_iter order m) = order (fmdom m)"
    unfolding peer_data_iter_def by (rule *) (simp add: dom)
  show "(p, d) \<in> set (peer_data_iter order m) \<longleftrightarrow> fmlookup m p = Some d"
  proof
    assume "fmlookup m p = Some d"
    with dom show "(p, d) \<in> set (peer_data_iter order m)"
      unfolding peer_data_iter_def List.map_filter_def set_map
      by (intro image_eqI [of _ _ p]) (simp_all add: fmdomI)
  qed (auto simp: peer_data_iter_def List.map_filter_def)
qed

lemma redialable_status: "redialable d \<Longrightarrow> fmlookup (peer_data pm) p = Some d \<Longrightarrow>
  last_status pm p \<in> {Some Failed, Some Disconnected}"
  by (auto simp: redialable_def last_status_def split: ConnectionStatus.splits)

lemma best_peers_props:
  assumes "enumerates (order (fmdom (peer_data pm))) (fmdom (peer_data pm))"
  shows "distinct (get_best_peers_for_redial order n pm)"
    and "length (get_best_peers_for_redial order n pm) \<le> unat n"
    and "p \<in> set (get_best_peers_for_redial order n pm) \<Longrightarrow>
      \<exists>d. fmlookup (peer_data pm) p = Some d \<and> redialable d"
proof -
  let ?it = "peer_data_iter order (peer_data pm)"
  let ?xs = "filter (\<lambda>(_, d). redialable d) ?it"
  have "distinct (map fst ?it)"
    using peer_data_iter_props(1) [of order "peer_data pm", OF assms] assms by (simp add: enumerates_def)
  then have "distinct (map fst ?xs)" by (rule distinct_map_filter)
  then have "distinct (map fst (sort_key (\<lambda>(_, d). get_peer_score d) ?xs))"
    by (metis distinct_map distinct_sort set_sort)
  then show "distinct (get_best_peers_for_redial order n pm)"
    by (simp add: get_best_peers_for_redial_def flip: take_map)
  show "length (get_best_peers_for_redial order n pm) \<le> unat n"
    by (simp add: get_best_peers_for_redial_def)
  show "\<exists>d. fmlookup (peer_data pm) p = Some d \<and> redialable d"
    if "p \<in> set (get_best_peers_for_redial order n pm)"
    using that peer_data_iter_props(2) [of order "peer_data pm", OF assms]
    by (auto simp: get_best_peers_for_redial_def dest!: in_set_takeD)
qed

lemma take_new_peers_take: "length acc \<le> n \<Longrightarrow> take_new_peers n ps acc = acc @ take (n - length acc) ps"
  by (induction ps arbitrary: acc) (auto simp: take_Cons' Suc_le_eq)

lemma get_new_peers_take:
  "get_new_peers_for_dialling order n pm = take (unat n) (order (new_peers pm))"
  by (simp add: get_new_peers_for_dialling_def take_new_peers_take)


lemma start_dialling_result:
  assumes "set ps \<subseteq> fset (fmdom (peer_data pm))"
  shows "\<exists>pm'. start_dialling now ps pm = Inr pm' \<and>
    dialling_peers pm' = dialling_peers pm |\<union>| fset_of_list ps \<and> new_peers pm' = new_peers pm |-| fset_of_list ps \<and>
    fmdom (peer_data pm') = fmdom (peer_data pm) \<and>
    (\<forall>q. last_status pm' q = (if q \<in> set ps then Some Connecting else last_status pm q)) \<and>
    connected_peers pm' = connected_peers pm \<and> target_peer_number pm' = target_peer_number pm \<and>
    peers_to_discover pm' = peers_to_discover pm \<and> heartbeat pm' = heartbeat pm \<and>
    waiting_for_peer_discovery pm' = waiting_for_peer_discovery pm"
  using assms
proof (induction ps arbitrary: pm)
  case (Cons p ps)
  then obtain d where d: "fmlookup (peer_data pm) p = Some d" by (auto simp: fmlookup_dom_iff)
  let ?c = "\<lparr>established_timestamp = None, failure_timestamp = None, disconnect_timestamp = None,
    dial_timestamp = now p, connection_status = Connecting\<rparr>"
  let ?pm = "pm\<lparr>dialling_peers := finsert p (dialling_peers pm),
    peer_data := fmupd p (d\<lparr>connection_history := connection_history d @ [?c]\<rparr>) (peer_data pm),
    new_peers := new_peers pm |-| {|p|}\<rparr>"
  have step: "start_dialling now (p # ps) pm = start_dialling now ps ?pm"
    using d by (simp add: peer_connecting_def set_peer_data_def Let_def)
  have dom: "fmdom (peer_data ?pm) = fmdom (peer_data pm)" using fmdomI [OF d] by (simp add: finsert_absorb)
  have st: "last_status ?pm q = (if q = p then Some Connecting else last_status pm q)" for q
    by (simp add: last_status_def)
  obtain pm' where "start_dialling now ps ?pm = Inr pm'" and
    pm': "dialling_peers pm' = dialling_peers ?pm |\<union>| fset_of_list ps" "new_peers pm' = new_peers ?pm |-| fset_of_list ps"
    "fmdom (peer_data pm') = fmdom (peer_data ?pm)"
    "\<forall>q. last_status pm' q = (if q \<in> set ps then Some Connecting else last_status ?pm q)"
    "connected_peers pm' = connected_peers ?pm" "target_peer_number pm' = target_peer_number ?pm"
    "peers_to_discover pm' = peers_to_discover ?pm" "heartbeat pm' = heartbeat ?pm"
    "waiting_for_peer_discovery pm' = waiting_for_peer_discovery ?pm"
    using Cons.IH [of ?pm] Cons.prems dom by auto
  then show ?case
    unfolding step using fmdomI [OF d] by (intro exI [of _ pm']) (auto simp: finsert_absorb st)
qed (simp add: last_status_def)

lemma peers_to_dial_props:
  assumes t: "orderly t" and ok: "sets_ok pm"
  shows "\<exists>ps pm'. get_peers_to_dial P t n pm = Inr (ps, pm') \<and>
    distinct ps \<and> length ps \<le> unat n \<and>
    (\<forall>p \<in> set ps. p |\<in>| new_peers pm \<or> ended pm p) \<and>
    ps = get_best_peers_for_redial (data_order t) n pm @
      take (unat n - length (get_best_peers_for_redial (data_order t) n pm)) (new_order t (new_peers pm)) \<and>
    start_dialling (dial_now t) ps pm = Inr pm' \<and> set ps \<subseteq> fset (fmdom (peer_data pm))"
proof -
  let ?best = "get_best_peers_for_redial (data_order t) n pm"
  let ?new = "take (unat n - length ?best) (new_order t (new_peers pm))"
  have data: "enumerates (data_order t (fmdom (peer_data pm))) (fmdom (peer_data pm))"
    and new: "enumerates (new_order t (new_peers pm)) (new_peers pm)"
    using t by (auto simp: orderly_def)
  note best = best_peers_props [where order = "data_order t" and pm = pm and n = n, OF data]
  have len: "unat (of_nat (length ?best) :: u32) = length ?best"
    using best(2) u32_less [of n] by (simp add: unat_of_nat_u32)
  then have sub: "sub_ovf P n (of_nat (length ?best)) = Inr (n - of_nat (length ?best))"
    "unat (n - of_nat (length ?best)) = unat n - length ?best"
    using best(2) by (simp_all add: sub_ovf_def unat_sub word_le_nat_alt)
  have ps: "?best @ (if n - of_nat (length ?best) > 0
      then get_new_peers_for_dialling (new_order t) (n - of_nat (length ?best)) pm else []) = ?best @ ?new"
    using sub(2) by (auto simp: get_new_peers_take word_gt_0 simp flip: unat_eq_zero)
  have bs: "ended pm p" "p |\<in>| fmdom (peer_data pm)" if "p \<in> set ?best" for p
    using best(3) [OF that] redialable_status [of _ pm p] by (auto intro: fmdomI)
  have ns: "p |\<in>| new_peers pm" "last_status pm p = None" "p |\<in>| fmdom (peer_data pm)" if "p \<in> set ?new" for p
    using in_set_takeD [OF that] enumerates_set [OF new] ok by (auto simp: sets_ok_def)
  have "distinct (?best @ ?new)"
    using best(1) new bs(1) ns(2) by (fastforce simp: enumerates_def)
  moreover have "length (?best @ ?new) \<le> unat n" using best(2) by simp
  moreover have dom: "set (?best @ ?new) \<subseteq> fset (fmdom (peer_data pm))"
    using bs(2) ns(3) by auto
  moreover obtain pm' where "start_dialling (dial_now t) (?best @ ?new) pm = Inr pm'"
    using start_dialling_result [OF dom, of "dial_now t"] by blast
  ultimately show ?thesis
    using bs(1) ns(1) by (auto simp: get_peers_to_dial_def Let_def sub(1) ps)
qed

subsection \<open>The heartbeat\<close>

lemma timeout_keeps:
  assumes "orderly t" "sets_ok pm"
  shows "sets_ok (timeout_dialling_peers t pm)"
    and "fcard (connected_and_dialling_peers (timeout_dialling_peers t pm)) \<le> fcard (connected_and_dialling_peers pm)"
    and "ended (timeout_dialling_peers t pm) p \<Longrightarrow> ended pm p"
proof -
  let ?pm = "timeout_dialling_peers t pm"
  have "enumerates (dialling_order t (dialling_peers pm)) (dialling_peers pm)"
    using assms(1) by (simp add: orderly_def)
  note r = timeout_dialling_peers_result [OF this, unfolded Let_def]
  have sub: "connected_and_dialling_peers ?pm |\<subseteq>| connected_and_dialling_peers pm"
    using r by (auto simp: connected_and_dialling_peers_def)
  have "p |\<notin>| dialling_peers pm" if "p |\<in>| new_peers pm" for p
    using that assms(2) by (fastforce simp: sets_ok_def connected_and_dialling_peers_def)
  with r sub assms(2) show "sets_ok ?pm" by (auto simp: sets_ok_def)
  show "fcard (connected_and_dialling_peers ?pm) \<le> fcard (connected_and_dialling_peers pm)"
    using fcard_mono [OF sub] .
  show "ended pm p" if "ended ?pm p" using that r by (simp split: if_splits)
qed

lemma start_dialling_keeps:
  assumes "sets_ok pm" "set ps \<subseteq> fset (fmdom (peer_data pm))" "start_dialling now ps pm = Inr pm'"
  shows "sets_ok pm'" "fcard (connected_and_dialling_peers pm') \<le> fcard (connected_and_dialling_peers pm) + length ps"
proof -
  obtain r: "dialling_peers pm' = dialling_peers pm |\<union>| fset_of_list ps" "new_peers pm' = new_peers pm |-| fset_of_list ps"
    "fmdom (peer_data pm') = fmdom (peer_data pm)" "connected_peers pm' = connected_peers pm"
    "\<And>q. last_status pm' q = (if q \<in> set ps then Some Connecting else last_status pm q)"
    using start_dialling_result [OF assms(2), of now] assms(3) by auto
  show "sets_ok pm'"
    using assms(1) by (auto simp: sets_ok_def r fset_of_list.rep_eq connected_and_dialling_peers_def)
  have "fcard (connected_and_dialling_peers pm |\<union>| fset_of_list ps) \<le>
      fcard (connected_and_dialling_peers pm) + length ps"
    using card_Un_le [of "fset (connected_and_dialling_peers pm)" "set ps"] card_length [of ps]
    by (simp add: fcard.rep_eq fset_of_list.rep_eq)
  then show "fcard (connected_and_dialling_peers pm') \<le> fcard (connected_and_dialling_peers pm) + length ps"
    by (simp add: connected_and_dialling_peers_def r sup_assoc)
qed

lemma sets_ok_frame [simp]:
  "sets_ok (pm\<lparr>peers_to_discover := n\<rparr>) \<longleftrightarrow> sets_ok pm"
  "sets_ok (pm\<lparr>heartbeat := ts\<rparr>) \<longleftrightarrow> sets_ok pm"
  "sets_ok (pm\<lparr>waiting_for_peer_discovery := b\<rparr>) \<longleftrightarrow> sets_ok pm"
  "sets_ok (pm\<lparr>peer_identities := ids\<rparr>) \<longleftrightarrow> sets_ok pm"
  by (simp_all add: sets_ok_def last_status_def connected_and_dialling_peers_def)

lemma cd_frame [simp]:
  "connected_and_dialling_peers (pm\<lparr>peers_to_discover := n\<rparr>) = connected_and_dialling_peers pm"
  "connected_and_dialling_peers (pm\<lparr>heartbeat := ts\<rparr>) = connected_and_dialling_peers pm"
  "connected_and_dialling_peers (pm\<lparr>waiting_for_peer_discovery := b\<rparr>) = connected_and_dialling_peers pm"
  "connected_and_dialling_peers (pm\<lparr>peer_identities := ids\<rparr>) = connected_and_dialling_peers pm"
  by (simp_all add: connected_and_dialling_peers_def)

text \<open>
  A heartbeat times out dials and then starts dialling a list of peers, which is empty when it looks for none. The
  number of peers it looks for is what \<open>target - len\<close> yields, if that subtraction does not panic.
\<close>

lemma heartbeat_tick_shape:
  assumes "orderly t" "sets_ok pm"
    and "sub_ovf P (target_peer_number pm) (of_nat (fcard (connected_and_dialling_peers (timeout_dialling_peers t pm)))) = Inr n"
  shows "\<exists>ps pm' d. heartbeat_tick P t pm = Inr (ps, pm'\<lparr>peers_to_discover := d\<rparr>) \<and>
    start_dialling (dial_now t) ps (timeout_dialling_peers t pm) = Inr pm' \<and> distinct ps \<and> length ps \<le> unat n \<and>
    set ps \<subseteq> fset (fmdom (peer_data (timeout_dialling_peers t pm))) \<and>
    (\<forall>p \<in> set ps. p |\<in>| new_peers (timeout_dialling_peers t pm) \<or> ended (timeout_dialling_peers t pm) p)"
proof -
  let ?pm = "timeout_dialling_peers t pm"
  have ok: "sets_ok ?pm" using timeout_keeps(1) [OF assms(1,2)] .
  have target: "target_peer_number ?pm = target_peer_number pm"
    by (simp add: timeout_dialling_peers_def split: prod.splits)
  show ?thesis
  proof (cases "n > peers_to_discover ?pm div 4")
    case True
    obtain ps pm' pm2 where g: "get_peers_to_dial P t n ?pm = Inr (ps, pm')" "distinct ps" "length ps \<le> unat n"
      "start_dialling (dial_now t) ps ?pm = Inr pm2" "set ps \<subseteq> fset (fmdom (peer_data ?pm))"
      "\<forall>p \<in> set ps. p |\<in>| new_peers ?pm \<or> ended ?pm p"
      using peers_to_dial_props [OF assms(1) ok, of P n] by blast
    then have "pm' = pm2" by (auto simp: get_peers_to_dial_def Let_def run_simps)
    moreover have "sub_ovf P n (of_nat (length ps)) = Inr (n - of_nat (length ps))"
      using g(3) u32_less [of n] by (simp add: sub_ovf_def unat_of_nat_u32)
    ultimately have "heartbeat_tick P t pm = Inr (ps, pm2\<lparr>peers_to_discover := n - of_nat (length ps)\<rparr>)"
      using True g(1) assms(3) target by (simp add: heartbeat_tick_def Let_def)
    then show ?thesis using g by blast
  next
    case False
    then have "heartbeat_tick P t pm = Inr ([], ?pm\<lparr>peers_to_discover := peers_to_discover ?pm\<rparr>)"
      using assms(3) target by (simp add: heartbeat_tick_def Let_def)
    then show ?thesis by (intro exI [of _ "[]"] exI [of _ ?pm] exI [of _ "peers_to_discover ?pm"]) simp
  qed
qed

text \<open>Within the target the subtraction is exact; in a release build it always returns.\<close>

lemma missing_within_target:
  fixes target :: u32
  assumes "k \<le> unat target"
  shows "sub_ovf P target (of_nat k) = Inr (target - of_nat k)" "unat (target - of_nat k) = unat target - k"
proof -
  have "unat (of_nat k :: u32) = k" using assms u32_less [of target] by (simp add: unat_of_nat_u32)
  with assms show "sub_ovf P target (of_nat k) = Inr (target - of_nat k)" "unat (target - of_nat k) = unat target - k"
    by (simp_all add: sub_ovf_def unat_sub word_le_nat_alt)
qed

lemma heartbeat_tick_returns:
  assumes "orderly t" "sets_ok pm" "P = Release \<or> fcard (connected_and_dialling_peers pm) \<le> unat (target_peer_number pm)"
  shows "\<exists>r. heartbeat_tick P t pm = Inr r"
proof -
  let ?k = "fcard (connected_and_dialling_peers (timeout_dialling_peers t pm))"
  have "\<exists>n. sub_ovf P (target_peer_number pm) (of_nat ?k) = Inr n"
  proof (cases "P = Release")
    case False
    with assms(3) timeout_keeps(2) [OF assms(1,2)] have "?k \<le> unat (target_peer_number pm)" by linarith
    then show ?thesis using missing_within_target(1) by blast
  qed simp
  then show ?thesis using heartbeat_tick_shape [OF assms(1,2)] by blast
qed

lemma heartbeat_tick_ok:
  assumes "orderly t" "sets_ok pm" "heartbeat_tick P t pm = Inr (ps, pm')"
  shows "\<exists>pm2 d n. start_dialling (dial_now t) ps (timeout_dialling_peers t pm) = Inr pm2 \<and>
    pm' = pm2\<lparr>peers_to_discover := d\<rparr> \<and> distinct ps \<and> set ps \<subseteq> fset (fmdom (peer_data (timeout_dialling_peers t pm))) \<and>
    (\<forall>p \<in> set ps. p |\<in>| new_peers pm \<or> ended pm p) \<and>
    sub_ovf P (target_peer_number pm) (of_nat (fcard (connected_and_dialling_peers (timeout_dialling_peers t pm)))) = Inr n \<and>
    length ps \<le> unat n"
proof -
  let ?pm = "timeout_dialling_peers t pm"
  have same: "new_peers ?pm = new_peers pm" "target_peer_number ?pm = target_peer_number pm"
    by (simp_all add: timeout_dialling_peers_def split: prod.splits)
  obtain n where n: "sub_ovf P (target_peer_number pm) (of_nat (fcard (connected_and_dialling_peers ?pm))) = Inr n"
    using assms(3) same(2) by (auto simp: heartbeat_tick_def Let_def run_simps)
  from heartbeat_tick_shape [OF assms(1,2) n] obtain pm2 d where
    pm2: "start_dialling (dial_now t) ps ?pm = Inr pm2" "pm' = pm2\<lparr>peers_to_discover := d\<rparr>" "distinct ps" "length ps \<le> unat n"
    "set ps \<subseteq> fset (fmdom (peer_data ?pm))" "\<forall>p \<in> set ps. p |\<in>| new_peers ?pm \<or> ended ?pm p"
    using assms(3) by auto
  have "\<forall>p \<in> set ps. p |\<in>| new_peers pm \<or> ended pm p"
    using pm2(6) timeout_keeps(3) [OF assms(1,2)] unfolding same by blast
  with pm2 n show ?thesis by blast
qed

lemma heartbeat_tick_keeps:
  assumes "orderly t" "sets_ok pm" "heartbeat_tick P t pm = Inr (ps, pm')"
  shows "sets_ok pm'" "target_peer_number pm' = target_peer_number pm" "connected_peers pm' = connected_peers pm"
    "waiting_for_peer_discovery pm' = waiting_for_peer_discovery pm"
    "set ps \<subseteq> fset (dialling_peers pm')" "ps = [] \<Longrightarrow> new_peers pm' = new_peers pm \<and> (\<forall>p. ended pm' p \<longrightarrow> ended pm p)"
    "fcard (connected_and_dialling_peers pm) \<le> unat (target_peer_number pm) \<Longrightarrow>
       fcard (connected_and_dialling_peers pm') \<le> unat (target_peer_number pm)"
proof -
  let ?pm = "timeout_dialling_peers t pm"
  have same: "new_peers ?pm = new_peers pm" "target_peer_number ?pm = target_peer_number pm"
    "connected_peers ?pm = connected_peers pm" "waiting_for_peer_discovery ?pm = waiting_for_peer_discovery pm"
    by (simp_all add: timeout_dialling_peers_def split: prod.splits)
  obtain pm2 d n where pm2: "start_dialling (dial_now t) ps ?pm = Inr pm2" "pm' = pm2\<lparr>peers_to_discover := d\<rparr>"
    "set ps \<subseteq> fset (fmdom (peer_data ?pm))"
    "sub_ovf P (target_peer_number pm) (of_nat (fcard (connected_and_dialling_peers ?pm))) = Inr n" "length ps \<le> unat n"
    using heartbeat_tick_ok [OF assms] by blast
  note keep = start_dialling_keeps [OF timeout_keeps(1) [OF assms(1,2)] pm2(3,1)]
  show "sets_ok pm'" using keep(1) pm2(2) by simp
  have r: "target_peer_number pm2 = target_peer_number ?pm" "connected_peers pm2 = connected_peers ?pm"
    "waiting_for_peer_discovery pm2 = waiting_for_peer_discovery ?pm" "dialling_peers pm2 = dialling_peers ?pm |\<union>| fset_of_list ps"
    "new_peers pm2 = new_peers ?pm |-| fset_of_list ps"
    "\<And>q. last_status pm2 q = (if q \<in> set ps then Some Connecting else last_status ?pm q)"
    using start_dialling_result [OF pm2(3), of "dial_now t"] pm2(1) by auto
  with pm2(2) same show "target_peer_number pm' = target_peer_number pm" "connected_peers pm' = connected_peers pm"
    "waiting_for_peer_discovery pm' = waiting_for_peer_discovery pm" "set ps \<subseteq> fset (dialling_peers pm')"
    by (auto simp: fset_of_list.rep_eq)
  show "new_peers pm' = new_peers pm \<and> (\<forall>p. ended pm' p \<longrightarrow> ended pm p)" if "ps = []"
  proof -
    have "pm2 = ?pm" using pm2(1) that by simp
    moreover have "last_status pm' = last_status pm2" by (simp add: pm2(2) last_status_def fun_eq_iff)
    ultimately show ?thesis using timeout_keeps(3) [OF assms(1,2)] pm2(2) same(1) by auto
  qed
  show "fcard (connected_and_dialling_peers pm') \<le> unat (target_peer_number pm)"
    if le: "fcard (connected_and_dialling_peers pm) \<le> unat (target_peer_number pm)"
  proof -
    let ?k = "fcard (connected_and_dialling_peers ?pm)"
    have k: "?k \<le> unat (target_peer_number pm)" using timeout_keeps(2) [OF assms(1,2)] le by linarith
    with pm2(4) have "unat n = unat (target_peer_number pm) - ?k"
      using missing_within_target [OF k] by simp
    with k keep(2) pm2(2,5) show ?thesis by simp
  qed
qed

lemma heartbeat_loop_returns:
  assumes "list_all orderly ts" "sets_ok pm" "P = Release \<or> fcard (connected_and_dialling_peers pm) \<le> unat (target_peer_number pm)"
  shows "\<exists>r. heartbeat_loop P ts pm = Inr r"
  using assms
proof (induction ts arbitrary: pm)
  case (Cons t ts)
  then have o: "orderly t" "list_all orderly ts" by simp_all
  obtain ps pm1 where t: "heartbeat_tick P t pm = Inr (ps, pm1)"
    using heartbeat_tick_returns [OF o(1) Cons.prems(2,3)] by fastforce
  note keep = heartbeat_tick_keeps [OF o(1) Cons.prems(2) t]
  have "P = Release \<or> fcard (connected_and_dialling_peers pm1) \<le> unat (target_peer_number pm1)"
    using keep(2,7) Cons.prems(3) by auto
  from Cons.IH [OF o(2) keep(1) this] t show ?case by auto
qed simp

lemma heartbeat_loop_keeps:
  assumes "list_all orderly ts" "sets_ok pm" "heartbeat_loop P ts pm = Inr (pm', r)"
  shows "sets_ok pm' \<and> target_peer_number pm' = target_peer_number pm \<and> list_all orderly (heartbeat pm') \<and>
    connected_peers pm' = connected_peers pm \<and>
    (\<forall>ps. r = Ready (DialPeers ps) \<longrightarrow> ps \<noteq> [] \<and> distinct ps \<and> set ps \<subseteq> fset (dialling_peers pm') \<and>
       (\<forall>p \<in> set ps. p |\<in>| new_peers pm \<or> ended pm p)) \<and>
    (fcard (connected_and_dialling_peers pm) \<le> unat (target_peer_number pm) \<longrightarrow>
       fcard (connected_and_dialling_peers pm') \<le> unat (target_peer_number pm))"
  using assms
proof (induction ts arbitrary: pm)
  case (Cons t ts)
  then have o: "orderly t" "list_all orderly ts" by simp_all
  obtain ps pm1 where t: "heartbeat_tick P t pm = Inr (ps, pm1)"
    using Cons.prems(3) by (auto simp: run_simps)
  note keep = heartbeat_tick_keeps [OF o(1) Cons.prems(2) t]
  have ps: "distinct ps" "\<forall>p \<in> set ps. p |\<in>| new_peers pm \<or> ended pm p"
    using heartbeat_tick_ok [OF o(1) Cons.prems(2) t] by blast+
  show ?case
  proof (cases "ps = []")
    case True
    then have "heartbeat_loop P ts pm1 = Inr (pm', r)" using Cons.prems(3) t by simp
    with Cons.IH [OF o(2) keep(1) this] keep(2,3,7) keep(6) [OF True] show ?thesis by metis
  next
    case False
    then have "pm' = pm1\<lparr>heartbeat := ts\<rparr>" "r = Ready (DialPeers ps)" using Cons.prems(3) t by simp_all
    with False ps keep o(2) show ?thesis by simp
  qed
qed auto

lemma poll_returns:
  assumes "pm_inv target pm" "P = Release \<or> fcard (connected_and_dialling_peers pm) \<le> unat target"
  shows "\<exists>pm' r. PeerManager_poll P pm = Inr (pm', r)"
  using heartbeat_loop_returns [of "heartbeat pm" pm P] assms
  by (auto simp: PeerManager_poll_def pm_inv_def)

lemma poll_keeps:
  assumes "pm_inv target pm" "PeerManager_poll P pm = Inr (pm', r)"
  shows "pm_inv target pm' \<and> connected_peers pm' = connected_peers pm \<and>
    (\<forall>ps. r = Ready (DialPeers ps) \<longrightarrow> ps \<noteq> [] \<and> distinct ps \<and> set ps \<subseteq> fset (dialling_peers pm') \<and>
       (\<forall>p \<in> set ps. p |\<in>| new_peers pm \<or> ended pm p)) \<and>
    (fcard (connected_and_dialling_peers pm) \<le> unat target \<longrightarrow> fcard (connected_and_dialling_peers pm') \<le> unat target)"
proof (cases "\<not> waiting_for_peer_discovery pm \<and> peers_to_discover pm > 0")
  case True
  with assms show ?thesis by (auto simp: PeerManager_poll_def pm_inv_def)
next
  case False
  then have "heartbeat_loop P (heartbeat pm) pm = Inr (pm', r)" using assms(2) by (auto simp: PeerManager_poll_def)
  from heartbeat_loop_keeps [OF _ _ this] assms(1) show ?thesis by (simp add: pm_inv_def)
qed

subsection \<open>Events and discovered peers\<close>

lemma with_last_result:
  "with_last f p pm = Inr d' \<Longrightarrow> \<exists>d. fmlookup (peer_data pm) p = Some d \<and> connection_history d \<noteq> [] \<and> d' = update_last f d"
  by (auto simp: with_last_def split: option.splits if_splits)

lemma last_status_set:
  "last_status (set_peer_data p d pm) q =
     (if q = p then if connection_history d = [] then None else Some (connection_status (last (connection_history d)))
      else last_status pm q)"
  by (simp add: last_status_def set_peer_data_def)

lemma last_status_frame [simp]:
  "last_status (pm\<lparr>connected_peers := X\<rparr>) = last_status pm"
  "last_status (pm\<lparr>dialling_peers := X\<rparr>) = last_status pm"
  "last_status (pm\<lparr>new_peers := X\<rparr>) = last_status pm"
  by (simp_all add: last_status_def fun_eq_iff)

lemma update_average_history:
  "update_average_connection_duration P d = Inr d' \<Longrightarrow> connection_history d' = connection_history d"
  by (auto simp: update_average_connection_duration_def Let_def run_simps split: if_splits option.splits)

text \<open>
  What an event of the swarm about one peer does when it does not panic: the peer has a history, its last entry gets a new
  status, and it enters or leaves the two sets.
\<close>

definition swarm_effect ::
  "'p \<Rightarrow> ConnectionStatus \<Rightarrow> 'p fset \<Rightarrow> 'p fset \<Rightarrow> ('p, 'a, 'info) PeerManager \<Rightarrow> ('p, 'a, 'info) PeerManager \<Rightarrow> bool" where
  "swarm_effect p st C D pm pm' \<longleftrightarrow>
     last_status pm p \<noteq> None \<and> last_status pm' = (last_status pm)(p \<mapsto> st) \<and>
     connected_peers pm' = C \<and> dialling_peers pm' = D \<and> new_peers pm' = new_peers pm \<and>
     fmdom (peer_data pm') = fmdom (peer_data pm) \<and> target_peer_number pm' = target_peer_number pm \<and> heartbeat pm' = heartbeat pm"

lemma swarm_effect_set:
  assumes "fmlookup (peer_data pm) p = Some d" "connection_history d \<noteq> []"
    and "connection_history d' = connection_history (update_last f d)" "\<And>c. connection_status (f c) = st"
  shows "swarm_effect p st C D pm ((set_peer_data p d' pm)\<lparr>connected_peers := C, dialling_peers := D\<rparr>)"
proof -
  have "last_status (set_peer_data p d' pm) = (last_status pm)(p \<mapsto> st)"
    using assms(3,4) by (simp add: fun_eq_iff last_status_set update_last_def)
  moreover have "finsert p (fmdom (peer_data pm)) = fmdom (peer_data pm)"
    using fmdomI [OF assms(1)] by (simp add: finsert_absorb)
  moreover have "last_status pm p \<noteq> None" using assms(1,2) by (simp add: last_status_def)
  ultimately show ?thesis by (simp add: swarm_effect_def) (simp add: set_peer_data_def)
qed

lemma established_effect:
  assumes "on_connection_established now p pm = Inr pm'"
  shows "swarm_effect p Connected (finsert p (connected_peers pm)) (dialling_peers pm |-| {|p|}) pm pm'"
proof -
  let ?f = "\<lambda>c. c\<lparr>established_timestamp := Some now, connection_status := Connected\<rparr>"
  obtain d where d: "fmlookup (peer_data pm) p = Some d" "connection_history d \<noteq> []"
    and pm': "pm' = (set_peer_data p (update_last ?f d) pm)
      \<lparr>connected_peers := finsert p (connected_peers pm), dialling_peers := dialling_peers pm |-| {|p|}\<rparr>"
    using assms by (auto simp: on_connection_established_def run_simps Let_def set_peer_data_def dest!: with_last_result)
  show ?thesis unfolding pm' by (rule swarm_effect_set [OF d, of _ ?f]) simp_all
qed

lemma closed_effect:
  assumes "on_connection_closed P now p pm = Inr pm'"
  shows "swarm_effect p Disconnected (connected_peers pm |-| {|p|}) (dialling_peers pm) pm pm'"
proof -
  let ?f = "\<lambda>c. c\<lparr>connection_status := Disconnected, disconnect_timestamp := Some now\<rparr>"
  obtain d1 d' where w: "with_last ?f p pm = Inr d1" and u: "update_average_connection_duration P d1 = Inr d'"
    and pm': "pm' = (set_peer_data p d' pm)\<lparr>connected_peers := connected_peers pm |-| {|p|}, dialling_peers := dialling_peers pm\<rparr>"
    using assms by (auto simp: on_connection_closed_def run_simps Let_def set_peer_data_def)
  obtain d where d: "fmlookup (peer_data pm) p = Some d" "connection_history d \<noteq> []" "d1 = update_last ?f d"
    using with_last_result [OF w] by blast
  show ?thesis
    unfolding pm' by (rule swarm_effect_set [OF d(1,2), of _ ?f]) (use update_average_history [OF u] d(3) in simp_all)
qed

lemma dial_failure_effect:
  assumes "on_dial_failure P now (Some p) pm = Inr pm'"
  shows "swarm_effect p Failed (connected_peers pm) (dialling_peers pm |-| {|p|}) pm pm'"
proof -
  let ?f = "\<lambda>c. c\<lparr>connection_status := Failed, failure_timestamp := Some now\<rparr>"
  obtain d1 d' where w: "with_last ?f p pm = Inr d1" and u: "update_average_connection_duration P d1 = Inr d'"
    and pm': "pm' = (set_peer_data p d' pm)\<lparr>connected_peers := connected_peers pm, dialling_peers := dialling_peers pm |-| {|p|}\<rparr>"
    using assms by (auto simp: on_dial_failure_def run_simps Let_def set_peer_data_def)
  obtain d where d: "fmlookup (peer_data pm) p = Some d" "connection_history d \<noteq> []" "d1 = update_last ?f d"
    using with_last_result [OF w] by blast
  show ?thesis
    unfolding pm' by (rule swarm_effect_set [OF d(1,2), of _ ?f]) (use update_average_history [OF u] d(3) in simp_all)
qed

text \<open>The events of the swarm: three concern a peer, the others change nothing.\<close>

lemma swarm_event_cases:
  assumes "on_swarm_event P now ev pm = Inr pm'"
  obtains (Established) p where "ev = ConnectionEstablished p"
      "swarm_effect p Connected (finsert p (connected_peers pm)) (dialling_peers pm |-| {|p|}) pm pm'"
    | (Closed) p where "ev = ConnectionClosed p"
      "swarm_effect p Disconnected (connected_peers pm |-| {|p|}) (dialling_peers pm) pm pm'"
    | (Failure) p where "ev = DialFailure (Some p)"
      "swarm_effect p Failed (connected_peers pm) (dialling_peers pm |-| {|p|}) pm pm'"
    | (Other) "\<And>p. ev \<noteq> ConnectionEstablished p" "\<And>p. ev \<noteq> ConnectionClosed p" "\<And>p. ev \<noteq> DialFailure (Some p)" "pm' = pm"
proof (cases ev)
  case (ConnectionEstablished p)
  with assms show thesis by (intro Established) (auto simp: on_swarm_event_def intro: established_effect)
next
  case (ConnectionClosed p)
  with assms show thesis by (intro Closed) (auto simp: on_swarm_event_def intro: closed_effect)
next
  case (DialFailure peer)
  show thesis
  proof (cases peer)
    case None
    with assms DialFailure show thesis by (intro Other) (simp_all add: on_swarm_event_def on_dial_failure_def)
  next
    case (Some p)
    with assms DialFailure show thesis by (intro Failure) (auto simp: on_swarm_event_def intro: dial_failure_effect)
  qed
qed (use assms Other in \<open>simp_all add: on_swarm_event_def\<close>)

lemma swarm_effect_keeps:
  assumes "pm_inv target pm" "swarm_effect p st C D pm pm'" "C |\<union>| D |\<subseteq>| finsert p (connected_and_dialling_peers pm)"
  shows "pm_inv target pm'"
proof -
  have "p |\<notin>| new_peers pm" using assms(1,2) by (auto simp: pm_inv_def sets_ok_def swarm_effect_def)
  with assms show ?thesis
    by (auto simp: pm_inv_def sets_ok_def swarm_effect_def connected_and_dialling_peers_def dest!: fsubsetD)
qed

lemma swarm_event_keeps:
  assumes "pm_inv target pm" "on_swarm_event P now ev pm = Inr pm'"
  shows "pm_inv target pm'"
  using assms(2)
proof (cases rule: swarm_event_cases)
  case (Established p)
  then show ?thesis using swarm_effect_keeps [OF assms(1) Established(2)] by (auto simp: connected_and_dialling_peers_def)
next
  case (Closed p)
  then show ?thesis using swarm_effect_keeps [OF assms(1) Closed(2)] by (auto simp: connected_and_dialling_peers_def)
next
  case (Failure p)
  then show ?thesis using swarm_effect_keeps [OF assms(1) Failure(2)] by (auto simp: connected_and_dialling_peers_def)
qed (use assms in simp)

text \<open>
  What \<open>add_peers\<close> computes, without its loop: the known data takes precedence over the new, and the order
  of the iteration does not matter.
\<close>

lemma add_peers_loop_eq:
  assumes "distinct ps" "set ps \<subseteq> fset (fmdom ids)"
  shows "add_peers_loop ps ids pm =
    pm\<lparr>peer_data := fmmap PeerData_new (fmrestrict_set (set ps) ids) ++\<^sub>f peer_data pm,
       new_peers := new_peers pm |\<union>| (fset_of_list ps |-| fmdom (peer_data pm))\<rparr>"
  using assms
proof (induction ps arbitrary: pm)
  case (Cons p ps)
  then obtain a where a: "fmlookup ids p = Some a" by (auto simp: fmlookup_dom_iff)
  let ?new = "\<lambda>ps. fmmap PeerData_new (fmrestrict_set (set ps) ids)"
  show ?case
  proof (cases "p |\<in>| fmdom (peer_data pm)")
    case True
    then have "?new (p # ps) ++\<^sub>f peer_data pm = ?new ps ++\<^sub>f peer_data pm"
      "fset_of_list (p # ps) |-| fmdom (peer_data pm) = fset_of_list ps |-| fmdom (peer_data pm)"
      by (auto intro!: fmap_ext simp: fmlookup_restrict_set)
    with True a Cons show ?thesis by simp
  next
    case False
    let ?m = "fmupd p (PeerData_new a) (peer_data pm)"
    have "?new (p # ps) ++\<^sub>f peer_data pm = ?new ps ++\<^sub>f ?m"
      using False a by (auto intro!: fmap_ext simp: fmlookup_restrict_set fmdom_notD)
    moreover have "finsert p (new_peers pm) |\<union>| (fset_of_list ps |-| fmdom ?m) =
        new_peers pm |\<union>| (fset_of_list (p # ps) |-| fmdom (peer_data pm))"
      using False Cons.prems by (auto simp: fset_eq_iff)
    ultimately show ?thesis using False a Cons by simp
  qed
qed simp

lemma add_peers_eq:
  assumes "enumerates (order (fmdom ids)) (fmdom ids)"
  shows "add_peers order ids pm =
    pm\<lparr>peer_data := fmmap PeerData_new ids ++\<^sub>f peer_data pm,
       new_peers := new_peers pm |\<union>| (fmdom ids |-| fmdom (peer_data pm)), waiting_for_peer_discovery := False\<rparr>"
proof -
  have "fmrestrict_set (set (order (fmdom ids))) ids = ids"
    unfolding enumerates_set [OF assms] by (auto intro!: fmap_ext simp: fmlookup_restrict_set fmdom_notD)
  with add_peers_loop_eq [of "order (fmdom ids)" ids pm] assms enumerates_set [OF assms] show ?thesis
    by (simp add: add_peers_def enumerates_def)
qed

lemma last_status_add_peers: "last_status (add_peers order ids pm) = last_status pm"
proof -
  have "last_status (add_peers_loop ps ids pm) = last_status pm" for ps
  proof (induction ps arbitrary: pm)
    case (Cons p ps)
    have "last_status (pm\<lparr>peer_data := fmupd p (PeerData_new addr) (peer_data pm), new_peers := finsert p (new_peers pm)\<rparr>) =
        last_status pm" if "p |\<notin>| fmdom (peer_data pm)" for addr
      using that by (auto simp: fun_eq_iff last_status_def PeerData_new_def fmdom_notD)
    with Cons show ?case by (auto split: option.splits)
  qed simp
  then show ?thesis by (simp add: add_peers_def last_status_def fun_eq_iff)
qed

lemma add_peers_keeps: "pm_inv target pm \<Longrightarrow> pm_inv target (add_peers order ids pm)"
proof -
  have "pm_inv target (add_peers_loop ps ids pm)" if "pm_inv target pm" for ps
    using that
  proof (induction ps arbitrary: pm)
    case (Cons p ps)
    have "pm_inv target (pm\<lparr>peer_data := fmupd p (PeerData_new addr) (peer_data pm), new_peers := finsert p (new_peers pm)\<rparr>)"
      (is "pm_inv target ?pm") if "p |\<notin>| fmdom (peer_data pm)" for addr
    proof -
      have "last_status ?pm q = (if q = p then None else last_status pm q)" for q
        by (simp add: last_status_def PeerData_new_def)
      moreover have "last_status pm p = None" using that by (simp add: last_status_def fmdom_notD)
      ultimately show ?thesis
        using Cons.prems by (auto simp: sets_ok_def pm_inv_def connected_and_dialling_peers_def)
    qed
    with Cons show ?case by (auto split: option.splits)
  qed simp
  then show "pm_inv target pm \<Longrightarrow> pm_inv target (add_peers order ids pm)" by (simp add: add_peers_def pm_inv_def)
qed

subsection \<open>The manager under its environment\<close>

datatype ('p, 'a, 'info) pm_label =
    PM_Ticks "'p tick list"
  | PM_Poll "'p PeerManagerEvent poll"
  | PM_Swarm instant "'p FromSwarm"
  | PM_AddPeers "('p, 'a option) fmap"
  | PM_Identity 'p 'info

text \<open>
  The steps: ticks of the heartbeat become due, the swarm polls the manager or reports any event, the main
  loop passes discovered peers and identities on.
\<close>

inductive pm_step ::
  "profile \<Rightarrow> ('p, 'a, 'info) PeerManager \<Rightarrow> ('p, 'a, 'info) pm_label \<Rightarrow> ('p, 'a, 'info) PeerManager \<Rightarrow> bool"
  for P :: profile
where
  pm_ticks: "list_all orderly ts \<Longrightarrow> pm_step P pm (PM_Ticks ts) (pm\<lparr>heartbeat := heartbeat pm @ ts\<rparr>)"
| pm_poll: "PeerManager_poll P pm = Inr (pm', r) \<Longrightarrow> pm_step P pm (PM_Poll r) pm'"
| pm_swarm: "on_swarm_event P now ev pm = Inr pm' \<Longrightarrow> pm_step P pm (PM_Swarm now ev) pm'"
| pm_add: "enumerates (order (fmdom ids)) (fmdom ids) \<Longrightarrow> pm_step P pm (PM_AddPeers ids) (add_peers order ids pm)"
| pm_identity: "pm_step P pm (PM_Identity p info) (add_peer_identity p info pm)"

definition pm_init :: "u32 \<Rightarrow> ('p, 'a, 'info) PeerManager \<Rightarrow> bool" where
  "pm_init target pm \<longleftrightarrow> (\<exists>from_json file. load_peer_data from_json file (PeerManager_new target) = Inr pm)"

lemma pm_init_data:
  assumes "pm_init target pm"
  shows "\<exists>m. pm = (PeerManager_new target)\<lparr>peer_data := m\<rparr>"
proof -
  have "PeerManager_new target = (PeerManager_new target)\<lparr>peer_data := peer_data (PeerManager_new target)\<rparr>"
    by (simp add: PeerManager_new_def)
  with assms show ?thesis
    unfolding pm_init_def load_peer_data_def by (fastforce split: PeerDataFile.splits option.splits)
qed

interpretation peer_manager_system: inductive_invariant "pm_init target" "pm_step P" "pm_inv target" for target P
proof
  show "pm_inv target pm" if init: "pm_init target pm" for pm :: "('a, 'b, 'c) PeerManager"
  proof -
    obtain m where "pm = (PeerManager_new target)\<lparr>peer_data := m\<rparr>"
      using pm_init_data [OF init] by blast
    then show ?thesis
      by (simp add: PeerManager_new_def pm_inv_def sets_ok_def connected_and_dialling_peers_def)
  qed
next
  fix pm l pm'
  assume inv: "pm_inv target pm" and step: "pm_step P pm l pm'"
  from step show "pm_inv target pm'"
  proof cases
    case (pm_ticks ts)
    with inv show ?thesis by (simp add: pm_inv_def)
  next
    case (pm_poll r)
    with poll_keeps [OF inv] show ?thesis by blast
  next
    case (pm_swarm now ev)
    with swarm_event_keeps [OF inv] show ?thesis by blast
  next
    case (pm_add order ids)
    with inv show ?thesis by (simp add: add_peers_keeps)
  next
    case (pm_identity p info)
    with inv show ?thesis by (simp add: add_peer_identity_def pm_inv_def)
  qed
qed

end
