(* ===== verification/Peer_Manager_Properties.thy ===== *)
theory Peer_Manager_Properties
  imports Peer_Manager_Invariant
begin

section \<open>Properties of the peer manager\<close>

text \<open>
  The theorems about \<open>src/peer_manager.rs\<close>. The witnesses use natural numbers as peer ids and a
  heartbeat that reads one clock value per tick and iterates in increasing order.
\<close>

definition demo_tick :: "instant \<Rightarrow> nat tick" where
  "demo_tick now =
     \<lparr>timeout_now = now, dial_now = (\<lambda>_. now), dialling_order = sorted_list_of_fset,
      new_order = sorted_list_of_fset, data_order = sorted_list_of_fset\<rparr>"

lemma sorted_list_of_fset_enumerates: "enumerates (sorted_list_of_fset S) S"
  by (simp add: enumerates_def sorted_list_of_fset.rep_eq fset_of_list.abs_eq fset_inverse)

lemma demo_tick_orderly: "orderly (demo_tick now)"
  by (simp add: orderly_def demo_tick_def sorted_list_of_fset_enumerates)

lemma sorted_list_of_fset_small [simp]:
  "sorted_list_of_fset {||} = []" "sorted_list_of_fset {|x|} = [x]"
  by (simp_all add: sorted_list_of_fset.rep_eq)

lemma sorted_list_of_fset_two: "sorted_list_of_fset {|1, 2, 1|} = [1, 2 :: nat]"
  by (simp add: sorted_list_of_fset.rep_eq insert_commute)

text \<open>
  A manager with target 1 that has been told about peer 1, before and after it dials that peer.
\<close>

type_synonym demo_manager = "(nat, string, unit) PeerManager"

definition demo_known :: demo_manager where
  "demo_known = add_peers sorted_list_of_fset (fmupd 1 None fmempty) (PeerManager_new 1)"

definition demo_dialling :: demo_manager where
  "demo_dialling =
     \<lparr>connected_peers = {||}, dialling_peers = {|1|}, new_peers = {||},
      peer_data = fmupd 1
        \<lparr>connection_history =
           [\<lparr>established_timestamp = None, failure_timestamp = None, disconnect_timestamp = None,
             dial_timestamp = 7, connection_status = Connecting\<rparr>],
         average_connection_duration = None, multiaddr = None\<rparr> fmempty,
      peer_identities = fmempty, target_peer_number = 1, peers_to_discover = 0, heartbeat = [],
      waiting_for_peer_discovery = False\<rparr>"

lemmas pm_eval =
  demo_known_def PeerManager_new_def PeerData_new_def add_peers_def PeerManager_poll_def heartbeat_tick_def
  timeout_dialling_peers_def connected_and_dialling_peers_def get_peers_to_dial_def
  get_best_peers_for_redial_def peer_data_iter_def redialable_def get_new_peers_for_dialling_def
  peer_connecting_def set_peer_data_def Let_def sub_ovf_def demo_tick_def List.map_filter_simps
  fcard.rep_eq

lemma demo_dial_step:
  "PeerManager_poll Dev (demo_known\<lparr>heartbeat := [demo_tick 7]\<rparr>) = Inr (demo_dialling, Ready (DialPeers [1]))"
  by (simp add: pm_eval demo_dialling_def)

abbreviation pm_reach :: "u32 \<Rightarrow> profile \<Rightarrow> ('p, 'a, 'info) PeerManager \<Rightarrow> bool" where
  "pm_reach target P \<equiv> reach (pm_init target) (pm_step P)"

lemma demo_known_reachable: "pm_reach 1 Dev demo_known"
proof -
  have "pm_init 1 (PeerManager_new 1 :: demo_manager)"
    unfolding pm_init_def load_peer_data_def by (intro exI [of _ NoFile] exI) simp
  then have "pm_reach 1 Dev (PeerManager_new 1 :: demo_manager)" by (rule reach_init)
  then show ?thesis
    unfolding demo_known_def by (rule reach_step) (rule pm_add, rule sorted_list_of_fset_enumerates)
qed

lemma demo_ticking_reachable: "pm_reach 1 Dev (demo_known\<lparr>heartbeat := [demo_tick 7]\<rparr>)"
proof -
  have "heartbeat demo_known = []" by (simp add: pm_eval)
  then show ?thesis
    using reach_step [OF demo_known_reachable pm_ticks [of "[demo_tick 7]"]] by (simp add: demo_tick_orderly)
qed

lemma demo_dialling_reachable: "pm_reach 1 Dev demo_dialling"
  by (rule reach_step [OF demo_ticking_reachable pm_poll [OF demo_dial_step]])


lemma reach_sets_ok: "reach (pm_init target) (pm_step P) pm \<Longrightarrow> sets_ok pm"
  using peer_manager_system.reach_inv by (auto simp: pm_inv_def)

subsection \<open>The target\<close>

text \<open>
  C9: the manager itself keeps the target. Whatever the swarm has reported so far, in a state in which connected and
  dialling peers are within the target \<open>poll\<close> does not panic in either build profile, and every step the manager can make
  leads to a state within the target, with one exception: a connection of a peer that is neither connected nor being
  dialled. A list of peers to dial that \<open>poll\<close> returns is not empty, has no repetition, and contains only peers that were
  new or whose last attempt had failed or been closed; they are all recorded as being dialled.
\<close>

theorem peer_manager_keeps_target:
  assumes "reach (pm_init target) (pm_step P) pm" "fcard (connected_and_dialling_peers pm) \<le> unat target"
  shows "(\<exists>pm' r. PeerManager_poll P pm = Inr (pm', r) \<and>
       (\<forall>ps. r = Ready (DialPeers ps) \<longrightarrow> ps \<noteq> [] \<and> distinct ps \<and> set ps \<subseteq> fset (dialling_peers pm') \<and>
          (\<forall>p \<in> set ps. p |\<in>| new_peers pm \<or> last_status pm p \<in> {Some Failed, Some Disconnected}))) \<and>
    (\<forall>l pm'. pm_step P pm l pm' \<longrightarrow> fcard (connected_and_dialling_peers pm') \<le> unat target \<or>
       (\<exists>now p. l = PM_Swarm now (ConnectionEstablished p) \<and> p |\<notin>| connected_and_dialling_peers pm))"
proof -
  have inv: "pm_inv target pm" using assms(1) by (rule peer_manager_system.reach_inv)
  have shrink: "fcard (connected_and_dialling_peers pm') \<le> unat target"
    if "connected_and_dialling_peers pm' |\<subseteq>| connected_and_dialling_peers pm" for pm' :: "('a, 'b, 'c) PeerManager"
    using fcard_mono [OF that] assms(2) by linarith
  have swarm: "fcard (connected_and_dialling_peers pm') \<le> unat target \<or>
      (\<exists>p. ev = ConnectionEstablished p \<and> p |\<notin>| connected_and_dialling_peers pm)"
    if "on_swarm_event P now ev pm = Inr pm'" for now ev pm'
    using that
  proof (cases rule: swarm_event_cases)
    case (Established p)
    show ?thesis
    proof (cases "p |\<in>| connected_and_dialling_peers pm")
      case True
      with Established(2) have "connected_and_dialling_peers pm' |\<subseteq>| connected_and_dialling_peers pm"
        unfolding swarm_effect_def connected_and_dialling_peers_def by auto
      then show ?thesis using shrink by blast
    qed (use Established(1) in blast)
  next
    case (Closed p)
    then have "connected_and_dialling_peers pm' |\<subseteq>| connected_and_dialling_peers pm"
      unfolding swarm_effect_def connected_and_dialling_peers_def by auto
    then show ?thesis using shrink by blast
  next
    case (Failure p)
    then have "connected_and_dialling_peers pm' |\<subseteq>| connected_and_dialling_peers pm"
      unfolding swarm_effect_def connected_and_dialling_peers_def by auto
    then show ?thesis using shrink by blast
  qed (use assms(2) in simp)
  have "fcard (connected_and_dialling_peers pm') \<le> unat target \<or>
      (\<exists>now p. l = PM_Swarm now (ConnectionEstablished p) \<and> p |\<notin>| connected_and_dialling_peers pm)"
    if "pm_step P pm l pm'" for l pm'
    using that
  proof cases
    case (pm_poll r)
    with poll_keeps [OF inv] assms(2) show ?thesis by blast
  next
    case (pm_swarm now ev)
    with swarm show ?thesis by blast
  next
    case (pm_add order ids)
    then have "connected_and_dialling_peers pm' = connected_and_dialling_peers pm"
      using add_peers_eq [of order ids pm] by (simp add: connected_and_dialling_peers_def)
    with assms(2) show ?thesis by simp
  qed (use assms(2) in \<open>simp_all add: add_peer_identity_def\<close>)
  moreover obtain pm' r where poll: "PeerManager_poll P pm = Inr (pm', r)"
    using poll_returns [OF inv] assms(2) by blast
  ultimately show ?thesis using poll_keeps [OF inv poll] poll by blast
qed

theorem peer_manager_keeps_target_witness:
  "fcard (connected_and_dialling_peers demo_known) \<le> 1 \<and>
   (\<exists>pm' r. PeerManager_poll Dev (demo_known\<lparr>heartbeat := [demo_tick 7]\<rparr>) = Inr (pm', r) \<and>
     fcard (connected_and_dialling_peers pm') \<le> 1)"
proof -
  let ?pm = "demo_known\<lparr>heartbeat := [demo_tick 7]\<rparr>"
  have le: "fcard (connected_and_dialling_peers ?pm) \<le> unat 1" by (simp add: pm_eval)
  obtain pm' r where poll: "PeerManager_poll Dev ?pm = Inr (pm', r)"
    using peer_manager_keeps_target [OF demo_ticking_reachable le] by blast
  with peer_manager_keeps_target [OF demo_ticking_reachable le] pm_poll [OF poll] le show ?thesis by fastforce
qed

text \<open>
  C26: when more peers are connected or being dialled than the target allows, the next heartbeat
  underflows: with overflow checks \<open>poll\<close> panics, without them the number of missing peers wraps around
  to almost the whole 32-bit range.
\<close>

theorem over_target_underflows:
  assumes "heartbeat pm = t # ts" "waiting_for_peer_discovery pm \<or> peers_to_discover pm = 0"
    and "unat (target_peer_number pm) < fcard (connected_and_dialling_peers (timeout_dialling_peers t pm))"
    and "fcard (connected_and_dialling_peers (timeout_dialling_peers t pm)) < 2 ^ 32"
  shows "PeerManager_poll Dev pm = Inl ArithmeticOverflow \<and>
    (\<exists>missing. sub_ovf Release (target_peer_number pm)
        (of_nat (fcard (connected_and_dialling_peers (timeout_dialling_peers t pm)))) = Inr missing \<and>
      unat missing = 2 ^ 32 -
        (fcard (connected_and_dialling_peers (timeout_dialling_peers t pm)) - unat (target_peer_number pm)))"
proof -
  let ?pm = "timeout_dialling_peers t pm"
  have target: "target_peer_number ?pm = target_peer_number pm"
    by (simp add: timeout_dialling_peers_def split: prod.splits)
  have card: "unat (of_nat (fcard (connected_and_dialling_peers ?pm)) :: u32) = fcard (connected_and_dialling_peers ?pm)"
    using assms(4) by (rule unat_of_nat_u32)
  have "PeerManager_poll Dev pm = Inl ArithmeticOverflow"
    using assms(1-3) by (auto simp: PeerManager_poll_def heartbeat_tick_def Let_def sub_ovf_def card target)
  moreover have "unat (target_peer_number pm - of_nat (fcard (connected_and_dialling_peers ?pm))) =
      2 ^ 32 - (fcard (connected_and_dialling_peers ?pm) - unat (target_peer_number pm))"
    using assms(3,4) by (simp add: unat_sub_if_size card word_size)
  ultimately show ?thesis by simp
qed

text \<open>
  The state is reached when a dial that was given up after \<open>DIAL_TIMEOUT\<close> succeeds after all: peer 1 is
  dialled and times out, peer 2 is dialled in its place, and both connect.
\<close>

definition demo_late :: "demo_manager run" where
  "demo_late =
     run_bind (PeerManager_poll Dev
         ((add_peers sorted_list_of_fset (fmupd 2 None fmempty) demo_dialling)\<lparr>heartbeat := [demo_tick 6000000000]\<rparr>))
       (\<lambda>(pm, _).
     run_bind (on_swarm_event Dev 6100000000 (ConnectionEstablished 1) pm) (\<lambda>pm.
     run_bind (on_swarm_event Dev 6200000000 (ConnectionEstablished 2) pm) (\<lambda>pm.
       Inr (pm\<lparr>heartbeat := [demo_tick 6500000000]\<rparr>))))"

theorem over_target_underflows_witness:
  "\<exists>pm. demo_late = Inr pm \<and> PeerManager_poll Dev pm = Inl ArithmeticOverflow"
proof -
  obtain pm where pm: "demo_late = Inr pm" "heartbeat pm = [demo_tick 6500000000]" "peers_to_discover pm = 0"
    "target_peer_number pm = 1" "fcard (connected_and_dialling_peers (timeout_dialling_peers (demo_tick 6500000000) pm)) = 2"
    by (simp add: demo_late_def demo_dialling_def pm_eval on_swarm_event_def on_connection_established_def with_last_def
        update_last_def as_millis_def DIAL_TIMEOUT_def sorted_list_of_fset_two [simplified])
  with over_target_underflows [of pm "demo_tick 6500000000" "[]"] show ?thesis by auto
qed


subsection \<open>Swarm events\<close>

text \<open>
  C27: a connection the swarm reports as established makes the manager panic exactly when the peer has no
  connection history: every inbound connection from a peer the node has never dialled does.
\<close>

theorem established_panics_iff_no_history:
  "panics (on_swarm_event P now (ConnectionEstablished p) pm) \<longleftrightarrow> last_status pm p = None"
  by (auto simp: on_swarm_event_def on_connection_established_def run_simps with_last_def last_status_def Let_def
      split: option.splits)

subsection \<open>Discovered peers\<close>

text \<open>
  C28: adding discovered peers is the union of two maps in which known peers keep their data; the peers that were not
  known become new peers, and the manager stops waiting. The result does not depend on the order in which
  the discovered peers are visited.
\<close>

theorem add_peers_is_union:
  assumes "enumerates (order (fmdom ids)) (fmdom ids)"
  shows "add_peers order ids pm =
    pm\<lparr>peer_data := fmmap PeerData_new ids ++\<^sub>f peer_data pm,
       new_peers := new_peers pm |\<union>| (fmdom ids |-| fmdom (peer_data pm)), waiting_for_peer_discovery := False\<rparr>"
  using add_peers_eq [where order = order, OF assms] .

theorem add_peers_is_union_witness:
  "new_peers demo_known = {|1|} \<and> fmlookup (peer_data demo_known) 1 = Some (PeerData_new None)"
  using add_peers_is_union [of sorted_list_of_fset "fmupd 1 None fmempty" "PeerManager_new 1 :: demo_manager",
      OF sorted_list_of_fset_enumerates]
  by (simp add: demo_known_def PeerManager_new_def)

subsection \<open>Timeouts\<close>

text \<open>
  C29: a heartbeat gives up exactly the dials that have been connecting for more than \<open>DIAL_TIMEOUT\<close>
  milliseconds and the dialling peers without history: these leave the dialling set, the former are marked as
  timed out, and the status of every other peer is unchanged.
\<close>

theorem timeout_gives_up_old_dials:
  assumes "enumerates (dialling_order t (dialling_peers pm)) (dialling_peers pm)"
  shows "dialling_peers (timeout_dialling_peers t pm) =
      ffilter (\<lambda>p. \<not> expired (timeout_now t) (peer_data pm) p \<and> \<not> no_history (peer_data pm) p) (dialling_peers pm) \<and>
    (\<forall>p. last_status (timeout_dialling_peers t pm) p =
      (if p |\<in>| dialling_peers pm \<and> expired (timeout_now t) (peer_data pm) p then Some Timeout
       else last_status pm p))"
  using timeout_dialling_peers_result [OF assms] by (simp add: Let_def)

theorem timeout_gives_up_old_dials_witness:
  "dialling_peers (timeout_dialling_peers (demo_tick 6000000000) demo_dialling) = {||}"
proof -
  have "1 |\<in>| dialling_peers demo_dialling \<and> dialling_peers demo_dialling = {|1|} \<and>
    expired (timeout_now (demo_tick 6000000000)) (peer_data demo_dialling) 1"
    by (simp add: demo_dialling_def demo_tick_def expired_def as_millis_def DIAL_TIMEOUT_def)
  moreover have "enumerates (dialling_order (demo_tick 6000000000) (dialling_peers demo_dialling)) (dialling_peers demo_dialling)"
    using demo_tick_orderly by (simp add: orderly_def)
  ultimately show ?thesis
    using timeout_gives_up_old_dials [of "demo_tick 6000000000" demo_dialling] by (auto simp: fset_eq_iff)
qed

subsection \<open>Whom to redial\<close>

lemma sorted_take_le:
  assumes "sorted (map f xs)" "x \<in> set (take n xs)" "y \<in> set (drop n xs)"
  shows "f x \<le> f y"
proof -
  have "sorted (map f (take n xs) @ map f (drop n xs))"
    using assms(1) by (simp flip: map_append)
  with assms(2,3) show ?thesis by (simp add: sorted_append)
qed

text \<open>
  C30: the peers chosen for redialling are the eligible peers with the lowest scores: whenever an
  eligible peer is left out, its average connection duration is at least that of every chosen peer.
\<close>

theorem redial_prefers_lowest_scores:
  assumes "enumerates (order (fmdom (peer_data pm))) (fmdom (peer_data pm))"
    and "p \<in> set (get_best_peers_for_redial order n pm)" "fmlookup (peer_data pm) p = Some dp"
    and "q \<notin> set (get_best_peers_for_redial order n pm)" "fmlookup (peer_data pm) q = Some dq" "redialable dq"
  shows "get_peer_score dp \<le> get_peer_score dq"
proof -
  let ?f = "\<lambda>(_ :: 'a, d :: 'b PeerData). get_peer_score d"
  let ?xs = "sort_key ?f (filter (\<lambda>(_, d). redialable d) (peer_data_iter order (peer_data pm)))"
  note iter = peer_data_iter_props(2) [of order "peer_data pm", OF assms(1)]
  have best: "get_best_peers_for_redial order n pm = map fst (take (unat n) ?xs)"
    by (simp add: get_best_peers_for_redial_def)
  have "(q, dq) \<in> set ?xs" using assms(5,6) iter by simp
  moreover have "(q, dq) \<notin> set (take (unat n) ?xs)" using assms(4) best by force
  ultimately have q: "(q, dq) \<in> set (drop (unat n) ?xs)"
    by (metis Un_iff append_take_drop_id set_append)
  obtain d where d: "(p, d) \<in> set (take (unat n) ?xs)" using assms(2) best by auto
  from in_set_takeD [OF d] have "fmlookup (peer_data pm) p = Some d" by (simp add: iter)
  with d assms(3) have p: "(p, dp) \<in> set (take (unat n) ?xs)" by simp
  have "sorted (map ?f ?xs)" by simp
  from sorted_take_le [OF this p q] show ?thesis by simp
qed

definition demo_peer :: "usize \<Rightarrow> string PeerData" where
  "demo_peer avg =
     \<lparr>connection_history =
        [\<lparr>established_timestamp = Some 1, failure_timestamp = None, disconnect_timestamp = Some 2,
          dial_timestamp = 0, connection_status = Disconnected\<rparr>],
      average_connection_duration = Some avg, multiaddr = None\<rparr>"

definition demo_history :: demo_manager where
  "demo_history = (PeerManager_new 1)\<lparr>peer_data := fmupd 1 (demo_peer 9000) (fmupd 2 (demo_peer 4000) fmempty)\<rparr>"

theorem redial_prefers_lowest_scores_witness:
  "get_best_peers_for_redial sorted_list_of_fset 1 demo_history = [2] \<and>
   get_peer_score (demo_peer 4000) \<le> get_peer_score (demo_peer 9000)"
proof -
  have "sorted_list_of_fset {|1, 2|} = [1, 2 :: nat]" by (simp add: sorted_list_of_fset.rep_eq)
  then have "get_best_peers_for_redial sorted_list_of_fset 1 demo_history = [2]"
    by (simp add: pm_eval demo_history_def demo_peer_def MIN_AVERAGE_CONNECTION_DURATION_def get_peer_score_def)
  moreover have "fmlookup (peer_data demo_history) 2 = Some (demo_peer 4000)"
    "fmlookup (peer_data demo_history) 1 = Some (demo_peer 9000)" "redialable (demo_peer 9000)"
    by (simp_all add: demo_history_def demo_peer_def redialable_def MIN_AVERAGE_CONNECTION_DURATION_def)
  ultimately show ?thesis
    using redial_prefers_lowest_scores [of sorted_list_of_fset demo_history 2 1 "demo_peer 4000" 1 "demo_peer 9000"]
    by (simp add: sorted_list_of_fset_enumerates)
qed


subsection \<open>The average connection duration\<close>

lemma weighted_mean_bounds:
  fixes a m n :: nat
  assumes "0 < n"
  shows "min a m \<le> (a * (n - 1) + m) div n" "(a * (n - 1) + m) div n \<le> max a m"
proof -
  obtain k where n: "n = Suc k" using assms gr0_implies_Suc by blast
  have "min a m * n \<le> a * k + m" using n by (cases "a \<le> m") (auto simp: min_def algebra_simps)
  then show "min a m \<le> (a * (n - 1) + m) div n" using n by (simp add: less_eq_div_iff_mult_less_eq)
  have "a * k \<le> max a m * k" "m \<le> max a m" by auto
  then have "a * k + m \<le> max a m * n" unfolding n mult_Suc_right by linarith
  then show "(a * (n - 1) + m) div n \<le> max a m"
    using n assms by (metis diff_Suc_1 div_le_mono nonzero_mult_div_cancel_right less_not_refl)
qed

text \<open>
  C31: when a connection ends, the average becomes the mean of the old average, weighted with the earlier
  attempts, and the new duration in milliseconds, rounded down; it lies between the two. The hypothesis says that
  the weighted sum fits in 64 bits.
\<close>

theorem average_is_weighted_mean:
  assumes "connection_history d = cs @ [c]" "new_duration c = Inr dur" "average_connection_duration d = Some a"
    and "unat a * length cs + as_millis dur < 2 ^ 64" "length cs + 1 < 2 ^ 64"
  shows "\<exists>avg. update_average_connection_duration P d = Inr (d\<lparr>average_connection_duration := Some avg\<rparr>) \<and>
    unat avg = (unat a * length cs + as_millis dur) div (length cs + 1) \<and>
    min (unat a) (as_millis dur) \<le> unat avg \<and> unat avg \<le> max (unat a) (as_millis dur)"
proof -
  let ?n = "of_nat (length cs + 1) :: usize" and ?m = "of_nat (as_millis dur) :: usize"
  have n: "unat ?n = length cs + 1" "unat ?m = as_millis dur"
    using assms(4,5) by (simp_all only: unat_of_nat) (simp_all del: of_nat_add)
  have n1: "?n - 1 = of_nat (length cs)" by simp
  have ln: "unat (of_nat (length cs) :: usize) = length cs" using assms(5) by (simp add: unat_of_nat)
  have mul: "unat (a * of_nat (length cs)) = unat a * length cs"
    using assms(4) ln by (simp add: unat_word_ariths)
  have sum: "unat (a * of_nat (length cs) + ?m) = unat a * length cs + as_millis dur"
    using assms(4) mul n(2) by (simp add: unat_word_ariths)
  have "update_average_connection_duration P d =
      Inr (d\<lparr>average_connection_duration := Some ((a * of_nat (length cs) + ?m) div ?n)\<rparr>)"
    using assms(1-4) n ln mul n1
    by (simp add: update_average_connection_duration_def Let_def sub_ovf_def mul_ovf_def add_ovf_def)
  moreover have "unat ((a * of_nat (length cs) + ?m) div ?n) = (unat a * length cs + as_millis dur) div (length cs + 1)"
    by (simp only: unat_div sum n)
  ultimately show ?thesis using weighted_mean_bounds [of "length cs + 1" "unat a" "as_millis dur"] by auto
qed

theorem average_is_weighted_mean_witness:
  "\<exists>avg. update_average_connection_duration Dev (demo_peer 9000) =
      Inr ((demo_peer 9000)\<lparr>average_connection_duration := Some avg\<rparr>) \<and> unat avg = 0"
proof -
  obtain c where c: "connection_history (demo_peer 9000) = [] @ [c]" "new_duration c = Inr 1"
    by (simp add: demo_peer_def new_duration_def)
  with average_is_weighted_mean [of "demo_peer 9000" "[]" c 1 9000 Dev] show ?thesis
    by (auto simp: demo_peer_def as_millis_def)
qed

subsection \<open>Shutting the node down\<close>

text \<open>In a release build an event about a peer returns exactly if the peer has a history.\<close>

lemma established_returns: "last_status pm p \<noteq> None \<Longrightarrow> \<exists>pm'. on_connection_established now p pm = Inr pm'"
  by (auto simp: on_connection_established_def with_last_def last_status_def Let_def split: option.splits if_splits)

lemma update_average_returns:
  "connection_history d \<noteq> [] \<Longrightarrow> connection_status (last (connection_history d)) \<in> {Failed, Disconnected} \<Longrightarrow>
   \<exists>d'. update_average_connection_duration Release d = Inr d'"
  by (auto simp: update_average_connection_duration_def new_duration_def Let_def split: option.splits)

lemma closed_returns:
  assumes "last_status pm p \<noteq> None"
  shows "\<exists>pm'. on_connection_closed Release now p pm = Inr pm'"
proof -
  obtain d where d: "fmlookup (peer_data pm) p = Some d" "connection_history d \<noteq> []"
    using assms by (auto simp: last_status_def split: option.splits if_splits)
  with update_average_returns [of "update_last (\<lambda>c. c\<lparr>connection_status := Disconnected, disconnect_timestamp := Some now\<rparr>) d"]
  show ?thesis by (auto simp: on_connection_closed_def with_last_def Let_def update_last_def)
qed

lemma dial_failure_returns:
  assumes "last_status pm p \<noteq> None"
  shows "\<exists>pm'. on_dial_failure Release now (Some p) pm = Inr pm'"
proof -
  obtain d where d: "fmlookup (peer_data pm) p = Some d" "connection_history d \<noteq> []"
    using assms by (auto simp: last_status_def split: option.splits if_splits)
  with update_average_returns [of "update_last (\<lambda>c. c\<lparr>connection_status := Failed, failure_timestamp := Some now\<rparr>) d"]
  show ?thesis by (auto simp: on_dial_failure_def with_last_def Let_def update_last_def)
qed

lemma closed_Release:
  assumes "last_status pm p \<noteq> None"
  shows "\<exists>pm'. on_connection_closed Release now p pm = Inr pm' \<and>
    connected_peers pm' = connected_peers pm |-| {|p|} \<and> dialling_peers pm' = dialling_peers pm \<and>
    new_peers pm' = new_peers pm \<and>
    (\<forall>q. last_status pm' q = (if q = p then Some Disconnected else last_status pm q))"
proof -
  obtain pm' where "on_connection_closed Release now p pm = Inr pm'" using closed_returns [OF assms] by blast
  with closed_effect [OF this] show ?thesis by (intro exI [of _ pm']) (simp add: swarm_effect_def)
qed

lemma close_all_Release:
  assumes "\<forall>p \<in> set ps. last_status pm p \<noteq> None"
  shows "\<exists>pm'. close_all Release now ps pm = Inr pm' \<and>
    connected_peers pm' = connected_peers pm |-| fset_of_list ps \<and> dialling_peers pm' = dialling_peers pm \<and>
    new_peers pm' = new_peers pm \<and>
    (\<forall>q. last_status pm' q = (if q \<in> set ps then Some Disconnected else last_status pm q))"
  using assms
proof (induction ps arbitrary: pm)
  case (Cons p ps)
  then obtain pm1 where 1: "on_connection_closed Release (now p) p pm = Inr pm1"
    "connected_peers pm1 = connected_peers pm |-| {|p|}" "dialling_peers pm1 = dialling_peers pm" "new_peers pm1 = new_peers pm"
    "\<forall>q. last_status pm1 q = (if q = p then Some Disconnected else last_status pm q)"
    using closed_Release [of pm p "now p"] by auto
  with Cons.prems have "\<forall>q \<in> set ps. last_status pm1 q \<noteq> None" by auto
  from Cons.IH [OF this] 1 show ?case by auto
qed simp

lemma disconnect_all_result:
  assumes "sets_ok pm" "enumerates (order (connected_peers pm)) (connected_peers pm)"
  shows "\<exists>pm'. disconnect_all_peers Release now order pm = Inr pm' \<and> connected_peers pm' = {||} \<and>
    (\<forall>p. last_status pm' p = (if p |\<in>| connected_peers pm then Some Disconnected else last_status pm p))"
proof -
  have set: "set (order (connected_peers pm)) = fset (connected_peers pm)" by (rule enumerates_set [OF assms(2)])
  with assms(1) have "\<forall>p \<in> set (order (connected_peers pm)). last_status pm p \<noteq> None"
    by (auto simp: sets_ok_def connected_and_dialling_peers_def)
  moreover have "connected_peers pm |-| fset_of_list (order (connected_peers pm)) = {||}"
    using assms(2) by (simp add: enumerates_def)
  ultimately show ?thesis
    using close_all_Release [of "order (connected_peers pm)" pm now] set by (auto simp: disconnect_all_peers_def)
qed

subsection \<open>Filling up to the target\<close>

definition redial_candidates :: "('p, 'a, 'info) PeerManager \<Rightarrow> 'p fset" where
  "redial_candidates pm =
     ffilter (\<lambda>p. case fmlookup (peer_data pm) p of Some d \<Rightarrow> redialable d | None \<Rightarrow> False) (fmdom (peer_data pm))"

lemma length_best_peers:
  assumes "enumerates (order (fmdom (peer_data pm))) (fmdom (peer_data pm))"
  shows "length (get_best_peers_for_redial order n pm) = min (unat n) (fcard (redial_candidates pm))"
proof -
  let ?xs = "filter (\<lambda>(_, d). redialable d) (peer_data_iter order (peer_data pm))"
  note iter = peer_data_iter_props [of order "peer_data pm", OF assms]
  have "distinct (map fst ?xs)"
    using assms iter(1) by (intro distinct_map_filter) (simp add: enumerates_def)
  then have "length ?xs = card (set (map fst ?xs))" by (metis distinct_card length_map)
  also have "set (map fst ?xs) = fset (redial_candidates pm)"
    using iter(2) by (auto simp: redial_candidates_def image_iff intro: fmdomI split: option.splits)
  finally show ?thesis by (simp add: get_best_peers_for_redial_def fcard.rep_eq min.commute)
qed

lemma min_split: "min n r + min (n - min n r) k = min n (r + k)" for n r k :: nat
  by linarith

lemma heartbeat_fills:
  assumes "orderly t" "sets_ok pm"
    and "fcard (connected_and_dialling_peers (timeout_dialling_peers t pm)) \<le> unat (target_peer_number pm)"
  shows "\<exists>ps pm'. heartbeat_tick P t pm = Inr (ps, pm') \<and>
    (let pm1 = timeout_dialling_peers t pm;
         missing = unat (target_peer_number pm) - fcard (connected_and_dialling_peers pm1)
     in if unat (peers_to_discover pm) div 4 < missing
        then length ps = min missing (fcard (redial_candidates pm1) + fcard (new_peers pm1)) \<and>
          unat (peers_to_discover pm') = missing - length ps
        else ps = [] \<and> pm' = pm1)"
proof -
  let ?pm = "timeout_dialling_peers t pm"
  let ?c = "fcard (connected_and_dialling_peers ?pm)"
  let ?n = "target_peer_number ?pm - of_nat ?c"
  have "enumerates (dialling_order t (dialling_peers pm)) (dialling_peers pm)"
    using assms(1) by (simp add: orderly_def)
  note r = timeout_dialling_peers_result [OF this, unfolded Let_def]
  then have target: "target_peer_number ?pm = target_peer_number pm" "peers_to_discover ?pm = peers_to_discover pm" by blast+
  note n = missing_within_target [OF assms(3), folded target(1)]
  have guard: "?n > peers_to_discover ?pm div 4 \<longleftrightarrow> unat (peers_to_discover pm) div 4 < unat (target_peer_number pm) - ?c"
    using n(2) target by (simp add: word_less_nat_alt unat_div)
  show ?thesis
  proof (cases "?n > peers_to_discover ?pm div 4")
    case True
    obtain ps pm' where ps: "get_peers_to_dial P t ?n ?pm = Inr (ps, pm')" "length ps \<le> unat ?n"
      "ps = get_best_peers_for_redial (data_order t) ?n ?pm @
        take (unat ?n - length (get_best_peers_for_redial (data_order t) ?n ?pm)) (new_order t (new_peers ?pm))"
      using peers_to_dial_props [OF assms(1) timeout_keeps(1) [OF assms(1,2)], of P ?n] by blast
    have "enumerates (data_order t (fmdom (peer_data ?pm))) (fmdom (peer_data ?pm))"
      "enumerates (new_order t (new_peers ?pm)) (new_peers ?pm)"
      using assms(1) by (auto simp: orderly_def)
    then have len: "length ps = min (unat ?n) (fcard (redial_candidates ?pm) + fcard (new_peers ?pm))"
      using length_best_peers [of "data_order t" ?pm ?n] enumerates_length [of "new_order t (new_peers ?pm)"]
        min_split [of "unat ?n" "fcard (redial_candidates ?pm)" "fcard (new_peers ?pm)"]
      unfolding ps(3) length_append length_take by (metis min.commute)
    note d = missing_within_target [OF ps(2)]
    have "heartbeat_tick P t pm = Inr (ps, pm'\<lparr>peers_to_discover := ?n - of_nat (length ps)\<rparr>)"
      using True n(1) ps(1) d(1) by (simp add: heartbeat_tick_def Let_def)
    with d(2) len n(2) target True guard show ?thesis by (simp add: Let_def)
  next
    case False
    then have "heartbeat_tick P t pm = Inr ([], ?pm)" using n(1) by (simp add: heartbeat_tick_def Let_def)
    with False guard show ?thesis by (simp add: Let_def)
  qed
qed

text \<open>
  C25: what a heartbeat does when, after it has given up old dials, connected and dialling peers are within the target. Let
  \<open>missing\<close> be the number of peers missing from the target. If it is not more than a quarter of those the manager still
  has to ask discovery for, the heartbeat dials nobody and changes nothing else. Otherwise it dials as
  many known peers as it can: all missing ones if there are enough candidates for redialling and new peers, otherwise
  all candidates; what is still missing is what it will ask discovery for. This holds whatever the swarm has reported.
\<close>

theorem heartbeat_fills_up:
  assumes "reach (pm_init target) (pm_step P) pm" "orderly t"
    and "fcard (connected_and_dialling_peers (timeout_dialling_peers t pm)) \<le> unat target"
  shows "\<exists>ps pm'. heartbeat_tick P t pm = Inr (ps, pm') \<and>
    (let pm1 = timeout_dialling_peers t pm;
         missing = unat target - fcard (connected_and_dialling_peers pm1)
     in if unat (peers_to_discover pm) div 4 < missing
        then length ps = min missing (fcard (redial_candidates pm1) + fcard (new_peers pm1)) \<and>
          unat (peers_to_discover pm') = missing - length ps
        else ps = [] \<and> pm' = pm1)"
proof -
  have "sets_ok pm" "target_peer_number pm = target"
    using peer_manager_system.reach_inv [OF assms(1)] by (auto simp: pm_inv_def)
  with heartbeat_fills [OF assms(2), of pm P] assms(3) show ?thesis by simp
qed

theorem heartbeat_fills_up_witness:
  "\<exists>ps pm'. heartbeat_tick Dev (demo_tick 7) demo_known = Inr (ps, pm') \<and> length ps = 1"
proof -
  let ?pm = "timeout_dialling_peers (demo_tick 7) demo_known"
  have "fcard (connected_and_dialling_peers ?pm) = 0" "fcard (redial_candidates ?pm) = 0" "fcard (new_peers ?pm) = 1"
    "peers_to_discover demo_known = 0"
    by (simp_all add: pm_eval redial_candidates_def ffilter.rep_eq)
  with heartbeat_fills_up [OF demo_known_reachable demo_tick_orderly, of 7] show ?thesis
    by (auto simp: Let_def fcard.rep_eq)
qed

subsection \<open>Waiting for discovery\<close>

lemma start_dialling_waiting:
  "start_dialling now ps pm = Inr pm' \<Longrightarrow> waiting_for_peer_discovery pm' = waiting_for_peer_discovery pm"
  by (induction ps arbitrary: pm)
    (fastforce simp: run_simps peer_connecting_def set_peer_data_def Let_def split: option.splits)+

lemma heartbeat_tick_waiting:
  "heartbeat_tick P t pm = Inr (ps, pm') \<Longrightarrow> waiting_for_peer_discovery pm' = waiting_for_peer_discovery pm"
  by (auto simp: heartbeat_tick_def get_peers_to_dial_def Let_def run_simps timeout_dialling_peers_def
      dest!: start_dialling_waiting split: if_splits prod.splits)

lemma heartbeat_loop_waiting:
  "heartbeat_loop P ts pm = Inr (pm', r) \<Longrightarrow>
   waiting_for_peer_discovery pm' = waiting_for_peer_discovery pm \<and> (\<forall>n. r \<noteq> Ready (DiscoverPeers n))"
  by (induction ts arbitrary: pm)
    (auto simp: run_simps dest!: heartbeat_tick_waiting split: if_splits)

lemma poll_waiting:
  "waiting_for_peer_discovery pm \<Longrightarrow> PeerManager_poll P pm = Inr (pm', r) \<Longrightarrow>
   waiting_for_peer_discovery pm' \<and> (\<forall>n. r \<noteq> Ready (DiscoverPeers n))"
  by (simp add: PeerManager_poll_def heartbeat_loop_waiting)

end
