(* ===== verification/Peer_Restart.thy ===== *)
theory Peer_Restart
  imports Peer_Manager_Properties "HOL-Library.Countable"
begin

section \<open>Restarting the node\<close>

text \<open>
  What \<open>save_peer_data\<close> and \<open>load_peer_data\<close> of \<open>src/peer_manager.rs\<close> do together: the peers a manager knew are the
  peers its successor dials first.

  Of serde the program relies on one fact: text written from a map is read back as a map that agrees with
  it in everything but the timestamps. \<open>serde_millis\<close> turns an \<open>Instant\<close> into milliseconds of the wall
  clock and back, which need not give the same instant.
\<close>

definition peer_summary :: "'a PeerData \<Rightarrow> usize option \<times> 'a option \<times> ConnectionStatus list" where
  "peer_summary d =
     (average_connection_duration d, multiaddr d, map connection_status (connection_history d))"

definition serde_laws ::
  "(('p, 'a PeerData) fmap \<Rightarrow> string option) \<Rightarrow> (string \<Rightarrow> ('p, 'a PeerData) fmap option) \<Rightarrow> bool" where
  "serde_laws to_json from_json \<longleftrightarrow>
     (\<forall>m content. to_json m = Some content \<longrightarrow>
        (\<exists>m'. from_json content = Some m' \<and> fmmap peer_summary m' = fmmap peer_summary m))"

lemma last_status_summary:
  "last_status pm p =
     (case fmlookup (fmmap peer_summary (peer_data pm)) p of
        Some (_, _, ss) \<Rightarrow> if ss = [] then None else Some (last ss) | None \<Rightarrow> None)"
  by (simp add: last_status_def peer_summary_def last_map split: option.splits)

lemma redialable_summary:
  assumes "peer_summary d = peer_summary d'"
  shows "redialable d \<longleftrightarrow> redialable d'"
proof -
  have h: "map connection_status (connection_history d) = map connection_status (connection_history d')"
    and a: "average_connection_duration d = average_connection_duration d'"
    using assms by (simp_all add: peer_summary_def)
  have "connection_history d = [] \<longleftrightarrow> connection_history d' = []" using h by (metis map_is_Nil_conv)
  moreover have "connection_history d \<noteq> [] \<Longrightarrow> connection_history d' \<noteq> [] \<Longrightarrow>
      connection_status (last (connection_history d)) = connection_status (last (connection_history d'))"
    using arg_cong [OF h, of last] by (simp add: last_map)
  ultimately show ?thesis using a unfolding redialable_def by auto
qed

lemma redial_candidates_summary:
  assumes "fmmap peer_summary (peer_data pm) = fmmap peer_summary (peer_data pm')"
  shows "redial_candidates pm = redial_candidates pm'"
proof -
  have dom: "fmdom (peer_data pm) = fmdom (peer_data pm')" using arg_cong [OF assms, of fmdom] by simp
  have l: "map_option peer_summary (fmlookup (peer_data pm) p) = map_option peer_summary (fmlookup (peer_data pm') p)" for p
    using arg_cong [OF assms, of "\<lambda>m. fmlookup m p"] by simp
  have "(case fmlookup (peer_data pm) p of Some d \<Rightarrow> redialable d | None \<Rightarrow> False) =
      (case fmlookup (peer_data pm') p of Some d \<Rightarrow> redialable d | None \<Rightarrow> False)" for p
    using l [of p] redialable_summary
    by (cases "fmlookup (peer_data pm) p"; cases "fmlookup (peer_data pm') p") auto
  with dom show ?thesis by (simp add: redial_candidates_def)
qed

text \<open>Closing connections changes the data of the closed peers only.\<close>

lemma close_all_frame:
  "close_all P now ps pm = Inr pm' \<Longrightarrow> p \<notin> set ps \<Longrightarrow> fmlookup (peer_data pm') p = fmlookup (peer_data pm) p"
proof (induction ps arbitrary: pm)
  case (Cons q ps)
  obtain pm1 where 1: "on_connection_closed P (now q) q pm = Inr pm1" "close_all P now ps pm1 = Inr pm'"
    using Cons.prems(1) by (auto simp: run_simps)
  have "fmlookup (peer_data pm1) p = fmlookup (peer_data pm) p"
    using 1(1) Cons.prems(2) by (auto simp: on_connection_closed_def run_simps set_peer_data_def Let_def)
  with Cons.IH [OF 1(2)] Cons.prems(2) show ?case by simp
qed simp

lemma fresh_heartbeat:
  fixes pm :: "('p, 'a, 'info) PeerManager"
  assumes "orderly t" "pm = (PeerManager_new target)\<lparr>peer_data := m\<rparr>"
  shows "\<exists>ps pm'. heartbeat_tick P t pm = Inr (ps, pm') \<and> length ps = min (unat target) (fcard (redial_candidates pm)) \<and>
    (\<forall>p \<in> set ps. ended pm p)"
proof -
  have pm: "dialling_peers pm = {||}" "connected_peers pm = {||}" "new_peers pm = {||}" "peers_to_discover pm = 0"
    "target_peer_number pm = target" "sets_ok pm"
    by (simp_all add: assms(2) PeerManager_new_def sets_ok_def connected_and_dialling_peers_def)
  have "dialling_order t {||} = []"
    using assms(1) enumerates_set [of "dialling_order t {||}" "{||}"] by (simp add: orderly_def)
  then have t: "timeout_dialling_peers t pm = pm" by (simp add: timeout_dialling_peers_def pm(1))
  have cd: "connected_and_dialling_peers pm = {||}" by (simp add: connected_and_dialling_peers_def pm)
  obtain ps pm' where h: "heartbeat_tick P t pm = Inr (ps, pm')"
    "if 0 < unat target then length ps = min (unat target) (fcard (redial_candidates pm)) else ps = []"
    using heartbeat_fills [OF assms(1) pm(6), of P] by (auto simp: t cd pm Let_def fcard.rep_eq split: if_splits)
  have "\<forall>p \<in> set ps. p |\<in>| new_peers pm \<or> ended pm p" using heartbeat_tick_ok [OF assms(1) pm(6) h(1)] by blast
  with h pm(3) show ?thesis by (auto split: if_splits)
qed

text \<open>
  C32: a restart keeps the peers. Whatever the swarm has reported, in a release build \<open>save_peer_data\<close> returns if the file
  can be written, and a new manager that loads the file starts with no peer connected, dialled or new, with every peer that was
  connected recorded as disconnected, every other peer's last status as it was, and the average and address
  of every peer that was not connected as they were. Its first heartbeat dials as many peers as the target allows of those that
  closing the connections has left fit for redialling, and only peers that were connected or whose last
  attempt had ended.
\<close>

theorem restart_redials_known_peers:
  fixes pm :: "('p, 'a, 'info) PeerManager"
  assumes "reach (pm_init target) (pm_step P) pm" "enumerates (order (connected_peers pm)) (connected_peers pm)"
    and "serde_laws to_json from_json" "\<And>m. to_json m \<noteq> None" "\<And>content. write_all content" "orderly t"
  shows "\<exists>pm1 content pm2 ps pm3. save_peer_data Release now order True to_json write_all pm = Inr (pm1, content) \<and>
    load_peer_data from_json (Contents content) (PeerManager_new target :: ('p, 'a, 'info) PeerManager) = Inr pm2 \<and>
    (\<forall>p. last_status pm2 p = (if p |\<in>| connected_peers pm then Some Disconnected else last_status pm p)) \<and>
    (\<forall>p. p |\<notin>| connected_peers pm \<longrightarrow>
       map_option (\<lambda>d. (average_connection_duration d, multiaddr d)) (fmlookup (peer_data pm2) p) =
       map_option (\<lambda>d. (average_connection_duration d, multiaddr d)) (fmlookup (peer_data pm) p)) \<and>
    connected_and_dialling_peers pm2 = {||} \<and> new_peers pm2 = {||} \<and>
    heartbeat_tick Q t pm2 = Inr (ps, pm3) \<and> length ps = min (unat target) (fcard (redial_candidates pm1)) \<and>
    (\<forall>p \<in> set ps. p |\<in>| connected_peers pm \<or> last_status pm p \<in> {Some Failed, Some Disconnected})"
proof -
  obtain pm1 where pm1: "disconnect_all_peers Release now order pm = Inr pm1"
    "\<forall>p. last_status pm1 p = (if p |\<in>| connected_peers pm then Some Disconnected else last_status pm p)"
    using disconnect_all_result [where order = order, OF reach_sets_ok [OF assms(1)] assms(2), of now] by blast
  obtain content where "to_json (peer_data pm1) = Some content" using assms(4) by blast
  moreover obtain m where "from_json content = Some m" and m: "fmmap peer_summary m = fmmap peer_summary (peer_data pm1)"
    using assms(3) calculation by (auto simp: serde_laws_def)
  ultimately have save: "save_peer_data Release now order True to_json write_all pm = Inr (pm1, content)"
    and load: "load_peer_data from_json (Contents content) (PeerManager_new target :: ('p, 'a, 'info) PeerManager) =
      Inr ((PeerManager_new target)\<lparr>peer_data := m\<rparr>)" (is "_ = Inr ?pm2")
    using pm1(1) assms(5) by (simp_all add: save_peer_data_def load_peer_data_def)
  have st: "last_status ?pm2 p = (if p |\<in>| connected_peers pm then Some Disconnected else last_status pm p)" for p
    using pm1(2) m by (simp add: last_status_summary)
  have avg: "map_option (\<lambda>d. (average_connection_duration d, multiaddr d)) (fmlookup (peer_data ?pm2) p) =
      map_option (\<lambda>d. (average_connection_duration d, multiaddr d)) (fmlookup (peer_data pm) p)"
    if "p |\<notin>| connected_peers pm" for p
  proof -
    have "fmlookup (peer_data pm1) p = fmlookup (peer_data pm) p"
      using close_all_frame [OF pm1(1) [unfolded disconnect_all_peers_def]] that enumerates_set [OF assms(2)] by simp
    moreover have "map_option peer_summary (fmlookup m p) = map_option peer_summary (fmlookup (peer_data pm1) p)"
      using arg_cong [OF m, of "\<lambda>m. fmlookup m p"] by simp
    ultimately show ?thesis
      by (cases "fmlookup m p"; cases "fmlookup (peer_data pm) p") (auto simp: peer_summary_def)
  qed
  have "redial_candidates ?pm2 = redial_candidates pm1" using m by (intro redial_candidates_summary) simp
  with fresh_heartbeat [where P = Q and pm = ?pm2, OF assms(6) refl] obtain ps pm3
    where hb: "heartbeat_tick Q t ?pm2 = Inr (ps, pm3)" "length ps = min (unat target) (fcard (redial_candidates pm1))"
    "\<forall>p \<in> set ps. ended ?pm2 p"
    by auto
  have "p |\<in>| connected_peers pm \<or> ended pm p" if "p \<in> set ps" for p
    using bspec [OF hb(3) that] unfolding st by (simp split: if_splits)
  moreover have "connected_and_dialling_peers ?pm2 = {||}" "new_peers ?pm2 = {||}"
    by (simp_all add: PeerManager_new_def connected_and_dialling_peers_def)
  ultimately show ?thesis using save load st avg hb(1,2) by blast
qed

text \<open>
  The witness saves in a concrete text format: the map, its entries taken apart into tuples, is numbered, and the number is written in
  unary. The format keeps timestamps, too.
\<close>

definition status_code :: "ConnectionStatus \<Rightarrow> nat" where
  "status_code s = (case s of Connecting \<Rightarrow> 0 | Connected \<Rightarrow> 1 | Disconnected \<Rightarrow> 2 | Failed \<Rightarrow> 3 | Timeout \<Rightarrow> 4)"

definition status_of :: "nat \<Rightarrow> ConnectionStatus" where
  "status_of n = (if n = 0 then Connecting else if n = 1 then Connected else if n = 2 then Disconnected
     else if n = 3 then Failed else Timeout)"

type_synonym connection_tuple = "instant option \<times> instant option \<times> instant option \<times> instant \<times> nat"
type_synonym peer_tuple = "connection_tuple list \<times> usize option \<times> string option"

definition write_connection :: "ConnectionData \<Rightarrow> connection_tuple" where
  "write_connection c = (established_timestamp c, failure_timestamp c, disconnect_timestamp c, dial_timestamp c,
     status_code (connection_status c))"

definition read_connection :: "connection_tuple \<Rightarrow> ConnectionData" where
  "read_connection = (\<lambda>(e, f, d, t, s). \<lparr>established_timestamp = e, failure_timestamp = f, disconnect_timestamp = d,
     dial_timestamp = t, connection_status = status_of s\<rparr>)"

definition write_peer :: "string PeerData \<Rightarrow> peer_tuple" where
  "write_peer d = (map write_connection (connection_history d), average_connection_duration d, multiaddr d)"

definition read_peer :: "peer_tuple \<Rightarrow> string PeerData" where
  "read_peer = (\<lambda>(h, a, m). \<lparr>connection_history = map read_connection h, average_connection_duration = a, multiaddr = m\<rparr>)"

definition unary_to_json :: "(nat, string PeerData) fmap \<Rightarrow> string option" where
  "unary_to_json m = Some (replicate (to_nat (fmmap write_peer m)) CHR ''|'')"

definition unary_from_json :: "string \<Rightarrow> (nat, string PeerData) fmap option" where
  "unary_from_json content = Some (fmmap read_peer (from_nat (length content)))"

lemma read_write_connection: "read_connection (write_connection c) = c"
  by (cases "connection_status c") (simp_all add: read_connection_def write_connection_def status_code_def status_of_def)

lemma read_write_peer: "read_peer (write_peer d) = d"
  by (simp add: read_peer_def write_peer_def read_write_connection o_def)

lemma unary_serde_laws: "serde_laws unary_to_json unary_from_json"
proof -
  have "fmmap read_peer (fmmap write_peer m) = m" for m by (rule fmap_ext) (simp add: read_write_peer option.map_comp o_def option.map_ident)
  then show ?thesis unfolding serde_laws_def unary_to_json_def unary_from_json_def
    by (metis from_nat_to_nat length_replicate option.inject)
qed

theorem restart_redials_known_peers_witness:
  "\<exists>pm pm1 content pm2. on_swarm_event Dev 9 (ConnectionEstablished 1) demo_dialling = Inr pm \<and>
     save_peer_data Release (\<lambda>_. 50) sorted_list_of_fset True unary_to_json (\<lambda>_. True) pm = Inr (pm1, content) \<and>
     load_peer_data unary_from_json (Contents content) (PeerManager_new 1 :: demo_manager) = Inr pm2 \<and>
     last_status pm2 1 = Some Disconnected"
proof -
  obtain pm where pm: "on_swarm_event Dev 9 (ConnectionEstablished 1) demo_dialling = Inr pm" "connected_peers pm = {|1|}"
    by (simp add: demo_dialling_def on_swarm_event_def on_connection_established_def with_last_def set_peer_data_def Let_def)
  have reach: "pm_reach 1 Dev pm" by (rule reach_step [OF demo_dialling_reachable pm_swarm [OF pm(1)]])
  have "unary_to_json m \<noteq> None" for m by (simp add: unary_to_json_def)
  from restart_redials_known_peers [where order = sorted_list_of_fset and now = "\<lambda>_. 50" and write_all = "\<lambda>_. True",
      OF reach sorted_list_of_fset_enumerates unary_serde_laws this _ demo_tick_orderly]
  obtain pm1 content pm2 where "save_peer_data Release (\<lambda>_. 50) sorted_list_of_fset True unary_to_json (\<lambda>_. True) pm = Inr (pm1, content)"
    "load_peer_data unary_from_json (Contents content) (PeerManager_new 1 :: demo_manager) = Inr pm2"
    "\<forall>p. last_status pm2 p = (if p |\<in>| connected_peers pm then Some Disconnected else last_status pm p)"
    by blast
  with pm show ?thesis by auto
qed

end
