(* ===== verification/Handler.thy ===== *)
theory Handler
  imports Rpc_Protocol
begin

section \<open>The RPC connection handler (\<open>src/rpc/handler.rs\<close>)\<close>

text \<open>
  One handler per connection: it owns the substreams of the connection, the queue of requests to
  dial and the queue of events for the behaviour. Everything it takes from other crates is a field
  of \<open>handler_ext\<close>: the task context and its waker, the shutdown timer, the delay queues
  (\<open>tokio_util::time::DelayQueue\<close>, whose \<open>remove\<close> and \<open>reset\<close> panic on a key they do not
  hold) and the framed substreams. The polling context \<open>'cx\<close> stands for the state of the world
  at one call of \<open>poll\<close>; a substream value is returned changed by every operation on it.

  A hash map is iterated in an order the environment chooses, given as a list of keys. Printing is
  left out.
\<close>

definition SHUTDOWN_TIMEOUT_SECS :: nat where
  "SHUTDOWN_TIMEOUT_SECS = 15"

definition MAX_INBOUND_SUBSTREAMS :: nat where
  "MAX_INBOUND_SUBSTREAMS = 32"

definition RESPONSE_TIMEOUT :: nat where
  "RESPONSE_TIMEOUT = 10"

definition IO_ERROR_RETRIES :: u8 where
  "IO_ERROR_RETRIES = 3"

type_synonym SubstreamId = usize

subsection \<open>Messages between behaviour and handler (\<open>src/rpc/mod.rs\<close>)\<close>

datatype 'id RPCSend =
    RPCSend_Request 'id OutboundRequest
  | RPCSend_Response SubstreamId RPCCodedResponse

datatype 'id RPCReceived =
    RPCReceived_Request SubstreamId InboundRequest
  | RPCReceived_Response 'id RPCResponse

type_synonym 'id HandlerEvent = "('id RPCReceived, string) result"

text \<open>The two libp2p enums the handler produces and inspects.\<close>

datatype 'id ConnectionHandlerEvent =
    Custom "'id HandlerEvent"
  | Close RPCError
  | OutboundSubstreamRequest OutboundRequestContainer "'id \<times> OutboundRequest"

datatype ConnectionHandlerUpgrErr =
    UpgrErr_Timeout
  | UpgrErr_Timer
  | UpgrErr_Select
  | UpgrErr_Apply RPCError

datatype KeepAlive = KeepAlive_Yes | KeepAlive_No

subsection \<open>State\<close>

text \<open>
  The future of \<open>send_message_to_inbound_substream\<close>, by the point where it is suspended: not yet
  polled, in \<open>send(message).await\<close>, in \<open>close().await\<close>.
\<close>

datatype ('i, 'snd) SendFuture =
    SF_Start 'i RPCCodedResponse bool
  | SF_Sending 'snd bool bool
  | SF_Closing 'i "(unit, RPCError) result"

datatype ('f, 'r) fut_poll = FutPending 'f | FutReady 'r

datatype ('i, 'snd) InboundState =
    Idle 'i
  | Busy "('i, 'snd) SendFuture"
  | InPoisoned

record ('i, 'snd, 'k) InboundInfo =
  ii_state :: "('i, 'snd) InboundState"
  pending_items :: "RPCCodedResponse list"
  ii_protocol :: Protocol
  remaining_chunks :: u64
  request_start_time :: instant
  ii_delay_key :: "'k option"

datatype 'o OutboundSubstreamState =
    RequestPendingResponse 'o OutboundRequest
  | Closing 'o
  | OutPoisoned

record ('id, 'o, 'k) OutboundInfo =
  oi_state :: "'o OutboundSubstreamState"
  oi_delay_key :: 'k
  proto :: Protocol
  oi_remaining_chunks :: "u64 option"
  req_id :: 'id

datatype HandlerState = Active | ShuttingDown instant | Deactivated

record ('id, 'wk, 'i, 'snd, 'o, 'q, 'k) RPCHandler =
  listen_protocol :: RPCProtocol
  events_out :: "'id HandlerEvent list"
  dial_queue :: "('id \<times> OutboundRequest) list"
  dial_negotiated :: u32
  inbound_substreams :: "(SubstreamId, ('i, 'snd, 'k) InboundInfo) fmap"
  inbound_substreams_delay :: 'q
  outbound_substreams :: "(SubstreamId, ('id, 'o, 'k) OutboundInfo) fmap"
  outbound_substreams_delay :: 'q
  current_inbound_substream_id :: SubstreamId
  current_outbound_substream_id :: SubstreamId
  max_dial_negotiated :: u32
  h_state :: HandlerState
  outbound_io_error_retries :: u8
  waker :: "'wk option"

record ('cx, 'wk, 'i, 'snd, 'o, 'q, 'k) handler_ext =
  cx_waker :: "'cx \<Rightarrow> 'wk"
  will_wake :: "'wk \<Rightarrow> 'wk \<Rightarrow> bool"
  sleep_poll :: "'cx \<Rightarrow> instant \<Rightarrow> bool"
  dq_new :: 'q
  dq_len :: "'q \<Rightarrow> nat"
  dq_insert :: "'q \<Rightarrow> SubstreamId \<Rightarrow> duration \<Rightarrow> 'q \<times> 'k"
  dq_remove :: "'q \<Rightarrow> 'k \<Rightarrow> 'q run"
  dq_reset :: "'q \<Rightarrow> 'k \<Rightarrow> duration \<Rightarrow> 'q run"
  dq_poll_expired :: "'cx \<Rightarrow> 'q \<Rightarrow> 'q \<times> (SubstreamId, unit) result option poll"
  in_send :: "'i \<Rightarrow> RPCCodedResponse \<Rightarrow> 'snd"
  in_send_poll :: "'cx \<Rightarrow> 'snd \<Rightarrow> 'snd \<times> ('i \<times> (unit, RPCError) result) poll"
  in_close_poll :: "'cx \<Rightarrow> 'i \<Rightarrow> 'i \<times> (unit, RPCError) result poll"
  out_poll_next :: "'cx \<Rightarrow> 'o \<Rightarrow> 'o \<times> (RPCCodedResponse, RPCError) result option poll"
  out_poll_close :: "'cx \<Rightarrow> 'o \<Rightarrow> 'o \<times> (unit, RPCError) result poll"

definition RPCHandler_new ::
  "('cx, 'wk, 'i, 'snd, 'o, 'q, 'k) handler_ext \<Rightarrow> RPCProtocol
   \<Rightarrow> ('id, 'wk, 'i, 'snd, 'o, 'q, 'k) RPCHandler" where
  "RPCHandler_new E protocol =
     \<lparr>listen_protocol = protocol, events_out = [], dial_queue = [], dial_negotiated = 0,
      inbound_substreams = fmempty, inbound_substreams_delay = dq_new E,
      outbound_substreams = fmempty, outbound_substreams_delay = dq_new E,
      current_inbound_substream_id = 0, current_outbound_substream_id = 0,
      max_dial_negotiated = 8, h_state = Active, outbound_io_error_retries = 0, waker = None\<rparr>"

subsection \<open>Requests and responses from the behaviour\<close>

definition push_event ::
  "'id HandlerEvent \<Rightarrow> ('id, 'wk, 'i, 'snd, 'o, 'q, 'k) RPCHandler
   \<Rightarrow> ('id, 'wk, 'i, 'snd, 'o, 'q, 'k) RPCHandler" where
  "push_event e h = h\<lparr>events_out := events_out h @ [e]\<rparr>"

text \<open>\<open>while let Some(_) = dial_queue.pop()\<close>: one error event per cancelled request.\<close>

fun cancel_dials ::
  "('id \<times> OutboundRequest) list \<Rightarrow> 'id HandlerEvent list \<Rightarrow> 'id HandlerEvent list" where
  "cancel_dials [] evs = evs"
| "cancel_dials (_ # ds) evs = cancel_dials ds (evs @ [Err ''handler error''])"

definition shutdown ::
  "instant \<Rightarrow> 'id option \<Rightarrow> ('id, 'wk, 'i, 'snd, 'o, 'q, 'k) RPCHandler
   \<Rightarrow> ('id, 'wk, 'i, 'snd, 'o, 'q, 'k) RPCHandler" where
  "shutdown now goodbye_reason h =
     (if h_state h = Active then
        h\<lparr>events_out := cancel_dials (rev (dial_queue h)) (events_out h),
          dial_queue := (case goodbye_reason of
              None \<Rightarrow> [] | Some i \<Rightarrow> [(i, OutboundRequest_Goodbye 1)]),
          h_state := ShuttingDown (now + from_secs SHUTDOWN_TIMEOUT_SECS)\<rparr>
      else h)"

definition send_request ::
  "'id \<Rightarrow> OutboundRequest \<Rightarrow> ('id, 'wk, 'i, 'snd, 'o, 'q, 'k) RPCHandler
   \<Rightarrow> ('id, 'wk, 'i, 'snd, 'o, 'q, 'k) RPCHandler" where
  "send_request i r h =
     (case h_state h of
        Active \<Rightarrow> h\<lparr>dial_queue := dial_queue h @ [(i, r)]\<rparr>
      | _ \<Rightarrow> push_event (Err ''handler error'') h)"

definition send_response ::
  "SubstreamId \<Rightarrow> RPCCodedResponse \<Rightarrow> ('id, 'wk, 'i, 'snd, 'o, 'q, 'k) RPCHandler
   \<Rightarrow> ('id, 'wk, 'i, 'snd, 'o, 'q, 'k) RPCHandler" where
  "send_response inbound_id response h =
     (case fmlookup (inbound_substreams h) inbound_id of
        None \<Rightarrow> h
      | Some inbound_info \<Rightarrow>
          (let h1 = (if response = RPCCodedResponse_Error then push_event (Err ''handler error'') h else h)
           in if h_state h = Deactivated then h1
              else h1\<lparr>inbound_substreams := fmupd inbound_id
                  (inbound_info\<lparr>pending_items := pending_items inbound_info @ [response]\<rparr>)
                  (inbound_substreams h1)\<rparr>))"

definition inject_event ::
  "'id RPCSend \<Rightarrow> ('id, 'wk, 'i, 'snd, 'o, 'q, 'k) RPCHandler
   \<Rightarrow> ('id, 'wk, 'i, 'snd, 'o, 'q, 'k) RPCHandler \<times> 'wk option" where
  "inject_event rpc_event h =
     (let h1 = (case rpc_event of
          RPCSend_Request i r \<Rightarrow> send_request i r h
        | RPCSend_Response inbound_id response \<Rightarrow> send_response inbound_id response h)
      in (h1, waker h1))"

subsection \<open>Keep-alive\<close>

definition drained :: "('id, 'wk, 'i, 'snd, 'o, 'q, 'k) RPCHandler \<Rightarrow> bool" where
  "drained h \<longleftrightarrow> dial_queue h = [] \<and> fmdom (outbound_substreams h) = {||} \<and>
     fmdom (inbound_substreams h) = {||} \<and> events_out h = [] \<and> dial_negotiated h = 0"

definition connection_keep_alive ::
  "('id, 'wk, 'i, 'snd, 'o, 'q, 'k) RPCHandler \<Rightarrow> KeepAlive" where
  "connection_keep_alive h =
     (let should_shutdown =
        (case h_state h of
           ShuttingDown _ \<Rightarrow> drained h
         | Deactivated \<Rightarrow> True
         | Active \<Rightarrow> False)
      in if should_shutdown then KeepAlive_No else KeepAlive_Yes)"

subsection \<open>Negotiated substreams\<close>

definition inject_fully_negotiated_inbound ::
  "profile \<Rightarrow> ('cx, 'wk, 'i, 'snd, 'o, 'q, 'k) handler_ext \<Rightarrow> instant
   \<Rightarrow> InboundRequest \<times> 'i \<Rightarrow> ('id, 'wk, 'i, 'snd, 'o, 'q, 'k) RPCHandler
   \<Rightarrow> ('id, 'wk, 'i, 'snd, 'o, 'q, 'k) RPCHandler run" where
  "inject_fully_negotiated_inbound P E now = (\<lambda>(r, substream) h.
     if h_state h \<noteq> Active then Inr h
     else if in_expected_responses r > 0
             \<and> \<not> fcard (fmdom (inbound_substreams h)) < MAX_INBOUND_SUBSTREAMS
     then Inr (shutdown now None (push_event (Err ''HandlerRejected'') h))
     else
       let h1 =
         (if in_expected_responses r > 0 then
            (case dq_insert E (inbound_substreams_delay h) (current_inbound_substream_id h)
                    (from_secs RESPONSE_TIMEOUT) of
               (q, delay_key) \<Rightarrow>
                 h\<lparr>inbound_substreams_delay := q,
                   inbound_substreams := fmupd (current_inbound_substream_id h)
                     \<lparr>ii_state = Idle substream, pending_items = [], ii_protocol = in_protocol r,
                      remaining_chunks = in_expected_responses r, request_start_time = now,
                      ii_delay_key = Some delay_key\<rparr>
                     (inbound_substreams h)\<rparr>)
          else h);
         h2 = (case r of InboundRequest_Goodbye _ \<Rightarrow> shutdown now None h1 | _ \<Rightarrow> h1);
         h3 = push_event (Ok (RPCReceived_Request (current_inbound_substream_id h2) r)) h2
       in run_bind (add_ovf P (current_inbound_substream_id h3) 1)
            (\<lambda>i. Inr (h3\<lparr>current_inbound_substream_id := i\<rparr>)))"

definition inject_fully_negotiated_outbound ::
  "profile \<Rightarrow> ('cx, 'wk, 'i, 'snd, 'o, 'q, 'k) handler_ext
   \<Rightarrow> 'o \<Rightarrow> 'id \<times> OutboundRequest \<Rightarrow> ('id, 'wk, 'i, 'snd, 'o, 'q, 'k) RPCHandler
   \<Rightarrow> ('id, 'wk, 'i, 'snd, 'o, 'q, 'k) RPCHandler run" where
  "inject_fully_negotiated_outbound P E out = (\<lambda>(i, request) h.
     run_bind (sub_ovf P (dial_negotiated h) 1) (\<lambda>d.
       let h1 = h\<lparr>dial_negotiated := d\<rparr>;
           h2 = (if h_state h1 = Deactivated
                 then push_event (Err ''HandlerState::Deactivated'') h1 else h1);
           expected = out_expected_responses request
       in if expected > 0 then
            (case dq_insert E (outbound_substreams_delay h2) (current_outbound_substream_id h2)
                    (from_secs RESPONSE_TIMEOUT) of
               (q, delay_key) \<Rightarrow>
                 run_bind (add_ovf P (current_outbound_substream_id h2) 1) (\<lambda>nxt.
                   Inr (h2\<lparr>outbound_substreams_delay := q,
                     outbound_substreams := fmupd (current_outbound_substream_id h2)
                       \<lparr>oi_state = RequestPendingResponse out request, oi_delay_key = delay_key,
                        proto = out_protocol request,
                        oi_remaining_chunks = (if expected > 1 then Some expected else None),
                        req_id = i\<rparr>
                       (outbound_substreams h2),
                     current_outbound_substream_id := nxt\<rparr>)))
          else Inr h2))"

definition inject_dial_upgrade_error ::
  "profile \<Rightarrow> 'id \<times> OutboundRequest \<Rightarrow> ConnectionHandlerUpgrErr
   \<Rightarrow> ('id, 'wk, 'i, 'snd, 'o, 'q, 'k) RPCHandler
   \<Rightarrow> ('id, 'wk, 'i, 'snd, 'o, 'q, 'k) RPCHandler run" where
  "inject_dial_upgrade_error P = (\<lambda>(i, r) err h.
     let failed = (\<lambda>h. run_bind (sub_ovf P (dial_negotiated h) 1) (\<lambda>d.
           Inr (push_event (Err ''Dial upgrade error'')
             (h\<lparr>dial_negotiated := d, outbound_io_error_retries := 0\<rparr>))))
     in case err of
          UpgrErr_Apply RPCError_Error \<Rightarrow>
            run_bind (add_ovf P (outbound_io_error_retries h) 1) (\<lambda>n.
              let h1 = h\<lparr>outbound_io_error_retries := n\<rparr>
              in if n < IO_ERROR_RETRIES then Inr (send_request i r h1) else failed h1)
        | _ \<Rightarrow> failed h)"

end
