(* ===== verification/Rpc.thy ===== *)
theory Rpc
  imports Handler Swarm
begin

section \<open>The RPC behaviour (\<open>src/rpc/mod.rs\<close>)\<close>

text \<open>
  The behaviour sits between the connection handlers and the main loop. It has no state but a queue of actions:
  what the main loop sends is queued for a handler, what a handler reports is queued for the main
  loop, and \<open>poll\<close> hands out one action at a time.
\<close>

record ('id, 'p, 'conn) RPCMessage =
  msg_peer_id :: 'p
  msg_conn_id :: 'conn
  msg_event :: "'id HandlerEvent"

type_synonym ('id, 'p, 'conn) rpc_action =
  "(('id, 'p, 'conn) RPCMessage, 'p, 'conn, 'id RPCSend) NetworkBehaviourAction"

record ('id, 'p, 'conn) RPC =
  events :: "('id, 'p, 'conn) rpc_action list"

definition RPC_new :: "('id, 'p, 'conn) RPC" where
  "RPC_new = \<lparr>events = []\<rparr>"

definition push_action ::
  "('id, 'p, 'conn) rpc_action \<Rightarrow> ('id, 'p, 'conn) RPC \<Rightarrow> ('id, 'p, 'conn) RPC" where
  "push_action a rpc = rpc\<lparr>events := events rpc @ [a]\<rparr>"

definition RPC_send_response ::
  "'p \<Rightarrow> 'conn \<times> SubstreamId \<Rightarrow> RPCCodedResponse \<Rightarrow> ('id, 'p, 'conn) RPC \<Rightarrow> ('id, 'p, 'conn) RPC" where
  "RPC_send_response peer_id i event rpc =
     push_action (NotifyHandler peer_id (NotifyHandler_One (fst i)) (RPCSend_Response (snd i) event)) rpc"

definition RPC_send_request ::
  "'p \<Rightarrow> 'id \<Rightarrow> OutboundRequest \<Rightarrow> ('id, 'p, 'conn) RPC \<Rightarrow> ('id, 'p, 'conn) RPC" where
  "RPC_send_request peer_id request_id event rpc =
     push_action (NotifyHandler peer_id NotifyHandler_Any (RPCSend_Request request_id event)) rpc"

definition RPC_new_handler ::
  "('cx, 'wk, 'i, 'snd, 'o, 'q, 'k) handler_ext \<Rightarrow> ('id, 'wk, 'i, 'snd, 'o, 'q, 'k) RPCHandler" where
  "RPC_new_handler E = RPCHandler_new E RPCProtocol"

definition RPC_inject_event ::
  "'p \<Rightarrow> 'conn \<Rightarrow> 'id HandlerEvent \<Rightarrow> ('id, 'p, 'conn) RPC \<Rightarrow> ('id, 'p, 'conn) RPC" where
  "RPC_inject_event peer_id conn_id event rpc =
     push_action (GenerateEvent \<lparr>msg_peer_id = peer_id, msg_conn_id = conn_id, msg_event = event\<rparr>) rpc"

definition RPC_poll ::
  "('id, 'p, 'conn) RPC \<Rightarrow> ('id, 'p, 'conn) RPC \<times> ('id, 'p, 'conn) rpc_action poll" where
  "RPC_poll rpc =
     (case events rpc of
        a # as \<Rightarrow> (rpc\<lparr>events := as\<rparr>, Ready a)
      | [] \<Rightarrow> (rpc, Pending))"

text \<open>
  What the swarm does with the result of polling a handler: an event for the behaviour is passed to
  \<open>inject_event\<close>, the rest is between libp2p and the handler.
\<close>

definition report ::
  "'p \<Rightarrow> 'conn \<Rightarrow> 'id ConnectionHandlerEvent poll \<Rightarrow> ('id, 'p, 'conn) RPC \<Rightarrow> ('id, 'p, 'conn) RPC" where
  "report p c r b = (case r of Ready (Custom ev) \<Rightarrow> RPC_inject_event p c ev b | _ \<Rightarrow> b)"

subsection \<open>Application requests and responses\<close>

datatype 'app RequestId = Application 'app | Internal

datatype Request = Request_Status StatusMessage

datatype Response = Response_Status StatusMessage

fun OutboundRequest_from :: "Request \<Rightarrow> OutboundRequest" where
  "OutboundRequest_from (Request_Status s) = OutboundRequest_Status s"

fun RPCCodedResponse_from :: "Response \<Rightarrow> RPCCodedResponse" where
  "RPCCodedResponse_from (Response_Status s) = RPCCodedResponse_Success (RPCResponse_Status s)"

subsection \<open>Order\<close>

interpretation rpc_actions: event_fifo push_action RPC_poll events
proof
  show "events (push_action a rpc) = events rpc @ [a]" for a :: "('a, 'b, 'c) rpc_action" and rpc
    by (simp add: push_action_def)
  show "\<exists>rpc'. RPC_poll rpc = (rpc', Ready a) \<and> events rpc' = as" if "events rpc = a # as"
    for a as and rpc :: "('a, 'b, 'c) RPC"
    using that by (simp add: RPC_poll_def)
qed

text \<open>
  C39: the behaviour forwards everything once and in order: after the main loop has sent the responses
  \<open>out\<close> and the handlers have reported the events \<open>inn\<close>, polling hands out the actions that were
  queued before, then one notification per response, addressed to its connection and substream, then one
  message per event, and then nothing.
\<close>

theorem rpc_forwards_in_order:
  "let rpc' = fold (\<lambda>(p, c, e). RPC_inject_event p c e) inn
        (fold (\<lambda>(p, c, s, r). RPC_send_response p (c, s) r) out rpc);
       expected = events rpc @
         map (\<lambda>(p, c, s, r). NotifyHandler p (NotifyHandler_One c) (RPCSend_Response s r)) out @
         map (\<lambda>(p, c, e). GenerateEvent \<lparr>msg_peer_id = p, msg_conn_id = c, msg_event = e\<rparr>) inn
   in \<exists>rpc''. take_events RPC_poll (length expected) rpc' = (rpc'', expected) \<and> RPC_poll rpc'' = (rpc'', Pending)"
proof -
  have r: "fold (\<lambda>(p, c, s, r). RPC_send_response p (c, s) r) out rpc =
      fold push_action (map (\<lambda>(p, c, s, r). NotifyHandler p (NotifyHandler_One c) (RPCSend_Response s r)) out) rpc" for rpc
    by (induction out arbitrary: rpc) (auto simp: RPC_send_response_def)
  have e: "fold (\<lambda>(p, c, e). RPC_inject_event p c e) inn rpc =
      fold push_action (map (\<lambda>(p, c, e). GenerateEvent \<lparr>msg_peer_id = p, msg_conn_id = c, msg_event = e\<rparr>) inn) rpc" for rpc
    by (induction inn arbitrary: rpc) (auto simp: RPC_inject_event_def)
  have empty: "events rpc'' = [] \<Longrightarrow> RPC_poll rpc'' = (rpc'', Pending)" for rpc'' :: "('a, 'b, 'c) RPC"
    by (simp add: RPC_poll_def)
  have "\<exists>rpc''. take_events RPC_poll (length (events rpc @ as @ bs)) (fold push_action bs (fold push_action as rpc)) =
      (rpc'', events rpc @ as @ bs) \<and> RPC_poll rpc'' = (rpc'', Pending)" for as bs :: "('a, 'b, 'c) rpc_action list"
    using rpc_actions.take_contents [of "fold push_action bs (fold push_action as rpc)" "events rpc @ as @ bs" "[]"] empty
    unfolding rpc_actions.contents_fold_push by auto
  then show ?thesis unfolding Let_def r e .
qed

end
