(* ===== verification/Chain_Enr.thy ===== *)
theory Chain_Enr
  imports Prelude
begin

section \<open>Fork identity and node records (\<open>src/config.rs\<close>, \<open>src/chain.rs\<close>, \<open>src/enr.rs\<close>)\<close>

text \<open>
  The constants of the network, the fork digest computed from them, and the node record (ENR) that
  advertises it. Merkleization (\<open>tree_hash\<close>) is a parameter: \<open>tree_hash_root\<close> of a container. The ENR
  crate, the SSZ code derived for \<open>ForkId\<close> and the key conversions of libp2p are the fields of
  \<open>enr_ext\<close>. Fixed-size arrays are lists; \<open>wf_fork_id\<close> says that they have their size.
\<close>

subsection \<open>Constants\<close>

definition BOOTNODES :: "string list" where
  "BOOTNODES =
     [''enr:-Ku4QHqVeJ8PPICcWk1vSn_XcSkjOkNiTg6Fmii5j6vUQgvzMc9L1goFnLKgXqBJspJjIsB91LTOleFmyWWrFVATGngBh2F0dG5ldHOIAAAAAAAAAACEZXRoMpC1MD8qAAAAAP__________gmlkgnY0gmlwhAMRHkWJc2VjcDI1NmsxoQKLVXFOhp2uX6jeT0DvvDpPcU8FWMjQdR4wMuORMhpX24N1ZHCCIyg'',
      ''enr:-Ku4QG-2_Md3sZIAUebGYT6g0SMskIml77l6yR-M_JXc-UdNHCmHQeOiMLbylPejyJsdAPsTHJyjJB2sYGDLe0dn8uYBh2F0dG5ldHOIAAAAAAAAAACEZXRoMpC1MD8qAAAAAP__________gmlkgnY0gmlwhBLY-NyJc2VjcDI1NmsxoQORcM6e19T1T9gi7jxEZjk_sjVLGFscUNqAY9obgZaxbIN1ZHCCIyg'',
      ''enr:-Ku4QPn5eVhcoF1opaFEvg1b6JNFD2rqVkHQ8HApOKK61OIcIXD127bKWgAtbwI7pnxx6cDyk_nI88TrZKQaGMZj0q0Bh2F0dG5ldHOIAAAAAAAAAACEZXRoMpC1MD8qAAAAAP__________gmlkgnY0gmlwhDayLMaJc2VjcDI1NmsxoQK2sBOLGcUb4AwuYzFuAVCaNHA-dy24UuEKkeFNgCVCsIN1ZHCCIyg'',
      ''enr:-Ku4QEWzdnVtXc2Q0ZVigfCGggOVB2Vc1ZCPEc6j21NIFLODSJbvNaef1g4PxhPwl_3kax86YPheFUSLXPRs98vvYsoBh2F0dG5ldHOIAAAAAAAAAACEZXRoMpC1MD8qAAAAAP__________gmlkgnY0gmlwhDZBrP2Jc2VjcDI1NmsxoQM6jr8Rb1ktLEsVcKAPa08wCsKUmvoQ8khiOl_SLozf9IN1ZHCCIyg'']"

definition GOSSIP_MAX_SIZE_BELLATRIX :: nat where
  "GOSSIP_MAX_SIZE_BELLATRIX = 10 * 1048576"

definition DUPLICATE_CACHE_TIME :: duration where
  "DUPLICATE_CACHE_TIME = from_secs (33 * 12 + 1)"

definition BELLATRIX_FORK_VERSION :: bytes where
  "BELLATRIX_FORK_VERSION = [0x02, 0x00, 0x00, 0x00]"

definition GENESIS_VALIDATORS_ROOT :: bytes where
  "GENESIS_VALIDATORS_ROOT =
     [75, 54, 61, 185, 78, 40, 97, 32, 215, 110, 185, 5, 52, 15, 221, 78, 84, 191, 233, 240, 107,
      243, 63, 246, 207, 90, 210, 127, 81, 27, 254, 149]"

subsection \<open>Fork identity\<close>

record ForkData =
  current_version :: bytes
  genesis_validators_root :: bytes

record SigningData =
  object_root :: bytes
  domain :: bytes

record ForkId =
  fork_id_digest :: bytes
  next_fork_version :: bytes
  next_fork_epoch :: u64

definition wf_fork_id :: "ForkId \<Rightarrow> bool" where
  "wf_fork_id f \<longleftrightarrow> length (fork_id_digest f) = 4 \<and> length (next_fork_version f) = 4"

definition compute_fork_data_root :: "(ForkData \<Rightarrow> bytes) \<Rightarrow> bytes \<Rightarrow> bytes \<Rightarrow> bytes" where
  "compute_fork_data_root tree_hash_root version root =
     tree_hash_root \<lparr>current_version = version, genesis_validators_root = root\<rparr>"

definition compute_fork_digest :: "(ForkData \<Rightarrow> bytes) \<Rightarrow> bytes \<Rightarrow> bytes \<Rightarrow> bytes run" where
  "compute_fork_digest tree_hash_root version root =
     (let r = compute_fork_data_root tree_hash_root version root
      in if 4 \<le> length r then Inr (take 4 r) else Inl (Expect ''root hash is at least 4 bytes''))"

definition ForkId_new :: "(ForkData \<Rightarrow> bytes) \<Rightarrow> ForkId run" where
  "ForkId_new tree_hash_root =
     run_bind (compute_fork_digest tree_hash_root BELLATRIX_FORK_VERSION GENESIS_VALIDATORS_ROOT) (\<lambda>d.
       Inr \<lparr>fork_id_digest = d, next_fork_version = BELLATRIX_FORK_VERSION, next_fork_epoch = - 1\<rparr>)"

definition signing_root :: "(ForkData \<Rightarrow> bytes) \<Rightarrow> (SigningData \<Rightarrow> bytes) \<Rightarrow> ForkData \<Rightarrow> bytes \<Rightarrow> bytes" where
  "signing_root tree_hash_root signing_data_root self signing_domain =
     signing_data_root \<lparr>object_root = tree_hash_root self, domain = signing_domain\<rparr>"

subsection \<open>Node records\<close>

definition ETH2_ENR_KEY :: string where
  "ETH2_ENR_KEY = ''eth2''"

datatype CombinedPublicKey = CombinedPublicKey_Secp256k1 bytes | CombinedPublicKey_Ed25519 bytes

record ('enr, 'b, 'key, 'pk, 'p) enr_ext =
  builder_new :: "string \<Rightarrow> 'b"
  builder_ip :: "bytes \<Rightarrow> 'b \<Rightarrow> 'b"
  builder_udp4 :: "nat \<Rightarrow> 'b \<Rightarrow> 'b"
  builder_tcp4 :: "nat \<Rightarrow> 'b \<Rightarrow> 'b"
  builder_add_value :: "string \<Rightarrow> bytes \<Rightarrow> 'b \<Rightarrow> 'b"
  builder_build :: "'key \<Rightarrow> 'b \<Rightarrow> 'enr option"
  enr_get :: "'enr \<Rightarrow> string \<Rightarrow> bytes option"
  enr_ip4 :: "'enr \<Rightarrow> bytes option"
  enr_tcp4 :: "'enr \<Rightarrow> nat option"
  enr_public_key :: "'enr \<Rightarrow> CombinedPublicKey"
  fork_id_as_ssz :: "ForkId \<Rightarrow> bytes"
  fork_id_from_ssz :: "bytes \<Rightarrow> ForkId option"
  secp256k1_decode :: "bytes \<Rightarrow> 'pk option"
  ed25519_decode :: "bytes \<Rightarrow> 'pk option"
  from_public_key :: "'pk \<Rightarrow> 'p"

definition build_enr ::
  "('enr, 'b, 'key, 'pk, 'p, 'z) enr_ext_scheme \<Rightarrow> (ForkData \<Rightarrow> bytes) \<Rightarrow> 'key \<Rightarrow> 'enr run" where
  "build_enr X tree_hash_root combined_key =
     run_bind (ForkId_new tree_hash_root) (\<lambda>f.
       let b = builder_new X ''v4'';
           b = builder_ip X [0, 0, 0, 0] b;
           b = builder_udp4 X 9000 b;
           b = builder_tcp4 X 9000 b;
           b = builder_add_value X ETH2_ENR_KEY (fork_id_as_ssz X f) b
       in case builder_build X combined_key b of None \<Rightarrow> Inl UnwrapNone | Some enr \<Rightarrow> Inr enr)"

definition as_peer_id :: "('enr, 'b, 'key, 'pk, 'p, 'z) enr_ext_scheme \<Rightarrow> 'enr \<Rightarrow> 'p run" where
  "as_peer_id X enr =
     (case enr_public_key X enr of
        CombinedPublicKey_Secp256k1 pk_bytes \<Rightarrow>
          (case secp256k1_decode X pk_bytes of
             None \<Rightarrow> Inl (Expect ''valid public key'')
           | Some libp2p_pk \<Rightarrow> Inr (from_public_key X libp2p_pk))
      | CombinedPublicKey_Ed25519 pk_bytes \<Rightarrow>
          (case ed25519_decode X pk_bytes of
             None \<Rightarrow> Inl (Expect ''valid public key'')
           | Some libp2p_pk \<Rightarrow> Inr (from_public_key X libp2p_pk)))"

definition fork_id :: "('enr, 'b, 'key, 'pk, 'p, 'z) enr_ext_scheme \<Rightarrow> 'enr \<Rightarrow> (ForkId, string) result" where
  "fork_id X enr =
     (case enr_get X enr ETH2_ENR_KEY of
        None \<Rightarrow> Err ''ENR has no eth2 field''
      | Some eth2_bytes \<Rightarrow>
          (case fork_id_from_ssz X eth2_bytes of
             None \<Rightarrow> Err ''Could not decode EnrForkId''
           | Some f \<Rightarrow> Ok f))"

text \<open>
  What the ENR crate and the derived SSZ code document: a value added last is in the record that is
  built, and a \<open>ForkId\<close> is decoded from its encoding.
\<close>

definition enr_laws :: "('enr, 'b, 'key, 'pk, 'p, 'z) enr_ext_scheme \<Rightarrow> bool" where
  "enr_laws X \<longleftrightarrow>
     (\<forall>k v b key enr. builder_build X key (builder_add_value X k v b) = Some enr \<longrightarrow> enr_get X enr k = Some v) \<and>
     (\<forall>f. wf_fork_id f \<longrightarrow> fork_id_from_ssz X (fork_id_as_ssz X f) = Some f)"

lemma ForkId_new_wf:
  assumes "ForkId_new tree_hash_root = Inr f"
  shows "wf_fork_id f \<and> fork_id_digest f =
    take 4 (tree_hash_root \<lparr>current_version = BELLATRIX_FORK_VERSION, genesis_validators_root = GENESIS_VALIDATORS_ROOT\<rparr>)"
  using assms
  by (auto simp: ForkId_new_def compute_fork_digest_def compute_fork_data_root_def Let_def run_simps wf_fork_id_def
      BELLATRIX_FORK_VERSION_def split: if_splits)

lemma build_enr_fork_id:
  assumes "enr_laws X" "build_enr X tree_hash_root key = Inr enr"
  shows "\<exists>f. ForkId_new tree_hash_root = Inr f \<and> fork_id X enr = Ok f"
  using assms by (auto simp: build_enr_def fork_id_def enr_laws_def run_simps Let_def dest!: ForkId_new_wf
      split: option.splits)

end
