(* ===== verification/Discovery.thy ===== *)
theory Discovery
  imports Chain_Enr Swarm
begin

section \<open>Discovery (\<open>src/discovery.rs\<close>)\<close>

text \<open>
  The behaviour that runs discv5 queries: it starts a query when it is told how many peers are wanted,
  polls the running queries and reports the peers of the first query that succeeds. The discv5
  service, the set of running queries (\<open>FuturesUnordered\<close>), the event channel and the address type are
  the fields of \<open>disc_ext\<close>, which extends the ENR interface. The two loops that poll them run on one unit
  of fuel more than there are queries, or buffered events: every turn consumes one.
\<close>

datatype 'sk Keypair = Keypair_Secp256k1 'sk | Keypair_Other

record Discv5Config =
  enable_packet_filter :: bool
  request_timeout :: duration
  query_peer_timeout :: duration
  query_timeout :: duration
  request_retries :: nat
  enr_peer_update_min :: nat
  query_parallelism :: nat
  report_discovered_peers :: bool
  ip_limit :: bool
  incoming_bucket_limit :: nat
  ping_interval :: duration

definition discovery_config :: Discv5Config where
  "discovery_config =
     \<lparr>enable_packet_filter = True, request_timeout = from_secs 1, query_peer_timeout = from_secs 2,
      query_timeout = from_secs 30, request_retries = 1, enr_peer_update_min = 10, query_parallelism = 5,
      report_discovered_peers = False, ip_limit = True, incoming_bucket_limit = 8,
      ping_interval = from_secs 300\<rparr>"

record ('enr, 'b, 'key, 'pk, 'p, 'sk, 'd, 'cx, 'fut, 'fu, 'esf, 'st, 'n, 'a) disc_ext =
  "('enr, 'b, 'key, 'pk, 'p) enr_ext" +
  combined_key :: "'sk \<Rightarrow> 'key option"
  discv5_new :: "'enr \<Rightarrow> 'key \<Rightarrow> Discv5Config \<Rightarrow> 'd option"
  enr_from_str :: "string \<Rightarrow> 'enr option"
  add_enr :: "'enr \<Rightarrow> 'd \<Rightarrow> 'd \<times> bool"
  discv5_start :: "'d \<Rightarrow> 'd option"
  discv5_event_stream :: "'d \<Rightarrow> 'esf"
  find_node_predicate :: "'n \<Rightarrow> ('enr \<Rightarrow> bool) \<Rightarrow> nat \<Rightarrow> 'd \<Rightarrow> 'fut"
  fu_new :: 'fu
  fu_len :: "'fu \<Rightarrow> nat"
  fu_push :: "'fut \<Rightarrow> 'fu \<Rightarrow> 'fu"
  fu_poll_next :: "'cx \<Rightarrow> 'fu \<Rightarrow> 'fu \<times> ('enr list, unit) result option poll"
  es_poll :: "'cx \<Rightarrow> 'esf \<Rightarrow> 'esf \<times> ('st, unit) result poll"
  st_len :: "'st \<Rightarrow> nat"
  poll_recv :: "'cx \<Rightarrow> 'st \<Rightarrow> 'st \<times> unit option poll"
  multiaddr_from_ip4 :: "bytes \<Rightarrow> 'a"
  multiaddr_push_tcp :: "nat \<Rightarrow> 'a \<Rightarrow> 'a"

datatype ('esf, 'st) EventStream = Present 'st | InActive | Awaiting 'esf

record ('enr, 'd, 'fu, 'esf, 'st) Discovery =
  discv5 :: 'd
  local_enr :: 'enr
  event_stream :: "('esf, 'st) EventStream"
  peers_future :: 'fu
  discovery_count :: nat
  started :: bool

record ('p, 'a) DiscoveredPeers =
  peers :: "('p, 'a option) fmap"

definition key_from_libp2p ::
  "('enr, 'b, 'key, 'pk, 'p, 'sk, 'd, 'cx, 'fut, 'fu, 'esf, 'st, 'n, 'a) disc_ext
   \<Rightarrow> 'sk Keypair \<Rightarrow> ('key, string) result run" where
  "key_from_libp2p X key =
     (case key of
        Keypair_Secp256k1 sk \<Rightarrow>
          (case combined_key X sk of
             None \<Rightarrow> Inl (Expect ''libp2p key must be valid'')
           | Some k \<Rightarrow> Inr (Ok k))
      | Keypair_Other \<Rightarrow> Inr (Err ''pair not supported''))"

fun add_bootnodes ::
  "('enr, 'b, 'key, 'pk, 'p, 'sk, 'd, 'cx, 'fut, 'fu, 'esf, 'st, 'n, 'a) disc_ext
   \<Rightarrow> string list \<Rightarrow> 'd \<Rightarrow> 'd run" where
  "add_bootnodes X [] d = Inr d"
| "add_bootnodes X (bootnode # bs) d =
     (case enr_from_str X bootnode of
        None \<Rightarrow> Inl UnwrapNone
      | Some enr \<Rightarrow>
          (case add_enr X enr d of
             (d', True) \<Rightarrow> add_bootnodes X bs d'
           | (_, False) \<Rightarrow> Inl (Expect ''bootnode error'')))"

definition Discovery_new ::
  "('enr, 'b, 'key, 'pk, 'p, 'sk, 'd, 'cx, 'fut, 'fu, 'esf, 'st, 'n, 'a) disc_ext
   \<Rightarrow> (ForkData \<Rightarrow> bytes) \<Rightarrow> 'sk Keypair \<Rightarrow> ('enr, 'd, 'fu, 'esf, 'st) Discovery run" where
  "Discovery_new X tree_hash_root local_key =
     run_bind (key_from_libp2p X local_key) (\<lambda>res.
       case res of
         Err _ \<Rightarrow> Inl UnwrapNone
       | Ok enr_key \<Rightarrow>
           run_bind (build_enr X tree_hash_root enr_key) (\<lambda>enr.
             case discv5_new X enr enr_key discovery_config of
               None \<Rightarrow> Inl UnwrapNone
             | Some d \<Rightarrow>
                 run_bind (add_bootnodes X BOOTNODES d) (\<lambda>d.
                   case discv5_start X d of
                     None \<Rightarrow> Inl UnwrapNone
                   | Some d \<Rightarrow>
                       Inr \<lparr>discv5 = d, local_enr = enr, event_stream = Awaiting (discv5_event_stream X d),
                         peers_future = fu_new X, discovery_count = 0, started = False\<rparr>)))"

definition set_peers_to_discover ::
  "nat \<Rightarrow> ('enr, 'd, 'fu, 'esf, 'st) Discovery \<Rightarrow> ('enr, 'd, 'fu, 'esf, 'st) Discovery" where
  "set_peers_to_discover n s = s\<lparr>discovery_count := n\<rparr>"

text \<open>The predicate of a query: the same fork digest and a TCP port.\<close>

definition peer_predicate ::
  "('enr, 'b, 'key, 'pk, 'p, 'z) enr_ext_scheme \<Rightarrow> bytes \<Rightarrow> 'enr \<Rightarrow> bool" where
  "peer_predicate X fork_digest enr \<longleftrightarrow>
     (case fork_id X enr of Ok e \<Rightarrow> fork_id_digest e = fork_digest | Err _ \<Rightarrow> False) \<and> enr_tcp4 X enr \<noteq> None"

definition find_peers ::
  "('enr, 'b, 'key, 'pk, 'p, 'sk, 'd, 'cx, 'fut, 'fu, 'esf, 'st, 'n, 'a) disc_ext
   \<Rightarrow> 'n \<Rightarrow> nat \<Rightarrow> ('enr, 'd, 'fu, 'esf, 'st) Discovery \<Rightarrow> ('enr, 'd, 'fu, 'esf, 'st) Discovery run" where
  "find_peers X target count s =
     (case fork_id X (local_enr s) of
        Err _ \<Rightarrow> Inl UnwrapNone
      | Ok f \<Rightarrow>
          Inr (s\<lparr>peers_future := fu_push X
            (find_node_predicate X target (peer_predicate X (fork_id_digest f)) count (discv5 s))
            (peers_future s)\<rparr>))"

definition enr_multiaddr ::
  "('enr, 'b, 'key, 'pk, 'p, 'sk, 'd, 'cx, 'fut, 'fu, 'esf, 'st, 'n, 'a) disc_ext \<Rightarrow> 'enr \<Rightarrow> 'a option" where
  "enr_multiaddr X enr =
     (case (enr_ip4 X enr, enr_tcp4 X enr) of
        (Some ip, Some port) \<Rightarrow> Some (multiaddr_push_tcp X port (multiaddr_from_ip4 X ip))
      | _ \<Rightarrow> None)"

fun collect_peers ::
  "('enr, 'b, 'key, 'pk, 'p, 'sk, 'd, 'cx, 'fut, 'fu, 'esf, 'st, 'n, 'a) disc_ext
   \<Rightarrow> 'enr list \<Rightarrow> 'd \<Rightarrow> ('p, 'a option) fmap \<Rightarrow> ('d \<times> ('p, 'a option) fmap) run" where
  "collect_peers X [] d m = Inr (d, m)"
| "collect_peers X (peer_enr # es) d m =
     (case add_enr X peer_enr d of
        (d', _) \<Rightarrow>
          run_bind (as_peer_id X peer_enr) (\<lambda>peer_id.
            collect_peers X es d' (fmupd peer_id (enr_multiaddr X peer_enr) m)))"

fun get_peers_loop ::
  "nat \<Rightarrow> ('enr, 'b, 'key, 'pk, 'p, 'sk, 'd, 'cx, 'fut, 'fu, 'esf, 'st, 'n, 'a) disc_ext
   \<Rightarrow> 'cx \<Rightarrow> ('enr, 'd, 'fu, 'esf, 'st) Discovery
   \<Rightarrow> (('enr, 'd, 'fu, 'esf, 'st) Discovery \<times> ('p, 'a) DiscoveredPeers option) run" where
  "get_peers_loop 0 X cx s = Inl OutOfFuel"
| "get_peers_loop (Suc fuel) X cx s =
     (case fu_poll_next X cx (peers_future s) of
        (fu, Ready (Some (Ok enrs))) \<Rightarrow>
          run_bind (collect_peers X enrs (discv5 s) fmempty) (\<lambda>(d, m).
            Inr (s\<lparr>discv5 := d, peers_future := fu_new X\<rparr>, Some \<lparr>peers = m\<rparr>))
      | (fu, Ready (Some (Err _))) \<Rightarrow> get_peers_loop fuel X cx (s\<lparr>peers_future := fu\<rparr>)
      | (fu, _) \<Rightarrow> Inr (s\<lparr>peers_future := fu\<rparr>, None))"

definition get_peers ::
  "('enr, 'b, 'key, 'pk, 'p, 'sk, 'd, 'cx, 'fut, 'fu, 'esf, 'st, 'n, 'a) disc_ext
   \<Rightarrow> 'cx \<Rightarrow> ('enr, 'd, 'fu, 'esf, 'st) Discovery
   \<Rightarrow> (('enr, 'd, 'fu, 'esf, 'st) Discovery \<times> ('p, 'a) DiscoveredPeers option) run" where
  "get_peers X cx s = get_peers_loop (Suc (fu_len X (peers_future s))) X cx s"

fun drain_events ::
  "nat \<Rightarrow> ('enr, 'b, 'key, 'pk, 'p, 'sk, 'd, 'cx, 'fut, 'fu, 'esf, 'st, 'n, 'a) disc_ext
   \<Rightarrow> 'cx \<Rightarrow> 'st \<Rightarrow> 'st run" where
  "drain_events 0 X cx st = Inl OutOfFuel"
| "drain_events (Suc fuel) X cx st =
     (case poll_recv X cx st of
        (st', Ready (Some _)) \<Rightarrow> drain_events fuel X cx st'
      | (st', _) \<Rightarrow> Inr st')"

definition poll_event_stream ::
  "('enr, 'b, 'key, 'pk, 'p, 'sk, 'd, 'cx, 'fut, 'fu, 'esf, 'st, 'n, 'a) disc_ext
   \<Rightarrow> 'cx \<Rightarrow> ('esf, 'st) EventStream \<Rightarrow> ('esf, 'st) EventStream run" where
  "poll_event_stream X cx es =
     (case es of
        Awaiting fut \<Rightarrow>
          (case es_poll X cx fut of
             (_, Ready (Ok stream)) \<Rightarrow> Inr (Present stream)
           | (_, Ready (Err _)) \<Rightarrow> Inr InActive
           | (fut', Pending) \<Rightarrow> Inr (Awaiting fut'))
      | InActive \<Rightarrow> Inr InActive
      | Present stream \<Rightarrow>
          run_bind (drain_events (Suc (st_len X stream)) X cx stream) (\<lambda>st. Inr (Present st)))"

definition Discovery_poll ::
  "('enr, 'b, 'key, 'pk, 'p, 'sk, 'd, 'cx, 'fut, 'fu, 'esf, 'st, 'n, 'a) disc_ext
   \<Rightarrow> 'n \<Rightarrow> 'cx \<Rightarrow> ('enr, 'd, 'fu, 'esf, 'st) Discovery
   \<Rightarrow> (('enr, 'd, 'fu, 'esf, 'st) Discovery \<times> ('p, 'a) DiscoveredPeers poll) run" where
  "Discovery_poll X target cx s =
     (if discovery_count s > 0 then
        run_bind (find_peers X target (discovery_count s) (s\<lparr>started := True\<rparr>)) (\<lambda>s1.
          Inr (s1\<lparr>discovery_count := 0\<rparr>, Pending))
      else
        run_bind (get_peers X cx s) (\<lambda>(s1, found).
          case found of
            Some dp \<Rightarrow> Inr (s1, Ready dp)
          | None \<Rightarrow>
              run_bind (poll_event_stream X cx (event_stream s1)) (\<lambda>es.
                Inr (s1\<lparr>event_stream := es\<rparr>, Pending))))"

end
