(* ===== verification/Node.thy ===== *)
theory Node
  imports Rpc Peer_Manager Discovery Le_Bytes
begin

section \<open>The node (\<open>src/main.rs\<close>)\<close>

text \<open>
  What the main loop does with each event of the combined behaviour, the identity of gossip messages
  and the compression of gossip payloads. Gossipsub, identify, SHA-256 and raw snappy are other crates'
  code and appear as arguments. The program never touches the state of identify, so \<open>Behaviour\<close> leaves it
  out. \<open>Main_Loop\<close> has the set-up and the loop itself.
\<close>

definition PEER_DATA_FILE :: string where
  "PEER_DATA_FILE = ''peer_data.json''"

definition MESSAGE_DOMAIN_VALID_SNAPPY :: bytes where
  "MESSAGE_DOMAIN_VALID_SNAPPY = [1, 0, 0, 0]"

definition target_num_peers :: u32 where
  "target_num_peers = 16"

subsection \<open>Gossip messages\<close>

record 'p GossipsubMessage =
  gm_source :: "'p option"
  gm_data :: bytes
  gm_sequence_number :: "u64 option"
  gm_topic :: string

definition as_bytes :: "string \<Rightarrow> bytes" where
  "as_bytes s = map of_char s"

definition prefix :: "bytes \<Rightarrow> 'p GossipsubMessage \<Rightarrow> bytes" where
  "prefix domain_prefix message =
     (let topic_bytes = as_bytes (gm_topic message);
          topic_len_bytes = to_le_bytes (of_nat (length topic_bytes))
      in domain_prefix @ topic_len_bytes @ topic_bytes @ gm_data message)"

definition gossip_message_id :: "(bytes \<Rightarrow> bytes) \<Rightarrow> 'p GossipsubMessage \<Rightarrow> bytes" where
  "gossip_message_id sha256 message = take 20 (sha256 (prefix MESSAGE_DOMAIN_VALID_SNAPPY message))"

text \<open>
  Raw snappy: the length a compressed block declares, decompression and compression, each of which
  may fail with an error of \<open>snap\<close>, which the program turns into an I/O error.
\<close>

datatype io_error = InvalidData string | SnapError

record snap_ext =
  decompress_len :: "bytes \<Rightarrow> nat option"
  decompress_vec :: "bytes \<Rightarrow> bytes option"
  compress_vec :: "bytes \<Rightarrow> bytes option"

record SnappyTransform =
  max_size_per_message :: nat

definition SnappyTransform_new :: SnappyTransform where
  "SnappyTransform_new = \<lparr>max_size_per_message = GOSSIP_MAX_SIZE_BELLATRIX\<rparr>"

definition inbound_transform ::
  "snap_ext \<Rightarrow> SnappyTransform \<Rightarrow> 'p GossipsubMessage \<Rightarrow> ('p GossipsubMessage, io_error) result" where
  "inbound_transform Z self raw_message =
     (case decompress_len Z (gm_data raw_message) of
        None \<Rightarrow> Err SnapError
      | Some len \<Rightarrow>
          if len > max_size_per_message self
          then Err (InvalidData ''ssz_snappy decoded data > GOSSIP_MAX_SIZE'')
          else (case decompress_vec Z (gm_data raw_message) of
                  None \<Rightarrow> Err SnapError
                | Some decompressed_data \<Rightarrow>
                    Ok \<lparr>gm_source = gm_source raw_message, gm_data = decompressed_data,
                        gm_sequence_number = gm_sequence_number raw_message,
                        gm_topic = gm_topic raw_message\<rparr>))"

definition outbound_transform ::
  "snap_ext \<Rightarrow> SnappyTransform \<Rightarrow> string \<Rightarrow> bytes \<Rightarrow> (bytes, io_error) result" where
  "outbound_transform Z self topic payload =
     (if length payload > max_size_per_message self
      then Err (InvalidData ''ssz_snappy Encoded data > GOSSIP_MAX_SIZE'')
      else (case compress_vec Z payload of None \<Rightarrow> Err SnapError | Some c \<Rightarrow> Ok c))"

subsection \<open>The main loop\<close>

type_synonym ('p, 'conn) node_rpc = "(unit RequestId, 'p, 'conn) RPC"
type_synonym ('p, 'conn) node_rpc_message = "(unit RequestId, 'p, 'conn) RPCMessage"

record ('p, 'a, 'info, 'conn, 'enr, 'd, 'fu, 'esf, 'st, 'g) Behaviour =
  gossipsub :: 'g
  discovery :: "('enr, 'd, 'fu, 'esf, 'st) Discovery"
  rpc :: "('p, 'conn) node_rpc"
  peer_manager :: "('p, 'a, 'info) PeerManager"

datatype ('p, 'a, 'info, 'conn) BehaviourEvent =
    BehaviourEvent_Gossipsub
  | BehaviourEvent_Discovery "('p, 'a) DiscoveredPeers"
  | BehaviourEvent_Rpc "('p, 'conn) node_rpc_message"
  | BehaviourEvent_Identify "('p \<times> 'info) option"
  | BehaviourEvent_PeerManager "'p PeerManagerEvent"

definition local_metadata :: MetaData where
  "local_metadata =
     \<lparr>seq_number = 0, attnets = EnrAttestationBitfield_default, syncnets = EnrSyncCommitteeBitfield_default\<rparr>"

definition answer :: "InboundRequest \<Rightarrow> RPCCodedResponse" where
  "answer inbound_req =
     (case inbound_req of
        InboundRequest_Status status \<Rightarrow> RPCCodedResponse_Success (RPCResponse_Status status)
      | InboundRequest_Ping _ \<Rightarrow> RPCCodedResponse_Success (RPCResponse_Pong \<lparr>data = 0\<rparr>)
      | InboundRequest_MetaData \<Rightarrow> RPCCodedResponse_Success (RPCResponse_MetaData local_metadata)
      | _ \<Rightarrow> RPCCodedResponse_Error)"

definition on_rpc_message ::
  "('p, 'conn) node_rpc_message \<Rightarrow> ('p, 'conn) node_rpc \<Rightarrow> ('p, 'conn) node_rpc run" where
  "on_rpc_message rpc_message behaviour_rpc =
     (case msg_event rpc_message of
        Ok (RPCReceived_Request substream inbound_req) \<Rightarrow>
          Inr (RPC_send_response (msg_peer_id rpc_message) (msg_conn_id rpc_message, substream)
                 (answer inbound_req) behaviour_rpc)
      | Ok (RPCReceived_Response _ _) \<Rightarrow> Inl Todo
      | Err _ \<Rightarrow> Inr behaviour_rpc)"

definition on_behaviour_event ::
  "('p \<Rightarrow> 'g \<Rightarrow> 'g) \<Rightarrow> ('p fset \<Rightarrow> 'p list) \<Rightarrow> ('p, 'a, 'info, 'conn) BehaviourEvent
   \<Rightarrow> ('p, 'a, 'info, 'conn, 'enr, 'd, 'fu, 'esf, 'st, 'g) Behaviour
   \<Rightarrow> ('p, 'a, 'info, 'conn, 'enr, 'd, 'fu, 'esf, 'st, 'g) Behaviour run" where
  "on_behaviour_event add_explicit_peer order ev b =
     (case ev of
        BehaviourEvent_Gossipsub \<Rightarrow> Inr b
      | BehaviourEvent_Discovery discovered \<Rightarrow>
          Inr (b\<lparr>peer_manager := add_peers order (peers discovered) (peer_manager b)\<rparr>)
      | BehaviourEvent_Rpc rpc_message \<Rightarrow>
          run_bind (on_rpc_message rpc_message (rpc b)) (\<lambda>r. Inr (b\<lparr>rpc := r\<rparr>))
      | BehaviourEvent_Identify (Some (peer_id, info)) \<Rightarrow>
          Inr (b\<lparr>peer_manager := add_peer_identity peer_id info (peer_manager b)\<rparr>)
      | BehaviourEvent_Identify None \<Rightarrow> Inr b
      | BehaviourEvent_PeerManager (DiscoverPeers num_peers) \<Rightarrow>
          Inr (b\<lparr>discovery := set_peers_to_discover (unat num_peers) (discovery b)\<rparr>)
      | BehaviourEvent_PeerManager (DialPeers peer_ids) \<Rightarrow>
          Inr (b\<lparr>gossipsub := fold add_explicit_peer peer_ids (gossipsub b)\<rparr>))"

end
