(* ===== verification/Handler_Poll.thy ===== *)
theory Handler_Poll
  imports Handler
begin

section \<open>Polling the handler (\<open>RPCHandler::poll\<close> in \<open>src/rpc/handler.rs\<close>)\<close>

text \<open>
  \<open>poll\<close> runs through its stages in order and returns at the first one that has something to
  report: queued events, the shutdown timer, expired inbound and outbound delays, the inbound and the
  outbound substreams, the dial queue, the end of a shutdown. Each stage is a definition of its own;
  \<open>RPCHandler_poll\<close> composes them. The two expiry loops end because every expired entry leaves its
  delay queue: they run on one unit of fuel more than the queue's length.
\<close>

subsection \<open>Sending a response (\<open>send_message_to_inbound_substream\<close>)\<close>

definition close_phase ::
  "('cx, 'wk, 'i, 'snd, 'o, 'q, 'k) handler_ext \<Rightarrow> 'cx \<Rightarrow> 'i \<Rightarrow> (unit, RPCError) result
   \<Rightarrow> (('i, 'snd) SendFuture, ('i \<times> bool, RPCError) result) fut_poll" where
  "close_phase E cx substream send_result =
     (case in_close_poll E cx substream of
        (s, Pending) \<Rightarrow> FutPending (SF_Closing s send_result)
      | (s, Ready closed) \<Rightarrow>
          FutReady (case send_result of
              Err e \<Rightarrow> Err e
            | Ok _ \<Rightarrow> (case closed of Ok _ \<Rightarrow> Ok (s, True) | Err e \<Rightarrow> Err e)))"

definition send_phase ::
  "('cx, 'wk, 'i, 'snd, 'o, 'q, 'k) handler_ext \<Rightarrow> 'cx \<Rightarrow> 'snd \<Rightarrow> bool \<Rightarrow> bool
   \<Rightarrow> (('i, 'snd) SendFuture, ('i \<times> bool, RPCError) result) fut_poll" where
  "send_phase E cx sending is_error last_chunk =
     (case in_send_poll E cx sending of
        (sending', Pending) \<Rightarrow> FutPending (SF_Sending sending' is_error last_chunk)
      | (_, Ready (substream, send_result)) \<Rightarrow>
          if last_chunk \<or> is_error \<or> is_err send_result
          then close_phase E cx substream send_result
          else FutReady (case send_result of Ok _ \<Rightarrow> Ok (substream, False) | Err e \<Rightarrow> Err e))"

fun send_message_poll ::
  "('cx, 'wk, 'i, 'snd, 'o, 'q, 'k) handler_ext \<Rightarrow> 'cx \<Rightarrow> ('i, 'snd) SendFuture
   \<Rightarrow> (('i, 'snd) SendFuture, ('i \<times> bool, RPCError) result) fut_poll" where
  "send_message_poll E cx (SF_Start substream message last_chunk) =
     send_phase E cx (in_send E substream message) (message = RPCCodedResponse_Error) last_chunk"
| "send_message_poll E cx (SF_Sending sending is_error last_chunk) =
     send_phase E cx sending is_error last_chunk"
| "send_message_poll E cx (SF_Closing substream send_result) = close_phase E cx substream send_result"

subsection \<open>Waker and expired delays\<close>

definition update_waker ::
  "('cx, 'wk, 'i, 'snd, 'o, 'q, 'k) handler_ext \<Rightarrow> 'cx
   \<Rightarrow> ('id, 'wk, 'i, 'snd, 'o, 'q, 'k) RPCHandler \<Rightarrow> ('id, 'wk, 'i, 'snd, 'o, 'q, 'k) RPCHandler" where
  "update_waker E cx h =
     (case waker h of
        Some w \<Rightarrow> if will_wake E w (cx_waker E cx) then h\<lparr>waker := Some (cx_waker E cx)\<rparr> else h
      | None \<Rightarrow> h\<lparr>waker := Some (cx_waker E cx)\<rparr>)"

text \<open>\<open>pending_items.back().map(|l| l.close_after()) == Some(false)\<close>\<close>

definition last_keeps_open :: "RPCCodedResponse list \<Rightarrow> bool" where
  "last_keeps_open items \<longleftrightarrow> items \<noteq> [] \<and> \<not> close_after (last items)"

definition on_inbound_timeout ::
  "SubstreamId \<Rightarrow> ('id, 'wk, 'i, 'snd, 'o, 'q, 'k) RPCHandler
   \<Rightarrow> ('id, 'wk, 'i, 'snd, 'o, 'q, 'k) RPCHandler" where
  "on_inbound_timeout inbound_id h =
     (case fmlookup (inbound_substreams h) inbound_id of
        None \<Rightarrow> h
      | Some info \<Rightarrow>
          push_event (Err ''Stream Timeout'')
            (h\<lparr>inbound_substreams := fmupd inbound_id
                 (info\<lparr>ii_delay_key := None,
                       pending_items := pending_items info @
                         (if last_keeps_open (pending_items info) then [RPCCodedResponse_Error] else [])\<rparr>)
                 (inbound_substreams h)\<rparr>))"

fun expire_inbound ::
  "nat \<Rightarrow> ('cx, 'wk, 'i, 'snd, 'o, 'q, 'k) handler_ext \<Rightarrow> 'cx
   \<Rightarrow> ('id, 'wk, 'i, 'snd, 'o, 'q, 'k) RPCHandler
   \<Rightarrow> (('id, 'wk, 'i, 'snd, 'o, 'q, 'k) RPCHandler \<times> 'id ConnectionHandlerEvent option) run" where
  "expire_inbound 0 E cx h = Inl OutOfFuel"
| "expire_inbound (Suc fuel) E cx h =
     (case dq_poll_expired E cx (inbound_substreams_delay h) of
        (q, Ready (Some (Ok inbound_id))) \<Rightarrow>
          expire_inbound fuel E cx (on_inbound_timeout inbound_id (h\<lparr>inbound_substreams_delay := q\<rparr>))
      | (q, Ready (Some (Err _))) \<Rightarrow>
          Inr (h\<lparr>inbound_substreams_delay := q\<rparr>, Some (Close RPCError_Error))
      | (q, Pending) \<Rightarrow> Inr (h\<lparr>inbound_substreams_delay := q\<rparr>, None)
      | (q, Ready None) \<Rightarrow> Inr (h\<lparr>inbound_substreams_delay := q\<rparr>, None))"

fun expire_outbound ::
  "nat \<Rightarrow> ('cx, 'wk, 'i, 'snd, 'o, 'q, 'k) handler_ext \<Rightarrow> 'cx
   \<Rightarrow> ('id, 'wk, 'i, 'snd, 'o, 'q, 'k) RPCHandler
   \<Rightarrow> (('id, 'wk, 'i, 'snd, 'o, 'q, 'k) RPCHandler \<times> 'id ConnectionHandlerEvent option) run" where
  "expire_outbound 0 E cx h = Inl OutOfFuel"
| "expire_outbound (Suc fuel) E cx h =
     (case dq_poll_expired E cx (outbound_substreams_delay h) of
        (q, Ready (Some (Ok outbound_id))) \<Rightarrow>
          (let h1 = h\<lparr>outbound_substreams_delay := q\<rparr>
           in case fmlookup (outbound_substreams h) outbound_id of
                Some _ \<Rightarrow>
                  Inr (h1\<lparr>outbound_substreams := fmdrop outbound_id (outbound_substreams h)\<rparr>,
                       Some (Custom (Err ''Stream Timeout'')))
              | None \<Rightarrow> expire_outbound fuel E cx h1)
      | (q, Ready (Some (Err _))) \<Rightarrow>
          Inr (h\<lparr>outbound_substreams_delay := q\<rparr>, Some (Close RPCError_Error))
      | (q, Pending) \<Rightarrow> Inr (h\<lparr>outbound_substreams_delay := q\<rparr>, None)
      | (q, Ready None) \<Rightarrow> Inr (h\<lparr>outbound_substreams_delay := q\<rparr>, None))"

subsection \<open>Inbound substreams\<close>

text \<open>\<open>if let Some(ref delay_key) = info.delay_key { delay.remove(delay_key) }\<close>, and for \<open>reset\<close>.\<close>

definition remove_delay ::
  "('cx, 'wk, 'i, 'snd, 'o, 'q, 'k) handler_ext \<Rightarrow> 'k option \<Rightarrow> 'q \<Rightarrow> 'q run" where
  "remove_delay E key q = (case key of None \<Rightarrow> Inr q | Some k \<Rightarrow> dq_remove E q k)"

definition reset_delay ::
  "('cx, 'wk, 'i, 'snd, 'o, 'q, 'k) handler_ext \<Rightarrow> 'k option \<Rightarrow> 'q \<Rightarrow> 'q run" where
  "reset_delay E key q =
     (case key of None \<Rightarrow> Inr q | Some k \<Rightarrow> dq_reset E q k (from_secs RESPONSE_TIMEOUT))"

text \<open>
  The inner loop over one inbound substream. It returns the substream's entry, the delay queue, the
  events and whether the substream is to be removed. Every turn that does not leave the loop takes
  an item from \<open>pending_items\<close>.
\<close>

function drive_inbound ::
  "('cx, 'wk, 'i, 'snd, 'o, 'q, 'k) handler_ext \<Rightarrow> 'cx \<Rightarrow> bool
   \<Rightarrow> ('i, 'snd, 'k) InboundInfo \<Rightarrow> 'q \<Rightarrow> 'id HandlerEvent list
   \<Rightarrow> (('i, 'snd, 'k) InboundInfo \<times> 'q \<times> 'id HandlerEvent list \<times> bool) run" where
  "drive_inbound E cx deactivated info q evs =
     (case ii_state info of
        Idle substream \<Rightarrow>
          if \<not> deactivated then
            (case pending_items info of
               message # items \<Rightarrow>
                 drive_inbound E cx deactivated
                   (info\<lparr>pending_items := items,
                     ii_state := Busy (SF_Start substream message (remaining_chunks info \<le> 1))\<rparr>) q evs
             | [] \<Rightarrow> Inr (info, q, evs, False))
          else
            (case in_close_poll E cx substream of
               (s, Pending) \<Rightarrow> Inr (info\<lparr>ii_state := Idle s\<rparr>, q, evs, False)
             | (s, Ready res) \<Rightarrow>
                 (case remove_delay E (ii_delay_key info) q of
                    Inl p \<Rightarrow> Inl p
                  | Inr q' \<Rightarrow>
                      Inr (info\<lparr>ii_state := InPoisoned\<rparr>, q',
                        evs @ (if is_err res then [Err ''Error shutting down the substream''] else [])
                            @ (if last_keeps_open (pending_items info) then [Err ''Cancel Request''] else []),
                        True)))
      | Busy fut \<Rightarrow>
          (case send_message_poll E cx fut of
             FutReady (Ok (substream, False)) \<Rightarrow>
               (case reset_delay E (ii_delay_key info) q of
                  Inl p \<Rightarrow> Inl p
                | Inr q' \<Rightarrow>
                    (case (deactivated, pending_items info) of
                       (False, message # items) \<Rightarrow>
                         drive_inbound E cx deactivated
                           (info\<lparr>remaining_chunks := saturating_sub (remaining_chunks info) 1,
                             pending_items := items,
                             ii_state := Busy (SF_Start substream message
                               (saturating_sub (remaining_chunks info) 1 \<le> 1))\<rparr>) q' evs
                     | _ \<Rightarrow>
                         Inr (info\<lparr>remaining_chunks := saturating_sub (remaining_chunks info) 1,
                             ii_state := Idle substream\<rparr>, q', evs, False)))
           | FutReady (Ok (_, True)) \<Rightarrow>
               (case remove_delay E (ii_delay_key info) q of
                  Inl p \<Rightarrow> Inl p
                | Inr q' \<Rightarrow> Inr (info\<lparr>ii_state := InPoisoned\<rparr>, q', evs, True))
           | FutReady (Err _) \<Rightarrow>
               (case remove_delay E (ii_delay_key info) q of
                  Inl p \<Rightarrow> Inl p
                | Inr q' \<Rightarrow> Inr (info\<lparr>ii_state := InPoisoned\<rparr>, q', evs @ [Err ''Response error''], True))
           | FutPending fut' \<Rightarrow> Inr (info\<lparr>ii_state := Busy fut'\<rparr>, q, evs, False))
      | InPoisoned \<Rightarrow> Inl (Unreachable ''Poisoned inbound substream''))"
  by pat_completeness auto
termination
  by (relation "measure (\<lambda>(E, cx, deactivated, info, q, evs). length (pending_items info))")
    (auto, metis length_Cons lessI)

declare drive_inbound.simps [simp del]

fun drive_inbounds ::
  "('cx, 'wk, 'i, 'snd, 'o, 'q, 'k) handler_ext \<Rightarrow> 'cx \<Rightarrow> bool \<Rightarrow> SubstreamId list
   \<Rightarrow> ('id, 'wk, 'i, 'snd, 'o, 'q, 'k) RPCHandler \<Rightarrow> SubstreamId list
   \<Rightarrow> (('id, 'wk, 'i, 'snd, 'o, 'q, 'k) RPCHandler \<times> SubstreamId list) run" where
  "drive_inbounds E cx deactivated [] h substreams_to_remove = Inr (h, substreams_to_remove)"
| "drive_inbounds E cx deactivated (i # ids) h substreams_to_remove =
     (case fmlookup (inbound_substreams h) i of
        None \<Rightarrow> drive_inbounds E cx deactivated ids h substreams_to_remove
      | Some info \<Rightarrow>
          run_bind (drive_inbound E cx deactivated info (inbound_substreams_delay h) (events_out h))
            (\<lambda>(info', q, evs, remove).
               drive_inbounds E cx deactivated ids
                 (h\<lparr>inbound_substreams := fmupd i info' (inbound_substreams h),
                    inbound_substreams_delay := q, events_out := evs\<rparr>)
                 (if remove then substreams_to_remove @ [i] else substreams_to_remove)))"

definition poll_inbound_substreams ::
  "('cx, 'wk, 'i, 'snd, 'o, 'q, 'k) handler_ext \<Rightarrow> 'cx \<Rightarrow> SubstreamId list
   \<Rightarrow> ('id, 'wk, 'i, 'snd, 'o, 'q, 'k) RPCHandler
   \<Rightarrow> ('id, 'wk, 'i, 'snd, 'o, 'q, 'k) RPCHandler run" where
  "poll_inbound_substreams E cx order h =
     run_bind (drive_inbounds E cx (h_state h = Deactivated) order h [])
       (\<lambda>(h', substreams_to_remove).
          Inr (h'\<lparr>inbound_substreams := fold fmdrop substreams_to_remove (inbound_substreams h')\<rparr>))"

subsection \<open>Outbound substreams\<close>

definition remove_outbound ::
  "('cx, 'wk, 'i, 'snd, 'o, 'q, 'k) handler_ext \<Rightarrow> SubstreamId \<Rightarrow> ('id, 'o, 'k) OutboundInfo
   \<Rightarrow> ('id, 'wk, 'i, 'snd, 'o, 'q, 'k) RPCHandler
   \<Rightarrow> ('id, 'wk, 'i, 'snd, 'o, 'q, 'k) RPCHandler run" where
  "remove_outbound E outbound_id info h =
     run_bind (dq_remove E (outbound_substreams_delay h) (oi_delay_key info)) (\<lambda>q.
       Inr (h\<lparr>outbound_substreams_delay := q,
              outbound_substreams := fmdrop outbound_id (outbound_substreams h)\<rparr>))"

definition set_outbound ::
  "SubstreamId \<Rightarrow> ('id, 'o, 'k) OutboundInfo
   \<Rightarrow> ('id, 'wk, 'i, 'snd, 'o, 'q, 'k) RPCHandler \<Rightarrow> ('id, 'wk, 'i, 'snd, 'o, 'q, 'k) RPCHandler" where
  "set_outbound outbound_id info h =
     h\<lparr>outbound_substreams := fmupd outbound_id info (outbound_substreams h)\<rparr>"

text \<open>What arrives on a substream that waits for a response: the entry it leaves, then the event.\<close>

definition on_response ::
  "('cx, 'wk, 'i, 'snd, 'o, 'q, 'k) handler_ext \<Rightarrow> SubstreamId \<Rightarrow> ('id, 'o, 'k) OutboundInfo
   \<Rightarrow> 'o \<Rightarrow> OutboundRequest \<Rightarrow> RPCCodedResponse
   \<Rightarrow> ('id, 'wk, 'i, 'snd, 'o, 'q, 'k) RPCHandler
   \<Rightarrow> ('id, 'wk, 'i, 'snd, 'o, 'q, 'k) RPCHandler run" where
  "on_response E outbound_id info substream request response h =
     (if out_expected_responses request > 1 \<and> \<not> close_after response then
        (let remaining = (case oi_remaining_chunks info of
             Some count \<Rightarrow> saturating_sub count 1 | None \<Rightarrow> 0)
         in if remaining = 0
            then Inr (set_outbound outbound_id (info\<lparr>oi_state := Closing substream\<rparr>) h)
            else run_bind (dq_reset E (outbound_substreams_delay h) (oi_delay_key info)
                    (from_secs RESPONSE_TIMEOUT)) (\<lambda>q.
                   Inr (set_outbound outbound_id
                     (info\<lparr>oi_state := RequestPendingResponse substream request,
                           oi_remaining_chunks := Some remaining\<rparr>)
                     (h\<lparr>outbound_substreams_delay := q\<rparr>))))
      else Inr (set_outbound outbound_id (info\<lparr>oi_state := Closing substream\<rparr>) h))"

definition received_event :: "'id \<Rightarrow> RPCCodedResponse \<Rightarrow> 'id HandlerEvent" where
  "received_event i response =
     (case response of
        RPCCodedResponse_Success resp \<Rightarrow> Ok (RPCReceived_Response i resp)
      | RPCCodedResponse_Error \<Rightarrow> Err ''RPC Error'')"

fun drive_outbounds ::
  "('cx, 'wk, 'i, 'snd, 'o, 'q, 'k) handler_ext \<Rightarrow> 'cx \<Rightarrow> bool \<Rightarrow> SubstreamId list
   \<Rightarrow> ('id, 'wk, 'i, 'snd, 'o, 'q, 'k) RPCHandler
   \<Rightarrow> (('id, 'wk, 'i, 'snd, 'o, 'q, 'k) RPCHandler \<times> 'id ConnectionHandlerEvent option) run" where
  "drive_outbounds E cx deactivated [] h = Inr (h, None)"
| "drive_outbounds E cx deactivated (outbound_id # ids) h =
     (case fmlookup (outbound_substreams h) outbound_id of
        None \<Rightarrow> Inl (Unreachable [])
      | Some info \<Rightarrow>
          (case oi_state info of
             RequestPendingResponse substream request \<Rightarrow>
               if deactivated then
                 drive_outbounds E cx deactivated ids
                   (push_event (Err ''Handler deactivated'')
                     (set_outbound outbound_id (info\<lparr>oi_state := Closing substream\<rparr>) h))
               else
                 (case out_poll_next E cx substream of
                    (s, Ready (Some (Ok response))) \<Rightarrow>
                      run_bind (on_response E outbound_id info s request response h) (\<lambda>h'.
                        Inr (h', Some (Custom (received_event (req_id info) response))))
                  | (s, Ready None) \<Rightarrow>
                      run_bind (remove_outbound E outbound_id info h) (\<lambda>h'.
                        Inr (h', Some (Custom (Err ''Incomplete response''))))
                  | (s, Pending) \<Rightarrow>
                      drive_outbounds E cx deactivated ids
                        (set_outbound outbound_id (info\<lparr>oi_state := RequestPendingResponse s request\<rparr>) h)
                  | (s, Ready (Some (Err _))) \<Rightarrow>
                      run_bind (remove_outbound E outbound_id info h) (\<lambda>h'.
                        Inr (h', Some (Custom (Err ''Stream dropped'')))))
           | Closing substream \<Rightarrow>
               (case out_poll_close E cx substream of
                  (s, Ready _) \<Rightarrow>
                    run_bind (remove_outbound E outbound_id info h)
                      (\<lambda>h'. drive_outbounds E cx deactivated ids h')
                | (s, Pending) \<Rightarrow>
                    drive_outbounds E cx deactivated ids
                      (set_outbound outbound_id (info\<lparr>oi_state := Closing s\<rparr>) h))
           | OutPoisoned \<Rightarrow> Inl (Unreachable ''Coding Error: Outbound substream is poisoned'')))"

subsection \<open>Dialling, and the whole of \<open>poll\<close>\<close>

text \<open>
  \<open>poll_dial\<close> holds the end of \<open>poll\<close>: a request is dialled when fewer than
  \<open>max_dial_negotiated\<close> are under way, and a handler that is shutting down with nothing left to do
  closes the connection.
\<close>

definition poll_dial ::
  "profile \<Rightarrow> ('id, 'wk, 'i, 'snd, 'o, 'q, 'k) RPCHandler
   \<Rightarrow> (('id, 'wk, 'i, 'snd, 'o, 'q, 'k) RPCHandler \<times> 'id ConnectionHandlerEvent poll) run" where
  "poll_dial P h =
     (if dial_queue h \<noteq> [] \<and> dial_negotiated h < max_dial_negotiated h then
        run_bind (add_ovf P (dial_negotiated h) 1) (\<lambda>d.
          case dial_queue h of
            (i, r) # ds \<Rightarrow>
              Inr (h\<lparr>dial_negotiated := d, dial_queue := ds\<rparr>,
                   Ready (OutboundSubstreamRequest (OutboundRequestContainer r) (i, r)))
          | [] \<Rightarrow> Inl OutOfRange)
      else
        Inr (h, case h_state h of
                  ShuttingDown _ \<Rightarrow> if drained h then Ready (Close RPCError_Error) else Pending
                | _ \<Rightarrow> Pending))"

definition poll_substreams ::
  "profile \<Rightarrow> ('cx, 'wk, 'i, 'snd, 'o, 'q, 'k) handler_ext \<Rightarrow> 'cx
   \<Rightarrow> SubstreamId list \<Rightarrow> SubstreamId list \<Rightarrow> ('id, 'wk, 'i, 'snd, 'o, 'q, 'k) RPCHandler
   \<Rightarrow> (('id, 'wk, 'i, 'snd, 'o, 'q, 'k) RPCHandler \<times> 'id ConnectionHandlerEvent poll) run" where
  "poll_substreams P E cx in_order out_order h =
     run_bind (poll_inbound_substreams E cx in_order h) (\<lambda>h1.
     run_bind (drive_outbounds E cx (h_state h = Deactivated) out_order h1) (\<lambda>(h2, returned).
       case returned of
         Some ev \<Rightarrow> Inr (h2, Ready ev)
       | None \<Rightarrow> poll_dial P h2))"

definition poll_delays ::
  "('cx, 'wk, 'i, 'snd, 'o, 'q, 'k) handler_ext \<Rightarrow> 'cx \<Rightarrow> ('id, 'wk, 'i, 'snd, 'o, 'q, 'k) RPCHandler
   \<Rightarrow> (('id, 'wk, 'i, 'snd, 'o, 'q, 'k) RPCHandler \<times> 'id ConnectionHandlerEvent option) run" where
  "poll_delays E cx h =
     run_bind (expire_inbound (Suc (dq_len E (inbound_substreams_delay h))) E cx h) (\<lambda>(h1, returned).
       case returned of
         Some ev \<Rightarrow> Inr (h1, Some ev)
       | None \<Rightarrow> expire_outbound (Suc (dq_len E (outbound_substreams_delay h1))) E cx h1)"

text \<open>
  The iteration orders are functions of the key set, since the stages before may have removed keys.
\<close>

definition RPCHandler_poll ::
  "profile \<Rightarrow> ('cx, 'wk, 'i, 'snd, 'o, 'q, 'k) handler_ext \<Rightarrow> 'cx
   \<Rightarrow> (SubstreamId fset \<Rightarrow> SubstreamId list) \<Rightarrow> (SubstreamId fset \<Rightarrow> SubstreamId list)
   \<Rightarrow> ('id, 'wk, 'i, 'snd, 'o, 'q, 'k) RPCHandler
   \<Rightarrow> (('id, 'wk, 'i, 'snd, 'o, 'q, 'k) RPCHandler \<times> 'id ConnectionHandlerEvent poll) run" where
  "RPCHandler_poll P E cx in_order out_order h =
     (let h0 = update_waker E cx h
      in case events_out h0 of
           ev # evs \<Rightarrow> Inr (h0\<lparr>events_out := evs\<rparr>, Ready (Custom ev))
         | [] \<Rightarrow>
             if (case h_state h0 of ShuttingDown delay \<Rightarrow> sleep_poll E cx delay | _ \<Rightarrow> False)
             then Inr (h0\<lparr>h_state := Deactivated\<rparr>, Ready (Close RPCError_Error))
             else run_bind (poll_delays E cx h0) (\<lambda>(h1, returned).
               case returned of
                 Some ev \<Rightarrow> Inr (h1, Ready ev)
               | None \<Rightarrow>
                   poll_substreams P E cx (in_order (fmdom (inbound_substreams h1)))
                     (out_order (fmdom (outbound_substreams h1))) h1))"

end
