(* ===== verification/Transport.thy ===== *)
theory Transport
  imports Prelude
begin

section \<open>The transport (\<open>build_transport\<close>, \<open>generate_noise_config\<close> in \<open>src/main.rs\<close>)\<close>

text \<open>
  How the program composes libp2p's transports. The combinators are libp2p's: they are the fields of
  \<open>transport_ext\<close>, and a transport is a value they return. The configurations the program chooses are data. Reading the
  system's DNS configuration may fail, which \<open>build_transport\<close> passes on; signing the noise keys may fail, which is a
  panic. The DNS configuration is read twice; the first argument of \<open>dns_system\<close> says which time it is.
\<close>

record TcpConfig =
  tcp_nodelay :: bool

datatype MaxBufferBehaviour = ResetStream | Block

record MplexConfig =
  max_buffer_size :: nat
  max_buffer_behaviour :: MaxBufferBehaviour

datatype WindowUpdateMode = OnReceive | OnRead

record YamuxConfig =
  window_update_mode :: WindowUpdateMode

record ('key, 'dh, 'noise, 't, 'e) transport_ext =
  noise_keypair_new :: 'dh
  into_authentic :: "'key \<Rightarrow> 'dh \<Rightarrow> 'dh option"
  noise_xx :: "'dh \<Rightarrow> 'noise"
  tcp_new :: "TcpConfig \<Rightarrow> 't"
  dns_system :: "nat \<Rightarrow> 't \<Rightarrow> ('t, 'e) result"
  ws_new :: "'t \<Rightarrow> 't"
  or_transport :: "'t \<Rightarrow> 't \<Rightarrow> 't"
  mplex_default :: MplexConfig
  yamux_default :: YamuxConfig
  upgrade_v1 :: "'t \<Rightarrow> 't"
  authenticate :: "'noise \<Rightarrow> 't \<Rightarrow> 't"
  multiplex :: "YamuxConfig \<Rightarrow> MplexConfig \<Rightarrow> 't \<Rightarrow> 't"
  with_timeout :: "duration \<Rightarrow> 't \<Rightarrow> 't"
  boxed :: "'t \<Rightarrow> 't"

definition generate_noise_config :: "('key, 'dh, 'noise, 't, 'e) transport_ext \<Rightarrow> 'key \<Rightarrow> 'noise run" where
  "generate_noise_config T identity_keypair =
     (case into_authentic T identity_keypair (noise_keypair_new T) of
        None \<Rightarrow> Inl (Expect ''signing can fail only once during starting a node'')
      | Some static_dh_keys \<Rightarrow> Inr (noise_xx T static_dh_keys))"

definition base_transport :: "('key, 'dh, 'noise, 't, 'e) transport_ext \<Rightarrow> ('t, 'e) result" where
  "base_transport T =
     (case dns_system T 0 (tcp_new T \<lparr>tcp_nodelay = True\<rparr>) of
        Err e \<Rightarrow> Err e
      | Ok dns_tcp \<Rightarrow>
          (case dns_system T 1 (tcp_new T \<lparr>tcp_nodelay = True\<rparr>) of
             Err e \<Rightarrow> Err e
           | Ok dns_tcp' \<Rightarrow> Ok (or_transport T dns_tcp (ws_new T dns_tcp'))))"

definition build_transport ::
  "('key, 'dh, 'noise, 't, 'e) transport_ext \<Rightarrow> 'key \<Rightarrow> ('t, 'e) result run" where
  "build_transport T keypair =
     (case base_transport T of
        Err e \<Rightarrow> Inr (Err e)
      | Ok transport \<Rightarrow>
          (let mplex_config = (mplex_default T)\<lparr>max_buffer_size := 256, max_buffer_behaviour := Block\<rparr>;
               yamux_config = (yamux_default T)\<lparr>window_update_mode := OnRead\<rparr>
           in run_bind (generate_noise_config T keypair) (\<lambda>noise.
                Inr (Ok (boxed T (with_timeout T (from_secs 100)
                  (multiplex T yamux_config mplex_config (authenticate T noise (upgrade_v1 T transport)))))))))"

text \<open>
  A transport as the list of the layers applied to the two alternatives, TCP and WebSocket: an instance of the
  interface that records what is built.
\<close>

datatype layer =
    Nodelay bool | Dns | Ws | UpgradeV1 | Noise nat | Mux YamuxConfig MplexConfig | Limit duration | Boxed

datatype stack = Layers "layer list" | Either "layer list" "layer list" "layer list"

fun add_layer :: "layer \<Rightarrow> stack \<Rightarrow> stack" where
  "add_layer l (Layers ls) = Layers (ls @ [l])"
| "add_layer l (Either xs ys ls) = Either xs ys (ls @ [l])"

fun either_stack :: "stack \<Rightarrow> stack \<Rightarrow> stack" where
  "either_stack (Layers xs) (Layers ys) = Either xs ys []"
| "either_stack a b = a"

definition stack_ext :: "bool \<Rightarrow> ('key, nat, nat, stack, string) transport_ext" where
  "stack_ext dns_ok =
     \<lparr>noise_keypair_new = 7, into_authentic = (\<lambda>_ dh. Some dh), noise_xx = (\<lambda>dh. dh),
      tcp_new = (\<lambda>c. Layers [Nodelay (tcp_nodelay c)]),
      dns_system = (\<lambda>_ t. if dns_ok then Ok (add_layer Dns t) else Err ''no resolver''),
      ws_new = add_layer Ws, or_transport = either_stack,
      mplex_default = \<lparr>max_buffer_size = 32, max_buffer_behaviour = ResetStream\<rparr>,
      yamux_default = \<lparr>window_update_mode = OnReceive\<rparr>, upgrade_v1 = add_layer UpgradeV1,
      authenticate = (\<lambda>n. add_layer (Noise n)), multiplex = (\<lambda>y m. add_layer (Mux y m)),
      with_timeout = (\<lambda>d. add_layer (Limit d)), boxed = add_layer Boxed\<rparr>"

lemma stack_ext_builds:
  "build_transport (stack_ext True) k =
     Inr (Ok (Either [Nodelay True, Dns] [Nodelay True, Dns, Ws]
       [UpgradeV1, Noise 7,
        Mux \<lparr>window_update_mode = OnRead\<rparr> \<lparr>max_buffer_size = 256, max_buffer_behaviour = Block\<rparr>,
        Limit (from_secs 100), Boxed]))"
  by (simp add: build_transport_def base_transport_def generate_noise_config_def stack_ext_def Let_def)

end
