(* ===== verification/Main_Loop.thy ===== *)
theory Main_Loop
  imports Node Handler_Poll Transport
begin

section \<open>The program (\<open>main\<close> in \<open>src/main.rs\<close>)\<close>

text \<open>
  The whole of \<open>main\<close>: setting up, the loop, saving. The swarm is libp2p's code: what it does between two events it
  hands to the main loop is a list of calls of the program's own methods, chosen by the environment, and
  \<open>swarm_call\<close> says what each call does to the behaviours and to the connections' handlers. A call whose behaviour
  generates an event ends the swarm's turn, and the main loop handles the event.
\<close>

subsection \<open>What the swarm calls\<close>

record ('p, 'a, 'info, 'conn, 'enr, 'd, 'fu, 'esf, 'st, 'g, 'wk, 'i, 'snd, 'o, 'q, 'k) node =
  behaviour :: "('p, 'a, 'info, 'conn, 'enr, 'd, 'fu, 'esf, 'st, 'g) Behaviour"
  connections :: "('conn, 'p \<times> (unit RequestId, 'wk, 'i, 'snd, 'o, 'q, 'k) RPCHandler) fmap"

datatype ('p, 'info, 'conn, 'cx, 'i, 'dcx, 'n, 'g) call =
    Opened instant 'conn 'p
  | Closed instant 'conn
  | DialFailed instant "'p option"
  | InboundStream 'conn instant InboundRequest 'i
  | PollHandler 'conn 'cx "SubstreamId fset \<Rightarrow> SubstreamId list" "SubstreamId fset \<Rightarrow> SubstreamId list"
  | PollRpc 'conn
  | PollDiscovery 'n 'dcx
  | Ticks "'p tick list"
  | PollManager
  | Gossipsub "'g \<Rightarrow> 'g" bool
  | Identify "('p \<times> 'info) option"

text \<open>
  Every call is a call of methods of the program, in the way libp2p documents for its \<open>NetworkBehaviour\<close> and
  \<open>ConnectionHandler\<close> traits. A new connection, whoever opened it, gets a handler and the behaviours are told; a
  closed one is dropped and they are told, so that every closure is that of an earlier connection. What a handler reports is
  injected into its behaviour. The other notifications of the swarm do nothing in the program. A
  notification for any connection of a peer is delivered to the one the environment picks; a notification for a
  connection that is gone is lost.
\<close>

definition manager_event ::
  "profile \<Rightarrow> instant \<Rightarrow> 'p FromSwarm
   \<Rightarrow> ('p, 'a, 'info, 'conn, 'enr, 'd, 'fu, 'esf, 'st, 'g, 'wk, 'i, 'snd, 'o, 'q, 'k) node
   \<Rightarrow> ('p, 'a, 'info, 'conn, 'enr, 'd, 'fu, 'esf, 'st, 'g, 'wk, 'i, 'snd, 'o, 'q, 'k) node run" where
  "manager_event P now ev n =
     run_bind (on_swarm_event P now ev (peer_manager (behaviour n))) (\<lambda>pm.
       Inr (n\<lparr>behaviour := (behaviour n)\<lparr>peer_manager := pm\<rparr>\<rparr>))"

definition deliver ::
  "'conn \<Rightarrow> 'p \<Rightarrow> 'conn NotifyHandler \<Rightarrow> unit RequestId RPCSend
   \<Rightarrow> ('conn, 'p \<times> (unit RequestId, 'wk, 'i, 'snd, 'o, 'q, 'k) RPCHandler) fmap
   \<Rightarrow> ('conn, 'p \<times> (unit RequestId, 'wk, 'i, 'snd, 'o, 'q, 'k) RPCHandler) fmap" where
  "deliver pick p to m hs =
     (let c = (case to of NotifyHandler_One c \<Rightarrow> c | NotifyHandler_Any \<Rightarrow> pick)
      in case fmlookup hs c of
           None \<Rightarrow> hs
         | Some (p', h) \<Rightarrow> if p' = p then fmupd c (p', fst (Handler.inject_event m h)) hs else hs)"

fun swarm_call ::
  "profile \<Rightarrow> ('cx, 'wk, 'i, 'snd, 'o, 'q, 'k) handler_ext
   \<Rightarrow> ('enr, 'b, 'key, 'pk, 'p, 'sk, 'd, 'dcx, 'fut, 'fu, 'esf, 'st, 'n, 'a) disc_ext
   \<Rightarrow> ('p, 'info, 'conn, 'cx, 'i, 'dcx, 'n, 'g) call
   \<Rightarrow> ('p, 'a, 'info, 'conn, 'enr, 'd, 'fu, 'esf, 'st, 'g, 'wk, 'i, 'snd, 'o, 'q, 'k) node
   \<Rightarrow> (('p, 'a, 'info, 'conn, 'enr, 'd, 'fu, 'esf, 'st, 'g, 'wk, 'i, 'snd, 'o, 'q, 'k) node \<times>
       ('p, 'a, 'info, 'conn) BehaviourEvent option) run" where
  "swarm_call P E X (Opened now c p) n =
     run_bind (manager_event P now (ConnectionEstablished p) n) (\<lambda>n.
       Inr (n\<lparr>connections := fmupd c (p, RPC_new_handler E) (connections n)\<rparr>, None))"
| "swarm_call P E X (Closed now c) n =
     (case fmlookup (connections n) c of
        None \<Rightarrow> Inr (n, None)
      | Some (p, _) \<Rightarrow>
          run_bind (manager_event P now (ConnectionClosed p) n) (\<lambda>n.
            Inr (n\<lparr>connections := fmdrop c (connections n)\<rparr>, None)))"
| "swarm_call P E X (DialFailed now peer) n =
     run_bind (manager_event P now (DialFailure peer) n) (\<lambda>n. Inr (n, None))"
| "swarm_call P E X (InboundStream c now r sub) n =
     (case fmlookup (connections n) c of
        None \<Rightarrow> Inr (n, None)
      | Some (p, h) \<Rightarrow>
          run_bind (inject_fully_negotiated_inbound P E now (r, sub) h) (\<lambda>h.
            Inr (n\<lparr>connections := fmupd c (p, h) (connections n)\<rparr>, None)))"
| "swarm_call P E X (PollHandler c cx io oo) n =
     (case fmlookup (connections n) c of
        None \<Rightarrow> Inr (n, None)
      | Some (p, h) \<Rightarrow>
          run_bind (RPCHandler_poll P E cx io oo h) (\<lambda>(h, r).
            Inr (n\<lparr>behaviour := (behaviour n)\<lparr>rpc := report p c r (rpc (behaviour n))\<rparr>,
                   connections := fmupd c (p, h) (connections n)\<rparr>, None)))"
| "swarm_call P E X (PollRpc pick) n =
     (case RPC_poll (rpc (behaviour n)) of
        (r, Pending) \<Rightarrow> Inr (n\<lparr>behaviour := (behaviour n)\<lparr>rpc := r\<rparr>\<rparr>, None)
      | (r, Ready (GenerateEvent msg)) \<Rightarrow>
          Inr (n\<lparr>behaviour := (behaviour n)\<lparr>rpc := r\<rparr>\<rparr>, Some (BehaviourEvent_Rpc msg))
      | (r, Ready (NotifyHandler p to m)) \<Rightarrow>
          Inr (n\<lparr>behaviour := (behaviour n)\<lparr>rpc := r\<rparr>, connections := deliver pick p to m (connections n)\<rparr>, None))"
| "swarm_call P E X (PollDiscovery target cx) n =
     run_bind (Discovery_poll X target cx (discovery (behaviour n))) (\<lambda>(d, r).
       Inr (n\<lparr>behaviour := (behaviour n)\<lparr>discovery := d\<rparr>\<rparr>,
            case r of Pending \<Rightarrow> None | Ready dp \<Rightarrow> Some (BehaviourEvent_Discovery dp)))"
| "swarm_call P E X (Ticks ts) n =
     Inr (n\<lparr>behaviour := (behaviour n)\<lparr>peer_manager := (peer_manager (behaviour n))
              \<lparr>heartbeat := heartbeat (peer_manager (behaviour n)) @ ts\<rparr>\<rparr>\<rparr>, None)"
| "swarm_call P E X PollManager n =
     run_bind (PeerManager_poll P (peer_manager (behaviour n))) (\<lambda>(pm, r).
       Inr (n\<lparr>behaviour := (behaviour n)\<lparr>peer_manager := pm\<rparr>\<rparr>,
            case r of Pending \<Rightarrow> None | Ready ev \<Rightarrow> Some (BehaviourEvent_PeerManager ev)))"
| "swarm_call P E X (Gossipsub act reports) n =
     Inr (n\<lparr>behaviour := (behaviour n)\<lparr>gossipsub := act (gossipsub (behaviour n))\<rparr>\<rparr>,
          if reports then Some BehaviourEvent_Gossipsub else None)"
| "swarm_call P E X (Identify received) n = Inr (n, Some (BehaviourEvent_Identify received))"

fun swarm_calls ::
  "profile \<Rightarrow> ('cx, 'wk, 'i, 'snd, 'o, 'q, 'k) handler_ext
   \<Rightarrow> ('enr, 'b, 'key, 'pk, 'p, 'sk, 'd, 'dcx, 'fut, 'fu, 'esf, 'st, 'n, 'a) disc_ext
   \<Rightarrow> ('p, 'info, 'conn, 'cx, 'i, 'dcx, 'n, 'g) call list
   \<Rightarrow> ('p, 'a, 'info, 'conn, 'enr, 'd, 'fu, 'esf, 'st, 'g, 'wk, 'i, 'snd, 'o, 'q, 'k) node
   \<Rightarrow> (('p, 'a, 'info, 'conn, 'enr, 'd, 'fu, 'esf, 'st, 'g, 'wk, 'i, 'snd, 'o, 'q, 'k) node \<times>
       ('p, 'a, 'info, 'conn) BehaviourEvent option) run" where
  "swarm_calls P E X [] n = Inr (n, None)"
| "swarm_calls P E X (c # cs) n =
     run_bind (swarm_call P E X c n) (\<lambda>(n, ev).
       case ev of None \<Rightarrow> swarm_calls P E X cs n | Some _ \<Rightarrow> Inr (n, ev))"

subsection \<open>The loop\<close>

text \<open>
  One turn: the clock the loop's condition reads, what the swarm does until it returns an event or the one-second
  sleep ends the turn, and the order in which \<open>add_peers\<close> visits discovered peers. An event of the swarm itself is only
  logged, as is the end of the sleep.
\<close>

record ('p, 'info, 'conn, 'cx, 'i, 'dcx, 'n, 'g) turn =
  loop_now :: instant
  swarm_turn :: "('p, 'info, 'conn, 'cx, 'i, 'dcx, 'n, 'g) call list"
  peers_order :: "'p fset \<Rightarrow> 'p list"

definition handle_event ::
  "('p \<Rightarrow> 'g \<Rightarrow> 'g) \<Rightarrow> ('p fset \<Rightarrow> 'p list) \<Rightarrow> ('p, 'a, 'info, 'conn) BehaviourEvent option
   \<Rightarrow> ('p, 'a, 'info, 'conn, 'enr, 'd, 'fu, 'esf, 'st, 'g, 'wk, 'i, 'snd, 'o, 'q, 'k) node
   \<Rightarrow> ('p, 'a, 'info, 'conn, 'enr, 'd, 'fu, 'esf, 'st, 'g, 'wk, 'i, 'snd, 'o, 'q, 'k) node run" where
  "handle_event add_explicit_peer order event n =
     (case event of
        None \<Rightarrow> Inr n
      | Some ev \<Rightarrow> run_bind (on_behaviour_event add_explicit_peer order ev (behaviour n)) (\<lambda>b. Inr (n\<lparr>behaviour := b\<rparr>)))"

text \<open>
  The turns the environment supplies are a list: the loop ends at the first turn whose clock has passed \<open>time_to_stop\<close>, and
  \<open>OutOfFuel\<close> says that the list holds no such turn.
\<close>

fun main_loop ::
  "profile \<Rightarrow> ('cx, 'wk, 'i, 'snd, 'o, 'q, 'k) handler_ext
   \<Rightarrow> ('enr, 'b, 'key, 'pk, 'p, 'sk, 'd, 'dcx, 'fut, 'fu, 'esf, 'st, 'n, 'a) disc_ext
   \<Rightarrow> ('p \<Rightarrow> 'g \<Rightarrow> 'g) \<Rightarrow> instant
   \<Rightarrow> ('p, 'info, 'conn, 'cx, 'i, 'dcx, 'n, 'g) turn list
   \<Rightarrow> ('p, 'a, 'info, 'conn, 'enr, 'd, 'fu, 'esf, 'st, 'g, 'wk, 'i, 'snd, 'o, 'q, 'k) node
   \<Rightarrow> ('p, 'a, 'info, 'conn, 'enr, 'd, 'fu, 'esf, 'st, 'g, 'wk, 'i, 'snd, 'o, 'q, 'k) node run" where
  "main_loop P E X add_explicit_peer time_to_stop [] n = Inl OutOfFuel"
| "main_loop P E X add_explicit_peer time_to_stop (t # ts) n =
     (if loop_now t < time_to_stop then
        run_bind (swarm_calls P E X (swarm_turn t) n) (\<lambda>(n, event).
        run_bind (handle_event add_explicit_peer (peers_order t) event n)
          (main_loop P E X add_explicit_peer time_to_stop ts))
      else Inr n)"

subsection \<open>Configurations\<close>

datatype ValidationMode = Strict | Permissive | Anonymous | NoValidation

record 'p GossipsubConfig =
  max_transmit_size :: nat
  mesh_n :: nat
  mesh_n_low :: nat
  mesh_outbound_min :: nat
  mesh_n_high :: nat
  gossip_lazy :: nat
  fanout_ttl :: duration
  heartbeat_interval :: duration
  validate_messages :: bool
  validation_mode :: ValidationMode
  duplicate_cache_time :: duration
  history_length :: nat
  max_messages_per_rpc :: "nat option"
  allow_self_origin :: bool
  message_id_fn :: "'p GossipsubMessage \<Rightarrow> bytes"

definition gossipsub_config :: "(bytes \<Rightarrow> bytes) \<Rightarrow> 'p GossipsubConfig" where
  "gossipsub_config sha256 =
     \<lparr>max_transmit_size = GOSSIP_MAX_SIZE_BELLATRIX, mesh_n = 5, mesh_n_low = 3, mesh_outbound_min = 2, mesh_n_high = 10,
      gossip_lazy = 3, fanout_ttl = from_secs 60, heartbeat_interval = 700 * 1000000, validate_messages = True,
      validation_mode = Anonymous, duplicate_cache_time = DUPLICATE_CACHE_TIME, history_length = 12,
      max_messages_per_rpc = Some 500, allow_self_origin = True, message_id_fn = gossip_message_id sha256\<rparr>"

definition gossip_topic :: string where
  "gossip_topic = ''/eth2/4a26c58b/beacon_block/ssz_snappy''"

text \<open>The identify behaviour takes part only in the swarm: the program configures it and reads its events.\<close>

record 'lpk IdentifyConfig =
  protocol_version :: string
  local_public_key :: 'lpk
  cache_size :: nat

definition identify_config :: "'lpk \<Rightarrow> 'lpk IdentifyConfig" where
  "identify_config public_key = \<lparr>protocol_version = [], local_public_key = public_key, cache_size = 0\<rparr>"

datatype MessageAuthenticity = Signed | Author | RandomAuthor | AnonymousAuthor

record SwarmConfig =
  notify_handler_buffer_size :: nat
  connection_event_buffer_size :: nat
  max_pending_incoming :: "nat option"
  max_pending_outgoing :: "nat option"
  max_established_per_peer :: "nat option"

definition NonZeroUsize_new :: "nat \<Rightarrow> nat option" where
  "NonZeroUsize_new n = (if n = 0 then None else Some n)"

definition swarm_config :: "SwarmConfig run" where
  "swarm_config =
     (case NonZeroUsize_new 7 of
        None \<Rightarrow> Inl (Expect ''Not zero'')
      | Some n \<Rightarrow>
          Inr \<lparr>notify_handler_buffer_size = n, connection_event_buffer_size = 64, max_pending_incoming = Some 64,
               max_pending_outgoing = Some 32, max_established_per_peer = Some 10\<rparr>)"

subsection \<open>Setting up, running, saving\<close>

text \<open>
  The crates \<open>main\<close> calls besides those of the components, and what the environment supplies to one execution: the key
  that is generated, the peer data file, the clock, the turns of the loop and the success of writing the file.
\<close>

record ('p, 'sk, 'lpk, 'g, 'gc, 't, 'addr, 'swarm) main_ext =
  public_key :: "'sk Keypair \<Rightarrow> 'lpk"
  peer_id_from :: "'lpk \<Rightarrow> 'p"
  sha256 :: "bytes \<Rightarrow> bytes"
  gossipsub_build :: "'p GossipsubConfig \<Rightarrow> 'gc option"
  gossipsub_new :: "MessageAuthenticity \<Rightarrow> 'gc \<Rightarrow> SnappyTransform \<Rightarrow> ('g, string) result"
  gossipsub_subscribe :: "string \<Rightarrow> 'g \<Rightarrow> ('g, string) result"
  gossipsub_add_explicit_peer :: "'p \<Rightarrow> 'g \<Rightarrow> 'g"
  swarm_build :: "'t \<Rightarrow> 'lpk IdentifyConfig \<Rightarrow> 'p \<Rightarrow> SwarmConfig \<Rightarrow> 'swarm"
  parse_multiaddr :: "string \<Rightarrow> ('addr, string) result"
  listen_on :: "'addr \<Rightarrow> 'swarm \<Rightarrow> ('swarm, string) result"

record ('p, 'info, 'conn, 'cx, 'i, 'dcx, 'n, 'g, 'sk) execution =
  local_key :: "'sk Keypair"
  data_file :: PeerDataFile
  start_time :: instant
  turns :: "('p, 'info, 'conn, 'cx, 'i, 'dcx, 'n, 'g) turn list"
  save_now :: "'p \<Rightarrow> instant"
  save_order :: "'p fset \<Rightarrow> 'p list"
  can_create :: bool
  can_write :: "string \<Rightarrow> bool"

record ('p, 'a) json_ext =
  to_json :: "('p, 'a PeerData) fmap \<Rightarrow> string option"
  from_json :: "string \<Rightarrow> ('p, 'a PeerData) fmap option"

datatype 'e main_error =
    TransportError 'e
  | GossipsubError string
  | SubscriptionError string
  | MultiaddrError string
  | ListenError string

text \<open>The question mark operator in a function that may also panic.\<close>

definition question :: "('a, 'e) result \<Rightarrow> ('e \<Rightarrow> 'f) \<Rightarrow> ('a \<Rightarrow> ('b, 'f) result run) \<Rightarrow> ('b, 'f) result run" where
  "question r wrap f = (case r of Err e \<Rightarrow> Inr (Err (wrap e)) | Ok x \<Rightarrow> f x)"

definition build_gossipsub ::
  "('p, 'sk, 'lpk, 'g, 'gc, 't, 'addr, 'swarm) main_ext \<Rightarrow> ('g, 'e main_error) result run" where
  "build_gossipsub M =
     (case gossipsub_build M (gossipsub_config (sha256 M)) of
        None \<Rightarrow> Inl (Expect ''Valid config'')
      | Some config \<Rightarrow>
          question (gossipsub_new M AnonymousAuthor config SnappyTransform_new) GossipsubError (\<lambda>gs.
          question (gossipsub_subscribe M gossip_topic gs) SubscriptionError (\<lambda>gs.
            Inr (Ok gs))))"

definition start_listening ::
  "('p, 'sk, 'lpk, 'g, 'gc, 't, 'addr, 'swarm) main_ext \<Rightarrow> 't \<Rightarrow> 'sk Keypair \<Rightarrow> ('swarm, 'e main_error) result run" where
  "start_listening M transport key =
     run_bind swarm_config (\<lambda>cfg. let pk = public_key M key in
       question (parse_multiaddr M ''/ip4/0.0.0.0/tcp/9000'') MultiaddrError (\<lambda>addr.
       question (listen_on M addr (swarm_build M transport (identify_config pk) (peer_id_from M pk) cfg)) ListenError (\<lambda>swarm.
         Inr (Ok swarm))))"

definition set_up ::
  "('sk Keypair, 'dh, 'noise, 't, 'e) transport_ext
   \<Rightarrow> ('enr, 'b, 'key, 'pk, 'p, 'sk, 'd, 'dcx, 'fut, 'fu, 'esf, 'st, 'n, 'a) disc_ext \<Rightarrow> (ForkData \<Rightarrow> bytes)
   \<Rightarrow> ('p, 'sk, 'lpk, 'g, 'gc, 't, 'addr, 'swarm) main_ext \<Rightarrow> ('p, 'a) json_ext
   \<Rightarrow> ('p, 'info, 'conn, 'cx, 'i, 'dcx, 'n, 'g, 'sk) execution
   \<Rightarrow> (('p, 'a, 'info, 'conn, 'enr, 'd, 'fu, 'esf, 'st, 'g, 'wk, 'i, 'snd, 'o, 'q, 'k) node, 'e main_error) result run" where
  "set_up T X tree_hash_root M J env =
     run_bind (build_transport T (local_key env)) (\<lambda>r. question r TransportError (\<lambda>transport.
     run_bind (Discovery_new X tree_hash_root (local_key env)) (\<lambda>disc.
     run_bind (load_peer_data (from_json J) (data_file env) (PeerManager_new target_num_peers)) (\<lambda>pm.
     run_bind (build_gossipsub M) (\<lambda>r. question r id (\<lambda>gs.
     run_bind (start_listening M transport (local_key env)) (\<lambda>r. question r id (\<lambda>_.
       Inr (Ok \<lparr>behaviour = \<lparr>gossipsub = gs, discovery = disc, rpc = RPC_new, peer_manager = pm\<rparr>,
               connections = fmempty\<rparr>)))))))))"

definition time_to_stop :: "instant \<Rightarrow> instant" where
  "time_to_stop now = now + from_secs (60 * 3)"

text \<open>\<open>main\<close> returns an error of the set-up, or the text it has written to \<open>PEER_DATA_FILE\<close>.\<close>

definition main ::
  "profile \<Rightarrow> ('cx, 'wk, 'i, 'snd, 'o, 'q, 'k) handler_ext
   \<Rightarrow> ('sk Keypair, 'dh, 'noise, 't, 'e) transport_ext
   \<Rightarrow> ('enr, 'b, 'key, 'pk, 'p, 'sk, 'd, 'dcx, 'fut, 'fu, 'esf, 'st, 'n, 'a) disc_ext \<Rightarrow> (ForkData \<Rightarrow> bytes)
   \<Rightarrow> ('p, 'sk, 'lpk, 'g, 'gc, 't, 'addr, 'swarm) main_ext \<Rightarrow> ('p, 'a) json_ext
   \<Rightarrow> ('p, 'info, 'conn, 'cx, 'i, 'dcx, 'n, 'g, 'sk) execution
   \<Rightarrow> (string, 'e main_error) result run" where
  "main P E T X tree_hash_root M J env =
     run_bind (set_up T X tree_hash_root M J env) (\<lambda>r. question r id (\<lambda>n.
     run_bind (main_loop P E X (gossipsub_add_explicit_peer M) (time_to_stop (start_time env)) (turns env) n) (\<lambda>n.
     run_bind (save_peer_data P (save_now env) (save_order env) (can_create env) (to_json J) (can_write env)
         (peer_manager (behaviour n))) (\<lambda>(_, text).
       Inr (Ok text)))))"

end
