(* ===== verification/Handler_Invariant.thy ===== *)
theory Handler_Invariant
  imports Handler_Poll
begin

section \<open>The invariant of the connection handler\<close>

text \<open>
  The delay queue is a crate of its own; \<open>delay_queue_laws E live\<close> states what its documentation
  promises, with \<open>live q\<close> the entries of the queue \<open>q\<close>: inserting returns a key not in use, removing
  and resetting succeed on a key in use, an expired entry leaves the queue, and nothing else changes
  it. Keys may be used again once they are free.

  The handler's invariant: no substream is poisoned, every delay key an entry of a substream map
  holds is in use for exactly that substream, and the bounds on substreams, dials and retries hold.
  Every operation keeps it, and under it \<open>poll\<close> neither panics nor runs out of fuel.
\<close>

definition delay_queue_laws ::
  "('cx, 'wk, 'i, 'snd, 'o, 'q, 'k) handler_ext \<Rightarrow> ('q \<Rightarrow> 'k \<rightharpoonup> SubstreamId) \<Rightarrow> bool" where
  "delay_queue_laws E live \<longleftrightarrow>
     live (dq_new E) = Map.empty \<and>
     (\<forall>q. finite (dom (live q)) \<and> dq_len E q = card (dom (live q))) \<and>
     (\<forall>q i d q' k. dq_insert E q i d = (q', k) \<longrightarrow> live q k = None \<and> live q' = (live q)(k \<mapsto> i)) \<and>
     (\<forall>q k. live q k \<noteq> None \<longrightarrow> (\<exists>q'. dq_remove E q k = Inr q' \<and> live q' = (live q)(k := None))) \<and>
     (\<forall>q k d. live q k \<noteq> None \<longrightarrow> (\<exists>q'. dq_reset E q k d = Inr q' \<and> live q' = live q)) \<and>
     (\<forall>cx q q' i. dq_poll_expired E cx q = (q', Ready (Some (Ok i))) \<longrightarrow>
        (\<exists>k. live q k = Some i \<and> live q' = (live q)(k := None))) \<and>
     (\<forall>cx q q' r. dq_poll_expired E cx q = (q', r) \<and> (\<forall>i. r \<noteq> Ready (Some (Ok i))) \<longrightarrow>
        live q' = live q)"

definition inbound_entry_ok ::
  "('q \<Rightarrow> 'k \<rightharpoonup> SubstreamId) \<Rightarrow> 'q \<Rightarrow> SubstreamId \<Rightarrow> ('i, 'snd, 'k) InboundInfo \<Rightarrow> bool" where
  "inbound_entry_ok live q i info \<longleftrightarrow>
     ii_state info \<noteq> InPoisoned \<and> remaining_chunks info \<le> 1 \<and>
     (\<forall>k. ii_delay_key info = Some k \<longrightarrow> live q k = Some i)"

definition outbound_entry_ok ::
  "('q \<Rightarrow> 'k \<rightharpoonup> SubstreamId) \<Rightarrow> 'q \<Rightarrow> SubstreamId \<Rightarrow> ('id, 'o, 'k) OutboundInfo \<Rightarrow> bool" where
  "outbound_entry_ok live q i info \<longleftrightarrow>
     oi_state info \<noteq> OutPoisoned \<and> oi_remaining_chunks info = None \<and> live q (oi_delay_key info) = Some i"

definition inbound_ok ::
  "('q \<Rightarrow> 'k \<rightharpoonup> SubstreamId) \<Rightarrow> SubstreamId set
   \<Rightarrow> ('id, 'wk, 'i, 'snd, 'o, 'q, 'k) RPCHandler \<Rightarrow> bool" where
  "inbound_ok live except h \<longleftrightarrow>
     (\<forall>i info. fmlookup (inbound_substreams h) i = Some info \<longrightarrow> i \<notin> except \<longrightarrow>
        inbound_entry_ok live (inbound_substreams_delay h) i info)"

definition outbound_ok ::
  "('q \<Rightarrow> 'k \<rightharpoonup> SubstreamId) \<Rightarrow> ('id, 'wk, 'i, 'snd, 'o, 'q, 'k) RPCHandler \<Rightarrow> bool" where
  "outbound_ok live h \<longleftrightarrow>
     (\<forall>i info. fmlookup (outbound_substreams h) i = Some info \<longrightarrow>
        outbound_entry_ok live (outbound_substreams_delay h) i info)"

definition limits_ok :: "('id, 'wk, 'i, 'snd, 'o, 'q, 'k) RPCHandler \<Rightarrow> bool" where
  "limits_ok h \<longleftrightarrow>
     fcard (fmdom (inbound_substreams h)) \<le> MAX_INBOUND_SUBSTREAMS \<and>
     max_dial_negotiated h = 8 \<and> dial_negotiated h \<le> 8 \<and> outbound_io_error_retries h < IO_ERROR_RETRIES"

definition handler_inv ::
  "('q \<Rightarrow> 'k \<rightharpoonup> SubstreamId) \<Rightarrow> ('id, 'wk, 'i, 'snd, 'o, 'q, 'k) RPCHandler \<Rightarrow> bool" where
  "handler_inv live h \<longleftrightarrow> inbound_ok live {} h \<and> outbound_ok live h \<and> limits_ok h"

lemmas handler_inv_defs = handler_inv_def inbound_ok_def outbound_ok_def limits_ok_def

text \<open>What the stages of \<open>poll\<close> before dialling leave alone.\<close>

definition same_control ::
  "('id, 'wk, 'i, 'snd, 'o, 'q, 'k) RPCHandler \<Rightarrow> ('id, 'wk, 'i, 'snd, 'o, 'q, 'k) RPCHandler \<Rightarrow> bool" where
  "same_control h h' \<longleftrightarrow>
     listen_protocol h' = listen_protocol h \<and> dial_queue h' = dial_queue h \<and>
     dial_negotiated h' = dial_negotiated h \<and> max_dial_negotiated h' = max_dial_negotiated h \<and>
     h_state h' = h_state h \<and> outbound_io_error_retries h' = outbound_io_error_retries h \<and>
     current_inbound_substream_id h' = current_inbound_substream_id h \<and>
     current_outbound_substream_id h' = current_outbound_substream_id h \<and> waker h' = waker h"

lemma same_control_refl [simp]: "same_control h h"
  by (simp add: same_control_def)

lemma same_control_trans: "same_control a b \<Longrightarrow> same_control b c \<Longrightarrow> same_control a c"
  by (simp add: same_control_def)

subsection \<open>The delay queue\<close>

lemma dq_insertD:
  "delay_queue_laws E live \<Longrightarrow> dq_insert E q i d = (q', k) \<Longrightarrow> live q k = None \<and> live q' = (live q)(k \<mapsto> i)"
  unfolding delay_queue_laws_def by blast

lemma dq_removeD:
  "delay_queue_laws E live \<Longrightarrow> live q k = Some i \<Longrightarrow> \<exists>q'. dq_remove E q k = Inr q' \<and> live q' = (live q)(k := None)"
  unfolding delay_queue_laws_def by (metis option.distinct(1))

lemma dq_resetD:
  "delay_queue_laws E live \<Longrightarrow> live q k = Some i \<Longrightarrow> \<exists>q'. dq_reset E q k d = Inr q' \<and> live q' = live q"
  unfolding delay_queue_laws_def by (metis option.distinct(1))

lemma dq_expiredD:
  "delay_queue_laws E live \<Longrightarrow> dq_poll_expired E cx q = (q', Ready (Some (Ok i))) \<Longrightarrow>
   \<exists>k. live q k = Some i \<and> live q' = (live q)(k := None)"
  unfolding delay_queue_laws_def by blast

lemma dq_not_expiredD:
  "delay_queue_laws E live \<Longrightarrow> dq_poll_expired E cx q = (q', r) \<Longrightarrow> (\<And>i. r \<noteq> Ready (Some (Ok i))) \<Longrightarrow>
   live q' = live q"
  unfolding delay_queue_laws_def by blast

lemma dq_lenD: "delay_queue_laws E live \<Longrightarrow> finite (dom (live q)) \<and> dq_len E q = card (dom (live q))"
  unfolding delay_queue_laws_def by simp

lemma dq_expired_len:
  assumes "delay_queue_laws E live" "dq_poll_expired E cx q = (q', Ready (Some (Ok i)))"
  shows "dq_len E q = Suc (dq_len E q')"
proof -
  obtain k where k: "live q k = Some i" "live q' = (live q)(k := None)"
    using dq_expiredD [OF assms] by blast
  have "card (dom (live q)) = Suc (card (dom (live q) - {k}))"
    using k(1) dq_lenD [OF assms(1), of q] by (intro card.remove) auto
  then show ?thesis using k(2) dq_lenD [OF assms(1)] by (simp add: dom_fun_upd)
qed

lemma remove_delay_ok:
  assumes "delay_queue_laws E live" "\<And>k. key = Some k \<Longrightarrow> live q k = Some i"
  shows "\<exists>q'. remove_delay E key q = Inr q' \<and> (\<forall>k j. j \<noteq> i \<longrightarrow> live q k = Some j \<longrightarrow> live q' k = Some j)"
proof (cases key)
  case (Some k)
  with assms dq_removeD [OF assms(1), of q k i] show ?thesis by (auto simp: remove_delay_def)
qed (simp add: remove_delay_def)

lemma reset_delay_ok:
  assumes "delay_queue_laws E live" "\<And>k. key = Some k \<Longrightarrow> live q k = Some i"
  shows "\<exists>q'. reset_delay E key q = Inr q' \<and> live q' = live q"
proof (cases key)
  case (Some k)
  with assms dq_resetD [OF assms(1), of q k i] show ?thesis by (auto simp: reset_delay_def)
qed (simp add: reset_delay_def)

subsection \<open>Inbound substreams\<close>

lemma inbound_entry_ok_simps [simp]:
  "inbound_entry_ok live q i (info\<lparr>ii_state := s\<rparr>) \<longleftrightarrow>
     s \<noteq> InPoisoned \<and> remaining_chunks info \<le> 1 \<and> (\<forall>k. ii_delay_key info = Some k \<longrightarrow> live q k = Some i)"
  "inbound_entry_ok live q i (info\<lparr>pending_items := ms\<rparr>) \<longleftrightarrow> inbound_entry_ok live q i info"
  by (simp_all add: inbound_entry_ok_def)

lemma drive_inbound_ok:
  assumes "delay_queue_laws E live" "inbound_entry_ok live q i info"
  shows "\<exists>info' q' evs' r. drive_inbound E cx d info q evs = Inr (info', q', evs', r) \<and>
    (\<not> r \<longrightarrow> inbound_entry_ok live q' i info') \<and>
    (\<forall>k j. j \<noteq> i \<longrightarrow> live q k = Some j \<longrightarrow> live q' k = Some j)"
  using assms
proof (induction E cx d info q evs rule: drive_inbound.induct)
  case (1 E cx d info q evs)
  then have ok: "ii_state info \<noteq> InPoisoned" "remaining_chunks info \<le> 1"
    "\<And>k. ii_delay_key info = Some k \<Longrightarrow> live q k = Some i"
    by (auto simp: inbound_entry_ok_def)
  obtain q1 where rem: "remove_delay E (ii_delay_key info) q = Inr q1"
    "\<And>k j. j \<noteq> i \<Longrightarrow> live q k = Some j \<Longrightarrow> live q1 k = Some j"
    using remove_delay_ok [OF "1.prems"(1) ok(3)] by metis
  obtain q2 where rst: "reset_delay E (ii_delay_key info) q = Inr q2" "live q2 = live q"
    using reset_delay_ok [OF "1.prems"(1) ok(3)] by metis
  have chunk: "saturating_sub (remaining_chunks info) 1 \<le> 1"
    using saturating_sub_le ok(2) by (rule order_trans)
  note unfold = drive_inbound.simps [of E cx d info q evs]
  show ?case
  proof (cases "ii_state info")
    case (Idle s)
    show ?thesis
    proof (cases "\<not> d \<and> pending_items info \<noteq> []")
      case True
      then obtain m ms where "pending_items info = m # ms" by (cases "pending_items info") auto
      with True Idle "1.IH"(1) [OF Idle _ this] "1.prems" ok show ?thesis
        unfolding unfold by simp
    next
      case False
      with Idle ok rem show ?thesis
        by (cases "in_close_poll E cx s"; cases "snd (in_close_poll E cx s)")
          (auto simp: unfold inbound_entry_ok_def split: list.splits)
    qed
  next
    case (Busy fut)
    show ?thesis
    proof (cases "send_message_poll E cx fut")
      case (FutPending f)
      with Busy ok show ?thesis by (auto simp: unfold)
    next
      case (FutReady r)
      consider (closed) s where "r = Ok (s, True)" | (sent) s where "r = Ok (s, False)" | (err) e where "r = Err e"
        by (cases r) (metis (full_types) surj_pair)+
      then show ?thesis
      proof cases
        case sent
        show ?thesis
        proof (cases "\<not> d \<and> pending_items info \<noteq> []")
          case True
          then obtain m ms where p: "pending_items info = m # ms" by (cases "pending_items info") auto
          with True Busy FutReady sent rst chunk ok
            "1.IH"(2) [OF Busy FutReady sent refl _ rst(1) refl] "1.prems" show ?thesis
            unfolding unfold by (auto simp: inbound_entry_ok_def)
        next
          case False
          with Busy FutReady sent rst chunk ok show ?thesis
            unfolding unfold by (cases "pending_items info"; cases d) (auto simp: inbound_entry_ok_def)
        qed
      qed (use Busy FutReady rem in \<open>auto simp: unfold\<close>)
    qed
  qed (use ok in simp)
qed

lemma fmlookup_fold_fmdrop:
  "fmlookup (fold fmdrop ks m) k = (if k \<in> set ks then None else fmlookup m k)"
  by (induction ks arbitrary: m) auto

lemma fmdom_fold_fmdrop: "fmdom (fold fmdrop ks m) |\<subseteq>| fmdom m"
  by (auto simp: fmlookup_fold_fmdrop fmlookup_dom_iff split: if_splits)

text \<open>One substream after the other: entries not yet driven stay as they were, up to delays of others.\<close>

lemma drive_inbounds_ok:
  assumes "delay_queue_laws E live" "distinct ids" "set ids \<inter> set rem = {}"
    and "inbound_ok live (set rem) h"
  shows "\<exists>h' rem'. drive_inbounds E cx d ids h rem = Inr (h', rem') \<and>
    inbound_ok live (set rem') h' \<and> fmdom (inbound_substreams h') = fmdom (inbound_substreams h) \<and>
    outbound_substreams h' = outbound_substreams h \<and>
    outbound_substreams_delay h' = outbound_substreams_delay h \<and> same_control h h'"
  using assms
proof (induction ids arbitrary: h rem)
  case (Cons i ids)
  show ?case
  proof (cases "fmlookup (inbound_substreams h) i")
    case None
    with Cons show ?thesis by simp
  next
    case (Some info)
    with Cons.prems have "inbound_entry_ok live (inbound_substreams_delay h) i info"
      by (auto simp: inbound_ok_def)
    from drive_inbound_ok [OF Cons.prems(1) this]
    obtain info' q' evs' r where
      d: "drive_inbound E cx d info (inbound_substreams_delay h) (events_out h) = Inr (info', q', evs', r)"
      and ok: "\<not> r \<Longrightarrow> inbound_entry_ok live q' i info'"
      and keep: "\<And>k j. j \<noteq> i \<Longrightarrow> live (inbound_substreams_delay h) k = Some j \<Longrightarrow> live q' k = Some j"
      by metis
    let ?h = "h\<lparr>inbound_substreams := fmupd i info' (inbound_substreams h),
      inbound_substreams_delay := q', events_out := evs'\<rparr>"
    let ?rem = "if r then rem @ [i] else rem"
    have "inbound_ok live (set ?rem) ?h"
      using Cons.prems(4) ok keep by (auto simp: inbound_ok_def inbound_entry_ok_def)
    moreover have "set ids \<inter> set ?rem = {}" using Cons.prems(2,3) by auto
    ultimately obtain h' rem' where "drive_inbounds E cx d ids ?h ?rem = Inr (h', rem')"
      "inbound_ok live (set rem') h'" "fmdom (inbound_substreams h') = fmdom (inbound_substreams ?h)"
      "outbound_substreams h' = outbound_substreams ?h"
      "outbound_substreams_delay h' = outbound_substreams_delay ?h" "same_control ?h h'"
      using Cons.IH [of ?rem ?h] Cons.prems(1,2) by auto
    with Some d show ?thesis by (auto simp: same_control_def fmdomI)
  qed
qed simp

lemma poll_inbound_substreams_ok:
  assumes "delay_queue_laws E live" "distinct order" "inbound_ok live {} h"
  shows "\<exists>h'. poll_inbound_substreams E cx order h = Inr h' \<and> inbound_ok live {} h' \<and>
    fmdom (inbound_substreams h') |\<subseteq>| fmdom (inbound_substreams h) \<and>
    outbound_substreams h' = outbound_substreams h \<and>
    outbound_substreams_delay h' = outbound_substreams_delay h \<and> same_control h h'"
proof -
  obtain h1 rem where d: "drive_inbounds E cx (h_state h = Deactivated) order h [] = Inr (h1, rem)"
    and h1: "inbound_ok live (set rem) h1" "fmdom (inbound_substreams h1) = fmdom (inbound_substreams h)"
      "outbound_substreams h1 = outbound_substreams h"
      "outbound_substreams_delay h1 = outbound_substreams_delay h" "same_control h h1"
    using drive_inbounds_ok [OF assms(1,2), of "[]"] assms(3) by fastforce
  let ?h = "h1\<lparr>inbound_substreams := fold fmdrop rem (inbound_substreams h1)\<rparr>"
  have "inbound_ok live {} ?h"
    using h1(1) by (auto simp: inbound_ok_def fmlookup_fold_fmdrop split: if_splits)
  moreover have "fmdom (inbound_substreams ?h) |\<subseteq>| fmdom (inbound_substreams h)"
    using fmdom_fold_fmdrop [of rem "inbound_substreams h1"] h1(2) by simp
  ultimately show ?thesis
    using d h1 by (auto simp: poll_inbound_substreams_def same_control_def)
qed

subsection \<open>Outbound substreams\<close>

lemma outbound_entry_ok_simps [simp]:
  "outbound_entry_ok live q i (info\<lparr>oi_state := s\<rparr>) \<longleftrightarrow>
     s \<noteq> OutPoisoned \<and> oi_remaining_chunks info = None \<and> live q (oi_delay_key info) = Some i"
  by (simp add: outbound_entry_ok_def)

lemma set_outbound_simps [simp]:
  "outbound_substreams (set_outbound i info h) = fmupd i info (outbound_substreams h)"
  "outbound_substreams_delay (set_outbound i info h) = outbound_substreams_delay h"
  "inbound_substreams (set_outbound i info h) = inbound_substreams h"
  "inbound_substreams_delay (set_outbound i info h) = inbound_substreams_delay h"
  "events_out (set_outbound i info h) = events_out h"
  "same_control h' (set_outbound i info h) \<longleftrightarrow> same_control h' h"
  by (simp_all add: set_outbound_def same_control_def)

lemma push_event_simps [simp]:
  "outbound_substreams (push_event e h) = outbound_substreams h"
  "outbound_substreams_delay (push_event e h) = outbound_substreams_delay h"
  "inbound_substreams (push_event e h) = inbound_substreams h"
  "inbound_substreams_delay (push_event e h) = inbound_substreams_delay h"
  "events_out (push_event e h) = events_out h @ [e]"
  "same_control h' (push_event e h) \<longleftrightarrow> same_control h' h"
  "inbound_ok live X (push_event e h) \<longleftrightarrow> inbound_ok live X h"
  "outbound_ok live (push_event e h) \<longleftrightarrow> outbound_ok live h"
  "limits_ok (push_event e h) \<longleftrightarrow> limits_ok h"
  by (simp_all add: push_event_def same_control_def inbound_ok_def outbound_ok_def limits_ok_def)

lemma set_outbound_ok:
  "outbound_ok live h \<Longrightarrow> outbound_entry_ok live (outbound_substreams_delay h) i info \<Longrightarrow>
   outbound_ok live (set_outbound i info h)"
  by (auto simp: outbound_ok_def)

lemma remove_outbound_ok:
  assumes "delay_queue_laws E live" "outbound_ok live h" "fmlookup (outbound_substreams h) i = Some info"
  shows "\<exists>h'. remove_outbound E i info h = Inr h' \<and> outbound_ok live h' \<and> same_control h h' \<and>
    outbound_substreams h' = fmdrop i (outbound_substreams h) \<and>
    inbound_substreams h' = inbound_substreams h \<and> inbound_substreams_delay h' = inbound_substreams_delay h"
proof -
  from assms(2,3) have live: "live (outbound_substreams_delay h) (oi_delay_key info) = Some i"
    by (auto simp: outbound_ok_def outbound_entry_ok_def)
  from dq_removeD [OF assms(1) live] obtain q where
    q: "dq_remove E (outbound_substreams_delay h) (oi_delay_key info) = Inr q"
    "live q = (live (outbound_substreams_delay h))(oi_delay_key info := None)" by blast
  have "outbound_entry_ok live q j info'"
    if "j \<noteq> i" "fmlookup (outbound_substreams h) j = Some info'" for j info'
  proof -
    have "outbound_entry_ok live (outbound_substreams_delay h) j info'"
      using assms(2) that(2) by (simp add: outbound_ok_def)
    with that(1) live show ?thesis by (auto simp: outbound_entry_ok_def q(2))
  qed
  then show ?thesis
    using q(1) by (auto simp: remove_outbound_def outbound_ok_def same_control_def)
qed

text \<open>No request expects more than one response, so a response always closes the substream.\<close>

lemma on_response_closes:
  "on_response E i info s r resp h = Inr (set_outbound i (info\<lparr>oi_state := Closing s\<rparr>) h)"
  using expected_responses_le_1(2) [of r] by (auto simp: on_response_def dest: leD)

lemma drive_outbounds_ok:
  assumes "delay_queue_laws E live" "distinct ids" "set ids \<subseteq> fset (fmdom (outbound_substreams h))"
    and "outbound_ok live h"
  shows "\<exists>h' ev. drive_outbounds E cx d ids h = Inr (h', ev) \<and> outbound_ok live h' \<and> same_control h h' \<and>
    fmdom (outbound_substreams h') |\<subseteq>| fmdom (outbound_substreams h) \<and>
    inbound_substreams h' = inbound_substreams h \<and> inbound_substreams_delay h' = inbound_substreams_delay h"
  using assms
proof (induction ids arbitrary: h)
  case (Cons i ids)
  then obtain info where info: "fmlookup (outbound_substreams h) i = Some info" by (auto dest: fmdomE)
  with Cons.prems have ok: "oi_state info \<noteq> OutPoisoned" "oi_remaining_chunks info = None"
    "live (outbound_substreams_delay h) (oi_delay_key info) = Some i"
    by (auto simp: outbound_ok_def outbound_entry_ok_def)
  have dom: "i |\<in>| fmdom (outbound_substreams h)" using info by (rule fmdomI)
  obtain hr where hr: "remove_outbound E i info h = Inr hr" "outbound_ok live hr" "same_control h hr"
    "outbound_substreams hr = fmdrop i (outbound_substreams h)"
    "inbound_substreams hr = inbound_substreams h" "inbound_substreams_delay hr = inbound_substreams_delay h"
    using remove_outbound_ok [OF Cons.prems(1,4) info] by blast
  have set_ok: "outbound_ok live (set_outbound i (info\<lparr>oi_state := s\<rparr>) h)" if "s \<noteq> OutPoisoned" for s
    using Cons.prems(4) ok that by (intro set_outbound_ok) simp_all
  have rest: "\<exists>h'' ev. drive_outbounds E cx d ids h' = Inr (h'', ev) \<and> outbound_ok live h'' \<and>
      same_control h h'' \<and> fmdom (outbound_substreams h'') |\<subseteq>| fmdom (outbound_substreams h) \<and>
      inbound_substreams h'' = inbound_substreams h \<and> inbound_substreams_delay h'' = inbound_substreams_delay h"
    if "outbound_ok live h'" "same_control h h'"
      "fmdom (outbound_substreams h) |-| {|i|} |\<subseteq>| fmdom (outbound_substreams h')"
      "fmdom (outbound_substreams h') |\<subseteq>| fmdom (outbound_substreams h)"
      "inbound_substreams h' = inbound_substreams h" "inbound_substreams_delay h' = inbound_substreams_delay h"
    for h'
  proof -
    have "set ids \<subseteq> fset (fmdom (outbound_substreams h'))"
      using Cons.prems(2,3) that(3) by (auto simp: less_eq_fset.rep_eq)
    from Cons.IH [OF Cons.prems(1) _ this that(1)] Cons.prems(2) show ?thesis
      using that by (auto intro: same_control_trans)
  qed
  show ?case
  proof (cases "oi_state info")
    case (RequestPendingResponse s r)
    show ?thesis
    proof (cases d)
      case True
      let ?h = "push_event (Err ''Handler deactivated'') (set_outbound i (info\<lparr>oi_state := Closing s\<rparr>) h)"
      have "outbound_ok live ?h" "same_control h ?h"
        using set_ok by simp_all
      with True RequestPendingResponse info dom show ?thesis
        using rest [of ?h] by auto
    next
      case False
      obtain s' p where out: "out_poll_next E cx s = (s', p)" by fastforce
      consider (pending) "p = Pending" | (response) resp where "p = Ready (Some (Ok resp))"
        | (dropped) "p = Ready None \<or> (\<exists>e. p = Ready (Some (Err e)))"
        by (metis option.exhaust poll.exhaust result.exhaust)
      then show ?thesis
      proof cases
        case pending
        with False RequestPendingResponse info dom out show ?thesis
          using rest [of "set_outbound i (info\<lparr>oi_state := RequestPendingResponse s' r\<rparr>) h"] set_ok by auto
      next
        case response
        with False RequestPendingResponse info dom out show ?thesis
          using set_ok [of "Closing s'"] by (auto simp: on_response_closes)
      next
        case dropped
        with False RequestPendingResponse info out show ?thesis
          using hr by auto
      qed
    qed
  next
    case (Closing s)
    obtain s' p where out: "out_poll_close E cx s = (s', p)" by fastforce
    show ?thesis
    proof (cases p)
      case (Ready x1)
      with Closing info out hr show ?thesis using rest [of hr] by auto
    next
      case Pending
      with Closing info dom out show ?thesis
        using rest [of "set_outbound i (info\<lparr>oi_state := Closing s'\<rparr>) h"] set_ok by auto
    qed
  qed (use ok in simp)
qed simp

subsection \<open>Expired delays\<close>

lemma on_inbound_timeout_ok:
  assumes "inbound_ok live {} h" "live (inbound_substreams_delay h) k = Some i"
    and "live q = (live (inbound_substreams_delay h))(k := None)"
  shows "inbound_ok live {} (on_inbound_timeout i (h\<lparr>inbound_substreams_delay := q\<rparr>))"
proof -
  have other: "inbound_entry_ok live q j info"
    if "fmlookup (inbound_substreams h) j = Some info" "j \<noteq> i" for j info
  proof -
    have "inbound_entry_ok live (inbound_substreams_delay h) j info"
      using assms(1) that(1) by (simp add: inbound_ok_def)
    with that(2) assms(2) show ?thesis by (auto simp: inbound_entry_ok_def assms(3))
  qed
  show ?thesis
  proof (cases "fmlookup (inbound_substreams h) i")
    case None
    with other show ?thesis by (fastforce simp: on_inbound_timeout_def inbound_ok_def)
  next
    case (Some info)
    then have "inbound_entry_ok live (inbound_substreams_delay h) i info"
      using assms(1) by (simp add: inbound_ok_def)
    then have "inbound_entry_ok live q i (info\<lparr>ii_delay_key := None\<rparr>)"
      by (simp add: inbound_entry_ok_def)
    with Some other show ?thesis
      by (auto simp: on_inbound_timeout_def inbound_ok_def)
  qed
qed

lemma on_inbound_timeout_frame [simp]:
  "same_control h' (on_inbound_timeout i h) \<longleftrightarrow> same_control h' h"
  "fmdom (inbound_substreams (on_inbound_timeout i h)) = fmdom (inbound_substreams h)"
  "inbound_substreams_delay (on_inbound_timeout i h) = inbound_substreams_delay h"
  "outbound_substreams (on_inbound_timeout i h) = outbound_substreams h"
  "outbound_substreams_delay (on_inbound_timeout i h) = outbound_substreams_delay h"
  by (auto simp: on_inbound_timeout_def same_control_def push_event_def fmdomI split: option.splits)

lemma expire_inbound_ok:
  assumes "delay_queue_laws E live" "dq_len E (inbound_substreams_delay h) < fuel" "inbound_ok live {} h"
  shows "\<exists>h' ev. expire_inbound fuel E cx h = Inr (h', ev) \<and> inbound_ok live {} h' \<and>
    fmdom (inbound_substreams h') = fmdom (inbound_substreams h) \<and>
    outbound_substreams h' = outbound_substreams h \<and>
    outbound_substreams_delay h' = outbound_substreams_delay h \<and> same_control h h'"
  using assms(2,3)
proof (induction fuel arbitrary: h)
  case (Suc fuel)
  obtain q p where d: "dq_poll_expired E cx (inbound_substreams_delay h) = (q, p)" by fastforce
  show ?case
  proof (cases "\<exists>i. p = Ready (Some (Ok i))")
    case True
    then obtain i where p: "p = Ready (Some (Ok i))" by blast
    with dq_expiredD [OF assms(1)] d obtain k where
      k: "live (inbound_substreams_delay h) k = Some i"
      "live q = (live (inbound_substreams_delay h))(k := None)" by blast
    let ?h = "on_inbound_timeout i (h\<lparr>inbound_substreams_delay := q\<rparr>)"
    have "dq_len E (inbound_substreams_delay ?h) < fuel"
      using dq_expired_len [OF assms(1)] d p Suc.prems(1) by fastforce
    moreover have "inbound_ok live {} ?h" using Suc.prems(2) k by (rule on_inbound_timeout_ok)
    ultimately obtain h' ev where "expire_inbound fuel E cx ?h = Inr (h', ev)" "inbound_ok live {} h'"
      "fmdom (inbound_substreams h') = fmdom (inbound_substreams ?h)"
      "outbound_substreams h' = outbound_substreams ?h"
      "outbound_substreams_delay h' = outbound_substreams_delay ?h" "same_control ?h h'"
      using Suc.IH by blast
    moreover have "same_control h ?h" by (simp add: same_control_def [of h "h\<lparr>inbound_substreams_delay := q\<rparr>"])
    ultimately show ?thesis using d p same_control_trans [of h ?h h'] by simp
  next
    case False
    then have "live q = live (inbound_substreams_delay h)" using dq_not_expiredD [OF assms(1) d] by blast
    then have "inbound_ok live {} (h\<lparr>inbound_substreams_delay := q\<rparr>)"
      using Suc.prems(2) by (auto simp: inbound_ok_def inbound_entry_ok_def)
    with d False show ?thesis
      by (auto simp: same_control_def split: poll.splits option.splits result.splits)
  qed
qed simp

lemma expire_outbound_ok:
  assumes "delay_queue_laws E live" "dq_len E (outbound_substreams_delay h) < fuel" "outbound_ok live h"
  shows "\<exists>h' ev. expire_outbound fuel E cx h = Inr (h', ev) \<and> outbound_ok live h' \<and>
    fmdom (outbound_substreams h') |\<subseteq>| fmdom (outbound_substreams h) \<and>
    inbound_substreams h' = inbound_substreams h \<and>
    inbound_substreams_delay h' = inbound_substreams_delay h \<and> same_control h h'"
  using assms(2,3)
proof (induction fuel arbitrary: h)
  case (Suc fuel)
  obtain q p where d: "dq_poll_expired E cx (outbound_substreams_delay h) = (q, p)" by fastforce
  show ?case
  proof (cases "\<exists>i. p = Ready (Some (Ok i))")
    case True
    then obtain i where p: "p = Ready (Some (Ok i))" by blast
    with dq_expiredD [OF assms(1)] d obtain k where
      k: "live (outbound_substreams_delay h) k = Some i"
      "live q = (live (outbound_substreams_delay h))(k := None)" by blast
    have other: "outbound_entry_ok live q j info"
      if "fmlookup (outbound_substreams h) j = Some info" "j \<noteq> i" for j info
    proof -
      have "outbound_entry_ok live (outbound_substreams_delay h) j info"
        using Suc.prems(2) that(1) by (simp add: outbound_ok_def)
      with that(2) k show ?thesis by (auto simp: outbound_entry_ok_def)
    qed
    show ?thesis
    proof (cases "fmlookup (outbound_substreams h) i")
      case None
      let ?h = "h\<lparr>outbound_substreams_delay := q\<rparr>"
      have "dq_len E (outbound_substreams_delay ?h) < fuel"
        using dq_expired_len [OF assms(1)] d p Suc.prems(1) by fastforce
      moreover have "outbound_ok live ?h" using other None by (fastforce simp: outbound_ok_def)
      ultimately show ?thesis using Suc.IH [of ?h] d p None by (auto simp: same_control_def)
    next
      case (Some info)
      with d p other show ?thesis by (auto simp: same_control_def outbound_ok_def)
    qed
  next
    case False
    then have "live q = live (outbound_substreams_delay h)" using dq_not_expiredD [OF assms(1) d] by blast
    then have "outbound_ok live (h\<lparr>outbound_substreams_delay := q\<rparr>)"
      using Suc.prems(2) by (auto simp: outbound_ok_def outbound_entry_ok_def)
    with d False show ?thesis
      by (auto simp: same_control_def split: poll.splits option.splits result.splits)
  qed
qed simp

subsection \<open>The whole of \<open>poll\<close>\<close>

text \<open>The number of dials a polled event starts.\<close>

fun dials :: "'id ConnectionHandlerEvent poll \<Rightarrow> nat" where
  "dials (Ready (OutboundSubstreamRequest _ _)) = 1"
| "dials _ = 0"

lemma expire_inbound_no_dial: "expire_inbound n E cx h = Inr (h', Some ev) \<Longrightarrow> dials (Ready ev) = 0"
  by (induction n arbitrary: h)
    (auto split: prod.splits poll.splits option.splits result.splits)

lemma expire_outbound_no_dial: "expire_outbound n E cx h = Inr (h', Some ev) \<Longrightarrow> dials (Ready ev) = 0"
  by (induction n arbitrary: h)
    (auto simp: Let_def split: prod.splits poll.splits option.splits result.splits)

lemma drive_outbounds_no_dial: "drive_outbounds E cx d ids h = Inr (h', Some ev) \<Longrightarrow> dials (Ready ev) = 0"
  by (induction ids arbitrary: h)
    (auto simp: run_simps split: OutboundSubstreamState.splits prod.splits poll.splits option.splits
      result.splits if_splits)

lemma update_waker_simps [simp]:
  "events_out (update_waker E cx h) = events_out h" "h_state (update_waker E cx h) = h_state h"
  "inbound_substreams (update_waker E cx h) = inbound_substreams h"
  "inbound_substreams_delay (update_waker E cx h) = inbound_substreams_delay h"
  "outbound_substreams (update_waker E cx h) = outbound_substreams h"
  "outbound_substreams_delay (update_waker E cx h) = outbound_substreams_delay h"
  "dial_queue (update_waker E cx h) = dial_queue h"
  "dial_negotiated (update_waker E cx h) = dial_negotiated h"
  "max_dial_negotiated (update_waker E cx h) = max_dial_negotiated h"
  "outbound_io_error_retries (update_waker E cx h) = outbound_io_error_retries h"
  by (auto simp: update_waker_def split: option.splits)

lemma handler_inv_update_waker [simp]: "handler_inv live (update_waker E cx h) \<longleftrightarrow> handler_inv live h"
  by (simp add: handler_inv_defs)

lemma limits_ok_mono:
  assumes "limits_ok h" "same_control h h'"
    and "fmdom (inbound_substreams h') |\<subseteq>| fmdom (inbound_substreams h)"
  shows "limits_ok h'"
  using assms fcard_mono [OF assms(3)] by (auto simp: limits_ok_def same_control_def)

lemma poll_delays_ok:
  assumes "delay_queue_laws E live" "handler_inv live h"
  shows "\<exists>h' ev. poll_delays E cx h = Inr (h', ev) \<and> handler_inv live h' \<and> same_control h h' \<and>
    (\<forall>e. ev = Some e \<longrightarrow> dials (Ready e) = 0)"
proof -
  have in0: "inbound_ok live {} h" using assms(2) by (simp add: handler_inv_def)
  obtain h1 ev1 where e1: "expire_inbound (Suc (dq_len E (inbound_substreams_delay h))) E cx h = Inr (h1, ev1)"
    and h1: "inbound_ok live {} h1" "fmdom (inbound_substreams h1) = fmdom (inbound_substreams h)"
      "outbound_substreams h1 = outbound_substreams h"
      "outbound_substreams_delay h1 = outbound_substreams_delay h" "same_control h h1"
    using expire_inbound_ok [OF assms(1) lessI in0, of cx] by blast
  then have out1: "outbound_ok live h1" and lim1: "limits_ok h1"
    using assms(2) limits_ok_mono [of h h1] by (auto simp: handler_inv_def outbound_ok_def)
  show ?thesis
  proof (cases ev1)
    case (Some ev)
    with e1 h1 out1 lim1 show ?thesis
      by (auto simp: poll_delays_def handler_inv_def simp del: expire_inbound.simps
          dest: expire_inbound_no_dial)
  next
    case None
    obtain h2 ev2 where
      e2: "expire_outbound (Suc (dq_len E (outbound_substreams_delay h1))) E cx h1 = Inr (h2, ev2)"
      and h2: "outbound_ok live h2" "fmdom (outbound_substreams h2) |\<subseteq>| fmdom (outbound_substreams h1)"
        "inbound_substreams h2 = inbound_substreams h1"
        "inbound_substreams_delay h2 = inbound_substreams_delay h1" "same_control h1 h2"
      using expire_outbound_ok [OF assms(1) _ out1] by blast
    then have "handler_inv live h2"
      using h1(1) lim1 limits_ok_mono [of h1 h2] by (auto simp: handler_inv_def inbound_ok_def)
    with e1 e2 None h1(5) h2(5) show ?thesis
      by (auto simp: poll_delays_def simp del: expire_inbound.simps expire_outbound.simps
          intro: same_control_trans dest: expire_outbound_no_dial)
  qed
qed

lemma poll_dial_ok:
  assumes "handler_inv live h"
  shows "\<exists>h' r. poll_dial P h = Inr (h', r) \<and> handler_inv live h' \<and>
    unat (dial_negotiated h') = unat (dial_negotiated h) + dials r \<and>
    outbound_io_error_retries h' = outbound_io_error_retries h \<and> waker h' = waker h"
proof (cases "dial_queue h \<noteq> [] \<and> dial_negotiated h < max_dial_negotiated h")
  case True
  then obtain i r ds where q: "dial_queue h = (i, r) # ds" by (metis list.exhaust surj_pair)
  have "unat (dial_negotiated h) < 8"
    using True assms by (simp add: handler_inv_def limits_ok_def word_less_nat_alt)
  then have n: "unat (dial_negotiated h + 1) = unat (dial_negotiated h) + 1"
    by (simp add: unat_word_ariths)
  with True q assms show ?thesis
    by (auto simp: poll_dial_def add_ovf_def handler_inv_defs word_le_nat_alt word_less_nat_alt)
next
  case False
  with assms show ?thesis
    by (auto simp: poll_dial_def split: HandlerState.splits)
qed

lemma poll_substreams_ok:
  assumes "delay_queue_laws E live" "handler_inv live h"
    and "enumerates io (fmdom (inbound_substreams h))" "enumerates oo (fmdom (outbound_substreams h))"
  shows "\<exists>h' r. poll_substreams P E cx io oo h = Inr (h', r) \<and> handler_inv live h' \<and>
    unat (dial_negotiated h') = unat (dial_negotiated h) + dials r \<and>
    outbound_io_error_retries h' = outbound_io_error_retries h \<and> waker h' = waker h"
proof -
  obtain h1 where p1: "poll_inbound_substreams E cx io h = Inr h1"
    and h1: "inbound_ok live {} h1" "fmdom (inbound_substreams h1) |\<subseteq>| fmdom (inbound_substreams h)"
      "outbound_substreams h1 = outbound_substreams h"
      "outbound_substreams_delay h1 = outbound_substreams_delay h" "same_control h h1"
    using poll_inbound_substreams_ok [OF assms(1), of io h] assms(2,3)
    by (auto simp: handler_inv_def enumerates_def)
  have out1: "outbound_ok live h1" "set oo \<subseteq> fset (fmdom (outbound_substreams h1))" "distinct oo"
    using assms(2,4) h1(3,4) enumerates_set [OF assms(4)]
    by (auto simp: handler_inv_def outbound_ok_def enumerates_def)
  obtain h2 ev where p2: "drive_outbounds E cx (h_state h = Deactivated) oo h1 = Inr (h2, ev)"
    and h2: "outbound_ok live h2" "same_control h1 h2" "inbound_substreams h2 = inbound_substreams h1"
      "inbound_substreams_delay h2 = inbound_substreams_delay h1"
    using drive_outbounds_ok [OF assms(1) out1(3,2,1)] by blast
  have sc: "same_control h h2" using h1(5) h2(2) by (rule same_control_trans)
  have inv2: "handler_inv live h2"
    using assms(2) h1 h2 sc limits_ok_mono [of h h2] by (auto simp: handler_inv_def inbound_ok_def)
  have same: "dial_negotiated h2 = dial_negotiated h"
    "outbound_io_error_retries h2 = outbound_io_error_retries h" "waker h2 = waker h"
    using sc by (simp_all add: same_control_def)
  show ?thesis
  proof (cases ev)
    case None
    with p1 p2 same poll_dial_ok [OF inv2, of P] show ?thesis by (simp add: poll_substreams_def)
  next
    case (Some e)
    with p1 p2 same inv2 drive_outbounds_no_dial show ?thesis by (auto simp: poll_substreams_def)
  qed
qed

theorem poll_ok:
  assumes "delay_queue_laws E live" "handler_inv live h"
    and "\<And>S. enumerates (io S) S" "\<And>S. enumerates (oo S) S"
  shows "\<exists>h' r. RPCHandler_poll P E cx io oo h = Inr (h', r) \<and> handler_inv live h' \<and>
    unat (dial_negotiated h') = unat (dial_negotiated h) + dials r \<and>
    outbound_io_error_retries h' = outbound_io_error_retries h \<and> waker h' = waker (update_waker E cx h)"
proof (cases "events_out h \<noteq> [] \<or> (case h_state h of ShuttingDown t \<Rightarrow> sleep_poll E cx t | _ \<Rightarrow> False)")
  case True
  then show ?thesis
    using assms(2) by (cases "events_out h") (auto simp: RPCHandler_poll_def Let_def handler_inv_defs)
next
  case False
  let ?h = "update_waker E cx h"
  have inv0: "handler_inv live ?h" using assms(2) by simp
  obtain h1 ev where d: "poll_delays E cx ?h = Inr (h1, ev)" and h1: "handler_inv live h1" "same_control ?h h1"
    "\<And>e. ev = Some e \<Longrightarrow> dials (Ready e) = 0"
    using poll_delays_ok [OF assms(1) inv0, of cx] by blast
  have same: "dial_negotiated h1 = dial_negotiated h"
    "outbound_io_error_retries h1 = outbound_io_error_retries h" "waker h1 = waker ?h"
    using h1(2) by (simp_all add: same_control_def)
  show ?thesis
  proof (cases ev)
    case None
    then have "RPCHandler_poll P E cx io oo h = poll_substreams P E cx
        (io (fmdom (inbound_substreams h1))) (oo (fmdom (outbound_substreams h1))) h1"
      using False d by (simp add: RPCHandler_poll_def Let_def)
    with poll_substreams_ok [OF assms(1) h1(1) assms(3,4)] same show ?thesis by simp
  next
    case (Some e)
    then have "RPCHandler_poll P E cx io oo h = Inr (h1, Ready e)"
      using False d by (simp add: RPCHandler_poll_def Let_def)
    with h1 same Some show ?thesis by simp
  qed
qed

end
