(* ===== verification/Handler_System.thy ===== *)
theory Handler_System
  imports Handler_Invariant "HOL-Library.AList"
begin

section \<open>The handler under its environment\<close>

text \<open>
  The handler as a transition system: libp2p polls it, hands it negotiated substreams, dial errors
  and the behaviour's messages, in any order. Two ghost counters accompany it: \<open>outstanding\<close>, the
  dials it has asked for and libp2p has not yet answered (libp2p answers each exactly once, with a
  substream or with an error), and \<open>leaked\<close>, the dials that failed and were retried.
\<close>

record ('id, 'wk, 'i, 'snd, 'o, 'q, 'k) handler_sys =
  hnd :: "('id, 'wk, 'i, 'snd, 'o, 'q, 'k) RPCHandler"
  outstanding :: nat
  leaked :: nat

definition handler_sys_init ::
  "('cx, 'wk, 'i, 'snd, 'o, 'q, 'k) handler_ext \<Rightarrow> ('id, 'wk, 'i, 'snd, 'o, 'q, 'k) handler_sys" where
  "handler_sys_init E = \<lparr>hnd = RPCHandler_new E RPCProtocol, outstanding = 0, leaked = 0\<rparr>"

datatype ('id, 'cx, 'i, 'o) handler_label =
    L_Poll 'cx
  | L_Inbound instant InboundRequest 'i
  | L_Outbound 'o 'id OutboundRequest
  | L_DialError 'id OutboundRequest ConnectionHandlerUpgrErr
  | L_Event "'id RPCSend"

definition retries_dial ::
  "ConnectionHandlerUpgrErr \<Rightarrow> ('id, 'wk, 'i, 'snd, 'o, 'q, 'k) RPCHandler \<Rightarrow> bool" where
  "retries_dial err h \<longleftrightarrow>
     err = UpgrErr_Apply RPCError_Error \<and> outbound_io_error_retries h + 1 < IO_ERROR_RETRIES"

inductive handler_step ::
  "profile \<Rightarrow> ('cx, 'wk, 'i, 'snd, 'o, 'q, 'k) handler_ext
   \<Rightarrow> ('id, 'wk, 'i, 'snd, 'o, 'q, 'k) handler_sys \<Rightarrow> ('id, 'cx, 'i, 'o) handler_label
   \<Rightarrow> ('id, 'wk, 'i, 'snd, 'o, 'q, 'k) handler_sys \<Rightarrow> bool"
  for P :: profile and E :: "('cx, 'wk, 'i, 'snd, 'o, 'q, 'k) handler_ext"
where
  step_poll:
    "(\<And>S. enumerates (io S) S) \<Longrightarrow> (\<And>S. enumerates (oo S) S) \<Longrightarrow>
     RPCHandler_poll P E cx io oo (hnd s) = Inr (h', r) \<Longrightarrow>
     handler_step P E s (L_Poll cx) (s\<lparr>hnd := h', outstanding := outstanding s + dials r\<rparr>)"
| step_inbound:
    "inject_fully_negotiated_inbound P E now (r, sub) (hnd s) = Inr h' \<Longrightarrow>
     handler_step P E s (L_Inbound now r sub) (s\<lparr>hnd := h'\<rparr>)"
| step_outbound:
    "0 < outstanding s \<Longrightarrow> inject_fully_negotiated_outbound P E out (i, r) (hnd s) = Inr h' \<Longrightarrow>
     handler_step P E s (L_Outbound out i r) (s\<lparr>hnd := h', outstanding := outstanding s - 1\<rparr>)"
| step_dial_error:
    "0 < outstanding s \<Longrightarrow> inject_dial_upgrade_error P (i, r) err (hnd s) = Inr h' \<Longrightarrow>
     handler_step P E s (L_DialError i r err)
       (s\<lparr>hnd := h', outstanding := outstanding s - 1,
          leaked := leaked s + (if retries_dial err (hnd s) then 1 else 0)\<rparr>)"
| step_event:
    "inject_event ev (hnd s) = (h', woken) \<Longrightarrow>
     handler_step P E s (L_Event ev) (s\<lparr>hnd := h'\<rparr>)"

definition sys_inv ::
  "('q \<Rightarrow> 'k \<rightharpoonup> SubstreamId) \<Rightarrow> ('id, 'wk, 'i, 'snd, 'o, 'q, 'k) handler_sys \<Rightarrow> bool" where
  "sys_inv live s \<longleftrightarrow>
     handler_inv live (hnd s) \<and> unat (dial_negotiated (hnd s)) = outstanding s + leaked s"

subsection \<open>Every operation keeps the invariant\<close>

lemma push_event_control [simp]:
  "dial_negotiated (push_event e h) = dial_negotiated h" "dial_queue (push_event e h) = dial_queue h"
  "h_state (push_event e h) = h_state h"
  "current_inbound_substream_id (push_event e h) = current_inbound_substream_id h"
  "current_outbound_substream_id (push_event e h) = current_outbound_substream_id h"
  by (simp_all add: push_event_def)

lemma send_request_dials [simp]: "dial_negotiated (send_request i r h) = dial_negotiated h"
  by (cases "h_state h") (simp_all add: send_request_def)

lemma handler_inv_new: "handler_inv live (RPCHandler_new E p)"
  by (simp add: handler_inv_defs RPCHandler_new_def IO_ERROR_RETRIES_def fcard.rep_eq)

lemma handler_inv_push_event [simp]: "handler_inv live (push_event e h) \<longleftrightarrow> handler_inv live h"
  by (simp add: handler_inv_def)

lemma handler_inv_shutdown [simp]: "handler_inv live (shutdown now g h) \<longleftrightarrow> handler_inv live h"
  by (simp add: shutdown_def handler_inv_defs)

lemma handler_inv_send_request [simp]: "handler_inv live (send_request i r h) \<longleftrightarrow> handler_inv live h"
  by (cases "h_state h") (simp_all add: send_request_def handler_inv_defs push_event_def)

lemma handler_inv_send_response:
  assumes "handler_inv live h"
  shows "handler_inv live (send_response i r h)"
proof (cases "fmlookup (inbound_substreams h) i")
  case None
  with assms show ?thesis by (simp add: send_response_def)
next
  case (Some info)
  let ?h = "h\<lparr>inbound_substreams := fmupd i (info\<lparr>pending_items := pending_items info @ [r]\<rparr>)
    (inbound_substreams h)\<rparr>"
  have "inbound_entry_ok live (inbound_substreams_delay h) i info"
    using assms Some by (simp add: handler_inv_def inbound_ok_def)
  with Some assms have "handler_inv live ?h"
    using fmdomI [OF Some] by (auto simp: handler_inv_defs finsert_absorb)
  with assms Some show ?thesis
    by (auto simp: send_response_def Let_def push_event_def handler_inv_defs)
qed

lemma handler_inv_inject_event:
  "handler_inv live h \<Longrightarrow> inject_event ev h = (h', w) \<Longrightarrow> handler_inv live h'"
  by (auto simp: inject_event_def Let_def handler_inv_send_response split: RPCSend.splits)

lemma handler_inv_inject_inbound:
  assumes "delay_queue_laws E live" "handler_inv live h"
    and "inject_fully_negotiated_inbound P E now (r, sub) h = Inr h'"
  shows "handler_inv live h'"
proof -
  let ?id = "current_inbound_substream_id h"
  obtain q k where ins: "dq_insert E (inbound_substreams_delay h) ?id (from_secs RESPONSE_TIMEOUT) = (q, k)"
    by fastforce
  then have live: "live q = (live (inbound_substreams_delay h))(k \<mapsto> ?id)"
    "live (inbound_substreams_delay h) k = None"
    using dq_insertD [OF assms(1)] by auto
  let ?info = "\<lparr>ii_state = Idle sub, pending_items = [], ii_protocol = in_protocol r,
    remaining_chunks = in_expected_responses r, request_start_time = now, ii_delay_key = Some k\<rparr>"
  let ?h1 = "h\<lparr>inbound_substreams_delay := q, inbound_substreams := fmupd ?id ?info (inbound_substreams h)\<rparr>"
  have inv1: "handler_inv live ?h1" if "fcard (fmdom (inbound_substreams h)) < MAX_INBOUND_SUBSTREAMS"
  proof -
    have "inbound_entry_ok live q j info"
      if "fmlookup (inbound_substreams h) j = Some info" for j info
      using assms(2) that live by (fastforce simp: handler_inv_defs inbound_entry_ok_def)
    moreover have "inbound_entry_ok live q ?id ?info"
      using live expected_responses_le_1(1) [of r] by (simp add: inbound_entry_ok_def)
    moreover have "fcard (finsert ?id (fmdom (inbound_substreams h))) \<le> MAX_INBOUND_SUBSTREAMS"
      using that by (simp add: fcard_finsert_if)
    ultimately show ?thesis using assms(2) by (auto simp: handler_inv_defs)
  qed
  show ?thesis
    using assms(2,3) ins inv1
    by (cases r)
      (auto simp: inject_fully_negotiated_inbound_def Let_def run_simps handler_inv_defs shutdown_def
        push_event_def split: if_splits)
qed

lemma dial_done_inv:
  assumes "handler_inv live h" "0 < unat (dial_negotiated h)"
  shows "handler_inv live (h\<lparr>dial_negotiated := dial_negotiated h - 1\<rparr>)"
  using assms unat_minus_1 [OF assms(2)] by (auto simp: handler_inv_defs word_le_nat_alt)

lemma sub_ovf_pos: "0 < unat x \<Longrightarrow> sub_ovf P x 1 = Inr (x - 1)"
  by (simp add: sub_ovf_def)

lemma handler_inv_inject_outbound:
  assumes "delay_queue_laws E live" "handler_inv live h" "0 < unat (dial_negotiated h)"
    and "inject_fully_negotiated_outbound P E out (i, r) h = Inr h'"
  shows "handler_inv live h' \<and> unat (dial_negotiated h') = unat (dial_negotiated h) - 1"
proof -
  have d: "unat (dial_negotiated h - 1) = unat (dial_negotiated h) - 1"
    using assms(3) by (rule unat_minus_1)
  let ?id = "current_outbound_substream_id h"
  obtain q k where ins: "dq_insert E (outbound_substreams_delay h) ?id (from_secs RESPONSE_TIMEOUT) = (q, k)"
    by fastforce
  then have live: "live q = (live (outbound_substreams_delay h))(k \<mapsto> ?id)"
    "live (outbound_substreams_delay h) k = None"
    using dq_insertD [OF assms(1)] by auto
  have old: "outbound_entry_ok live q j info" if "fmlookup (outbound_substreams h) j = Some info" for j info
    using assms(2) that live by (fastforce simp: handler_inv_defs outbound_entry_ok_def)
  let ?info = "\<lparr>oi_state = RequestPendingResponse out r, oi_delay_key = k, proto = out_protocol r,
    oi_remaining_chunks = None, req_id = i\<rparr>"
  define h2 where "h2 = (if h_state h = Deactivated
    then push_event (Err ''HandlerState::Deactivated'') (h\<lparr>dial_negotiated := dial_negotiated h - 1\<rparr>)
    else h\<lparr>dial_negotiated := dial_negotiated h - 1\<rparr>)"
  have h2: "handler_inv live h2" "dial_negotiated h2 = dial_negotiated h - 1"
    "outbound_substreams h2 = outbound_substreams h"
    "outbound_substreams_delay h2 = outbound_substreams_delay h" "current_outbound_substream_id h2 = ?id"
    using dial_done_inv [OF assms(2,3)] by (auto simp: h2_def)
  have "handler_inv live (h2\<lparr>outbound_substreams_delay := q,
      outbound_substreams := fmupd ?id ?info (outbound_substreams h), current_outbound_substream_id := n\<rparr>)" for n
    using h2 old live by (auto simp: handler_inv_defs outbound_entry_ok_def)
  moreover have "h' = h2 \<or> (\<exists>n. h' = h2\<lparr>outbound_substreams_delay := q,
      outbound_substreams := fmupd ?id ?info (outbound_substreams h), current_outbound_substream_id := n\<rparr>)"
    using assms(4) ins h2(3-5) expected_responses_le_1(2) [of r] sub_ovf_pos [OF assms(3)]
    by (auto simp: inject_fully_negotiated_outbound_def Let_def run_simps h2_def [symmetric] split: if_splits)
  ultimately show ?thesis using h2(1,2) d by auto
qed

lemma handler_inv_dial_error:
  assumes "handler_inv live h" "0 < unat (dial_negotiated h)"
  shows "\<exists>h'. inject_dial_upgrade_error P (i, r) err h = Inr h' \<and> handler_inv live h' \<and>
    unat (dial_negotiated h') = unat (dial_negotiated h) - (if retries_dial err h then 0 else 1)"
proof -
  have d: "unat (dial_negotiated h - 1) = unat (dial_negotiated h) - 1"
    using assms(2) by (rule unat_minus_1)
  have n: "unat (outbound_io_error_retries h) < 3" and le: "unat (dial_negotiated h) \<le> 8"
    using assms(1) by (simp_all add: handler_inv_defs IO_ERROR_RETRIES_def word_less_nat_alt word_le_nat_alt)
  have sub: "sub_ovf P (dial_negotiated h) 1 = Inr (dial_negotiated h - 1)"
    using assms(2) by (simp add: sub_ovf_def)
  have add: "add_ovf P (outbound_io_error_retries h) 1 = Inr (outbound_io_error_retries h + 1)"
    using n by (simp add: add_ovf_def)
  have failed: "handler_inv live (push_event e (h\<lparr>outbound_io_error_retries := m, dial_negotiated := dial_negotiated h - 1,
      outbound_io_error_retries := 0\<rparr>))" for e m
    using assms(1) d le
    by (simp only: handler_inv_push_event) (auto simp: handler_inv_defs IO_ERROR_RETRIES_def word_le_nat_alt)
  have retried: "handler_inv live (send_request i r (h\<lparr>outbound_io_error_retries := m\<rparr>))"
    if "m < IO_ERROR_RETRIES" for m
    using assms(1) that by (simp only: handler_inv_send_request) (simp add: handler_inv_defs)
  show ?thesis
    using d sub add failed [of _ "outbound_io_error_retries h + 1"] failed [of _ "outbound_io_error_retries h"] retried
    by (cases err) (auto simp: inject_dial_upgrade_error_def Let_def retries_dial_def
        split: RPCError.splits)
qed

lemma inject_inbound_dials:
  "inject_fully_negotiated_inbound P E now (r, sub) h = Inr h' \<Longrightarrow> dial_negotiated h' = dial_negotiated h"
  by (cases r) (auto simp: inject_fully_negotiated_inbound_def Let_def run_simps shutdown_def push_event_def
      split: if_splits prod.splits)

lemma inject_event_dials: "inject_event ev h = (h', w) \<Longrightarrow> dial_negotiated h' = dial_negotiated h"
  by (auto simp: inject_event_def Let_def send_request_def send_response_def push_event_def
      split: RPCSend.splits HandlerState.splits option.splits)

subsection \<open>The system\<close>

interpretation handler_system: inductive_invariant "\<lambda>s. s = handler_sys_init E" "handler_step P E"
  "\<lambda>s. delay_queue_laws E live \<longrightarrow> sys_inv live s" for P E live
proof
  show "delay_queue_laws E live \<longrightarrow> sys_inv live s" if "s = handler_sys_init E" for s
    by (simp add: that handler_sys_init_def sys_inv_def handler_inv_new) (simp add: RPCHandler_new_def)
next
  fix s l t
  assume inv: "delay_queue_laws E live \<longrightarrow> sys_inv live s" and step: "handler_step P E s l t"
  show "delay_queue_laws E live \<longrightarrow> sys_inv live t"
  proof
    assume laws: "delay_queue_laws E live"
    with inv have s: "handler_inv live (hnd s)" "unat (dial_negotiated (hnd s)) = outstanding s + leaked s"
      by (auto simp: sys_inv_def)
    from step show "sys_inv live t"
    proof cases
      case (step_poll io oo cx h' r)
      with poll_ok [OF laws s(1), of io oo P cx] s(2) show ?thesis by (auto simp: sys_inv_def)
    next
      case (step_inbound now r sub h')
      with handler_inv_inject_inbound [OF laws s(1)] s(2) show ?thesis
        by (auto simp: sys_inv_def inject_inbound_dials)
    next
      case (step_outbound out i r h')
      with handler_inv_inject_outbound [OF laws s(1) _ step_outbound(4)] s(2) show ?thesis
        by (auto simp: sys_inv_def)
    next
      case (step_dial_error i r err h')
      with handler_inv_dial_error [OF s(1), of P i r err] s(2) show ?thesis
        by (auto simp: sys_inv_def)
    next
      case (step_event ev h' w)
      with handler_inv_inject_event [OF s(1)] s(2) show ?thesis
        by (auto simp: sys_inv_def inject_event_dials)
    qed
  qed
qed

end
