(* ===== verification/Handler_Properties.thy ===== *)
theory Handler_Properties
  imports Handler_System
begin

section \<open>Properties of the connection handler\<close>

text \<open>
  The theorems about the handler of \<open>src/rpc/handler.rs\<close>, each with a witness at concrete inputs.
  The witnesses run on \<open>demo_ext\<close>, an environment written out in full: the polling context is the time, a
  delay queue is an association list whose first entry expires once the clock passes a deadline, a
  write to an inbound substream succeeds at once, and an outbound substream is the list of the
  responses it will deliver.
\<close>

subsection \<open>A concrete environment\<close>

type_synonym demo_queue = "(nat \<times> SubstreamId) list"

definition demo_deadline :: nat where
  "demo_deadline = 1000"

definition demo_ext ::
  "(nat, nat, RPCCodedResponse list, RPCCodedResponse list, RPCCodedResponse list, demo_queue, nat) handler_ext" where
  "demo_ext =
     \<lparr>cx_waker = (\<lambda>cx. cx), will_wake = (\<lambda>a b. a = b), sleep_poll = (\<lambda>cx t. t \<le> cx),
      dq_new = [], dq_len = (\<lambda>q. length (remdups (map fst q))),
      dq_insert = (\<lambda>q i d. ((Suc (foldr max (map fst q) 0), i) # q, Suc (foldr max (map fst q) 0))),
      dq_remove = (\<lambda>q k. if k \<in> set (map fst q) then Inr (AList.delete k q) else Inl MissingKey),
      dq_reset = (\<lambda>q k d. if k \<in> set (map fst q) then Inr q else Inl MissingKey),
      dq_poll_expired = (\<lambda>cx q. case q of
          [] \<Rightarrow> (q, Ready None)
        | (k, i) # _ \<Rightarrow>
            if demo_deadline \<le> cx then (AList.delete k q, Ready (Some (Ok i))) else (q, Pending)),
      in_send = (\<lambda>s m. s @ [m]),
      in_send_poll = (\<lambda>cx s. (s, Ready (s, Ok ()))),
      in_close_poll = (\<lambda>cx s. (s, Ready (Ok ()))),
      out_poll_next = (\<lambda>cx s. case s of [] \<Rightarrow> ([], Pending) | r # rs \<Rightarrow> (rs, Ready (Some (Ok r)))),
      out_poll_close = (\<lambda>cx s. (s, Ready (Ok ())))\<rparr>"

lemma demo_delay_queue_laws: "delay_queue_laws demo_ext map_of"
proof -
  have len: "length (remdups (map fst q)) = card (dom (map_of q))" for q :: demo_queue
    by (simp add: dom_map_of_conv_image_fst length_remdups_card_conv)
  have le: "x \<in> set xs \<Longrightarrow> x \<le> foldr max xs 0" for x :: nat and xs
    by (induction xs) auto
  have fresh: "(Suc (foldr max (map fst q) 0), i) \<notin> set q" for q :: demo_queue and i
    using le [of "Suc (foldr max (map fst q) 0)" "map fst q"] by (force simp: image_iff)
  show ?thesis
    unfolding delay_queue_laws_def
    by (auto simp: demo_ext_def len fresh finite_dom_map_of map_of_eq_None_iff
        AList.delete_conv' dom_map_of_conv_image_fst map_of_SomeD image_iff
        split: list.splits if_splits intro: exI)
qed

lemma demo_simps:
  "cx_waker demo_ext cx = cx" "will_wake demo_ext a b \<longleftrightarrow> a = b" "sleep_poll demo_ext cx t \<longleftrightarrow> t \<le> cx"
  "dq_new demo_ext = []" "dq_len demo_ext [] = 0" "dq_len demo_ext [e] = 1"
  "dq_insert demo_ext [] i d = ([(1, i)], 1)"
  "dq_remove demo_ext [(k, i)] k = Inr []" "dq_reset demo_ext [(k, i)] k d = Inr [(k, i)]"
  "dq_poll_expired demo_ext cx [] = ([], Ready None)"
  "dq_poll_expired demo_ext cx [(k, i)] =
     (if demo_deadline \<le> cx then ([], Ready (Some (Ok i))) else ([(k, i)], Pending))"
  "in_send demo_ext s m = s @ [m]" "in_send_poll demo_ext cx s = (s, Ready (s, Ok ()))"
  "in_close_poll demo_ext cx s = (s, Ready (Ok ()))"
  "out_poll_next demo_ext cx [] = ([], Pending)" "out_poll_next demo_ext cx (r # rs) = (rs, Ready (Some (Ok r)))"
  "out_poll_close demo_ext cx s = (s, Ready (Ok ()))"
  by (simp_all add: demo_ext_def)

abbreviation demo_order :: "SubstreamId fset \<Rightarrow> SubstreamId list" where
  "demo_order \<equiv> sorted_list_of_fset"

lemma demo_order_simps [simp]: "demo_order {||} = []" "demo_order {|i|} = [i]"
  by (simp_all add: sorted_list_of_fset.rep_eq)

lemma demo_order_enumerates: "enumerates (demo_order S) S"
  by (simp add: enumerates_def sorted_list_of_fset.rep_eq fset_of_list.abs_eq fset_inverse)


subsection \<open>Running the handler on a script\<close>

text \<open>
  \<open>run_script\<close> performs the steps of a list of labels; what it computes is reachable. The witnesses
  use it to reach the states they are about.
\<close>

fun run_label ::
  "profile \<Rightarrow> ('cx, 'wk, 'i, 'snd, 'o, 'q, 'k) handler_ext
   \<Rightarrow> ('id, 'wk, 'i, 'snd, 'o, 'q, 'k) handler_sys \<Rightarrow> ('id, 'cx, 'i, 'o) handler_label
   \<Rightarrow> ('id, 'wk, 'i, 'snd, 'o, 'q, 'k) handler_sys option" where
  "run_label P E s (L_Poll cx) =
     (case RPCHandler_poll P E cx demo_order demo_order (hnd s) of
        Inl _ \<Rightarrow> None
      | Inr (h', r) \<Rightarrow> Some (s\<lparr>hnd := h', outstanding := outstanding s + dials r\<rparr>))"
| "run_label P E s (L_Inbound now r sub) =
     (case inject_fully_negotiated_inbound P E now (r, sub) (hnd s) of
        Inl _ \<Rightarrow> None | Inr h' \<Rightarrow> Some (s\<lparr>hnd := h'\<rparr>))"
| "run_label P E s (L_Outbound out i r) =
     (if outstanding s = 0 then None
      else case inject_fully_negotiated_outbound P E out (i, r) (hnd s) of
        Inl _ \<Rightarrow> None | Inr h' \<Rightarrow> Some (s\<lparr>hnd := h', outstanding := outstanding s - 1\<rparr>))"
| "run_label P E s (L_DialError i r err) =
     (if outstanding s = 0 then None
      else case inject_dial_upgrade_error P (i, r) err (hnd s) of
        Inl _ \<Rightarrow> None
      | Inr h' \<Rightarrow> Some (s\<lparr>hnd := h', outstanding := outstanding s - 1,
          leaked := leaked s + (if retries_dial err (hnd s) then 1 else 0)\<rparr>))"
| "run_label P E s (L_Event ev) =
     (case inject_event ev (hnd s) of (h', woken) \<Rightarrow> Some (s\<lparr>hnd := h'\<rparr>))"

fun run_script ::
  "profile \<Rightarrow> ('cx, 'wk, 'i, 'snd, 'o, 'q, 'k) handler_ext
   \<Rightarrow> ('id, 'cx, 'i, 'o) handler_label list
   \<Rightarrow> ('id, 'wk, 'i, 'snd, 'o, 'q, 'k) handler_sys \<Rightarrow> ('id, 'wk, 'i, 'snd, 'o, 'q, 'k) handler_sys option" where
  "run_script P E [] s = Some s"
| "run_script P E (l # ls) s = (case run_label P E s l of None \<Rightarrow> None | Some s' \<Rightarrow> run_script P E ls s')"

abbreviation handler_reach ::
  "profile \<Rightarrow> ('cx, 'wk, 'i, 'snd, 'o, 'q, 'k) handler_ext
   \<Rightarrow> ('id, 'wk, 'i, 'snd, 'o, 'q, 'k) handler_sys \<Rightarrow> bool" where
  "handler_reach P E \<equiv> reach (\<lambda>s. s = handler_sys_init E) (handler_step P E)"

lemma run_label_step: "run_label P E s l = Some t \<Longrightarrow> handler_step P E s l t"
proof (cases l)
  case (L_Outbound out i r)
  then show "run_label P E s l = Some t \<Longrightarrow> ?thesis"
    using step_outbound [of s P E out i r] by (auto split: sum.splits if_splits)
next
  case (L_DialError i r err)
  then show "run_label P E s l = Some t \<Longrightarrow> ?thesis"
    using step_dial_error [of s P i r err _ E] by (auto split: sum.splits if_splits)
next
  case (L_Event ev)
  then show "run_label P E s l = Some t \<Longrightarrow> ?thesis"
    by (cases "inject_event ev (hnd s)") (auto intro: step_event)
qed (auto split: sum.splits intro!: step_poll step_inbound demo_order_enumerates)

lemma run_script_reach:
  "run_script P E ls s = Some t \<Longrightarrow> handler_reach P E s \<Longrightarrow> handler_reach P E t"
  by (induction ls arbitrary: s) (auto split: option.splits intro: reach_step run_label_step)

lemma run_script_append:
  "run_script P E (ls @ ls') s = (case run_script P E ls s of None \<Rightarrow> None | Some t \<Rightarrow> run_script P E ls' t)"
  by (induction ls arbitrary: s) (auto split: option.splits)

lemma script_reach: "run_script P E ls (handler_sys_init E) = Some t \<Longrightarrow> handler_reach P E t"
  by (erule run_script_reach) (simp add: reach_init)

lemma reach_sys_inv: "delay_queue_laws E live \<Longrightarrow> handler_reach P E s \<Longrightarrow> sys_inv live s"
  using handler_system.reach_inv by blast


lemmas handler_eval =
  handler_sys_init_def RPCHandler_new_def RPCHandler_poll_def update_waker_def poll_delays_def
  poll_substreams_def poll_inbound_substreams_def poll_dial_def Let_def demo_simps demo_deadline_def
  add_ovf_def sub_ovf_def inject_event_def send_request_def send_response_def push_event_def shutdown_def
  inject_dial_upgrade_error_def inject_fully_negotiated_outbound_def inject_fully_negotiated_inbound_def
  drained_def retries_dial_def IO_ERROR_RETRIES_def MAX_INBOUND_SUBSTREAMS_def drive_inbound.simps
  close_phase_def send_phase_def remove_delay_def reset_delay_def set_outbound_def remove_outbound_def
  on_response_def

type_synonym demo_label = "(nat, nat, RPCCodedResponse list, RPCCodedResponse list) handler_label"

type_synonym demo_sys =
  "(nat, nat, RPCCodedResponse list, RPCCodedResponse list, RPCCodedResponse list, demo_queue, nat) handler_sys"

text \<open>
  One request whose dial fails three times with \<open>RPCError::Error\<close>: two retries, then the failure is
  reported. The state after it differs from the state before only in the leaked dials.
\<close>

definition leak_round :: "demo_label list" where
  "leak_round =
     (let failure = L_DialError 1 (OutboundRequest_Goodbye 1) (UpgrErr_Apply RPCError_Error)
      in [L_Event (RPCSend_Request 1 (OutboundRequest_Goodbye 1)),
          L_Poll 0, failure, L_Poll 0, failure, L_Poll 0, failure, L_Poll 0])"

definition leaked_state :: "nat \<Rightarrow> demo_sys" where
  "leaked_state d =
     \<lparr>hnd = (RPCHandler_new demo_ext RPCProtocol)\<lparr>dial_negotiated := of_nat d, waker := Some 0\<rparr>,
      outstanding = 0, leaked = d\<rparr>"

text \<open>After six leaks the next request leaks the last two and stays in the queue.\<close>

definition stuck_state :: demo_sys where
  "stuck_state = (leaked_state 8)\<lparr>hnd := (hnd (leaked_state 8))
     \<lparr>dial_queue := [(1, OutboundRequest_Goodbye 1)], outbound_io_error_retries := 2\<rparr>\<rparr>"

lemma leak_rounds:
  "run_script Dev demo_ext leak_round (handler_sys_init demo_ext) = Some (leaked_state 2)"
  "run_script Dev demo_ext leak_round (leaked_state 2) = Some (leaked_state 4)"
  "run_script Dev demo_ext leak_round (leaked_state 4) = Some (leaked_state 6)"
  "run_script Dev demo_ext (take 6 leak_round) (leaked_state 6) = Some stuck_state"
  by (simp_all add: leak_round_def handler_eval leaked_state_def stuck_state_def)

lemma stuck_state_reachable: "handler_reach Dev demo_ext stuck_state"
  using script_reach [OF leak_rounds(1)] leak_rounds(2-4) run_script_reach by blast

text \<open>
  A connection in use: an inbound metadata request on substream 0, and an outbound ping whose
  substream is open and whose response has arrived.
\<close>

definition busy_script :: "demo_label list" where
  "busy_script =
     [L_Event (RPCSend_Request 5 (OutboundRequest_Ping \<lparr>data = 7\<rparr>)), L_Poll 0,
      L_Outbound [RPCCodedResponse_Success (RPCResponse_Pong \<lparr>data = 7\<rparr>)] 5
        (OutboundRequest_Ping \<lparr>data = 7\<rparr>),
      L_Inbound 3 InboundRequest_MetaData [], L_Poll 0]"


definition busy_state :: demo_sys where
  "busy_state =
     \<lparr>hnd = \<lparr>listen_protocol = RPCProtocol, events_out = [], dial_queue = [], dial_negotiated = 0,
        inbound_substreams = fmupd 0 \<lparr>ii_state = Idle [], pending_items = [],
          ii_protocol = Protocol_MetaData, remaining_chunks = 1, request_start_time = 3,
          ii_delay_key = Some 1\<rparr> fmempty,
        inbound_substreams_delay = [(1, 0)],
        outbound_substreams = fmupd 0 \<lparr>oi_state = RequestPendingResponse
            [RPCCodedResponse_Success (RPCResponse_Pong \<lparr>data = 7\<rparr>)] (OutboundRequest_Ping \<lparr>data = 7\<rparr>),
          oi_delay_key = 1, proto = Protocol_Ping, oi_remaining_chunks = None, req_id = 5\<rparr> fmempty,
        outbound_substreams_delay = [(1, 0)],
        current_inbound_substream_id = 1, current_outbound_substream_id = 1,
        max_dial_negotiated = 8, h_state = Active, outbound_io_error_retries = 0, waker = Some 0\<rparr>,
      outstanding = 0, leaked = 0\<rparr>"

lemma busy_script_run: "run_script Dev demo_ext busy_script (handler_sys_init demo_ext) = Some busy_state"
  by (simp add: busy_script_def handler_eval busy_state_def fcard.rep_eq)

lemma busy_state_reachable: "handler_reach Dev demo_ext busy_state"
  by (rule script_reach [OF busy_script_run])

subsection \<open>Polling\<close>

text \<open>
  C4: in every state the handler can reach, \<open>poll\<close> returns: it neither panics (no \<open>unreachable!\<close>, no
  delay key missing from its queue, no overflow) nor loops, in either build profile and for every
  iteration order of the two substream maps.
\<close>

theorem poll_never_panics:
  assumes "delay_queue_laws E live" "reach (\<lambda>s. s = handler_sys_init E) (handler_step P E) s"
    and "\<And>S. enumerates (in_order S) S" "\<And>S. enumerates (out_order S) S"
  shows "\<not> panics (RPCHandler_poll P E cx in_order out_order (hnd s))"
proof -
  have "handler_inv live (hnd s)"
    using reach_sys_inv [OF assms(1,2)] by (simp add: sys_inv_def)
  from poll_ok [OF assms(1) this assms(3,4), where P = P and cx = cx] show ?thesis by (auto simp: not_panics_iff)
qed

theorem poll_never_panics_witness:
  "\<not> panics (RPCHandler_poll Dev demo_ext 2000 demo_order demo_order (hnd busy_state))"
  by (rule poll_never_panics [OF demo_delay_queue_laws busy_state_reachable])
    (rule demo_order_enumerates)+

text \<open>
  C11: in every reachable state at most \<open>MAX_INBOUND_SUBSTREAMS\<close> inbound substreams are open, at most
  eight dials are counted as under way, the retry counter is below its limit, no substream is
  poisoned, and every substream holds a delay key that is in use for it and for no other substream.
\<close>

theorem handler_bounds:
  assumes "delay_queue_laws E live" "reach (\<lambda>s. s = handler_sys_init E) (handler_step P E) s"
  shows "fcard (fmdom (inbound_substreams (hnd s))) \<le> 32 \<and> dial_negotiated (hnd s) \<le> 8 \<and>
    outbound_io_error_retries (hnd s) < 3 \<and>
    fmpred (\<lambda>i info. ii_state info \<noteq> InPoisoned \<and>
      (\<forall>k. ii_delay_key info = Some k \<longrightarrow> live (inbound_substreams_delay (hnd s)) k = Some i))
      (inbound_substreams (hnd s)) \<and>
    fmpred (\<lambda>i info. oi_state info \<noteq> OutPoisoned \<and>
      live (outbound_substreams_delay (hnd s)) (oi_delay_key info) = Some i)
      (outbound_substreams (hnd s))"
  using reach_sys_inv [OF assms]
  by (auto simp: sys_inv_def handler_inv_defs inbound_entry_ok_def outbound_entry_ok_def IO_ERROR_RETRIES_def
      MAX_INBOUND_SUBSTREAMS_def)

theorem handler_bounds_witness:
  "fcard (fmdom (inbound_substreams (hnd busy_state))) \<le> 32 \<and> dial_negotiated (hnd busy_state) \<le> 8"
  using handler_bounds [OF demo_delay_queue_laws busy_state_reachable] by simp


subsection \<open>Dials\<close>

lemma usize_max: "\<not> unat x + unat (1 :: usize) < 2 ^ LENGTH(64) \<longleftrightarrow> x = - 1" for x :: usize
  using unsigned_less [of x, where ?'a = nat]
  by (auto simp: word_unat_eq_iff unsigned_minus_1_eq_mask mask_eq_exp_minus_1)

text \<open>
  C8: \<open>dial_negotiated\<close> counts exactly the dials libp2p has not answered yet plus the dials that
  failed and were retried; answering an outstanding dial, with a substream or with an error, never
  underflows the counter: a dial error never panics at all, and a negotiated substream can only panic
  on the overflow of the 64-bit substream counter.
\<close>

theorem dial_accounting:
  assumes "delay_queue_laws E live" "reach (\<lambda>s. s = handler_sys_init E) (handler_step P E) s"
    and "0 < outstanding s"
  shows "unat (dial_negotiated (hnd s)) = outstanding s + leaked s \<and>
    \<not> panics (inject_dial_upgrade_error P (i, r) err (hnd s)) \<and>
    (panics (inject_fully_negotiated_outbound P E out (i, r) (hnd s)) \<longleftrightarrow>
       P = Dev \<and> out_expected_responses r > 0 \<and> current_outbound_substream_id (hnd s) = - 1)"
proof -
  have inv: "handler_inv live (hnd s)" and n: "unat (dial_negotiated (hnd s)) = outstanding s + leaked s"
    using reach_sys_inv [OF assms(1,2)] by (auto simp: sys_inv_def)
  then have pos: "0 < unat (dial_negotiated (hnd s))" using assms(3) by simp
  have "panics (inject_fully_negotiated_outbound P E out (i, r) (hnd s)) \<longleftrightarrow>
      out_expected_responses r > 0 \<and> P = Dev \<and>
      \<not> unat (current_outbound_substream_id (hnd s)) + unat (1 :: usize) < 2 ^ LENGTH(64)"
    unfolding inject_fully_negotiated_outbound_def Let_def
    by (cases P) (auto simp: sub_ovf_pos [OF pos] add_ovf_def split: prod.splits)
  then show ?thesis
    unfolding usize_max using handler_inv_dial_error [OF inv pos, of P i r err] n by (auto simp: not_panics_iff)
qed

theorem dial_accounting_witness:
  "\<exists>s :: demo_sys. 0 < outstanding s \<and> unat (dial_negotiated (hnd s)) = outstanding s + leaked s"
proof -
  let ?ping = "OutboundRequest_Ping \<lparr>data = 7\<rparr>"
  obtain s :: demo_sys where s: "run_script Dev demo_ext [L_Event (RPCSend_Request 5 ?ping), L_Poll 0]
      (handler_sys_init demo_ext) = Some s" "outstanding s = 1"
    by (simp add: handler_eval)
  with dial_accounting [OF demo_delay_queue_laws script_reach [OF s(1)], of 5 ?ping UpgrErr_Timeout "[]"]
  show ?thesis by (intro exI [of _ s]) simp
qed

lemma step_leaked_mono: "handler_step P E s l t \<Longrightarrow> leaked s \<le> leaked t"
  by (cases rule: handler_step.cases) auto

lemma reach_trans: "reach (\<lambda>x. x = s) step t \<Longrightarrow> reach init step s \<Longrightarrow> reach init step t"
  by (induction rule: reach.induct) (auto intro: reach_step)

lemma reach_leaked_mono: "reach (\<lambda>x. x = s) (handler_step P E) t \<Longrightarrow> leaked s \<le> leaked t"
  by (induction rule: reach.induct) (auto dest: step_leaked_mono)

text \<open>
  C12: once eight retried dials have leaked their slots, the handler never dials again: whatever happens
  afterwards, no \<open>poll\<close> returns a request for an outbound substream, although requests keep being
  accepted into the queue.
\<close>

theorem eight_leaks_end_dialling:
  assumes "delay_queue_laws E live" "reach (\<lambda>s. s = handler_sys_init E) (handler_step P E) s" "leaked s = 8"
    and "reach (\<lambda>x. x = s) (handler_step P E) t"
    and "\<And>S. enumerates (in_order S) S" "\<And>S. enumerates (out_order S) S"
    and "RPCHandler_poll P E cx in_order out_order (hnd t) = Inr (h', r)"
  shows "r \<noteq> Ready (OutboundSubstreamRequest c rq)"
proof -
  have t: "handler_reach P E t" by (rule reach_trans [OF assms(4,2)])
  let ?t' = "t\<lparr>hnd := h', outstanding := outstanding t + dials r\<rparr>"
  have "handler_reach P E ?t'"
    using t step_poll [OF assms(5-7)] by (rule reach_step)
  then have "unat (dial_negotiated h') = outstanding t + dials r + leaked t" "dial_negotiated h' \<le> 8"
    using reach_sys_inv [OF assms(1)] by (fastforce simp: sys_inv_def handler_inv_defs)+
  moreover have "8 \<le> leaked t" using reach_leaked_mono [OF assms(4)] assms(3) by simp
  ultimately have "dials r = 0" by (simp add: word_le_nat_alt)
  then show ?thesis by auto
qed

theorem eight_leaks_end_dialling_witness:
  "\<exists>h' r. RPCHandler_poll Dev demo_ext 0 demo_order demo_order (hnd stuck_state) = Inr (h', r) \<and>
     dial_queue (hnd stuck_state) \<noteq> [] \<and> (\<forall>c rq. r \<noteq> Ready (OutboundSubstreamRequest c rq))"
proof -
  have "leaked stuck_state = 8" "dial_queue (hnd stuck_state) \<noteq> []"
    by (simp_all add: stuck_state_def leaked_state_def)
  moreover obtain h' r where
    "RPCHandler_poll Dev demo_ext 0 demo_order demo_order (hnd stuck_state) = Inr (h', r)"
    by (simp add: stuck_state_def leaked_state_def handler_eval)
  ultimately show ?thesis
    using eight_leaks_end_dialling [OF demo_delay_queue_laws stuck_state_reachable _ reach_init
        demo_order_enumerates demo_order_enumerates] by auto
qed


subsection \<open>Events\<close>

text \<open>What the behaviour sees of one \<open>poll\<close>: the event it returns, if any.\<close>

definition poll_event ::
  "profile \<Rightarrow> ('cx, 'wk, 'i, 'snd, 'o, 'q, 'k) handler_ext \<Rightarrow> 'cx
   \<Rightarrow> (SubstreamId fset \<Rightarrow> SubstreamId list) \<Rightarrow> (SubstreamId fset \<Rightarrow> SubstreamId list)
   \<Rightarrow> ('id, 'wk, 'i, 'snd, 'o, 'q, 'k) RPCHandler
   \<Rightarrow> ('id, 'wk, 'i, 'snd, 'o, 'q, 'k) RPCHandler \<times> 'id HandlerEvent poll" where
  "poll_event P E cx io oo h =
     (case RPCHandler_poll P E cx io oo h of
        Inr (h', Ready (Custom ev)) \<Rightarrow> (h', Ready ev)
      | Inr (h', _) \<Rightarrow> (h', Pending)
      | Inl _ \<Rightarrow> (h, Pending))"

interpretation handler_events: event_fifo push_event "poll_event P E cx io oo" events_out for P E cx io oo
proof
  show "events_out (push_event e h) = events_out h @ [e]" for e and h :: "('a, 'b, 'c, 'd, 'e, 'f, 'g) RPCHandler"
    by simp
  show "\<exists>h'. poll_event P E cx io oo h = (h', Ready e) \<and> events_out h' = es" if "events_out h = e # es" for h e es
    using that by (simp add: poll_event_def RPCHandler_poll_def Let_def)
qed

text \<open>
  The events of a handler reach the behaviour in the order in which they were queued, before
  anything else happens on the connection: whatever the state, polling as often as there are queued
  events returns exactly these events, in order.
\<close>

lemma handler_events_in_order:
  "snd (take_events (poll_event P E cx io oo) (length (events_out h) + length evs) (fold push_event evs h)) =
     events_out h @ evs"
  using handler_events.take_contents [of "fold push_event evs h" "events_out h @ evs" "[]" P E cx io oo]
    handler_events.contents_fold_push [of evs h]
  by auto

subsection \<open>Shutdown\<close>

lemma cancel_dials_replicate: "cancel_dials ds evs = evs @ replicate (length ds) (Err ''handler error'')"
  by (induction ds arbitrary: evs) simp_all

text \<open>
  C17: shutting down an active handler reports one error for every request that was still queued, leaves at
  most the goodbye in the queue and starts the shutdown timer. A second shutdown changes nothing, and
  from then on a request is answered with an error instead of being queued and inbound substreams are
  dropped.
\<close>

theorem shutdown_cancels_requests:
  assumes "h_state h = Active"
  shows "let h' = shutdown now goodbye h in
    events_out h' = events_out h @ replicate (length (dial_queue h)) (Err ''handler error'') \<and>
    dial_queue h' = (case goodbye of None \<Rightarrow> [] | Some i \<Rightarrow> [(i, OutboundRequest_Goodbye 1)]) \<and>
    h_state h' = ShuttingDown (now + from_secs 15) \<and>
    shutdown now2 goodbye2 h' = h' \<and>
    send_request i r h' = push_event (Err ''handler error'') h' \<and>
    inject_fully_negotiated_inbound P E now3 (rq, sub) h' = Inr h'"
  using assms
  by (simp add: shutdown_def cancel_dials_replicate SHUTDOWN_TIMEOUT_SECS_def send_request_def Let_def
      inject_fully_negotiated_inbound_def)

theorem shutdown_cancels_requests_witness:
  "dial_queue (shutdown 0 None (hnd stuck_state)) = [] \<and>
   events_out (shutdown 0 None (hnd stuck_state)) = [Err ''handler error'']"
proof -
  have "h_state (hnd stuck_state) = Active" "dial_queue (hnd stuck_state) = [(1, OutboundRequest_Goodbye 1)]"
    "events_out (hnd stuck_state) = []"
    by (simp_all add: stuck_state_def leaked_state_def RPCHandler_new_def)
  with shutdown_cancels_requests [of "hnd stuck_state" 0 None 0 None 1 "OutboundRequest_Goodbye 1" Dev demo_ext
      0 InboundRequest_MetaData "[]"] show ?thesis by (simp add: Let_def)
qed

lemma on_inbound_timeout_empty: "fmdom (inbound_substreams h) = {||} \<Longrightarrow> on_inbound_timeout i h = h"
  by (simp add: on_inbound_timeout_def fmdom_notD)

lemma expire_inbound_empty:
  assumes "fmdom (inbound_substreams h) = {||}" "expire_inbound n E cx h = Inr (h', ev)"
  shows "(\<exists>q. h' = h\<lparr>inbound_substreams_delay := q\<rparr>) \<and> (ev = None \<or> ev = Some (Close RPCError_Error))"
  using assms
proof (induction n arbitrary: h)
  case (Suc n)
  obtain q r where e: "dq_poll_expired E cx (inbound_substreams_delay h) = (q, r)" by fastforce
  show ?case
    using Suc.prems Suc.IH [of "h\<lparr>inbound_substreams_delay := q\<rparr>"] e
    by (auto simp: on_inbound_timeout_empty split: poll.splits option.splits result.splits)
qed simp

lemma expire_outbound_empty:
  assumes "fmdom (outbound_substreams h) = {||}" "expire_outbound n E cx h = Inr (h', ev)"
  shows "(\<exists>q. h' = h\<lparr>outbound_substreams_delay := q\<rparr>) \<and> (ev = None \<or> ev = Some (Close RPCError_Error))"
  using assms
proof (induction n arbitrary: h)
  case (Suc n)
  obtain q r where e: "dq_poll_expired E cx (outbound_substreams_delay h) = (q, r)" by fastforce
  have "fmlookup (outbound_substreams h) i = None" for i
    using Suc.prems(1) by (simp add: fmdom_notD)
  then show ?case
    using Suc.prems Suc.IH [of "h\<lparr>outbound_substreams_delay := q\<rparr>"] e
    by (auto simp: Let_def split: poll.splits option.splits result.splits)
qed simp


lemma poll_delays_empty:
  assumes "fmdom (inbound_substreams h) = {||}" "fmdom (outbound_substreams h) = {||}"
    and "poll_delays E cx h = Inr (h', ev)"
  shows "ev = Some (Close RPCError_Error) \<or>
    (\<exists>q q'. ev = None \<and> h' = h\<lparr>inbound_substreams_delay := q, outbound_substreams_delay := q'\<rparr>)"
proof -
  obtain h1 ev1 where i: "expire_inbound (Suc (dq_len E (inbound_substreams_delay h))) E cx h = Inr (h1, ev1)"
    and o: "(case ev1 of Some ev \<Rightarrow> Inr (h1, Some ev)
      | None \<Rightarrow> expire_outbound (Suc (dq_len E (outbound_substreams_delay h1))) E cx h1) = Inr (h', ev)"
    using assms(3) unfolding poll_delays_def run_bind_eq_Inr
    by (auto simp del: expire_inbound.simps expire_outbound.simps)
  obtain q where h1: "h1 = h\<lparr>inbound_substreams_delay := q\<rparr>" "ev1 = None \<or> ev1 = Some (Close RPCError_Error)"
    using expire_inbound_empty [OF assms(1) i] by blast
  show ?thesis
  proof (cases ev1)
    case None
    with o have "expire_outbound (Suc (dq_len E (outbound_substreams_delay h1))) E cx h1 = Inr (h', ev)"
      by (simp del: expire_outbound.simps)
    from expire_outbound_empty [OF _ this] assms(2) h1(1) show ?thesis by auto
  qed (use o h1 in auto)
qed

text \<open>
  C13: a handler that is shutting down and has nothing left to do, for which \<open>connection_keep_alive\<close>
  answers \<open>No\<close>, closes the connection at the next \<open>poll\<close>, whatever that poll meets.
\<close>

theorem drained_shutdown_closes:
  assumes "delay_queue_laws E live" "reach (\<lambda>s. s = handler_sys_init E) (handler_step P E) s"
    and "\<And>S. enumerates (in_order S) S" "\<And>S. enumerates (out_order S) S"
    and "h_state (hnd s) = ShuttingDown t" "connection_keep_alive (hnd s) = KeepAlive_No"
  shows "\<exists>h'. RPCHandler_poll P E cx in_order out_order (hnd s) = Inr (h', Ready (Close RPCError_Error))"
proof -
  let ?h = "update_waker E cx (hnd s)"
  have d: "drained (hnd s)" using assms(5,6) by (simp add: connection_keep_alive_def Let_def split: if_splits)
  then have h: "events_out ?h = []" "dial_queue ?h = []" "fmdom (inbound_substreams ?h) = {||}"
    "fmdom (outbound_substreams ?h) = {||}" "dial_negotiated ?h = 0" "h_state ?h = ShuttingDown t"
    using assms(5) by (auto simp: drained_def update_waker_def split: option.splits)
  have "handler_inv live ?h"
    using reach_sys_inv [OF assms(1,2)] by (simp add: sys_inv_def)
  from poll_delays_ok [OF assms(1) this, of cx] obtain h1 ev
    where e: "poll_delays E cx ?h = Inr (h1, ev)" by blast
  then have ev: "ev = Some (Close RPCError_Error) \<or>
      (\<exists>q q'. ev = None \<and> h1 = ?h\<lparr>inbound_substreams_delay := q, outbound_substreams_delay := q'\<rparr>)"
    by (rule poll_delays_empty [OF h(3,4)])
  have order: "in_order {||} = []" "out_order {||} = []"
    using enumerates_set [OF assms(3)] enumerates_set [OF assms(4)] by (simp_all flip: set_empty)
  from ev show ?thesis
  proof
    assume "ev = Some (Close RPCError_Error)"
    with e h(1,6) show ?thesis by (simp add: RPCHandler_poll_def Let_def)
  next
    assume "\<exists>q q'. ev = None \<and> h1 = ?h\<lparr>inbound_substreams_delay := q, outbound_substreams_delay := q'\<rparr>"
    then obtain q q' where "ev = None" "h1 = ?h\<lparr>inbound_substreams_delay := q, outbound_substreams_delay := q'\<rparr>"
      by blast
    with e h order show ?thesis
      by (simp add: RPCHandler_poll_def Let_def poll_substreams_def poll_inbound_substreams_def poll_dial_def
          drained_def)
  qed
qed

theorem drained_shutdown_closes_witness:
  "\<exists>s :: demo_sys. run_script Dev demo_ext [L_Inbound 0 (InboundRequest_Goodbye 1) [], L_Poll 0]
      (handler_sys_init demo_ext) = Some s \<and>
    (\<exists>h'. RPCHandler_poll Dev demo_ext 5 demo_order demo_order (hnd s) = Inr (h', Ready (Close RPCError_Error)))"
proof -
  obtain s :: demo_sys where s: "run_script Dev demo_ext [L_Inbound 0 (InboundRequest_Goodbye 1) [], L_Poll 0]
      (handler_sys_init demo_ext) = Some s"
    "h_state (hnd s) = ShuttingDown (from_secs SHUTDOWN_TIMEOUT_SECS)"
    "connection_keep_alive (hnd s) = KeepAlive_No"
    by (simp add: handler_eval connection_keep_alive_def)
  with drained_shutdown_closes [OF demo_delay_queue_laws script_reach [OF s(1)] demo_order_enumerates
      demo_order_enumerates s(2,3), of 5] show ?thesis by blast
qed

subsection \<open>Inbound requests\<close>

text \<open>
  C16: an active handler admits a request that expects a response exactly when fewer than 32 inbound
  substreams are open. An admitted request is registered under the current substream id with its
  stream idle, nothing pending and a fresh delay key, and announced; a rejected one is reported as
  \<open>HandlerRejected\<close> and shuts the handler down, which cancels the queued requests.
\<close>

theorem inbound_admission:
  assumes "h_state h = Active" "in_expected_responses r > 0" "current_inbound_substream_id h \<noteq> - 1"
    and "dq_insert E (inbound_substreams_delay h) (current_inbound_substream_id h) (from_secs 10) = (q, k)"
  shows "\<exists>h'. inject_fully_negotiated_inbound P E now (r, sub) h = Inr h' \<and>
    (if fcard (fmdom (inbound_substreams h)) < 32
     then fmlookup (inbound_substreams h') (current_inbound_substream_id h) =
            Some \<lparr>ii_state = Idle sub, pending_items = [], ii_protocol = in_protocol r, remaining_chunks = 1,
              request_start_time = now, ii_delay_key = Some k\<rparr> \<and>
          events_out h' = events_out h @ [Ok (RPCReceived_Request (current_inbound_substream_id h) r)] \<and>
          current_inbound_substream_id h' = current_inbound_substream_id h + 1 \<and> h_state h' = Active
     else inbound_substreams h' = inbound_substreams h \<and> dial_queue h' = [] \<and>
          events_out h' = events_out h @ Err ''HandlerRejected'' #
            replicate (length (dial_queue h)) (Err ''handler error'') \<and>
          h_state h' = ShuttingDown (now + from_secs 15))"
proof -
  have "add_ovf P (current_inbound_substream_id h) 1 = Inr (current_inbound_substream_id h + 1)"
    using usize_max [of "current_inbound_substream_id h"] assms(3) by (simp add: add_ovf_def)
  moreover have "in_expected_responses r = 1" "\<And>n. r \<noteq> InboundRequest_Goodbye n"
    using assms(2) by (cases r; simp)+
  ultimately show ?thesis
    using assms unfolding inject_fully_negotiated_inbound_def
    by (auto simp: Let_def MAX_INBOUND_SUBSTREAMS_def RESPONSE_TIMEOUT_def shutdown_def push_event_def
        cancel_dials_replicate SHUTDOWN_TIMEOUT_SECS_def split: InboundRequest.splits)
qed

theorem inbound_admission_witness:
  "\<exists>h'. inject_fully_negotiated_inbound Dev demo_ext 3 (InboundRequest_MetaData, [])
      (RPCHandler_new demo_ext RPCProtocol) = Inr h' \<and>
    events_out h' = [Ok (RPCReceived_Request 0 InboundRequest_MetaData)]"
proof -
  have "h_state (RPCHandler_new demo_ext RPCProtocol) = Active \<and>
    current_inbound_substream_id (RPCHandler_new demo_ext RPCProtocol) = 0 \<and>
    events_out (RPCHandler_new demo_ext RPCProtocol) = [] \<and>
    fcard (fmdom (inbound_substreams (RPCHandler_new demo_ext RPCProtocol))) < 32"
    by (simp add: RPCHandler_new_def fcard.rep_eq)
  with inbound_admission [of "RPCHandler_new demo_ext RPCProtocol" InboundRequest_MetaData demo_ext "[(1, 0)]" 1 Dev 3 "[]"]
  show ?thesis by (auto simp: RPCHandler_new_def demo_simps)
qed


lemma drive_inbound_sends:
  assumes "ii_state info = Idle sub" "pending_items info = m # ms" "remaining_chunks info \<le> 1"
    and "remove_delay E (ii_delay_key info) q = Inr q'"
    and "in_send_poll E cx (in_send E sub m) = (snd', Ready (sub', Ok ()))"
    and "in_close_poll E cx sub' = (sub'', Ready (Ok ()))"
  shows "drive_inbound E cx False info q evs = Inr (info\<lparr>pending_items := ms, ii_state := InPoisoned\<rparr>, q', evs, True)"
proof -
  have "drive_inbound E cx False info q evs =
      drive_inbound E cx False (info\<lparr>pending_items := ms, ii_state := Busy (SF_Start sub m True)\<rparr>) q evs"
    using assms(1-3) by (subst drive_inbound.simps) simp
  also have "\<dots> = Inr (info\<lparr>pending_items := ms, ii_state := InPoisoned\<rparr>, q', evs, True)"
    using assms(4-6) by (subst drive_inbound.simps) (simp add: send_phase_def close_phase_def)
  finally show ?thesis .
qed

text \<open>
  C15: one response ends an inbound substream. In a reachable state, an idle inbound substream with a
  response pending is taken through sending and closing in one pass when the stream accepts both: the
  response handed to the stream is the oldest one, the substream is marked for removal, its delay key
  leaves the queue, and no event is reported.
\<close>

theorem one_response_ends_inbound:
  assumes "delay_queue_laws E live" "reach (\<lambda>s. s = handler_sys_init E) (handler_step P E) s"
    and "fmlookup (inbound_substreams (hnd s)) i = Some info"
    and "ii_state info = Idle sub" "pending_items info = m # ms"
    and "in_send_poll E cx (in_send E sub m) = (snd', Ready (sub', Ok ()))"
    and "in_close_poll E cx sub' = (sub'', Ready (Ok ()))"
  shows "\<exists>info' q'. drive_inbound E cx False info (inbound_substreams_delay (hnd s)) evs = Inr (info', q', evs, True) \<and>
    pending_items info' = ms \<and>
    (\<forall>k. ii_delay_key info = Some k \<longrightarrow> live q' = (live (inbound_substreams_delay (hnd s)))(k := None))"
proof -
  have ok: "inbound_entry_ok live (inbound_substreams_delay (hnd s)) i info"
    using reach_sys_inv [OF assms(1,2)] assms(3) by (simp add: sys_inv_def handler_inv_defs)
  then have last: "remaining_chunks info \<le> 1" by (simp add: inbound_entry_ok_def)
  obtain q' where q': "remove_delay E (ii_delay_key info) (inbound_substreams_delay (hnd s)) = Inr q'"
    "\<forall>k. ii_delay_key info = Some k \<longrightarrow> live q' = (live (inbound_substreams_delay (hnd s)))(k := None)"
    using ok dq_removeD [OF assms(1)]
    by (cases "ii_delay_key info") (fastforce simp: remove_delay_def inbound_entry_ok_def)+
  show ?thesis
    using drive_inbound_sends [OF assms(4,5) last q'(1) assms(6,7)] q'(2)
    by (intro exI [of _ "info\<lparr>pending_items := ms, ii_state := InPoisoned\<rparr>"] exI [of _ q'] conjI) simp_all
qed

theorem one_response_ends_inbound_witness:
  "\<exists>s :: demo_sys. \<exists>info info'. fmlookup (inbound_substreams (hnd s)) 0 = Some info \<and>
     drive_inbound demo_ext 0 False info (inbound_substreams_delay (hnd s)) (events_out (hnd s)) =
       Inr (info', [], events_out (hnd s), True)"
proof -
  let ?m = "RPCCodedResponse_Success (RPCResponse_Pong \<lparr>data = 7\<rparr>)"
  obtain s :: demo_sys where s: "run_script Dev demo_ext (busy_script @ [L_Event (RPCSend_Response 0 ?m)])
      (handler_sys_init demo_ext) = Some s"
    "s = busy_state\<lparr>hnd := send_response 0 ?m (hnd busy_state)\<rparr>"
    by (simp add: run_script_append busy_script_run inject_event_def Let_def)
  let ?info = "\<lparr>ii_state = Idle [], pending_items = [?m], ii_protocol = Protocol_MetaData, remaining_chunks = 1,
    request_start_time = 3, ii_delay_key = Some 1\<rparr>"
  have i: "fmlookup (inbound_substreams (hnd s)) 0 = Some ?info" and q: "inbound_substreams_delay (hnd s) = [(1, 0)]"
    by (simp_all add: s(2) send_response_def busy_state_def)
  obtain info' q' where d: "drive_inbound demo_ext 0 False ?info (inbound_substreams_delay (hnd s)) (events_out (hnd s)) =
      Inr (info', q', events_out (hnd s), True)"
    "map_of q' = (map_of (inbound_substreams_delay (hnd s)))(1 := None)"
    using one_response_ends_inbound [OF demo_delay_queue_laws script_reach [OF s(1)] i,
        of "[]" ?m "[]" 0 "[?m]" "[?m]" "[?m]" "events_out (hnd s)"]
    by (auto simp: demo_simps)
  have "q' = []" using d(2) q by (cases q') (auto simp: fun_eq_iff split: if_splits)
  with d(1) have "drive_inbound demo_ext 0 False ?info (inbound_substreams_delay (hnd s)) (events_out (hnd s)) =
       Inr (info', [], events_out (hnd s), True)"
    by simp
  with i show ?thesis by (intro exI [of _ s] exI conjI)
qed


subsection \<open>Outbound responses\<close>

text \<open>
  C14: a request is answered once. When the response to a request arrives on its substream, the
  behaviour receives it under the id the request was sent with, and the substream only waits to be
  closed: once the stream closes, the next pass removes it and reports nothing more, whatever else
  the peer sent.
\<close>

theorem response_delivered_once:
  assumes "delay_queue_laws E live" "reach (\<lambda>s. s = handler_sys_init E) (handler_step P E) s"
    and "fmlookup (outbound_substreams (hnd s)) i = Some info" "oi_state info = RequestPendingResponse sub r"
    and "out_poll_next E cx sub = (sub', Ready (Some (Ok resp)))"
    and "out_poll_close E cx' sub' = (sub'', Ready closed)"
  shows "\<exists>h1 h2. drive_outbounds E cx False (i # ids) (hnd s) =
      Inr (h1, Some (Custom (case resp of
        RPCCodedResponse_Success x \<Rightarrow> Ok (RPCReceived_Response (req_id info) x)
      | RPCCodedResponse_Error \<Rightarrow> Err ''RPC Error''))) \<and>
    fmlookup (outbound_substreams h1) i = Some (info\<lparr>oi_state := Closing sub'\<rparr>) \<and>
    drive_outbounds E cx' d [i] h1 = Inr (h2, None) \<and>
    outbound_substreams h2 = fmdrop i (outbound_substreams (hnd s)) \<and>
    events_out h2 = events_out (hnd s)"
proof -
  let ?h1 = "set_outbound i (info\<lparr>oi_state := Closing sub'\<rparr>) (hnd s)"
  have "outbound_entry_ok live (outbound_substreams_delay (hnd s)) i info"
    using reach_sys_inv [OF assms(1,2)] assms(3) by (simp add: sys_inv_def handler_inv_defs)
  then obtain q where q: "dq_remove E (outbound_substreams_delay (hnd s)) (oi_delay_key info) = Inr q"
    using dq_removeD [OF assms(1)] unfolding outbound_entry_ok_def by blast
  have 1: "drive_outbounds E cx False (i # ids) (hnd s) =
      Inr (?h1, Some (Custom (received_event (req_id info) resp)))"
    using assms(3-5) by (simp add: on_response_closes)
  have "drive_outbounds E cx' d [i] ?h1 =
      Inr (?h1\<lparr>outbound_substreams_delay := q, outbound_substreams := fmdrop i (outbound_substreams ?h1)\<rparr>, None)"
    using assms(6) q by (simp add: remove_outbound_def)
  with 1 show ?thesis by (simp add: received_event_def fmdrop_fmupd_same del: drive_outbounds.simps)
qed

theorem response_delivered_once_witness:
  "\<exists>h1 h2. drive_outbounds demo_ext 0 False [0] (hnd busy_state) =
      Inr (h1, Some (Custom (Ok (RPCReceived_Response 5 (RPCResponse_Pong \<lparr>data = 7\<rparr>))))) \<and>
    drive_outbounds demo_ext 1 False [0] h1 = Inr (h2, None) \<and> outbound_substreams h2 = fmempty"
proof -
  let ?r = "RPCCodedResponse_Success (RPCResponse_Pong \<lparr>data = 7\<rparr>)"
  let ?info = "\<lparr>oi_state = RequestPendingResponse [?r] (OutboundRequest_Ping \<lparr>data = 7\<rparr>),
    oi_delay_key = 1, proto = Protocol_Ping, oi_remaining_chunks = None, req_id = 5\<rparr>"
  have "outbound_substreams (hnd busy_state) = fmupd 0 ?info fmempty" by (simp add: busy_state_def)
  with response_delivered_once [OF demo_delay_queue_laws busy_state_reachable, of 0 ?info "[?r]"
      "OutboundRequest_Ping \<lparr>data = 7\<rparr>" 0 "[]" ?r 1 "[]" "Ok ()" "[]" False]
  show ?thesis by (auto simp: demo_simps fmdrop_fmupd_same simp del: drive_outbounds.simps)
qed

subsection \<open>The stored waker\<close>

text \<open>
  C22: the handler replaces its stored waker only by one that wakes the same task. Once it is polled by
  another task, it keeps the waker of the first: after any poll by the new task, a message from the
  behaviour still wakes the old one.
\<close>

theorem stale_waker_kept:
  assumes "delay_queue_laws E live" "reach (\<lambda>s. s = handler_sys_init E) (handler_step P E) s"
    and "\<And>S. enumerates (in_order S) S" "\<And>S. enumerates (out_order S) S"
    and "waker (hnd s) = Some w" "\<not> will_wake E w (cx_waker E cx)"
    and "RPCHandler_poll P E cx in_order out_order (hnd s) = Inr (h', r)"
  shows "snd (inject_event ev h') = Some w"
proof -
  have "handler_inv live (hnd s)"
    using reach_sys_inv [OF assms(1,2)] by (simp add: sys_inv_def)
  from poll_ok [OF assms(1) this assms(3,4), of P cx] have "waker h' = Some w"
    using assms(5-7) by (auto simp: update_waker_def)
  then show ?thesis
    by (auto simp: inject_event_def Let_def send_request_def send_response_def push_event_def
        split: RPCSend.splits HandlerState.splits option.splits)
qed

theorem stale_waker_kept_witness:
  "\<exists>h' r. RPCHandler_poll Dev demo_ext 9 demo_order demo_order (hnd (leaked_state 2)) = Inr (h', r) \<and>
     snd (inject_event (RPCSend_Request 3 (OutboundRequest_Goodbye 1)) h') = Some 0"
proof -
  obtain h' r where p: "RPCHandler_poll Dev demo_ext 9 demo_order demo_order (hnd (leaked_state 2)) = Inr (h', r)"
    by (simp add: leaked_state_def handler_eval)
  moreover have "waker (hnd (leaked_state 2)) = Some 0" "\<not> will_wake demo_ext 0 (cx_waker demo_ext 9)"
    by (simp_all add: leaked_state_def demo_simps)
  ultimately show ?thesis
    using stale_waker_kept [OF demo_delay_queue_laws script_reach [OF leak_rounds(1)] demo_order_enumerates
        demo_order_enumerates] by blast
qed

end
