(* ===== verification/Rpc_System.thy ===== *)
theory Rpc_System
  imports Node Handler_Properties
begin

section \<open>Handlers, RPC behaviour and main loop together\<close>

text \<open>
  The RPC part of the node as one transition system: any number of connections, each with its handler, the
  RPC behaviour and the main loop that handles its messages. libp2p opens and closes connections,
  polls handlers and behaviour in any order, hands over inbound substreams and delivers the
  behaviour's notifications. The node only answers requests, so its handlers stay quiet: they never dial, no response
  ever reaches the main loop, and the \<open>todo!()\<close> there is never executed.
\<close>

subsection \<open>Quiet handlers\<close>

fun no_response :: "'id HandlerEvent \<Rightarrow> bool" where
  "no_response (Ok (RPCReceived_Response _ _)) = False"
| "no_response _ = True"

definition quiet :: "('id, 'wk, 'i, 'snd, 'o, 'q, 'k) RPCHandler \<Rightarrow> bool" where
  "quiet h \<longleftrightarrow> dial_queue h = [] \<and> outbound_substreams h = fmempty \<and> list_all no_response (events_out h)"

lemma quiet_new: "quiet (RPCHandler_new E p)"
  by (simp add: quiet_def RPCHandler_new_def)

lemma quiet_shutdown: "quiet h \<Longrightarrow> quiet (shutdown now None h)"
  by (simp add: quiet_def shutdown_def)

lemma quiet_inbound:
  assumes "quiet h" "inject_fully_negotiated_inbound P E now (r, sub) h = Inr h'"
  shows "quiet h'"
  using assms by (cases r)
    (auto simp: inject_fully_negotiated_inbound_def Let_def run_simps quiet_def shutdown_def push_event_def
      split: if_splits prod.splits)

lemma quiet_send_response: "quiet h \<Longrightarrow> quiet (send_response i r h)"
  by (auto simp: send_response_def quiet_def push_event_def Let_def split: option.splits)

lemma drive_inbound_events:
  "drive_inbound E cx d info q evs = Inr (info', q', evs', b) \<Longrightarrow> list_all no_response evs \<Longrightarrow> list_all no_response evs'"
proof (induction E cx d info q evs rule: drive_inbound.induct)
  case (1 E cx d info q evs)
  note unfold = drive_inbound.simps [of E cx d info q evs]
  show ?case
  proof (cases "ii_state info")
    case (Idle s)
    with "1.prems" "1.IH"(1) [OF Idle] show ?thesis
      by (auto simp: unfold split: if_splits list.splits prod.splits poll.splits sum.splits)
  next
    case (Busy fut)
    show ?thesis
    proof (cases "\<exists>s q1 m ms. send_message_poll E cx fut = FutReady (Ok (s, False)) \<and>
        reset_delay E (ii_delay_key info) q = Inr q1 \<and> \<not> d \<and> pending_items info = m # ms")
      case True
      then obtain s q1 m ms where "send_message_poll E cx fut = FutReady (Ok (s, False))"
        "reset_delay E (ii_delay_key info) q = Inr q1" "\<not> d" "pending_items info = m # ms"
        by blast
      with "1.prems"(1) [unfolded unfold] "1.prems"(2) "1.IH"(2) [OF Busy this(1) refl refl _ this(2) refl] Busy
      show ?thesis by auto
    next
      case False
      with "1.prems" Busy show ?thesis
        by (auto simp: unfold split: fut_poll.splits result.splits prod.splits sum.splits bool.splits list.splits)
    qed
  qed (use "1.prems" in \<open>simp add: unfold\<close>)
qed

lemma quiet_drive_inbounds:
  "drive_inbounds E cx d ids h rem = Inr (h', rem') \<Longrightarrow> quiet h \<Longrightarrow> quiet h'"
proof (induction ids arbitrary: h rem)
  case (Cons i ids)
  show ?case
  proof (cases "fmlookup (inbound_substreams h) i")
    case None
    with Cons show ?thesis by auto
  next
    case (Some info)
    then obtain info' q evs b where
      d: "drive_inbound E cx d info (inbound_substreams_delay h) (events_out h) = Inr (info', q, evs, b)"
      using Cons.prems(1) by (auto simp: run_simps)
    let ?h = "h\<lparr>inbound_substreams := fmupd i info' (inbound_substreams h), inbound_substreams_delay := q, events_out := evs\<rparr>"
    have "quiet ?h" using Cons.prems(2) drive_inbound_events [OF d] by (simp add: quiet_def)
    with Cons.IH [of ?h] Cons.prems(1) Some d show ?thesis by simp
  qed
qed simp

lemma quiet_poll_inbound: "poll_inbound_substreams E cx order h = Inr h' \<Longrightarrow> quiet h \<Longrightarrow> quiet h'"
  by (auto simp: poll_inbound_substreams_def run_simps quiet_def dest!: quiet_drive_inbounds)

lemma quiet_expire_inbound:
  "expire_inbound n E cx h = Inr (h', ev) \<Longrightarrow> quiet h \<Longrightarrow> quiet h' \<and> (ev = None \<or> ev = Some (Close RPCError_Error))"
proof (induction n arbitrary: h)
  case (Suc n)
  have "quiet (on_inbound_timeout i (h\<lparr>inbound_substreams_delay := q\<rparr>))" for i q
    using Suc.prems(2) by (auto simp: on_inbound_timeout_def quiet_def push_event_def split: option.splits)
  moreover have "quiet (h\<lparr>inbound_substreams_delay := q\<rparr>)" for q using Suc.prems(2) by (simp add: quiet_def)
  ultimately show ?case
    using Suc.prems(1) Suc.IH by (auto split: prod.splits poll.splits option.splits result.splits)
qed simp

lemma quiet_expire_outbound:
  "expire_outbound n E cx h = Inr (h', ev) \<Longrightarrow> quiet h \<Longrightarrow> quiet h' \<and> (ev = None \<or> ev = Some (Close RPCError_Error))"
proof (induction n arbitrary: h)
  case (Suc n)
  have "quiet (h\<lparr>outbound_substreams_delay := q\<rparr>)" "outbound_substreams h = fmempty" for q
    using Suc.prems(2) by (simp_all add: quiet_def)
  then show ?case
    using Suc.prems(1) Suc.IH by (auto simp: Let_def split: prod.splits poll.splits option.splits result.splits)
qed simp

lemma quiet_poll_delays:
  "poll_delays E cx h = Inr (h', ev) \<Longrightarrow> quiet h \<Longrightarrow> quiet h' \<and> (ev = None \<or> ev = Some (Close RPCError_Error))"
  by (auto simp: poll_delays_def run_simps simp del: expire_inbound.simps expire_outbound.simps
      split: option.splits dest!: quiet_expire_inbound quiet_expire_outbound)

lemma quiet_poll_dial: "poll_dial P h = Inr (h', r) \<Longrightarrow> quiet h \<Longrightarrow> h' = h \<and> dials r = 0 \<and> (\<forall>e. r \<noteq> Ready (Custom e))"
  by (auto simp: poll_dial_def quiet_def split: HandlerState.splits if_splits)

lemma quiet_poll_substreams:
  assumes "poll_substreams P E cx order [] h = Inr (h', r)" "quiet h"
  shows "quiet h' \<and> dials r = 0 \<and> (\<forall>e. r \<noteq> Ready (Custom e))"
proof (cases "poll_inbound_substreams E cx order h")
  case (Inr h1)
  with assms(1) have "poll_dial P h1 = Inr (h', r)" by (simp add: poll_substreams_def)
  with quiet_poll_dial quiet_poll_inbound [OF Inr assms(2)] show ?thesis by blast
qed (use assms in \<open>simp add: poll_substreams_def\<close>)

text \<open>A quiet handler stays quiet when it is polled: it neither dials nor reports a response.\<close>

lemma quiet_poll:
  assumes "RPCHandler_poll P E cx io oo h = Inr (h', r)" "quiet h" "\<And>S. enumerates (oo S) S"
  shows "quiet h' \<and> dials r = 0 \<and> (\<forall>ev. r = Ready (Custom ev) \<longrightarrow> no_response ev)"
proof -
  let ?h = "update_waker E cx h"
  have q: "quiet ?h" using assms(2) by (simp add: quiet_def)
  have sub: "quiet h' \<and> dials r = 0 \<and> (\<forall>e. r \<noteq> Ready (Custom e))"
    if d: "poll_delays E cx ?h = Inr (h1, None)"
      and s: "poll_substreams P E cx (io (fmdom (inbound_substreams h1))) (oo (fmdom (outbound_substreams h1))) h1 = Inr (h', r)"
    for h1
  proof -
    have h1: "quiet h1" using quiet_poll_delays [OF d q] by blast
    then have "oo (fmdom (outbound_substreams h1)) = []"
      using enumerates_set [OF assms(3), of "{||}"] by (simp add: quiet_def)
    from quiet_poll_substreams [OF s [unfolded this] h1] show ?thesis .
  qed
  show ?thesis
  proof (cases "events_out ?h")
    case (Cons e es)
    with assms(1) q show ?thesis by (auto simp: RPCHandler_poll_def Let_def quiet_def)
  next
    case Nil
    consider "h' = ?h\<lparr>h_state := Deactivated\<rparr>" "r = Ready (Close RPCError_Error)"
      | ev where "poll_delays E cx ?h = Inr (h', Some ev)" "r = Ready ev"
      | h1 where "poll_delays E cx ?h = Inr (h1, None)"
          "poll_substreams P E cx (io (fmdom (inbound_substreams h1))) (oo (fmdom (outbound_substreams h1))) h1 = Inr (h', r)"
      using assms(1) Nil by (auto simp: RPCHandler_poll_def Let_def run_simps split: if_split_asm option.split_asm)
        (metis not_None_eq)
    then show ?thesis
    proof cases
      case 1
      with q show ?thesis by (simp add: quiet_def)
    next
      case (2 ev)
      then show ?thesis using quiet_poll_delays [OF 2(1) q] by auto
    qed (use sub in blast)
  qed
qed

subsection \<open>The system\<close>

text \<open>
  A handler is paired with the peer of its connection. A notification for a connection that is no longer there is
  dropped, as libp2p does.
\<close>

record ('p, 'conn, 'wk, 'i, 'snd, 'o, 'q, 'k) rpc_sys =
  sys_rpc :: "('p, 'conn) node_rpc"
  sys_handlers :: "('conn, 'p \<times> (unit RequestId, 'wk, 'i, 'snd, 'o, 'q, 'k) RPCHandler) fmap"

definition rpc_sys_init :: "('p, 'conn, 'wk, 'i, 'snd, 'o, 'q, 'k) rpc_sys" where
  "rpc_sys_init = \<lparr>sys_rpc = RPC_new, sys_handlers = fmempty\<rparr>"

datatype ('p, 'conn, 'cx, 'i) rpc_label =
    R_Open 'conn 'p
  | R_Close 'conn
  | R_Inbound 'conn instant InboundRequest 'i
  | R_PollHandler 'conn 'cx
  | R_Message "('p, 'conn) node_rpc_message"
  | R_Notify 'conn "unit RequestId RPCSend"
  | R_Drop

definition addressed :: "'p \<Rightarrow> 'conn NotifyHandler \<Rightarrow> 'conn \<Rightarrow> 'p \<Rightarrow> bool" where
  "addressed p n c p' \<longleftrightarrow> p' = p \<and> (n = NotifyHandler_One c \<or> n = NotifyHandler_Any)"

inductive rpc_step ::
  "profile \<Rightarrow> ('cx, 'wk, 'i, 'snd, 'o, 'q, 'k) handler_ext \<Rightarrow> ('p, 'conn, 'wk, 'i, 'snd, 'o, 'q, 'k) rpc_sys
   \<Rightarrow> ('p, 'conn, 'cx, 'i) rpc_label \<Rightarrow> ('p, 'conn, 'wk, 'i, 'snd, 'o, 'q, 'k) rpc_sys \<Rightarrow> bool"
  for P :: profile and E :: "('cx, 'wk, 'i, 'snd, 'o, 'q, 'k) handler_ext"
where
  open_connection: "c |\<notin>| fmdom (sys_handlers s) \<Longrightarrow>
    rpc_step P E s (R_Open c p) (s\<lparr>sys_handlers := fmupd c (p, RPC_new_handler E) (sys_handlers s)\<rparr>)"
| close_connection: "rpc_step P E s (R_Close c) (s\<lparr>sys_handlers := fmdrop c (sys_handlers s)\<rparr>)"
| inbound: "fmlookup (sys_handlers s) c = Some (p, h) \<Longrightarrow>
    inject_fully_negotiated_inbound P E now (r, sub) h = Inr h' \<Longrightarrow>
    rpc_step P E s (R_Inbound c now r sub) (s\<lparr>sys_handlers := fmupd c (p, h') (sys_handlers s)\<rparr>)"
| poll_handler: "fmlookup (sys_handlers s) c = Some (p, h) \<Longrightarrow>
    (\<And>S. enumerates (io S) S) \<Longrightarrow> (\<And>S. enumerates (oo S) S) \<Longrightarrow>
    RPCHandler_poll P E cx io oo h = Inr (h', r) \<Longrightarrow>
    rpc_step P E s (R_PollHandler c cx)
      (s\<lparr>sys_rpc := report p c r (sys_rpc s), sys_handlers := fmupd c (p, h') (sys_handlers s)\<rparr>)"
| message: "RPC_poll (sys_rpc s) = (rpc', Ready (GenerateEvent msg)) \<Longrightarrow> on_rpc_message msg rpc' = Inr rpc'' \<Longrightarrow>
    rpc_step P E s (R_Message msg) (s\<lparr>sys_rpc := rpc''\<rparr>)"
| notify: "RPC_poll (sys_rpc s) = (rpc', Ready (NotifyHandler p n m)) \<Longrightarrow>
    fmlookup (sys_handlers s) c = Some (p', h) \<Longrightarrow> addressed p n c p' \<Longrightarrow> Handler.inject_event m h = (h', w) \<Longrightarrow>
    rpc_step P E s (R_Notify c m) (s\<lparr>sys_rpc := rpc', sys_handlers := fmupd c (p', h') (sys_handlers s)\<rparr>)"
| drop: "RPC_poll (sys_rpc s) = (rpc', Ready (NotifyHandler p n m)) \<Longrightarrow>
    (\<And>c p' h. fmlookup (sys_handlers s) c = Some (p', h) \<Longrightarrow> \<not> addressed p n c p') \<Longrightarrow>
    rpc_step P E s R_Drop (s\<lparr>sys_rpc := rpc'\<rparr>)"

fun quiet_action :: "(unit RequestId, 'p, 'conn) rpc_action \<Rightarrow> bool" where
  "quiet_action (GenerateEvent msg) = no_response (msg_event msg)"
| "quiet_action (NotifyHandler _ _ (RPCSend_Response _ _)) = True"
| "quiet_action (NotifyHandler _ _ (RPCSend_Request _ _)) = False"

definition rpc_sys_inv ::
  "('q \<Rightarrow> 'k \<rightharpoonup> SubstreamId) \<Rightarrow> ('p, 'conn, 'wk, 'i, 'snd, 'o, 'q, 'k) rpc_sys \<Rightarrow> bool" where
  "rpc_sys_inv live s \<longleftrightarrow>
     list_all quiet_action (events (sys_rpc s)) \<and>
     fmpred (\<lambda>c (p, h). handler_inv live h \<and> quiet h) (sys_handlers s)"

lemma rpc_sys_inv_handler:
  assumes "rpc_sys_inv live s" "handler_inv live h" "quiet h" "list_all quiet_action (events b)"
  shows "rpc_sys_inv live (s\<lparr>sys_rpc := b, sys_handlers := fmupd c (p, h) (sys_handlers s)\<rparr>)"
  using assms by (auto simp: rpc_sys_inv_def intro!: fmpred_upd)

lemma rpc_sys_invD:
  "rpc_sys_inv live s \<Longrightarrow> fmlookup (sys_handlers s) c = Some (p, h) \<Longrightarrow> handler_inv live h \<and> quiet h"
  by (auto simp: rpc_sys_inv_def dest: fmpredD)

lemma quiet_report:
  "list_all quiet_action (events b) \<Longrightarrow> (\<And>ev. r = Ready (Custom ev) \<Longrightarrow> no_response ev) \<Longrightarrow>
   list_all quiet_action (events (report p c r b))"
  by (auto simp: report_def RPC_inject_event_def push_action_def split: poll.splits ConnectionHandlerEvent.splits)

lemma RPC_poll_quiet:
  assumes "list_all quiet_action (events b)" "RPC_poll b = (b', Ready a)"
  shows "quiet_action a \<and> list_all quiet_action (events b')"
  using assms by (auto simp: RPC_poll_def split: list.splits)

lemma on_rpc_message_quiet:
  assumes "no_response (msg_event msg)" "list_all quiet_action (events b)"
  shows "\<exists>b'. on_rpc_message msg b = Inr b' \<and> list_all quiet_action (events b')"
  using assms by (cases "msg_event msg" rule: no_response.cases)
    (auto simp: on_rpc_message_def RPC_send_response_def push_action_def)

interpretation rpc_system: inductive_invariant "\<lambda>s. s = rpc_sys_init" "rpc_step P E"
  "\<lambda>s. delay_queue_laws E live \<longrightarrow> rpc_sys_inv live s" for P E live
proof
  show "delay_queue_laws E live \<longrightarrow> rpc_sys_inv live s" if "s = rpc_sys_init"
    for s :: "('a, 'b, 'c, 'd, 'e, 'f, 'g, 'h) rpc_sys"
    by (simp add: that rpc_sys_init_def rpc_sys_inv_def RPC_new_def)
next
  fix s l t
  assume inv: "delay_queue_laws E live \<longrightarrow> rpc_sys_inv live s" and step: "rpc_step P E s l t"
  show "delay_queue_laws E live \<longrightarrow> rpc_sys_inv live t"
  proof
    assume laws: "delay_queue_laws E live"
    with inv have s: "rpc_sys_inv live s" and queue: "list_all quiet_action (events (sys_rpc s))"
      by (auto simp: rpc_sys_inv_def)
    note upd = rpc_sys_inv_handler [OF s]
    from step show "rpc_sys_inv live t"
    proof cases
      case (open_connection c p)
      with upd [of "RPC_new_handler E" "sys_rpc s"] queue show ?thesis
        by (simp add: RPC_new_handler_def handler_inv_new quiet_new)
    next
      case (close_connection c)
      with s show ?thesis by (auto simp: rpc_sys_inv_def intro: fmpred_drop)
    next
      case (inbound c p h now r sub h')
      with rpc_sys_invD [OF s inbound(3)] upd [of h' "sys_rpc s" c p] queue
        handler_inv_inject_inbound [OF laws _ inbound(4)] quiet_inbound [OF _ inbound(4)]
      show ?thesis by simp
    next
      case (poll_handler c p h io oo cx h' r)
      have h: "handler_inv live h" "quiet h" using rpc_sys_invD [OF s poll_handler(3)] by simp_all
      have "handler_inv live h'"
        using poll_ok [OF laws h(1) poll_handler(4,5), of P cx] poll_handler(6) by auto
      with upd [of h' "report p c r (sys_rpc s)" c p] quiet_poll [OF poll_handler(6) h(2) poll_handler(5)]
        quiet_report [OF queue] poll_handler(2)
      show ?thesis by simp
    next
      case (message rpc' msg rpc'')
      with RPC_poll_quiet [OF queue message(3)] on_rpc_message_quiet [of msg rpc'] s show ?thesis
        by (auto simp: rpc_sys_inv_def)
    next
      case (notify rpc' p n m c p' h h' w)
      have h: "handler_inv live h" "quiet h" using rpc_sys_invD [OF s notify(4)] by simp_all
      have rpc': "quiet_action (NotifyHandler p n m)" "list_all quiet_action (events rpc')"
        using RPC_poll_quiet [OF queue notify(3)] by simp_all
      then obtain i r where "m = RPCSend_Response i r" by (cases m) auto
      with notify(6) h(2) have "quiet h'"
        by (auto simp: Handler.inject_event_def Let_def intro: quiet_send_response)
      with upd [of h' rpc' c p'] handler_inv_inject_event [OF h(1) notify(6)] rpc'(2) notify(2) show ?thesis by simp
    next
      case (drop rpc' p n m)
      with RPC_poll_quiet [OF queue drop(3)] s show ?thesis by (auto simp: rpc_sys_inv_def)
    qed
  qed
qed

text \<open>
  C6: the RPC part of the node never panics while it serves requests. In every reachable state every handler can be
  polled without a panic, dials nothing and reports no response; and a message the behaviour hands to the
  main loop is handled without a panic: the \<open>todo!()\<close> for responses is never reached.
\<close>

theorem rpc_service_never_panics:
  assumes "delay_queue_laws E live" "reach (\<lambda>s. s = rpc_sys_init) (rpc_step P E) s"
  shows "(\<forall>c p h cx io oo. fmlookup (sys_handlers s) c = Some (p, h) \<longrightarrow>
      (\<forall>S. enumerates (io S) S) \<longrightarrow> (\<forall>S. enumerates (oo S) S) \<longrightarrow>
      (\<exists>h' r. RPCHandler_poll P E cx io oo h = Inr (h', r) \<and> dials r = 0 \<and>
         (\<forall>i resp. r \<noteq> Ready (Custom (Ok (RPCReceived_Response i resp)))))) \<and>
    (\<forall>rpc' msg. RPC_poll (sys_rpc s) = (rpc', Ready (GenerateEvent msg)) \<longrightarrow> \<not> panics (on_rpc_message msg rpc'))"
proof (intro conjI allI impI)
  have inv: "rpc_sys_inv live s" using rpc_system.reach_inv [OF assms(2)] assms(1) by blast
  fix c p h cx
  fix io oo :: "SubstreamId fset \<Rightarrow> SubstreamId list"
  assume "fmlookup (sys_handlers s) c = Some (p, h)" and io: "\<forall>S. enumerates (io S) S" and oo: "\<forall>S. enumerates (oo S) S"
  then have h: "handler_inv live h" "quiet h" using rpc_sys_invD [OF inv] by blast+
  obtain h' r where r: "RPCHandler_poll P E cx io oo h = Inr (h', r)"
    using poll_ok [OF assms(1) h(1), of io oo P cx] io oo by blast
  with quiet_poll [OF r h(2)] oo show "\<exists>h' r. RPCHandler_poll P E cx io oo h = Inr (h', r) \<and> dials r = 0 \<and>
      (\<forall>i resp. r \<noteq> Ready (Custom (Ok (RPCReceived_Response i resp))))"
    by force
next
  have inv: "rpc_sys_inv live s" using rpc_system.reach_inv [OF assms(2)] assms(1) by blast
  fix rpc' msg
  assume "RPC_poll (sys_rpc s) = (rpc', Ready (GenerateEvent msg))"
  with RPC_poll_quiet inv on_rpc_message_quiet show "\<not> panics (on_rpc_message msg rpc')"
    unfolding rpc_sys_inv_def by (metis not_panics_iff quiet_action.simps(1))
qed

text \<open>
  A run: a connection opens, a MetaData request arrives and its handler reports it; the main loop's answer is
  queued for the handler.
\<close>

type_synonym demo_sys =
  "(nat, nat, nat, RPCCodedResponse list, RPCCodedResponse list, RPCCodedResponse list, demo_queue, nat) rpc_sys"

lemma demo_serving:
  "\<exists>s :: demo_sys. reach (\<lambda>s. s = rpc_sys_init) (rpc_step Dev demo_ext) s \<and>
     (\<exists>h. fmlookup (sys_handlers s) 1 = Some (7, h)) \<and>
     (\<exists>rpc' msg. RPC_poll (sys_rpc s) = (rpc', Ready (GenerateEvent msg)))"
proof -
  let ?reach = "reach (\<lambda>s. s = rpc_sys_init) (rpc_step Dev demo_ext)"
  let ?h0 = "RPC_new_handler demo_ext :: (unit RequestId, nat, RPCCodedResponse list, RPCCodedResponse list,
    RPCCodedResponse list, demo_queue, nat) RPCHandler"
  let ?s0 = "rpc_sys_init\<lparr>sys_handlers := fmupd 1 (7, ?h0) fmempty\<rparr> :: demo_sys"
  have s0: "?reach ?s0"
  proof (rule reach_step)
    show "?reach (rpc_sys_init :: demo_sys)" by (rule reach_init) simp
    show "rpc_step Dev demo_ext rpc_sys_init (R_Open 1 7) ?s0"
      using open_connection [of 1 "rpc_sys_init :: demo_sys" Dev demo_ext 7] by (simp add: rpc_sys_init_def)
  qed
  obtain h1 where h1: "inject_fully_negotiated_inbound Dev demo_ext 3 (InboundRequest_MetaData, []) ?h0 = Inr h1"
    "events_out h1 = [Ok (RPCReceived_Request 0 InboundRequest_MetaData)]"
    by (simp add: inject_fully_negotiated_inbound_def RPC_new_handler_def RPCHandler_new_def demo_simps push_event_def
        MAX_INBOUND_SUBSTREAMS_def Let_def fcard.rep_eq add_ovf_def)
  let ?s1 = "?s0\<lparr>sys_handlers := fmupd 1 (7, h1) (sys_handlers ?s0)\<rparr>"
  have s1: "?reach ?s1"
    by (rule reach_step [OF s0 inbound [where c = 1, OF _ h1(1)]]) simp
  obtain h2 where h2: "RPCHandler_poll Dev demo_ext 0 demo_order demo_order h1 =
      Inr (h2, Ready (Custom (Ok (RPCReceived_Request 0 InboundRequest_MetaData))))"
    using h1(2) by (simp add: RPCHandler_poll_def Let_def)
  have l1: "fmlookup (sys_handlers ?s1) 1 = Some (7, h1)" by simp
  let ?ev = "Ok (RPCReceived_Request 0 InboundRequest_MetaData)"
  let ?s2 = "?s1\<lparr>sys_rpc := report 7 1 (Ready (Custom ?ev)) (sys_rpc ?s1), sys_handlers := fmupd 1 (7, h2) (sys_handlers ?s1)\<rparr>"
  have "rpc_step Dev demo_ext ?s1 (R_PollHandler 1 0) ?s2"
    by (rule poll_handler) (rule l1 demo_order_enumerates h2)+
  with s1 have "?reach ?s2" by (rule reach_step)
  moreover have "\<exists>rpc' msg. RPC_poll (sys_rpc ?s2) = (rpc', Ready (GenerateEvent msg))"
    by (simp add: report_def RPC_inject_event_def push_action_def RPC_poll_def RPC_new_def rpc_sys_init_def)
  moreover have "\<exists>h. fmlookup (sys_handlers ?s2) 1 = Some (7, h)" by simp
  ultimately show ?thesis by blast
qed

theorem rpc_service_never_panics_witness:
  "\<exists>(s :: demo_sys) rpc' msg. RPC_poll (sys_rpc s) = (rpc', Ready (GenerateEvent msg)) \<and>
     \<not> panics (on_rpc_message msg rpc')"
proof -
  obtain s :: demo_sys and rpc' msg where s: "reach (\<lambda>s. s = rpc_sys_init) (rpc_step Dev demo_ext) s"
    and r: "RPC_poll (sys_rpc s) = (rpc', Ready (GenerateEvent msg))"
    using demo_serving by blast
  with rpc_service_never_panics [OF demo_delay_queue_laws s] show ?thesis by blast
qed

end
