(* ===== verification/Node_Properties.thy ===== *)
theory Node_Properties
  imports Node Ssz_Snappy Peer_Manager_Properties
begin

section \<open>Properties of discovery and of the main loop\<close>

subsection \<open>Discovery\<close>

text \<open>
  What the queues of running queries and buffered events document: an item that is ready leaves the queue.
\<close>

definition disc_laws ::
  "('enr, 'b, 'key, 'pk, 'p, 'sk, 'd, 'cx, 'fut, 'fu, 'esf, 'st, 'n, 'a) disc_ext \<Rightarrow> bool" where
  "disc_laws X \<longleftrightarrow>
     (\<forall>cx fu fu' r. fu_poll_next X cx fu = (fu', Ready (Some r)) \<longrightarrow> fu_len X fu = Suc (fu_len X fu')) \<and>
     (\<forall>cx st st' e. poll_recv X cx st = (st', Ready (Some e)) \<longrightarrow> st_len X st = Suc (st_len X st'))"

lemma collect_peers_returns:
  assumes "\<And>enr. \<not> panics (as_peer_id X enr)"
  shows "\<exists>d' m'. collect_peers X enrs d m = Inr (d', m')"
proof (induction enrs arbitrary: d m)
  case (Cons enr enrs)
  obtain p where "as_peer_id X enr = Inr p" using assms [of enr] by (auto simp: not_panics_iff)
  with Cons.IH show ?case by (simp split: prod.splits)
qed simp

lemma get_peers_loop_returns:
  assumes "disc_laws X" "\<And>enr. \<not> panics (as_peer_id X enr)" "fu_len X (peers_future s) < n"
  shows "\<exists>s' r. get_peers_loop n X cx s = Inr (s', r)"
  using assms(3)
proof (induction n arbitrary: s)
  case (Suc n)
  obtain fu r where p: "fu_poll_next X cx (peers_future s) = (fu, r)" by fastforce
  show ?case
  proof (cases "\<exists>e. r = Ready (Some (Err e))")
    case True
    with p assms(1) have "fu_len X (peers_future s) = Suc (fu_len X fu)" by (auto simp: disc_laws_def)
    with Suc p True show ?thesis by auto
  next
    case False
    then consider enrs where "r = Ready (Some (Ok enrs))" | "r = Ready None" | "r = Pending"
      by (metis option.exhaust poll.exhaust result.exhaust)
    then show ?thesis
    proof cases
      case (1 enrs)
      obtain d m where "collect_peers X enrs (discv5 s) fmempty = Inr (d, m)"
        using collect_peers_returns [OF assms(2)] by blast
      with p 1 show ?thesis by simp
    qed (use p in simp_all)
  qed
qed simp

lemma drain_events_returns:
  assumes "disc_laws X" "st_len X st < n"
  shows "\<exists>st'. drain_events n X cx st = Inr st'"
  using assms(2)
proof (induction n arbitrary: st)
  case (Suc n)
  obtain st1 r where p: "poll_recv X cx st = (st1, r)" by fastforce
  with assms(1) have "r = Ready (Some e) \<Longrightarrow> st_len X st = Suc (st_len X st1)" for e by (auto simp: disc_laws_def)
  with Suc p show ?case by (auto split: poll.splits option.splits)
qed simp

lemma get_peers_loop_enr: "get_peers_loop n X cx s = Inr (s', r) \<Longrightarrow> local_enr s' = local_enr s"
proof (induction n arbitrary: s)
  case (Suc n)
  then show ?case
    by (auto simp: run_simps split: prod.splits poll.splits option.splits result.splits dest!: Suc.IH)
qed simp

lemma Discovery_poll_enr: "Discovery_poll X target cx s = Inr (s', r) \<Longrightarrow> local_enr s' = local_enr s"
  by (auto simp: Discovery_poll_def find_peers_def get_peers_def run_simps simp del: get_peers_loop.simps
      split: if_splits option.splits result.splits dest!: get_peers_loop_enr)

lemma discovery_poll_returns:
  assumes "disc_laws X" "\<And>enr. \<not> panics (as_peer_id X enr)" "fork_id X (local_enr s) = Ok f"
  shows "\<not> panics (Discovery_poll X target cx s)"
proof -
  obtain s1 r where g: "get_peers X cx s = Inr (s1, r)"
    using get_peers_loop_returns [OF assms(1,2) lessI] by (fastforce simp: get_peers_def)
  have "\<exists>es'. poll_event_stream X cx es = Inr es'" for es
  proof (cases es)
    case (Present st)
    with drain_events_returns [OF assms(1) lessI, of st cx] show ?thesis
      by (auto simp: poll_event_stream_def simp del: drain_events.simps)
  qed (auto simp: poll_event_stream_def split: prod.splits poll.splits result.splits)
  then obtain es' where "poll_event_stream X cx (event_stream s1) = Inr es'" by blast
  with assms(3) g show ?thesis by (simp add: Discovery_poll_def find_peers_def split: option.splits)
qed

text \<open>
  C35: a discovery behaviour whose record was built by \<open>build_enr\<close> never panics when it is polled, and
  its loops end: the record carries the node's fork id, so the \<open>unwrap\<close> in \<open>find_peers\<close> always
  succeeds. The hypothesis on keys says that every key in a record converts to a libp2p key.
\<close>

theorem discovery_poll_never_panics:
  assumes "disc_laws X" "enr_laws X" "\<And>enr. \<not> panics (as_peer_id X enr)"
    and "build_enr X tree_hash_root key = Inr (local_enr s)"
  shows "\<not> panics (Discovery_poll X target cx s)"
  using build_enr_fork_id [OF assms(2,4)] discovery_poll_returns [OF assms(1,3)] by blast


text \<open>A discovery service whose queries have all been answered; records are pairs of a peer and a fork id.\<close>

type_synonym demo_enr = "nat \<times> bytes"

definition demo_disc ::
  "(demo_enr, bytes, unit, nat, nat, unit, unit, unit, unit, (demo_enr list, unit) result list, unit, nat, unit, string) disc_ext" where
  "demo_disc =
     \<lparr>builder_new = (\<lambda>_. []), builder_ip = (\<lambda>_ b. b), builder_udp4 = (\<lambda>_ b. b), builder_tcp4 = (\<lambda>_ b. b),
      builder_add_value = (\<lambda>_ v _. v), builder_build = (\<lambda>_ b. Some (0, b)), enr_get = (\<lambda>(_, v) _. Some v),
      enr_ip4 = (\<lambda>_. Some [127, 0, 0, 1]), enr_tcp4 = (\<lambda>_. Some 9000),
      enr_public_key = (\<lambda>(p, _). CombinedPublicKey_Secp256k1 [of_nat p]),
      fork_id_as_ssz = (\<lambda>f. fork_id_digest f @ next_fork_version f @ to_le_bytes (next_fork_epoch f)),
      fork_id_from_ssz = (\<lambda>b. Some \<lparr>fork_id_digest = take 4 b, next_fork_version = take 4 (drop 4 b),
        next_fork_epoch = from_le_bytes (drop 8 b)\<rparr>),
      secp256k1_decode = (\<lambda>b. Some (unat (hd b))), ed25519_decode = (\<lambda>b. Some (unat (hd b))), from_public_key = id,
      combined_key = Some, discv5_new = (\<lambda>_ _ _. Some ()), enr_from_str = (\<lambda>_. Some (0, [])),
      add_enr = (\<lambda>_ d. (d, True)), discv5_start = Some, discv5_event_stream = id,
      find_node_predicate = (\<lambda>_ _ _ _. ()), fu_new = [], fu_len = length, fu_push = (\<lambda>_ fu. fu @ [Err ()]),
      fu_poll_next = (\<lambda>_ fu. case fu of [] \<Rightarrow> ([], Ready None) | r # rs \<Rightarrow> (rs, Ready (Some r))),
      es_poll = (\<lambda>_ _. ((), Ready (Ok 0))), st_len = id,
      poll_recv = (\<lambda>_ n. case n of 0 \<Rightarrow> (0, Pending) | Suc k \<Rightarrow> (k, Ready (Some ()))),
      multiaddr_from_ip4 = (\<lambda>_. ''/ip4/127.0.0.1''), multiaddr_push_tcp = (\<lambda>_ a. a @ ''/tcp/9000'')\<rparr>"


lemma demo_disc_laws: "disc_laws demo_disc"
  by (auto simp: disc_laws_def demo_disc_def split: list.splits nat.splits)

lemma demo_enr_laws: "enr_laws demo_disc"
  by (auto simp: enr_laws_def demo_disc_def wf_fork_id_def)

lemma demo_keys_valid: "\<not> panics (as_peer_id demo_disc enr)"
  by (cases enr) (simp add: as_peer_id_def demo_disc_def)

definition demo_root :: "ForkData \<Rightarrow> bytes" where
  "demo_root f = current_version f @ replicate 28 0"

definition demo_local_enr :: demo_enr where
  "demo_local_enr = (0, [2, 0, 0, 0, 2, 0, 0, 0] @ to_le_bytes (- 1))"

definition demo_discovery ::
  "(demo_enr list, unit) result list
   \<Rightarrow> (demo_enr, unit, (demo_enr list, unit) result list, unit, nat) Discovery" where
  "demo_discovery queries =
     \<lparr>discv5 = (), local_enr = demo_local_enr, event_stream = Present 3, peers_future = queries,
      discovery_count = 0, started = True\<rparr>"

lemma demo_local_enr_built: "build_enr demo_disc demo_root () = Inr demo_local_enr"
  by (simp add: build_enr_def ForkId_new_def compute_fork_digest_def compute_fork_data_root_def demo_root_def
      BELLATRIX_FORK_VERSION_def demo_disc_def demo_local_enr_def Let_def)

theorem discovery_poll_never_panics_witness:
  "\<not> panics (Discovery_poll demo_disc () () (demo_discovery [Err (), Ok [(7, [])]]))"
proof -
  have "build_enr demo_disc demo_root () = Inr (local_enr (demo_discovery [Err (), Ok [(7, [])]]))"
    by (simp add: demo_discovery_def demo_local_enr_built)
  from discovery_poll_never_panics [OF demo_disc_laws demo_enr_laws demo_keys_valid this] show ?thesis .
qed

lemma collect_peers_result:
  assumes "collect_peers X enrs d m = Inr (d', m')"
  shows "fset (fmdom m') = fset (fmdom m) \<union> {p. \<exists>e \<in> set enrs. as_peer_id X e = Inr p} \<and>
    (\<forall>p a. fmlookup m' p = Some a \<longrightarrow> fmlookup m p = Some a \<or>
       (\<exists>e \<in> set enrs. as_peer_id X e = Inr p \<and> a = enr_multiaddr X e))"
  using assms
proof (induction enrs arbitrary: d m)
  case (Cons e es)
  obtain d1 b where a: "add_enr X e d = (d1, b)" by fastforce
  then obtain p where p: "as_peer_id X e = Inr p"
    and c: "collect_peers X es d1 (fmupd p (enr_multiaddr X e) m) = Inr (d', m')"
    using Cons.prems by (auto simp: run_simps)
  from Cons.IH [OF c] p show ?case by (auto split: if_splits)
qed simp

text \<open>The queries that are left after polling the running ones as long as they fail.\<close>

inductive failed_queries ::
  "('enr, 'b, 'key, 'pk, 'p, 'sk, 'd, 'cx, 'fut, 'fu, 'esf, 'st, 'n, 'a) disc_ext \<Rightarrow> 'cx \<Rightarrow> 'fu \<Rightarrow> 'fu \<Rightarrow> bool"
  for X :: "('enr, 'b, 'key, 'pk, 'p, 'sk, 'd, 'cx, 'fut, 'fu, 'esf, 'st, 'n, 'a) disc_ext" and cx :: 'cx
where
  failed_none: "failed_queries X cx fu fu"
| failed_more: "fu_poll_next X cx fu = (fu1, Ready (Some (Err e))) \<Longrightarrow> failed_queries X cx fu1 fu' \<Longrightarrow> failed_queries X cx fu fu'"

lemma get_peers_loop_result:
  assumes "get_peers_loop n X cx s = Inr (s', Some dp)"
  shows "peers_future s' = fu_new X \<and>
    (\<exists>fu fu' enrs d'. failed_queries X cx (peers_future s) fu \<and> fu_poll_next X cx fu = (fu', Ready (Some (Ok enrs))) \<and>
       collect_peers X enrs (discv5 s) fmempty = Inr (d', peers dp) \<and> discv5 s' = d')"
  using assms
proof (induction n arbitrary: s)
  case (Suc n)
  obtain fu1 r where poll: "fu_poll_next X cx (peers_future s) = (fu1, r)" by fastforce
  consider enrs where "r = Ready (Some (Ok enrs))" | e where "r = Ready (Some (Err e))"
    | "\<And>x. r \<noteq> Ready (Some x)"
    by (metis result.exhaust)
  then show ?case
  proof cases
    case (1 enrs)
    with Suc.prems poll show ?thesis by (fastforce simp: run_simps intro: failed_none)
  next
    case (2 e)
    with Suc.prems poll have "get_peers_loop n X cx (s\<lparr>peers_future := fu1\<rparr>) = Inr (s', Some dp)" by simp
    from Suc.IH [OF this] failed_more [OF poll [unfolded 2]] show ?thesis by auto
  next
    case 3
    with Suc.prems poll show ?thesis by (auto split: poll.splits option.splits)
  qed
qed simp

text \<open>
  C36: what discovery reports is exactly what one of its running queries found. Polling the running queries, after
  any number of failed ones, yields a finished query with its records; the reported peers are the peers of these
  records, an address is reported with a peer exactly if it comes from one of that peer's records, built from
  its IPv4 address and TCP port, and all other running queries are dropped.
\<close>

theorem discovered_peers_come_from_query:
  assumes "Discovery_poll X target cx s = Inr (s', Ready dp)"
  shows "peers_future s' = fu_new X \<and>
    (\<exists>fu fu' enrs. failed_queries X cx (peers_future s) fu \<and> fu_poll_next X cx fu = (fu', Ready (Some (Ok enrs))) \<and>
       fset (fmdom (peers dp)) = {p. \<exists>e \<in> set enrs. as_peer_id X e = Inr p} \<and>
       (\<forall>p a. fmlookup (peers dp) p = Some a \<longrightarrow>
          (\<exists>e \<in> set enrs. as_peer_id X e = Inr p \<and> a = enr_multiaddr X e)))"
proof -
  have "get_peers X cx s = Inr (s', Some dp)"
    using assms by (auto simp: Discovery_poll_def run_simps split: if_splits option.splits)
  from get_peers_loop_result [OF this [unfolded get_peers_def]]
  obtain fu fu' enrs d' where "peers_future s' = fu_new X" "failed_queries X cx (peers_future s) fu"
    "fu_poll_next X cx fu = (fu', Ready (Some (Ok enrs)))" "collect_peers X enrs (discv5 s) fmempty = Inr (d', peers dp)"
    by blast
  with collect_peers_result [of X enrs "discv5 s" fmempty d' "peers dp"] show ?thesis by auto
qed

theorem discovered_peers_come_from_query_witness:
  "\<exists>s' dp. Discovery_poll demo_disc () () (demo_discovery [Err (), Ok [(7, [])], Err ()]) = Inr (s', Ready dp) \<and>
     peers_future s' = [] \<and> fset (fmdom (peers dp)) = {7}"
proof -
  let ?s = "demo_discovery [Err (), Ok [(7, [])], Err ()]"
  have id: "as_peer_id demo_disc e = Inr (unat (of_nat (fst e) :: u8))" for e
    by (cases e) (simp add: as_peer_id_def demo_disc_def)
  obtain s' dp where poll: "Discovery_poll demo_disc () () ?s = Inr (s', Ready dp)"
    by (simp add: Discovery_poll_def get_peers_def demo_discovery_def demo_disc_def as_peer_id_def)
  from discovered_peers_come_from_query [OF this] obtain fu fu' enrs
    where q: "peers_future s' = []" "failed_queries demo_disc () (peers_future ?s) fu"
    "fu_poll_next demo_disc () fu = (fu', Ready (Some (Ok enrs)))"
    "fset (fmdom (peers dp)) = {p. \<exists>e \<in> set enrs. as_peer_id demo_disc e = Inr p}"
    by (auto simp: demo_disc_def)
  have next_query: "fu_poll_next demo_disc () qs = (case qs of [] \<Rightarrow> ([], Ready None) | r # rs \<Rightarrow> (rs, Ready (Some r)))" for qs
    by (simp add: demo_disc_def)
  have "peers_future ?s = [Err (), Ok [(7, [])], Err ()]" by (simp add: demo_discovery_def)
  with q(2,3) have "failed_queries demo_disc () [Ok [(7, [])], Err ()] fu"
    by (auto simp: next_query elim: failed_queries.cases)
  with q(3) have "enrs = [(7, [])]" by (auto simp: next_query elim: failed_queries.cases)
  with q(4) have "fset (fmdom (peers dp)) = {7}" by (simp add: id)
  with poll q(1) show ?thesis by blast
qed

subsection \<open>Gossip\<close>

text \<open>
  C37: the bytes that are hashed into a message id determine the topic and the payload: two messages with
  the same prefix bytes have the same topic and the same data. So message ids collide only
  where SHA-256, cut to 20 bytes, does.
\<close>

theorem message_id_input_injective:
  assumes "prefix MESSAGE_DOMAIN_VALID_SNAPPY m = prefix MESSAGE_DOMAIN_VALID_SNAPPY m'"
    and "length (gm_topic m) < 2 ^ 64" "length (gm_topic m') < 2 ^ 64"
  shows "gm_topic m = gm_topic m' \<and> gm_data m = gm_data m'"
proof -
  have eq: "to_le_bytes (of_nat (length (gm_topic m))) @ as_bytes (gm_topic m) @ gm_data m =
      to_le_bytes (of_nat (length (gm_topic m'))) @ as_bytes (gm_topic m') @ gm_data m'"
    using assms(1) by (simp add: prefix_def Let_def as_bytes_def)
  have "length (to_le_bytes x) = length (to_le_bytes y) \<or> P" for x y P by simp
  from append_eq_append_conv [THEN iffD1, OF this eq]
  have len: "(of_nat (length (gm_topic m)) :: usize) = of_nat (length (gm_topic m'))"
    and rest: "as_bytes (gm_topic m) @ gm_data m = as_bytes (gm_topic m') @ gm_data m'"
    unfolding to_le_bytes_inject by blast+
  have "unat (of_nat (length (gm_topic m)) :: usize) = length (gm_topic m)"
    "unat (of_nat (length (gm_topic m')) :: usize) = length (gm_topic m')"
    using assms(2,3) by (simp_all add: unat_of_nat)
  with len have "length (gm_topic m) = length (gm_topic m')" by metis
  with rest have "as_bytes (gm_topic m) = as_bytes (gm_topic m')" "gm_data m = gm_data m'"
    by (simp_all add: as_bytes_def)
  then show ?thesis by (simp add: as_bytes_def protocol_name_inj_list)
qed

theorem message_id_input_injective_witness:
  "\<exists>m m' :: nat GossipsubMessage. m \<noteq> m' \<and>
     prefix MESSAGE_DOMAIN_VALID_SNAPPY m = prefix MESSAGE_DOMAIN_VALID_SNAPPY m' \<and>
     gm_topic m = gm_topic m' \<and> gm_data m = gm_data m'"
proof -
  let ?m = "\<lambda>source. \<lparr>gm_source = source :: nat option, gm_data = [5], gm_sequence_number = None, gm_topic = ''t''\<rparr>"
  have "prefix MESSAGE_DOMAIN_VALID_SNAPPY (?m None) = prefix MESSAGE_DOMAIN_VALID_SNAPPY (?m (Some 1))"
    by (simp add: prefix_def Let_def)
  with message_id_input_injective [OF this] show ?thesis
    by (intro exI [of _ "?m None"] exI [of _ "?m (Some 1)"]) simp
qed

text \<open>Raw snappy that stores its input, as an instance of the compression interface.\<close>

definition stored_snap :: snap_ext where
  "stored_snap = \<lparr>decompress_len = (\<lambda>b. Some (length b)), decompress_vec = Some, compress_vec = Some\<rparr>"

definition snap_laws :: "snap_ext \<Rightarrow> bool" where
  "snap_laws Z \<longleftrightarrow>
     (\<forall>b c. compress_vec Z b = Some c \<longrightarrow> decompress_len Z c = Some (length b) \<and> decompress_vec Z c = Some b)"

text \<open>
  C38: a gossip payload that the node compresses for sending is accepted and restored by the inbound
  transform; a payload longer than the limit is refused before it is compressed, and a block that
  declares more than the limit is refused before it is decompressed.
\<close>

theorem gossip_transform_roundtrip:
  assumes "snap_laws Z"
  shows "(\<forall>c. outbound_transform Z SnappyTransform_new topic payload = Ok c \<longrightarrow>
      inbound_transform Z SnappyTransform_new (msg\<lparr>gm_data := c\<rparr>) = Ok (msg\<lparr>gm_data := payload\<rparr>)) \<and>
    (GOSSIP_MAX_SIZE_BELLATRIX < length payload \<longrightarrow>
      (\<exists>e. outbound_transform Z SnappyTransform_new topic payload = Err e)) \<and>
    (\<forall>n. decompress_len Z (gm_data msg) = Some n \<longrightarrow> GOSSIP_MAX_SIZE_BELLATRIX < n \<longrightarrow>
      (\<exists>e. inbound_transform Z SnappyTransform_new msg = Err e))"
  using assms
  by (auto simp: outbound_transform_def inbound_transform_def SnappyTransform_new_def snap_laws_def
      split: if_splits option.splits)

theorem gossip_transform_roundtrip_witness:
  "inbound_transform stored_snap SnappyTransform_new
     \<lparr>gm_source = None, gm_data = [1, 2, 3], gm_sequence_number = None, gm_topic = ''t''\<rparr> =
   Ok \<lparr>gm_source = None :: unit option, gm_data = [1, 2, 3], gm_sequence_number = None, gm_topic = ''t''\<rparr>"
proof -
  have "snap_laws stored_snap" by (simp add: snap_laws_def stored_snap_def)
  moreover have "outbound_transform stored_snap SnappyTransform_new ''t'' [1, 2, 3] = Ok [1, 2, 3]"
    by (simp add: outbound_transform_def SnappyTransform_new_def stored_snap_def GOSSIP_MAX_SIZE_BELLATRIX_def)
  ultimately show ?thesis
    using gossip_transform_roundtrip [of stored_snap "''t''" "[1, 2, 3]"
        "\<lparr>gm_source = None :: unit option, gm_data = [1, 2, 3], gm_sequence_number = None, gm_topic = ''t''\<rparr>"]
    by simp
qed

subsection \<open>Answering requests\<close>

text \<open>
  The main loop answers every inbound request once, on the connection and substream it came from: a
  Status, Ping or MetaData request with a success of the same protocol, any other with an error. The only
  message it cannot handle is a response, for which it panics (\<open>todo!\<close>).
\<close>

lemma rpc_requests_answered:
  "(panics (on_rpc_message msg q) \<longleftrightarrow> (\<exists>i r. msg_event msg = Ok (RPCReceived_Response i r))) \<and>
   (\<forall>s r. msg_event msg = Ok (RPCReceived_Request s r) \<longrightarrow>
      (\<exists>resp rpc'. on_rpc_message msg q = Inr rpc' \<and>
         events rpc' = events q @
           [NotifyHandler (msg_peer_id msg) (NotifyHandler_One (msg_conn_id msg)) (RPCSend_Response s resp)] \<and>
         (case resp of
            RPCCodedResponse_Success x \<Rightarrow> response_protocol x = in_protocol r
          | RPCCodedResponse_Error \<Rightarrow> in_protocol r = Protocol_Goodbye)))"
  by (auto simp: on_rpc_message_def RPC_send_response_def push_action_def answer_def
      split: result.splits RPCReceived.splits InboundRequest.splits)

subsection \<open>Discovery and peer manager together\<close>

text \<open>
  The node as a transition system of the two behaviours that find peers, wired by the main loop. \<open>add\<close> is
  gossipsub's \<open>add_explicit_peer\<close>.
\<close>

inductive node_step ::
  "profile
   \<Rightarrow> ('enr, 'b, 'key, 'pk, 'p, 'sk, 'd, 'cx, 'fut, 'fu, 'esf, 'st, 'n, 'a) disc_ext
   \<Rightarrow> ('p \<Rightarrow> 'g \<Rightarrow> 'g)
   \<Rightarrow> ('p, 'a, 'info, 'conn, 'enr, 'd, 'fu, 'esf, 'st, 'g) Behaviour \<Rightarrow> unit
   \<Rightarrow> ('p, 'a, 'info, 'conn, 'enr, 'd, 'fu, 'esf, 'st, 'g) Behaviour \<Rightarrow> bool"
  for P :: profile
    and X :: "('enr, 'b, 'key, 'pk, 'p, 'sk, 'd, 'cx, 'fut, 'fu, 'esf, 'st, 'n, 'a) disc_ext"
    and add :: "'p \<Rightarrow> 'g \<Rightarrow> 'g"
where
  node_discovery_idle:
    "Discovery_poll X n cx (discovery b) = Inr (d, Pending) \<Longrightarrow> node_step P X add b () (b\<lparr>discovery := d\<rparr>)"
| node_discovery_found:
    "Discovery_poll X n cx (discovery b) = Inr (d, Ready dp) \<Longrightarrow>
     on_behaviour_event add order (BehaviourEvent_Discovery dp) (b\<lparr>discovery := d\<rparr>) = Inr b' \<Longrightarrow>
     node_step P X add b () b'"
| node_manager_idle:
    "PeerManager_poll P (peer_manager b) = Inr (pm, Pending) \<Longrightarrow> node_step P X add b () (b\<lparr>peer_manager := pm\<rparr>)"
| node_manager_event:
    "PeerManager_poll P (peer_manager b) = Inr (pm, Ready ev) \<Longrightarrow>
     on_behaviour_event add order (BehaviourEvent_PeerManager ev) (b\<lparr>peer_manager := pm\<rparr>) = Inr b' \<Longrightarrow>
     node_step P X add b () b'"
| node_swarm:
    "on_swarm_event P now ev (peer_manager b) = Inr pm \<Longrightarrow> node_step P X add b () (b\<lparr>peer_manager := pm\<rparr>)"
| node_ticks: "node_step P X add b () (b\<lparr>peer_manager := (peer_manager b)\<lparr>heartbeat := ts\<rparr>\<rparr>)"
| node_identify:
    "on_behaviour_event add order (BehaviourEvent_Identify i) b = Inr b' \<Longrightarrow> node_step P X add b () b'"
| node_rpc:
    "on_behaviour_event add order (BehaviourEvent_Rpc m) b = Inr b' \<Longrightarrow> node_step P X add b () b'"

definition queries_fail ::
  "('enr, 'b, 'key, 'pk, 'p, 'sk, 'd, 'cx, 'fut, 'fu, 'esf, 'st, 'n, 'a) disc_ext \<Rightarrow> bool" where
  "queries_fail X \<longleftrightarrow> (\<forall>cx fu fu' enrs. fu_poll_next X cx fu \<noteq> (fu', Ready (Some (Ok enrs))))"

lemma failed_queries_silent:
  assumes "queries_fail X" "Discovery_poll X n cx s = Inr (s', r)"
  shows "r = Pending"
proof (cases r)
  case (Ready dp)
  then obtain s1 where "get_peers X cx s = Inr (s1, Some dp)"
    using assms(2) by (auto simp: Discovery_poll_def run_simps split: if_splits option.splits)
  from get_peers_loop_result [OF this [unfolded get_peers_def]] assms(1) show ?thesis
    by (auto simp: queries_fail_def)
qed

lemma swarm_event_waiting:
  "on_swarm_event P now ev pm = Inr pm' \<Longrightarrow> waiting_for_peer_discovery pm' = waiting_for_peer_discovery pm"
  by (auto simp: on_swarm_event_def on_connection_established_def on_connection_closed_def on_dial_failure_def
      run_simps Let_def set_peer_data_def split: FromSwarm.splits option.splits)

lemma node_step_waiting:
  assumes "node_step P X add b l b'" "queries_fail X" "waiting_for_peer_discovery (peer_manager b)"
  shows "waiting_for_peer_discovery (peer_manager b')"
  using assms
proof cases
  case (node_discovery_found n cx d dp order)
  with failed_queries_silent [OF assms(2)] show ?thesis by blast
next
  case (node_manager_idle pm)
  with poll_waiting [OF assms(3)] show ?thesis by simp
next
  case (node_manager_event pm ev order)
  with poll_waiting [OF assms(3)] show ?thesis
    by (auto simp: on_behaviour_event_def split: PeerManagerEvent.splits)
next
  case (node_swarm now ev pm)
  with assms(3) show ?thesis by (simp add: swarm_event_waiting)
qed (auto simp: on_behaviour_event_def add_peer_identity_def run_simps split: option.splits)

text \<open>
  C33: a discovery query that fails leaves the node without discovery for good. Once the peer manager has asked for
  peers and is waiting, and as long as queries fail, it never asks again, whatever else happens:
  a failed query reports nothing, and only a report makes the manager stop waiting.
\<close>

theorem failed_query_ends_discovery:
  assumes "queries_fail X" "waiting_for_peer_discovery (peer_manager b)"
    and "reach (\<lambda>x. x = b) (node_step P X add) b'"
  shows "waiting_for_peer_discovery (peer_manager b') \<and>
    PeerManager_poll P (peer_manager b') \<noteq> Inr (pm, Ready (DiscoverPeers n)) \<and>
    (Discovery_poll X tgt cx (discovery b') = Inr (d, r) \<longrightarrow> r = Pending)"
proof -
  have "waiting_for_peer_discovery (peer_manager b')"
    using assms(3,2) by (induction rule: reach.induct) (auto intro: node_step_waiting [OF _ assms(1)])
  then show ?thesis using poll_waiting failed_queries_silent [OF assms(1)] by blast
qed

definition failing_disc ::
  "(demo_enr, bytes, unit, nat, nat, unit, unit, unit, unit, (demo_enr list, unit) result list, unit, nat, unit, string) disc_ext" where
  "failing_disc = demo_disc\<lparr>fu_poll_next :=
     (\<lambda>_ fu. case fu of [] \<Rightarrow> ([], Ready None) | _ # rs \<Rightarrow> (rs, Ready (Some (Err ()))))\<rparr>"

theorem failed_query_ends_discovery_witness:
  "\<exists>b :: (nat, string, unit, nat, demo_enr, unit, (demo_enr list, unit) result list, unit, nat, nat list) Behaviour.
     waiting_for_peer_discovery (peer_manager b) \<and>
     (\<forall>pm n. PeerManager_poll Dev (peer_manager b) \<noteq> Inr (pm, Ready (DiscoverPeers n)))"
proof -
  let ?b = "\<lparr>gossipsub = [] :: nat list, discovery = demo_discovery [Err ()], rpc = RPC_new :: (nat, nat) node_rpc,
    peer_manager = demo_dialling\<lparr>waiting_for_peer_discovery := True\<rparr>\<rparr>"
  have "queries_fail failing_disc"
    by (auto simp: queries_fail_def failing_disc_def split: list.splits)
  moreover have "waiting_for_peer_discovery (peer_manager ?b)" by simp
  moreover have "reach (\<lambda>x. x = ?b) (node_step Dev failing_disc (#)) ?b" by (rule reach_init) simp
  ultimately show ?thesis
    using failed_query_ends_discovery [of failing_disc ?b Dev "(#)" ?b] by blast
qed

end
