(* ===== verification/Peer_Lifecycle.thy ===== *)
theory Peer_Lifecycle
  imports Peer_Manager_Properties
begin

section \<open>The peer manager as a life cycle of peers\<close>

text \<open>
  An abstract specification of the peer manager and the proof that \<open>src/peer_manager.rs\<close> implements it. The
  specification knows neither histories nor timestamps nor hash sets: of every peer it knows whether it is known, up and
  being dialled, and how its last attempt stands. The swarm is unrestricted: it may report a connection, a
  failure or a closure of any peer the node has ever dialled or loaded, at any time; of other peers it cannot, because the manager
  panics. What the specification restricts is the manager: whom it dials, how many, and whose dial it gives up. Learning
  about peers and giving up dials are internal; dials, connections, failures and closures can be observed.
\<close>

datatype outcome = Never | Attempting | Live | Ended | Abandoned

record peer_state =
  known :: bool
  up :: bool
  dialled :: bool
  outcome :: outcome

datatype 'p lifecycle_event =
    Learn "'p set"
  | GiveUp "'p set"
  | Dial "'p set"
  | Connect 'p
  | Fail 'p
  | Close 'p

fun observable :: "'p lifecycle_event \<Rightarrow> bool" where
  "observable (Learn _) = False"
| "observable (GiveUp _) = False"
| "observable _ = True"

definition active :: "('p \<Rightarrow> peer_state) \<Rightarrow> 'p set" where
  "active s = {p. up (s p) \<or> dialled (s p)}"

definition change :: "'p set \<Rightarrow> (peer_state \<Rightarrow> peer_state) \<Rightarrow> ('p \<Rightarrow> peer_state) \<Rightarrow> 'p \<Rightarrow> peer_state" where
  "change S f s = (\<lambda>p. if p \<in> S then f (s p) else s p)"

inductive lifecycle_step :: "nat \<Rightarrow> ('p \<Rightarrow> peer_state) \<Rightarrow> 'p lifecycle_event \<Rightarrow> ('p \<Rightarrow> peer_state) \<Rightarrow> bool"
  for cap :: nat
where
  learn: "\<forall>p \<in> S. \<not> known (s p) \<Longrightarrow> lifecycle_step cap s (Learn S) (change S (known_update (\<lambda>_. True)) s)"
| give_up: "\<forall>p \<in> S. dialled (s p) \<and> outcome (s p) = Attempting \<Longrightarrow>
    lifecycle_step cap s (GiveUp S) (change S (\<lambda>x. x\<lparr>dialled := False, outcome := Abandoned\<rparr>) s)"
| dial: "S \<noteq> {} \<Longrightarrow> finite S \<Longrightarrow> \<forall>p \<in> S. known (s p) \<and> outcome (s p) \<in> {Never, Ended} \<Longrightarrow>
    (card (active s) \<le> cap \<Longrightarrow> card (active s) + card S \<le> cap) \<Longrightarrow>
    lifecycle_step cap s (Dial S) (change S (\<lambda>x. x\<lparr>dialled := True, outcome := Attempting\<rparr>) s)"
| connect: "outcome (s p) \<noteq> Never \<Longrightarrow>
    lifecycle_step cap s (Connect p) (change {p} (\<lambda>x. x\<lparr>up := True, dialled := False, outcome := Live\<rparr>) s)"
| fail: "outcome (s p) \<noteq> Never \<Longrightarrow>
    lifecycle_step cap s (Fail p) (change {p} (\<lambda>x. x\<lparr>dialled := False, outcome := Ended\<rparr>) s)"
| close: "outcome (s p) \<noteq> Never \<Longrightarrow>
    lifecycle_step cap s (Close p) (change {p} (\<lambda>x. x\<lparr>up := False, outcome := Ended\<rparr>) s)"

definition lifecycle_init :: "('p \<Rightarrow> peer_state) \<Rightarrow> bool" where
  "lifecycle_init s \<longleftrightarrow> (\<forall>p. \<not> up (s p) \<and> \<not> dialled (s p) \<and> (outcome (s p) \<noteq> Never \<longrightarrow> known (s p)))"

subsection \<open>Facts of the specification\<close>

text \<open>A peer that has been attempted stays so.\<close>

lemma attempted_step: "lifecycle_step cap s e t \<Longrightarrow> outcome (s p) \<noteq> Never \<Longrightarrow> outcome (t p) \<noteq> Never"
  by (erule lifecycle_step.cases) (auto simp: change_def)

lemma attempted_path: "path (lifecycle_step cap) s es t \<Longrightarrow> outcome (s p) \<noteq> Never \<Longrightarrow> outcome (t p) \<noteq> Never"
  by (induction rule: path.induct) (auto dest: attempted_step)

text \<open>
  A peer whose last attempt is live is up, and one whose attempt is pending is being dialled, unless that attempt
  was already there at the start.
\<close>

definition tracked :: "('p \<Rightarrow> peer_state) \<Rightarrow> ('p \<Rightarrow> peer_state) \<Rightarrow> bool" where
  "tracked s0 s \<longleftrightarrow>
     (\<forall>p. (outcome (s p) = Live \<longrightarrow> up (s p) \<or> outcome (s0 p) = Live) \<and>
        (outcome (s p) = Attempting \<longrightarrow> dialled (s p) \<or> outcome (s0 p) = Attempting))"

lemma tracked_step: "lifecycle_step cap s e t \<Longrightarrow> tracked s0 s \<Longrightarrow> tracked s0 t"
  by (erule lifecycle_step.cases) (auto simp: change_def tracked_def split: if_splits)

lemma tracked_path: "path (lifecycle_step cap) s es t \<Longrightarrow> tracked s0 s \<Longrightarrow> tracked s0 t"
  by (induction rule: path.induct) (auto dest: tracked_step)

text \<open>A peer with an attempt that has not ended is not dialled until a failure or a closure of it is observed.\<close>

lemma not_dialled_step:
  assumes "lifecycle_step cap s e t" "outcome (s p) \<in> {Attempting, Live, Abandoned}" "e \<noteq> Fail p" "e \<noteq> Close p"
  shows "outcome (t p) \<in> {Attempting, Live, Abandoned} \<and> (\<forall>S. e = Dial S \<longrightarrow> p \<notin> S)"
  using assms by cases (auto simp: change_def)

lemma not_dialled_path:
  assumes "path (lifecycle_step cap) s es t" "outcome (s p) \<in> {Attempting, Live, Abandoned}"
    and "Fail p \<notin> set es" "Close p \<notin> set es"
  shows "\<forall>S. Dial S \<in> set es \<longrightarrow> p \<notin> S"
  using assms
proof (induction rule: path.induct)
  case (path_Cons s e u es t)
  then have "outcome (u p) \<in> {Attempting, Live, Abandoned} \<and> (\<forall>S. e = Dial S \<longrightarrow> p \<notin> S)"
    by (intro not_dialled_step) auto
  with path_Cons show ?case by auto
qed simp

subsection \<open>The state of a peer in the manager\<close>

fun outcome_of :: "ConnectionStatus option \<Rightarrow> outcome" where
  "outcome_of None = Never"
| "outcome_of (Some Connecting) = Attempting"
| "outcome_of (Some Connected) = Live"
| "outcome_of (Some Disconnected) = Ended"
| "outcome_of (Some Failed) = Ended"
| "outcome_of (Some Timeout) = Abandoned"

definition state_of :: "('p, 'a, 'info) PeerManager \<Rightarrow> 'p \<Rightarrow> peer_state" where
  "state_of pm p =
     \<lparr>known = p |\<in>| fmdom (peer_data pm), up = p |\<in>| connected_peers pm, dialled = p |\<in>| dialling_peers pm,
      outcome = outcome_of (last_status pm p)\<rparr>"

lemma outcome_of_Never [simp]: "outcome_of x = Never \<longleftrightarrow> x = None"
  by (cases x rule: outcome_of.cases) auto

lemma outcome_of_iff [simp]:
  "outcome_of x = Live \<longleftrightarrow> x = Some Connected" "outcome_of x = Attempting \<longleftrightarrow> x = Some Connecting"
  "outcome_of x = Abandoned \<longleftrightarrow> x = Some Timeout" "outcome_of x = Ended \<longleftrightarrow> x = Some Failed \<or> x = Some Disconnected"
  by (cases x rule: outcome_of.cases; simp)+

lemma state_of_cong:
  "connected_peers pm = connected_peers pm' \<Longrightarrow> dialling_peers pm = dialling_peers pm' \<Longrightarrow>
   peer_data pm = peer_data pm' \<Longrightarrow> state_of pm = state_of pm'"
  by (simp add: state_of_def last_status_def fun_eq_iff)

lemma state_of_frame [simp]:
  "state_of (pm\<lparr>peers_to_discover := n\<rparr>) = state_of pm"
  "state_of (pm\<lparr>heartbeat := ts\<rparr>) = state_of pm"
  "state_of (pm\<lparr>waiting_for_peer_discovery := b\<rparr>) = state_of pm"
  "state_of (pm\<lparr>peer_identities := ids\<rparr>) = state_of pm"
  by (rule state_of_cong; simp)+

lemma active_state_of: "active (state_of pm) = fset (connected_and_dialling_peers pm)"
  by (auto simp: active_def state_of_def connected_and_dialling_peers_def)

fun poll_observation :: "'p PeerManagerEvent poll \<Rightarrow> 'p lifecycle_event list" where
  "poll_observation (Ready (DialPeers ps)) = [Dial (set ps)]"
| "poll_observation _ = []"

fun observation :: "('p, 'a, 'info) pm_label \<Rightarrow> 'p lifecycle_event list" where
  "observation (PM_Poll r) = poll_observation r"
| "observation (PM_Swarm _ (ConnectionEstablished p)) = [Connect p]"
| "observation (PM_Swarm _ (ConnectionClosed p)) = [Close p]"
| "observation (PM_Swarm _ (DialFailure (Some p))) = [Fail p]"
| "observation _ = []"

lemma observation_iff:
  "(Fail p \<in> set (observation l) \<longleftrightarrow> (\<exists>now. l = PM_Swarm now (DialFailure (Some p)))) \<and>
   (Close p \<in> set (observation l) \<longleftrightarrow> (\<exists>now. l = PM_Swarm now (ConnectionClosed p))) \<and>
   (Dial S \<in> set (observation l) \<longleftrightarrow> (\<exists>ps. l = PM_Poll (Ready (DialPeers ps)) \<and> S = set ps))"
proof (cases l)
  case (PM_Poll r)
  then show ?thesis by (cases r rule: poll_observation.cases) simp_all
next
  case (PM_Swarm now ev)
  show ?thesis
  proof (cases ev)
    case (DialFailure q)
    with PM_Swarm show ?thesis by (cases q) auto
  qed (auto simp: PM_Swarm)
qed simp_all

subsection \<open>The heartbeat refines the specification\<close>

lemma timeout_state:
  assumes "orderly t" "sets_ok pm"
  shows "\<exists>S. lifecycle_step cap (state_of pm) (GiveUp S) (state_of (timeout_dialling_peers t pm))"
proof -
  let ?S = "{p. p |\<in>| dialling_peers pm \<and> expired (timeout_now t) (peer_data pm) p}"
  have "enumerates (dialling_order t (dialling_peers pm)) (dialling_peers pm)"
    using assms(1) by (simp add: orderly_def)
  note r = timeout_dialling_peers_result [OF this, unfolded Let_def]
  have hist: "\<not> no_history (peer_data pm) p" if "p |\<in>| dialling_peers pm" for p
  proof -
    have "last_status pm p \<noteq> None" using that assms(2) by (simp add: sets_ok_def connected_and_dialling_peers_def)
    then show ?thesis by (auto simp: last_status_def no_history_def split: option.splits if_splits)
  qed
  have exp: "last_status pm p = Some Connecting" if "expired (timeout_now t) (peer_data pm) p" for p
    using that by (auto simp: expired_def last_status_def split: option.splits)
  have "state_of (timeout_dialling_peers t pm) = change ?S (\<lambda>x. x\<lparr>dialled := False, outcome := Abandoned\<rparr>) (state_of pm)"
    using r hist by (auto simp: fun_eq_iff state_of_def change_def)
  moreover have "lifecycle_step cap (state_of pm) (GiveUp ?S)
      (change ?S (\<lambda>x. x\<lparr>dialled := False, outcome := Abandoned\<rparr>) (state_of pm))"
    using exp by (intro give_up) (simp add: state_of_def)
  ultimately show ?thesis by auto
qed

lemma start_dialling_state:
  assumes "start_dialling now ps pm = Inr pm'" "set ps \<subseteq> fset (fmdom (peer_data pm))"
  shows "state_of pm' = change (set ps) (\<lambda>x. x\<lparr>dialled := True, outcome := Attempting\<rparr>) (state_of pm)"
proof -
  have r: "dialling_peers pm' = dialling_peers pm |\<union>| fset_of_list ps"
    "fmdom (peer_data pm') = fmdom (peer_data pm)" "connected_peers pm' = connected_peers pm"
    "\<And>q. last_status pm' q = (if q \<in> set ps then Some Connecting else last_status pm q)"
    using start_dialling_result [OF assms(2), of now] assms(1) by auto
  show ?thesis by (auto simp: fun_eq_iff state_of_def change_def r fset_of_list.rep_eq)
qed

lemma heartbeat_tick_path:
  assumes "orderly t" "sets_ok pm" "heartbeat_tick P t pm = Inr (ps, pm')"
  shows "\<exists>es. path (lifecycle_step (unat (target_peer_number pm))) (state_of pm) es (state_of pm') \<and>
    filter observable es = (if ps = [] then [] else [Dial (set ps)])"
proof -
  let ?pm = "timeout_dialling_peers t pm" and ?cap = "unat (target_peer_number pm)"
  let ?step = "lifecycle_step ?cap"
  have ok: "sets_ok ?pm" using timeout_keeps(1) [OF assms(1,2)] .
  have target: "target_peer_number ?pm = target_peer_number pm"
    by (simp add: timeout_dialling_peers_def split: prod.splits)
  obtain n where n: "sub_ovf P (target_peer_number pm) (of_nat (fcard (connected_and_dialling_peers ?pm))) = Inr n"
    using assms(3) target by (auto simp: heartbeat_tick_def Let_def run_simps)
  obtain pm2 d where pm2: "start_dialling (dial_now t) ps ?pm = Inr pm2" "pm' = pm2\<lparr>peers_to_discover := d\<rparr>"
    "distinct ps" "length ps \<le> unat n" "set ps \<subseteq> fset (fmdom (peer_data ?pm))"
    "\<forall>p \<in> set ps. p |\<in>| new_peers ?pm \<or> ended ?pm p"
    using heartbeat_tick_shape [OF assms(1,2) n] assms(3) by auto
  obtain S where g: "?step (state_of pm) (GiveUp S) (state_of ?pm)"
    using timeout_state [OF assms(1,2)] by blast
  have st: "state_of pm' = change (set ps) (\<lambda>x. x\<lparr>dialled := True, outcome := Attempting\<rparr>) (state_of ?pm)"
    using start_dialling_state [OF pm2(1,5)] pm2(2) by simp
  show ?thesis
  proof (cases "ps = []")
    case True
    with g st show ?thesis by (intro exI [of _ "[GiveUp S]"]) (simp add: path_single change_def)
  next
    case False
    have avail: "known (state_of ?pm p) \<and> outcome (state_of ?pm p) \<in> {Never, Ended}" if "p \<in> set ps" for p
      using that pm2(5) bspec [OF pm2(6) that] ok by (auto simp: state_of_def sets_ok_def)
    have "card (active (state_of ?pm)) + card (set ps) \<le> ?cap" if "card (active (state_of ?pm)) \<le> ?cap"
    proof -
      have k: "fcard (connected_and_dialling_peers ?pm) \<le> ?cap" using that by (simp add: active_state_of fcard.rep_eq)
      then have "unat n = ?cap - fcard (connected_and_dialling_peers ?pm)"
        using n missing_within_target [OF k] by simp
      with k pm2(3,4) show ?thesis by (simp add: active_state_of fcard.rep_eq distinct_card)
    qed
    with False avail have "?step (state_of ?pm) (Dial (set ps)) (state_of pm')"
      unfolding st by (intro dial) auto
    with g False show ?thesis
      by (intro exI [of _ "[GiveUp S, Dial (set ps)]"]) (auto intro: path_Cons path_single)
  qed
qed

lemma heartbeat_loop_path:
  assumes "list_all orderly ts" "sets_ok pm" "heartbeat_loop P ts pm = Inr (pm', r)"
  shows "\<exists>es. path (lifecycle_step (unat (target_peer_number pm))) (state_of pm) es (state_of pm') \<and>
    filter observable es = poll_observation r"
  using assms
proof (induction ts arbitrary: pm)
  case Nil
  then show ?case by (intro exI [of _ "[]"]) (auto intro: path_Nil)
next
  case (Cons t ts)
  then have o: "orderly t" "list_all orderly ts" by simp_all
  obtain ps pm1 where t: "heartbeat_tick P t pm = Inr (ps, pm1)"
    using Cons.prems(3) by (auto simp: run_simps)
  note keep = heartbeat_tick_keeps(1,2) [OF o(1) Cons.prems(2) t]
  obtain es where es: "path (lifecycle_step (unat (target_peer_number pm))) (state_of pm) es (state_of pm1)"
    "filter observable es = (if ps = [] then [] else [Dial (set ps)])"
    using heartbeat_tick_path [OF o(1) Cons.prems(2) t] by auto
  show ?case
  proof (cases "ps = []")
    case True
    then have "heartbeat_loop P ts pm1 = Inr (pm', r)" using Cons.prems(3) t by simp
    from Cons.IH [OF o(2) keep(1) this] obtain fs
      where "path (lifecycle_step (unat (target_peer_number pm))) (state_of pm1) fs (state_of pm')"
      "filter observable fs = poll_observation r"
      unfolding keep(2) by blast
    with es True show ?thesis by (intro exI [of _ "es @ fs"] conjI path_append [of _ _ es _ fs]) simp_all
  next
    case False
    with es Cons.prems t show ?thesis by auto
  qed
qed

lemma poll_path:
  assumes "pm_inv target pm" "PeerManager_poll P pm = Inr (pm', r)"
  shows "\<exists>es. path (lifecycle_step (unat target)) (state_of pm) es (state_of pm') \<and>
    filter observable es = poll_observation r"
proof (cases "\<not> waiting_for_peer_discovery pm \<and> peers_to_discover pm > 0")
  case True
  with assms(2) have "state_of pm' = state_of pm" "poll_observation r = []"
    by (auto simp: PeerManager_poll_def)
  then show ?thesis by (intro exI [of _ "[]"]) (auto intro: path_Nil)
next
  case False
  then have "heartbeat_loop P (heartbeat pm) pm = Inr (pm', r)" using assms(2) by (auto simp: PeerManager_poll_def)
  from heartbeat_loop_path [OF _ _ this] assms(1) show ?thesis by (simp add: pm_inv_def)
qed

subsection \<open>Swarm events and discovered peers refine the specification\<close>

lemma swarm_effect_state:
  assumes "swarm_effect p st C D pm pm'" "C = connected_peers pm |-| {|p|} \<or> C = finsert p (connected_peers pm) \<or> C = connected_peers pm"
    "D = dialling_peers pm |-| {|p|} \<or> D = dialling_peers pm"
  shows "state_of pm' = change {p} (\<lambda>x. x\<lparr>up := p |\<in>| C, dialled := p |\<in>| D, outcome := outcome_of (Some st)\<rparr>) (state_of pm)"
    and "outcome (state_of pm p) \<noteq> Never"
  using assms by (auto simp: swarm_effect_def fun_eq_iff state_of_def change_def)

lemma swarm_event_state:
  fixes pm :: "('p, 'a, 'info) PeerManager"
  assumes "on_swarm_event P now ev pm = Inr pm'"
  shows "\<exists>es. path (lifecycle_step cap) (state_of pm) es (state_of pm') \<and>
    filter observable es = observation (PM_Swarm now ev :: ('p, 'a, 'info) pm_label)"
  using assms
proof (cases rule: swarm_event_cases)
  case (Established p)
  note eff = swarm_effect_state [OF Established(2)]
  have "state_of pm' = change {p} (\<lambda>x. x\<lparr>up := True, dialled := False, outcome := Live\<rparr>) (state_of pm)"
    using eff(1) by simp
  with connect [of "state_of pm" p cap] eff(2) Established(1) show ?thesis
    by (intro exI [of _ "[Connect p]"]) (simp add: path_single)
next
  case (Closed p)
  note eff = swarm_effect_state [OF Closed(2)]
  have "state_of pm' = change {p} (\<lambda>x. x\<lparr>up := False, outcome := Ended\<rparr>) (state_of pm)"
    using eff(1) by (simp add: change_def fun_eq_iff) (simp add: state_of_def)
  with close [of "state_of pm" p cap] eff(2) Closed(1) show ?thesis
    by (intro exI [of _ "[Close p]"]) (simp add: path_single)
next
  case (Failure p)
  note eff = swarm_effect_state [OF Failure(2)]
  have "state_of pm' = change {p} (\<lambda>x. x\<lparr>dialled := False, outcome := Ended\<rparr>) (state_of pm)"
    using eff(1) by (simp add: change_def fun_eq_iff) (simp add: state_of_def)
  with fail [of "state_of pm" p cap] eff(2) Failure(1) show ?thesis
    by (intro exI [of _ "[Fail p]"]) (simp add: path_single)
next
  case Other
  then have "observation (PM_Swarm now ev :: ('p, 'a, 'info) pm_label) = []"
    by (cases "PM_Swarm now ev :: ('p, 'a, 'info) pm_label" rule: observation.cases) auto
  with Other(4) show ?thesis by (intro exI [of _ "[]"]) (auto intro: path_Nil)
qed

lemma add_peers_state:
  assumes "enumerates (order (fmdom ids)) (fmdom ids)"
  shows "lifecycle_step cap (state_of pm) (Learn (fset (fmdom ids |-| fmdom (peer_data pm)))) (state_of (add_peers order ids pm))"
proof -
  let ?S = "fset (fmdom ids |-| fmdom (peer_data pm))"
  note eq = add_peers_eq [where order = order, OF assms]
  have "state_of (add_peers order ids pm) = change ?S (known_update (\<lambda>_. True)) (state_of pm)"
    by (auto simp: fun_eq_iff state_of_def change_def last_status_add_peers)
      (auto simp: eq)
  with learn [of ?S "state_of pm" cap] show ?thesis by (simp add: state_of_def)
qed

subsection \<open>The refinement\<close>

interpretation peer_lifecycle: simulation "pm_init target" "pm_step P" "pm_inv target"
  lifecycle_init "lifecycle_step (unat target)" state_of observable observation for target P
proof
  show "lifecycle_init (state_of pm)" if init: "pm_init target pm" for pm :: "('a, 'b, 'c) PeerManager"
  proof -
    have "last_status pm p \<noteq> None \<Longrightarrow> p |\<in>| fmdom (peer_data pm)" for p
      by (auto simp: last_status_def fmlookup_dom_iff split: option.splits)
    with pm_init_data [OF init] show ?thesis by (auto simp: lifecycle_init_def state_of_def PeerManager_new_def)
  qed
next
  fix pm :: "('a, 'b, 'c) PeerManager" and l pm'
  assume inv: "pm_inv target pm" and step: "pm_step P pm l pm'"
  let ?goal = "\<exists>es. path (lifecycle_step (unat target)) (state_of pm) es (state_of pm') \<and> filter observable es = observation l"
  have silent: ?goal if "state_of pm' = state_of pm" "observation l = []"
    using that by (intro exI [of _ "[]"]) (auto intro: path_Nil)
  from step show ?goal
  proof cases
    case (pm_ticks ts)
    then show ?thesis by (intro silent) simp_all
  next
    case (pm_poll r)
    then show ?thesis using poll_path [OF inv] by simp
  next
    case (pm_swarm now ev)
    then show ?thesis using swarm_event_state by blast
  next
    case (pm_add order ids)
    with path_single [where step = "lifecycle_step (unat target)", OF add_peers_state [of order ids "unat target" pm]]
    show ?thesis by (intro exI conjI) auto
  next
    case (pm_identity p info)
    then show ?thesis by (intro silent) (simp_all add: add_peer_identity_def)
  qed
qed

text \<open>
  C5: the manager implements the life cycle of peers, whatever the swarm reports. Every run of the manager from
  its start is matched by a run of the life cycle between the states of its first and last moment, with capacity the
  target, that shows the same dials, connections, failures and closures in the same order. So the manager
  dials only known peers that were never attempted or whose last attempt ended, dials them within the capacity as
  long as the swarm has not exceeded it, and gives up only dials that are pending; a run without a panic has no event
  of a peer that was never attempted.
\<close>

theorem peer_manager_refines_lifecycle:
  assumes "pm_init target pm" "path (pm_step P) pm ls pm'"
  shows "lifecycle_init (state_of pm) \<and>
    (\<exists>es. path (lifecycle_step (unat target)) (state_of pm) es (state_of pm') \<and>
       filter observable es = concat (map observation ls))"
  using peer_lifecycle.sim_init [OF assms(1)] peer_lifecycle.sim_path [OF assms(2)]
    peer_manager_system.inv_init [OF assms(1)] by blast

lemma demo_run:
  "path (pm_step Dev) (PeerManager_new 1 :: demo_manager)
     [PM_AddPeers (fmupd 1 None fmempty), PM_Ticks [demo_tick 7], PM_Poll (Ready (DialPeers [1]))] demo_dialling"
proof -
  have "heartbeat demo_known = []" by (simp add: pm_eval)
  then have "pm_step Dev demo_known (PM_Ticks [demo_tick 7]) (demo_known\<lparr>heartbeat := [demo_tick 7]\<rparr>)"
    using pm_ticks [of "[demo_tick 7]" Dev demo_known] by (simp add: demo_tick_orderly)
  moreover have "pm_step Dev (PeerManager_new 1) (PM_AddPeers (fmupd 1 None fmempty)) demo_known"
    unfolding demo_known_def by (rule pm_add, rule sorted_list_of_fset_enumerates)
  ultimately show ?thesis
    by (intro path_Cons [OF _ path_Cons [OF _ path_single [of "pm_step Dev", OF pm_poll [OF demo_dial_step]]]])
qed

lemma demo_new_init: "pm_init target (PeerManager_new target)"
  unfolding pm_init_def load_peer_data_def by (intro exI [of _ NoFile] exI) simp

theorem peer_manager_refines_lifecycle_witness:
  "\<exists>es. path (lifecycle_step 1) (state_of (PeerManager_new 1 :: demo_manager)) es (state_of demo_dialling) \<and>
     filter observable es = [Dial {1}]"
  using peer_manager_refines_lifecycle [OF demo_new_init demo_run] by simp

subsection \<open>Consequences\<close>

lemma history_path:
  assumes "pm_inv target pm" "path (pm_step P) pm ls pm'" "last_status pm p \<noteq> None"
  shows "last_status pm' p \<noteq> None"
proof -
  obtain es where "path (lifecycle_step (unat target)) (state_of pm) es (state_of pm')"
    using peer_lifecycle.sim_path [OF assms(2,1)] by blast
  from attempted_path [OF this, of p] assms(3) show ?thesis by (simp add: state_of_def)
qed

text \<open>
  C23: the sets and the histories agree as far as the manager can make them, whatever the swarm reports. A connected or dialling
  peer has a history; a new peer is known, has none, and is neither connected nor dialling. Conversely, a
  peer whose last entry is \<open>Connected\<close> is among the connected peers and one whose last entry is \<open>Connecting\<close> among the
  dialling peers, unless that entry was loaded from the file.
\<close>

theorem peer_sets_agree_with_history:
  assumes "pm_init target pm0" "path (pm_step P) pm0 ls pm"
  shows "(\<forall>p. p |\<in>| connected_and_dialling_peers pm \<longrightarrow> last_status pm p \<noteq> None) \<and>
    (\<forall>p. p |\<in>| new_peers pm \<longrightarrow> p |\<in>| fmdom (peer_data pm) \<and> last_status pm p = None \<and>
       p |\<notin>| connected_and_dialling_peers pm) \<and>
    (\<forall>p. last_status pm p = Some Connected \<longrightarrow> p |\<in>| connected_peers pm \<or> last_status pm0 p = Some Connected) \<and>
    (\<forall>p. last_status pm p = Some Connecting \<longrightarrow> p |\<in>| dialling_peers pm \<or> last_status pm0 p = Some Connecting)"
proof -
  have ok: "sets_ok pm"
    using reach_path [OF assms(2) reach_init [where init = "pm_init target", OF assms(1)]] by (rule reach_sets_ok)
  obtain es where "path (lifecycle_step (unat target)) (state_of pm0) es (state_of pm)"
    using peer_lifecycle.sim_path [OF assms(2) peer_manager_system.inv_init [OF assms(1)]] by blast
  from tracked_path [OF this, of "state_of pm0"] have "tracked (state_of pm0) (state_of pm)"
    by (simp add: tracked_def)
  with ok show ?thesis by (auto simp: tracked_def state_of_def sets_ok_def)
qed

theorem peer_sets_agree_with_history_witness:
  "last_status demo_dialling 1 = Some Connecting \<and> last_status demo_dialling 1 \<noteq> None"
proof -
  have "1 |\<in>| connected_and_dialling_peers demo_dialling"
    by (simp add: demo_dialling_def connected_and_dialling_peers_def)
  with peer_sets_agree_with_history [OF demo_new_init demo_run] have "last_status demo_dialling 1 \<noteq> None" by blast
  moreover have "last_status demo_dialling 1 = Some Connecting" by (simp add: demo_dialling_def last_status_def)
  ultimately show ?thesis by blast
qed

text \<open>
  C24: a peer whose last attempt has not ended, because it is pending, connected or was given up after the timeout, is in no
  later list of peers to dial until the swarm reports a dial failure or a closed connection of that peer, whatever else
  the swarm reports.
\<close>

theorem no_redial_without_report:
  assumes "reach (pm_init target) (pm_step P) pm" "path (pm_step P) pm ls pm'"
    and "last_status pm p \<in> {Some Connecting, Some Connected, Some Timeout}"
    and "\<And>now. PM_Swarm now (DialFailure (Some p)) \<notin> set ls" "\<And>now. PM_Swarm now (ConnectionClosed p) \<notin> set ls"
    and "PM_Poll (Ready (DialPeers ps)) \<in> set ls"
  shows "p \<notin> set ps"
proof -
  obtain es where es: "path (lifecycle_step (unat target)) (state_of pm) es (state_of pm')"
    "filter observable es = concat (map observation ls)"
    using peer_lifecycle.sim_path [OF assms(2) peer_manager_system.reach_inv [OF assms(1)]] by blast
  have seen: "e \<in> set es \<longleftrightarrow> (\<exists>l \<in> set ls. e \<in> set (observation l))" if "observable e" for e
  proof -
    have "e \<in> set es \<longleftrightarrow> e \<in> set (filter observable es)" using that by simp
    then show ?thesis unfolding es(2) by simp
  qed
  have "Fail p \<notin> set es" "Close p \<notin> set es" using assms(4,5) by (auto simp: seen observation_iff)
  moreover have "outcome (state_of pm p) \<in> {Attempting, Live, Abandoned}" using assms(3) by (auto simp: state_of_def)
  moreover have "Dial (set ps) \<in> set es" using assms(6) by (auto simp: seen observation_iff)
  ultimately show ?thesis using not_dialled_path [OF es(1)] by blast
qed

text \<open>
  In the witness peer 2 is discovered while peer 1 is being dialled: the heartbeat that gives up the dial of peer 1 dials peer 2, not
  peer 1 again.
\<close>

theorem no_redial_without_report_witness:
  "\<exists>pm :: demo_manager. \<exists>pm' ps. reach (pm_init 1) (pm_step Dev) pm \<and> last_status pm 1 = Some Connecting \<and>
     PeerManager_poll Dev pm = Inr (pm', Ready (DialPeers ps)) \<and> ps \<noteq> [] \<and> 1 \<notin> set ps"
proof -
  let ?pm1 = "add_peers sorted_list_of_fset (fmupd 2 None fmempty) demo_dialling"
  let ?pm2 = "?pm1\<lparr>heartbeat := [demo_tick 6000000000]\<rparr>"
  have "pm_step Dev demo_dialling (PM_AddPeers (fmupd 2 None fmempty)) ?pm1" by (rule pm_add, rule sorted_list_of_fset_enumerates)
  with demo_dialling_reachable have "reach (pm_init 1) (pm_step Dev) ?pm1" by (rule reach_step)
  moreover have "heartbeat ?pm1 = []" by (simp add: demo_dialling_def add_peers_def)
  then have "pm_step Dev ?pm1 (PM_Ticks [demo_tick 6000000000]) ?pm2"
    using pm_ticks [of "[demo_tick 6000000000]" Dev ?pm1] by (simp add: demo_tick_orderly)
  ultimately have reach: "reach (pm_init 1) (pm_step Dev) ?pm2" by (rule reach_step)
  have st: "last_status ?pm2 1 = Some Connecting" by (simp add: demo_dialling_def add_peers_def last_status_def)
  obtain pm' ps where poll: "PeerManager_poll Dev ?pm2 = Inr (pm', Ready (DialPeers ps))" "ps \<noteq> []"
    by (simp add: demo_dialling_def pm_eval update_last_def as_millis_def DIAL_TIMEOUT_def
        sorted_list_of_fset_two [simplified])
  have "1 \<notin> set ps"
    using no_redial_without_report [OF reach path_single [where step = "pm_step Dev", OF pm_poll [OF poll(1)]], of 1 ps] st
    by simp
  with reach st poll show ?thesis by blast
qed

end
