(* ===== verification/Main_Invariant.thy ===== *)
theory Main_Invariant
  imports Main_Loop Rpc_System Node_Properties Peer_Lifecycle
begin

section \<open>The invariant of the whole node\<close>

text \<open>
  The node is the product of the RPC service, the peer manager and discovery, synchronised by the swarm: opening
  a connection creates a handler and tells the peer manager. The invariants of the parts hold together, and one more
  links them: every connected peer has an open connection, and every peer with an open connection has a history.

  The swarm is not restricted in what it reports: connections may be opened by anyone at any time, several to the
  same peer, and dials may fail at any time.
\<close>

subsection \<open>Views of the parts\<close>

definition rpc_view ::
  "('p, 'a, 'info, 'conn, 'enr, 'd, 'fu, 'esf, 'st, 'g, 'wk, 'i, 'snd, 'o, 'q, 'k) node
   \<Rightarrow> ('p, 'conn, 'wk, 'i, 'snd, 'o, 'q, 'k) rpc_sys" where
  "rpc_view n = \<lparr>sys_rpc = rpc (behaviour n), sys_handlers = connections n\<rparr>"

definition manager_of ::
  "('p, 'a, 'info, 'conn, 'enr, 'd, 'fu, 'esf, 'st, 'g, 'wk, 'i, 'snd, 'o, 'q, 'k) node \<Rightarrow> ('p, 'a, 'info) PeerManager" where
  "manager_of n = peer_manager (behaviour n)"

definition peer_view ::
  "('p, 'a, 'info, 'conn, 'enr, 'd, 'fu, 'esf, 'st, 'g, 'wk, 'i, 'snd, 'o, 'q, 'k) node \<Rightarrow> ('conn, 'p) fmap" where
  "peer_view n = fmmap fst (connections n)"

definition linked :: "('p, 'a, 'info) PeerManager \<Rightarrow> ('conn, 'p) fmap \<Rightarrow> bool" where
  "linked pm m \<longleftrightarrow>
     (\<forall>p. p |\<in>| connected_peers pm \<longrightarrow> (\<exists>c. fmlookup m c = Some p)) \<and>
     (\<forall>c p. fmlookup m c = Some p \<longrightarrow> last_status pm p \<noteq> None)"

definition discovery_ok ::
  "('enr, 'b, 'key, 'pk, 'p, 'sk, 'd, 'dcx, 'fut, 'fu, 'esf, 'st, 'n, 'a) disc_ext
   \<Rightarrow> ('enr, 'd, 'fu, 'esf, 'st) Discovery \<Rightarrow> bool" where
  "discovery_ok X d \<longleftrightarrow> is_ok (fork_id X (local_enr d))"

definition node_inv ::
  "('enr, 'b, 'key, 'pk, 'p, 'sk, 'd, 'dcx, 'fut, 'fu, 'esf, 'st, 'n, 'a) disc_ext \<Rightarrow> ('q \<Rightarrow> 'k \<rightharpoonup> SubstreamId) \<Rightarrow> u32
   \<Rightarrow> ('p, 'a, 'info, 'conn, 'enr, 'd, 'fu, 'esf, 'st, 'g, 'wk, 'i, 'snd, 'o, 'q, 'k) node \<Rightarrow> bool" where
  "node_inv X live target n \<longleftrightarrow>
     pm_inv target (manager_of n) \<and> rpc_sys_inv live (rpc_view n) \<and> discovery_ok X (discovery (behaviour n)) \<and>
     linked (manager_of n) (peer_view n)"

text \<open>
  What libp2p and the standard library guarantee of the calls: the id of a new connection is not that of an open one,
  and iterating over a hash map visits every key once.
\<close>

fun swarm_law ::
  "('p, 'info, 'conn, 'cx, 'i, 'dcx, 'n, 'g) call
   \<Rightarrow> ('p, 'a, 'info, 'conn, 'enr, 'd, 'fu, 'esf, 'st, 'g, 'wk, 'i, 'snd, 'o, 'q, 'k) node \<Rightarrow> bool" where
  "swarm_law (Opened now c p) n \<longleftrightarrow> c |\<notin>| fmdom (connections n)"
| "swarm_law (PollHandler c cx io oo) n \<longleftrightarrow> (\<forall>S. enumerates (io S) S \<and> enumerates (oo S) S)"
| "swarm_law (Ticks ts) n \<longleftrightarrow> list_all orderly ts"
| "swarm_law _ n \<longleftrightarrow> True"

text \<open>The calls about a peer without history.\<close>

fun unknown_peer_call ::
  "('p, 'info, 'conn, 'cx, 'i, 'dcx, 'n, 'g) call
   \<Rightarrow> ('p, 'a, 'info, 'conn, 'enr, 'd, 'fu, 'esf, 'st, 'g, 'wk, 'i, 'snd, 'o, 'q, 'k) node \<Rightarrow> bool" where
  "unknown_peer_call (Opened now c p) n \<longleftrightarrow> last_status (peer_manager (behaviour n)) p = None"
| "unknown_peer_call (DialFailed now (Some p)) n \<longleftrightarrow> last_status (peer_manager (behaviour n)) p = None"
| "unknown_peer_call _ n \<longleftrightarrow> False"

lemma unknown_peer_call_iff:
  "unknown_peer_call c n \<longleftrightarrow>
     (\<exists>now c' p. (c = Opened now c' p \<or> c = DialFailed now (Some p)) \<and> last_status (peer_manager (behaviour n)) p = None)"
proof (cases c)
  case (DialFailed now peer)
  then show ?thesis by (cases peer) auto
qed auto

fun quiet_event :: "('p, 'a, 'info, 'conn) BehaviourEvent option \<Rightarrow> bool" where
  "quiet_event (Some (BehaviourEvent_Rpc msg)) = no_response (msg_event msg)"
| "quiet_event _ = True"

subsection \<open>Connections and connected peers\<close>

lemma linked_open:
  assumes "linked pm m" "swarm_effect p st (finsert p (connected_peers pm)) D pm pm'" "c |\<notin>| fmdom m"
  shows "linked pm' (fmupd c p m)"
proof -
  have status: "last_status pm' q = (if q = p then Some st else last_status pm q)" for q
    using assms(2) by (auto simp: swarm_effect_def)
  have conn: "connected_peers pm' = finsert p (connected_peers pm)" using assms(2) by (simp add: swarm_effect_def)
  have "\<exists>c'. fmlookup (fmupd c p m) c' = Some q" if q: "q |\<in>| connected_peers pm" for q
  proof -
    obtain c' where "fmlookup m c' = Some q" using assms(1) q unfolding linked_def by blast
    moreover from this have "c' \<noteq> c" using assms(3) by (auto dest: fmdomI)
    ultimately show ?thesis by (intro exI [of _ c']) simp
  qed
  moreover have "\<exists>c'. fmlookup (fmupd c p m) c' = Some p" by (intro exI [of _ c]) simp
  moreover have "last_status pm' q \<noteq> None" if "fmlookup (fmupd c p m) c' = Some q" for c' q
    using assms(1) that status by (auto simp: linked_def split: if_splits)
  ultimately show ?thesis unfolding linked_def conn by blast
qed

lemma linked_close:
  assumes "linked pm m" "swarm_effect p st (connected_peers pm |-| {|p|}) D pm pm'" "fmlookup m c = Some p"
  shows "linked pm' (fmdrop c m)"
proof -
  have status: "last_status pm' q = (if q = p then Some st else last_status pm q)" for q
    using assms(2) by (auto simp: swarm_effect_def)
  have conn: "connected_peers pm' = connected_peers pm |-| {|p|}" using assms(2) by (simp add: swarm_effect_def)
  have "\<exists>c'. fmlookup (fmdrop c m) c' = Some q" if q: "q |\<in>| connected_peers pm" "q \<noteq> p" for q
  proof -
    obtain c' where "fmlookup m c' = Some q" using assms(1) q(1) unfolding linked_def by blast
    moreover from this have "c' \<noteq> c" using assms(3) q(2) by auto
    ultimately show ?thesis by (intro exI [of _ c']) simp
  qed
  moreover have "last_status pm' q \<noteq> None" if "fmlookup (fmdrop c m) c' = Some q" for c' q
    using assms(1) that status by (auto simp: linked_def split: if_splits)
  ultimately show ?thesis unfolding linked_def conn by blast
qed

lemma linked_keep:
  assumes "linked pm m" "connected_peers pm' = connected_peers pm" "\<And>p. last_status pm p \<noteq> None \<Longrightarrow> last_status pm' p \<noteq> None"
  shows "linked pm' m"
  using assms by (auto simp: linked_def)

lemma fmmap_fst_same: "fmlookup m c = Some (p, h) \<Longrightarrow> fmmap fst (fmupd c (p, h') m) = fmmap fst m"
  by (rule fmap_ext) (auto simp: fmupd_lookup)

lemma fmmap_fst_upd: "fmmap fst (fmupd c (p, h) m) = fmupd c p (fmmap fst m)"
  by (rule fmap_ext) simp

lemma peer_view_simps [simp]:
  "peer_view (n\<lparr>behaviour := b\<rparr>) = peer_view n"
  "peer_view (n\<lparr>connections := hs\<rparr>) = fmmap fst hs"
  by (simp_all add: peer_view_def)

lemma manager_of_simps [simp]:
  "manager_of (n\<lparr>behaviour := b\<rparr>) = peer_manager b"
  "manager_of (n\<lparr>connections := hs\<rparr>) = manager_of n"
  by (simp_all add: manager_of_def)

lemma rpc_view_simps [simp]:
  "rpc_view (n\<lparr>behaviour := b\<rparr>) = (rpc_view n)\<lparr>sys_rpc := rpc b\<rparr>"
  "rpc_view (n\<lparr>connections := hs\<rparr>) = (rpc_view n)\<lparr>sys_handlers := hs\<rparr>"
  "sys_rpc (rpc_view n) = rpc (behaviour n)" "sys_handlers (rpc_view n) = connections n"
  by (simp_all add: rpc_view_def)

lemma rpc_sys_inv_iff:
  "rpc_sys_inv live s \<longleftrightarrow> list_all quiet_action (events (sys_rpc s)) \<and>
     (\<forall>c p h. fmlookup (sys_handlers s) c = Some (p, h) \<longrightarrow> handler_inv live h \<and> quiet h)"
  by (force simp: rpc_sys_inv_def fmpred_iff)

lemma discovery_ok_poll:
  "Discovery_poll X target cx d = Inr (d', r) \<Longrightarrow> discovery_ok X d \<Longrightarrow> discovery_ok X d'"
  by (auto simp: discovery_ok_def dest!: Discovery_poll_enr)

lemma fmlookup_deliver:
  "fmlookup (deliver pick p to m hs) c = Some (p', h') \<Longrightarrow>
   \<exists>h. fmlookup hs c = Some (p', h) \<and> (h' = h \<or> h' = fst (Handler.inject_event m h))"
  by (auto simp: deliver_def Let_def split: option.splits prod.splits if_splits NotifyHandler.splits)

lemma deliver_peers: "fmmap fst (deliver pick p to m hs) = fmmap fst hs"
  by (auto simp: deliver_def Let_def fmmap_fst_same split: option.splits prod.splits)

lemma deliver_inv:
  assumes "rpc_sys_inv live s" "quiet_action (NotifyHandler p to m)" "list_all quiet_action (events b)"
  shows "rpc_sys_inv live \<lparr>sys_rpc = b, sys_handlers = deliver pick p to m (sys_handlers s)\<rparr>"
proof -
  obtain i r where m: "m = RPCSend_Response i r" using assms(2) by (cases m) auto
  have "handler_inv live h' \<and> quiet h'" if l: "fmlookup (deliver pick p to m (sys_handlers s)) c = Some (p', h')" for c p' h'
  proof -
    obtain h where h: "fmlookup (sys_handlers s) c = Some (p', h)" "h' = h \<or> h' = fst (Handler.inject_event m h)"
      using fmlookup_deliver [OF l] by blast
    then have "handler_inv live h" "quiet h" using rpc_sys_invD [OF assms(1)] by blast+
    with h(2) m handler_inv_inject_event [of live h m] show ?thesis
      by (auto simp: Handler.inject_event_def Let_def intro: quiet_send_response)
  qed
  with assms(3) show ?thesis by (simp add: rpc_sys_inv_iff)
qed

subsection \<open>Every call keeps the invariant\<close>

lemma manager_event_keeps:
  assumes "manager_event P now ev n = Inr n'"
  shows "on_swarm_event P now ev (manager_of n) = Inr (manager_of n')" "connections n' = connections n"
    "rpc_view n' = rpc_view n" "discovery (behaviour n') = discovery (behaviour n)"
  using assms by (auto simp: manager_event_def manager_of_def rpc_view_def run_simps)

lemma opened_keeps:
  assumes "node_inv X live target n" "swarm_law (Opened now c p) n" "swarm_call P E X (Opened now c p) n = Inr (n', ev)"
  shows "node_inv X live target n'"
proof -
  have inv: "pm_inv target (manager_of n)" "rpc_sys_inv live (rpc_view n)" "discovery_ok X (discovery (behaviour n))"
    "linked (manager_of n) (peer_view n)"
    using assms(1) by (auto simp: node_inv_def)
  obtain n1 where n1: "manager_event P now (ConnectionEstablished p) n = Inr n1"
    and n': "n' = n1\<lparr>connections := fmupd c (p, RPC_new_handler E) (connections n1)\<rparr>"
    using assms(3) by (auto simp: run_simps)
  note keep = manager_event_keeps [OF n1]
  have "pm_inv target (manager_of n')" using swarm_event_keeps [OF inv(1) keep(1)] by (simp add: n')
  moreover have "rpc_sys_inv live (rpc_view n')"
    using inv(2) keep(2,3) by (simp add: n' rpc_sys_inv_iff RPC_new_handler_def handler_inv_new quiet_new)
  moreover have "linked (manager_of n') (peer_view n')"
  proof -
    have eff: "swarm_effect p Connected (finsert p (connected_peers (manager_of n))) (dialling_peers (manager_of n) |-| {|p|})
        (manager_of n) (manager_of n1)"
      using keep(1) by (auto simp: on_swarm_event_def intro: established_effect)
    have "c |\<notin>| fmdom (peer_view n)" using assms(2) by (simp add: peer_view_def)
    from linked_open [OF inv(4) eff this] keep(2) show ?thesis by (simp add: n' peer_view_def fmmap_fst_upd)
  qed
  ultimately show ?thesis using inv(3) keep(4) by (simp add: node_inv_def n')
qed

lemma closed_keeps_node:
  assumes "node_inv X live target n" "swarm_call P E X (Closed now c) n = Inr (n', ev)"
  shows "node_inv X live target n'"
proof (cases "fmlookup (connections n) c")
  case None
  with assms show ?thesis by simp
next
  case (Some ph)
  obtain p h where ph: "ph = (p, h)" by fastforce
  have inv: "pm_inv target (manager_of n)" "rpc_sys_inv live (rpc_view n)" "discovery_ok X (discovery (behaviour n))"
    "linked (manager_of n) (peer_view n)"
    using assms(1) by (auto simp: node_inv_def)
  obtain n1 where n1: "manager_event P now (ConnectionClosed p) n = Inr n1"
    and n': "n' = n1\<lparr>connections := fmdrop c (connections n1)\<rparr>"
    using assms(2) Some ph by (auto simp: run_simps)
  note keep = manager_event_keeps [OF n1]
  have c: "fmlookup (peer_view n) c = Some p" using Some ph by (simp add: peer_view_def)
  have "pm_inv target (manager_of n')" using swarm_event_keeps [OF inv(1) keep(1)] by (simp add: n')
  moreover have "rpc_sys_inv live (rpc_view n')"
    using inv(2) keep(2,3) by (auto simp: n' rpc_sys_inv_iff split: if_splits)
  moreover have "linked (manager_of n') (peer_view n')"
  proof -
    have eff: "swarm_effect p Disconnected (connected_peers (manager_of n) |-| {|p|}) (dialling_peers (manager_of n))
        (manager_of n) (manager_of n1)"
      using keep(1) by (auto simp: on_swarm_event_def intro: closed_effect)
    from linked_close [OF inv(4) eff c] keep(2) show ?thesis by (simp add: n' peer_view_def fmdrop_fmmap)
  qed
  ultimately show ?thesis using inv(3) keep(4) by (simp add: node_inv_def n')
qed

lemma rpc_update_keeps:
  "node_inv X live target n \<Longrightarrow> list_all quiet_action (events b) \<Longrightarrow>
   node_inv X live target (n\<lparr>behaviour := (behaviour n)\<lparr>rpc := b\<rparr>\<rparr>)"
  by (simp add: node_inv_def manager_of_def rpc_sys_inv_iff)

lemma handler_update_keeps:
  assumes "node_inv X live target n" "fmlookup (connections n) c = Some (p, h)" "handler_inv live h'" "quiet h'"
    and "list_all quiet_action (events b)"
  shows "node_inv X live target
    (n\<lparr>behaviour := (behaviour n)\<lparr>rpc := b\<rparr>, connections := fmupd c (p, h') (connections n)\<rparr>)"
proof -
  have "linked (manager_of n) (fmmap fst (fmupd c (p, h') (connections n)))"
    using assms(1) fmmap_fst_same [OF assms(2)] by (simp add: node_inv_def peer_view_def)
  with assms show ?thesis by (auto simp: node_inv_def manager_of_def rpc_sys_inv_iff split: if_splits)
qed

lemma manager_update_keeps:
  assumes "node_inv X live target n" "pm_inv target pm" "connected_peers pm = connected_peers (manager_of n)"
    and "\<And>p. last_status (manager_of n) p \<noteq> None \<Longrightarrow> last_status pm p \<noteq> None"
  shows "node_inv X live target (n\<lparr>behaviour := (behaviour n)\<lparr>peer_manager := pm\<rparr>\<rparr>)"
  using assms linked_keep [of "manager_of n" "peer_view n" pm] by (simp add: node_inv_def rpc_sys_inv_iff)

lemma node_invD:
  assumes "node_inv X live target n"
  shows "pm_inv target (manager_of n)" "list_all quiet_action (events (rpc (behaviour n)))"
    "fmlookup (connections n) c = Some (p, h) \<Longrightarrow> handler_inv live h \<and> quiet h"
    "\<exists>f. fork_id X (local_enr (discovery (behaviour n))) = Ok f"
  using assms by (auto simp: node_inv_def rpc_sys_inv_iff discovery_ok_def elim: is_ok.elims)

lemma dial_failed_keeps:
  assumes "node_inv X live target n" "swarm_call P E X (DialFailed now peer) n = Inr (n', ev)"
  shows "node_inv X live target n'"
proof -
  obtain pm where pm: "on_swarm_event P now (DialFailure peer) (manager_of n) = Inr pm"
    and n': "n' = n\<lparr>behaviour := (behaviour n)\<lparr>peer_manager := pm\<rparr>\<rparr>"
    using assms(2) by (auto simp: run_simps manager_event_def manager_of_def)
  have "connected_peers pm = connected_peers (manager_of n) \<and>
      (\<forall>p. last_status (manager_of n) p \<noteq> None \<longrightarrow> last_status pm p \<noteq> None)"
    using pm by (cases rule: swarm_event_cases) (auto simp: swarm_effect_def)
  then show ?thesis
    unfolding n' using swarm_event_keeps [OF node_invD(1) [OF assms(1)] pm] by (intro manager_update_keeps [OF assms(1)]) auto
qed

lemma inbound_stream_keeps:
  assumes "delay_queue_laws E live" "node_inv X live target n" "swarm_call P E X (InboundStream c now r sub) n = Inr (n', ev)"
  shows "node_inv X live target n'"
proof (cases "fmlookup (connections n) c")
  case None
  with assms show ?thesis by simp
next
  case (Some ph)
  obtain p h where ph: "ph = (p, h)" by fastforce
  obtain h' where h': "inject_fully_negotiated_inbound P E now (r, sub) h = Inr h'"
    and n': "n' = n\<lparr>connections := fmupd c (p, h') (connections n)\<rparr>"
    using assms(3) Some ph by (auto simp: run_simps)
  have h: "handler_inv live h" "quiet h" using node_invD(3) [OF assms(2)] Some ph by blast+
  from handler_update_keeps [OF assms(2) Some [unfolded ph] handler_inv_inject_inbound [OF assms(1) h(1) h']
      quiet_inbound [OF h(2) h'] node_invD(2) [OF assms(2)]]
  show ?thesis by (simp add: n')
qed

lemma poll_handler_keeps:
  assumes "delay_queue_laws E live" "node_inv X live target n" "swarm_law (PollHandler c cx io oo) n"
    and "swarm_call P E X (PollHandler c cx io oo) n = Inr (n', ev)"
  shows "node_inv X live target n'"
proof (cases "fmlookup (connections n) c")
  case None
  with assms show ?thesis by simp
next
  case (Some ph)
  obtain p h where ph: "ph = (p, h)" by fastforce
  obtain h' r where h': "RPCHandler_poll P E cx io oo h = Inr (h', r)"
    and n': "n' = n\<lparr>behaviour := (behaviour n)\<lparr>rpc := report p c r (rpc (behaviour n))\<rparr>,
      connections := fmupd c (p, h') (connections n)\<rparr>"
    using assms(4) Some ph by (auto simp: run_simps)
  have h: "handler_inv live h" "quiet h" using node_invD(3) [OF assms(2)] Some ph by blast+
  have orders: "enumerates (io S) S" "enumerates (oo S) S" for S using assms(3) by auto
  have q: "quiet h'" "\<And>e. r = Ready (Custom e) \<Longrightarrow> no_response e"
    using quiet_poll [OF h' h(2) orders(2)] by blast+
  have "handler_inv live h'" using poll_ok [OF assms(1) h(1) orders, of P cx] h' by auto
  from handler_update_keeps [OF assms(2) Some [unfolded ph] this q(1) quiet_report [OF node_invD(2) [OF assms(2)] q(2)]]
  show ?thesis by (simp add: n')
qed

lemma poll_rpc_keeps:
  assumes "node_inv X live target n" "swarm_call P E X (PollRpc pick) n = Inr (n', ev)"
  shows "node_inv X live target n' \<and> quiet_event ev"
proof -
  obtain b a where poll: "RPC_poll (rpc (behaviour n)) = (b, a)" by fastforce
  have queue: "list_all quiet_action (events (rpc (behaviour n)))" by (rule node_invD(2) [OF assms(1)])
  show ?thesis
  proof (cases a)
    case Pending
    with poll queue have "list_all quiet_action (events b)" by (auto simp: RPC_poll_def split: list.splits)
    with Pending poll assms rpc_update_keeps show ?thesis by auto
  next
    case (Ready action)
    note q = RPC_poll_quiet [OF queue poll [unfolded Ready]]
    show ?thesis
    proof (cases action)
      case (GenerateEvent msg)
      with Ready poll assms q rpc_update_keeps [OF assms(1)] show ?thesis by auto
    next
      case (NotifyHandler p to m)
      have n': "n' = n\<lparr>behaviour := (behaviour n)\<lparr>rpc := b\<rparr>, connections := deliver pick p to m (connections n)\<rparr>" "ev = None"
        using assms(2) poll Ready NotifyHandler by simp_all
      have "rpc_sys_inv live (rpc_view n)" using assms(1) by (simp add: node_inv_def)
      from deliver_inv [OF this, of p to m b pick] q NotifyHandler have "rpc_sys_inv live (rpc_view n')"
        by (simp add: n' rpc_sys_inv_iff)
      with assms(1) show ?thesis by (simp add: n' node_inv_def manager_of_def peer_view_def deliver_peers)
    qed
  qed
qed

lemma poll_discovery_keeps:
  assumes "node_inv X live target n" "swarm_call P E X (PollDiscovery t cx) n = Inr (n', ev)"
  shows "node_inv X live target n' \<and> quiet_event ev"
proof -
  obtain d r where d: "Discovery_poll X t cx (discovery (behaviour n)) = Inr (d, r)"
    and n': "n' = n\<lparr>behaviour := (behaviour n)\<lparr>discovery := d\<rparr>\<rparr>"
    and ev: "ev = (case r of Pending \<Rightarrow> None | Ready dp \<Rightarrow> Some (BehaviourEvent_Discovery dp))"
    using assms(2) by (auto simp: run_simps)
  have "node_inv X live target n'"
    using assms(1) discovery_ok_poll [OF d] by (simp add: n' node_inv_def manager_of_def rpc_view_def peer_view_def)
  then show ?thesis by (cases r) (simp_all add: ev)
qed

lemma poll_manager_keeps:
  assumes "node_inv X live target n" "swarm_call P E X PollManager n = Inr (n', ev)"
  shows "node_inv X live target n' \<and> quiet_event ev"
proof -
  obtain pm r where pm: "PeerManager_poll P (manager_of n) = Inr (pm, r)"
    and n': "n' = n\<lparr>behaviour := (behaviour n)\<lparr>peer_manager := pm\<rparr>\<rparr>"
    and ev: "ev = (case r of Pending \<Rightarrow> None | Ready e \<Rightarrow> Some (BehaviourEvent_PeerManager e))"
    using assms(2) by (auto simp: run_simps manager_of_def)
  note keep = poll_keeps [OF node_invD(1) [OF assms(1)] pm]
  have "last_status pm p \<noteq> None" if "last_status (manager_of n) p \<noteq> None" for p
    using history_path [OF node_invD(1) [OF assms(1)] path_single [where step = "pm_step P", OF pm_poll [OF pm]] that] .
  then have "node_inv X live target n'"
    unfolding n' using keep by (intro manager_update_keeps [OF assms(1)]) auto
  then show ?thesis by (cases r) (simp_all add: ev)
qed

text \<open>Preservation: a call that returns leads to a state with the invariant.\<close>

lemma swarm_call_keeps:
  assumes "delay_queue_laws E live" "node_inv X live target n" "swarm_law c n" "swarm_call P E X c n = Inr (n', ev)"
  shows "node_inv X live target n' \<and> quiet_event ev"
proof (cases c)
  case (Ticks ts)
  let ?pm = "(manager_of n)\<lparr>heartbeat := heartbeat (manager_of n) @ ts\<rparr>"
  have "pm_inv target ?pm" using node_invD(1) [OF assms(2)] assms(3) Ticks by (simp add: pm_inv_def sets_ok_def last_status_def)
  from manager_update_keeps [OF assms(2) this] Ticks assms(4) show ?thesis
    by (auto simp: manager_of_def last_status_def)
next
  case (Gossipsub act reports)
  with assms show ?thesis by (auto simp: node_inv_def manager_of_def rpc_view_def peer_view_def)
next
  case (Identify r)
  with assms show ?thesis by auto
next
  case (PollRpc pick)
  show ?thesis by (rule poll_rpc_keeps [OF assms(2) assms(4) [unfolded PollRpc]])
next
  case (PollDiscovery t cx)
  show ?thesis by (rule poll_discovery_keeps [OF assms(2) assms(4) [unfolded PollDiscovery]])
next
  case PollManager
  show ?thesis by (rule poll_manager_keeps [OF assms(2) assms(4) [unfolded PollManager]])
next
  case (Opened now c' p)
  from this assms(4) have "ev = None" by (auto simp: run_simps)
  with opened_keeps [OF assms(2) assms(3) [unfolded Opened] assms(4) [unfolded Opened]] show ?thesis by simp
next
  case (Closed now c')
  from this assms(4) have "ev = None" by (auto simp: run_simps split: option.splits)
  with closed_keeps_node [OF assms(2) assms(4) [unfolded Closed]] show ?thesis by simp
next
  case (DialFailed now peer)
  from this assms(4) have "ev = None" by (auto simp: run_simps)
  with dial_failed_keeps [OF assms(2) assms(4) [unfolded DialFailed]] show ?thesis by simp
next
  case (InboundStream c' now r sub)
  from this assms(4) have "ev = None" by (auto simp: run_simps split: option.splits)
  with inbound_stream_keeps [OF assms(1,2) assms(4) [unfolded InboundStream]] show ?thesis by simp
next
  case (PollHandler c' cx io oo)
  from this assms(4) have "ev = None" by (auto simp: run_simps split: option.splits)
  with poll_handler_keeps [OF assms(1,2) assms(3) [unfolded PollHandler] assms(4) [unfolded PollHandler]] show ?thesis by simp
qed

lemma add_peers_connected: "connected_peers (add_peers order ids pm) = connected_peers pm"
proof -
  have "connected_peers (add_peers_loop ps ids pm) = connected_peers pm" for ps
    by (induction ps arbitrary: pm) (auto split: option.splits)
  then show ?thesis by (simp add: add_peers_def)
qed

text \<open>The main loop handles a quiet event without a panic and keeps the invariant.\<close>

lemma handle_event_keeps:
  assumes "node_inv X live target n" "quiet_event ev"
  shows "\<exists>n'. handle_event add order ev n = Inr n' \<and> node_inv X live target n'"
proof -
  let ?upd = "\<lambda>pm. n\<lparr>behaviour := (behaviour n)\<lparr>peer_manager := pm\<rparr>\<rparr>"
  note inv = node_invD(1) [OF assms(1)]
  have pm: "node_inv X live target (?upd pm)"
    if "pm_inv target pm" "connected_peers pm = connected_peers (manager_of n)" "last_status pm = last_status (manager_of n)" for pm
    using manager_update_keeps [OF assms(1) that(1,2)] that(3) by simp
  have learn: "node_inv X live target (?upd (add_peers order ids (peer_manager (behaviour n))))" for ids
    using pm add_peers_keeps [OF inv] by (simp add: add_peers_connected last_status_add_peers manager_of_def)
  have ident: "node_inv X live target (?upd (add_peer_identity p i (peer_manager (behaviour n))))" for p i
    using pm inv by (simp add: add_peer_identity_def pm_inv_def manager_of_def last_status_def fun_eq_iff)
  have frame: "node_inv X live target (n\<lparr>behaviour := (behaviour n)\<lparr>gossipsub := g\<rparr>\<rparr>)"
    "node_inv X live target (n\<lparr>behaviour := (behaviour n)\<lparr>discovery := set_peers_to_discover k (discovery (behaviour n))\<rparr>\<rparr>)"
    for g k
    using assms(1) by (simp_all add: node_inv_def manager_of_def rpc_view_def peer_view_def discovery_ok_def
        set_peers_to_discover_def)
  show ?thesis
  proof (cases "\<exists>msg. ev = Some (BehaviourEvent_Rpc msg)")
    case True
    then obtain msg where msg: "ev = Some (BehaviourEvent_Rpc msg)" by blast
    then obtain b where "on_rpc_message msg (rpc (behaviour n)) = Inr b" "list_all quiet_action (events b)"
      using on_rpc_message_quiet [OF _ node_invD(2) [OF assms(1)]] assms(2) by fastforce
    with rpc_update_keeps [OF assms(1)] msg show ?thesis by (simp add: handle_event_def on_behaviour_event_def)
  next
    case False
    with assms(1) learn ident frame show ?thesis
      by (auto simp: handle_event_def on_behaviour_event_def
          split: option.splits BehaviourEvent.splits PeerManagerEvent.splits)
  qed
qed

subsection \<open>Which calls return in a release build\<close>

lemma with_last_unknown: "last_status pm p = None \<Longrightarrow> \<exists>e. with_last f p pm = Inl e \<and> e \<noteq> OutOfFuel"
  by (auto simp: with_last_def last_status_def split: option.splits if_splits)

lemma unknown_peer_panics:
  assumes "unknown_peer_call c n"
  shows "\<exists>e. swarm_call P E X c n = Inl e \<and> e \<noteq> OutOfFuel"
  using assms
proof (cases c)
  case (Opened now c' p)
  with assms with_last_unknown [of "peer_manager (behaviour n)" p] show ?thesis
    by (fastforce simp: manager_event_def on_swarm_event_def on_connection_established_def run_simps)
next
  case (DialFailed now peer)
  with assms obtain p where "peer = Some p" by (cases peer) auto
  with DialFailed assms with_last_unknown [of "peer_manager (behaviour n)" p] show ?thesis
    by (fastforce simp: manager_event_def on_swarm_event_def on_dial_failure_def run_simps)
qed simp_all

lemma manager_event_returns:
  "on_swarm_event P now ev (manager_of n) = Inr pm \<Longrightarrow> \<exists>n'. manager_event P now ev n = Inr n'"
  by (simp add: manager_event_def manager_of_def)

lemma inbound_returns: "\<exists>h'. inject_fully_negotiated_inbound Release E now (r, sub) h = Inr h'"
  by (auto simp: inject_fully_negotiated_inbound_def Let_def)

text \<open>Progress: a call returns unless it is about a peer without history.\<close>

lemma swarm_call_returns:
  assumes "delay_queue_laws E live" "disc_laws X" "\<And>enr. \<not> panics (as_peer_id X enr)"
    and "node_inv X live target n" "swarm_law c n" "\<not> unknown_peer_call c n"
  shows "\<exists>n' ev. swarm_call Release E X c n = Inr (n', ev)"
proof -
  note inv = node_invD [OF assms(4)]
  show ?thesis
  proof (cases c)
    case (Opened now c' p)
    then have "last_status (manager_of n) p \<noteq> None" using assms(6) by (simp add: manager_of_def)
    then obtain pm where "on_swarm_event Release now (ConnectionEstablished p) (manager_of n) = Inr pm"
      using established_returns by (fastforce simp: on_swarm_event_def)
    from manager_event_returns [OF this] Opened show ?thesis by auto
  next
    case (Closed now c')
    show ?thesis
    proof (cases "fmlookup (connections n) c'")
      case (Some ph)
      then have "fmlookup (peer_view n) c' = Some (fst ph)" by (simp add: peer_view_def)
      then have "last_status (manager_of n) (fst ph) \<noteq> None"
        using assms(4) unfolding node_inv_def linked_def by blast
      then obtain pm where "on_swarm_event Release now (ConnectionClosed (fst ph)) (manager_of n) = Inr pm"
        using closed_returns by (fastforce simp: on_swarm_event_def)
      from manager_event_returns [OF this] Some Closed show ?thesis by (auto split: prod.splits)
    qed (simp add: Closed)
  next
    case (DialFailed now peer)
    have "\<exists>pm. on_swarm_event Release now (DialFailure peer) (manager_of n) = Inr pm"
    proof (cases peer)
      case (Some p)
      then have "last_status (manager_of n) p \<noteq> None" using assms(6) DialFailed by (simp add: manager_of_def)
      from dial_failure_returns [OF this, of now] Some show ?thesis by (simp add: on_swarm_event_def)
    qed (simp add: on_swarm_event_def on_dial_failure_def)
    then show ?thesis using manager_event_returns DialFailed by fastforce
  next
    case (InboundStream c' now r sub)
    show ?thesis
    proof (cases "fmlookup (connections n) c'")
      case (Some ph)
      obtain h' where "inject_fully_negotiated_inbound Release E now (r, sub) (snd ph) = Inr h'"
        using inbound_returns [of E now r sub "snd ph"] by blast
      with Some InboundStream show ?thesis by (cases ph) simp
    qed (simp add: InboundStream)
  next
    case (PollHandler c' cx io oo)
    show ?thesis
    proof (cases "fmlookup (connections n) c'")
      case (Some ph)
      with inv(3) [of c' "fst ph" "snd ph"] assms(5) PollHandler
        poll_ok [OF assms(1), of "snd ph" io oo Release cx]
      show ?thesis by (auto split: prod.splits)
    qed (simp add: PollHandler)
  next
    case (PollRpc pick)
    then show ?thesis by (auto split: prod.splits poll.splits NetworkBehaviourAction.splits)
  next
    case (PollDiscovery t cx)
    obtain f where "fork_id X (local_enr (discovery (behaviour n))) = Ok f" using inv(4) by blast
    from discovery_poll_returns [OF assms(2,3) this, of t cx] PollDiscovery show ?thesis
      by (auto simp: not_panics_iff)
  next
    case PollManager
    with poll_returns [OF inv(1), of Release] show ?thesis by (auto simp: manager_of_def)
  qed auto
qed

subsection \<open>The program as a transition system\<close>

text \<open>A step: a call of the swarm that returns, followed by the main loop if the call generates an event.\<close>

inductive program_step ::
  "profile \<Rightarrow> ('cx, 'wk, 'i, 'snd, 'o, 'q, 'k) handler_ext
   \<Rightarrow> ('enr, 'b, 'key, 'pk, 'p, 'sk, 'd, 'dcx, 'fut, 'fu, 'esf, 'st, 'n, 'a) disc_ext \<Rightarrow> ('p \<Rightarrow> 'g \<Rightarrow> 'g)
   \<Rightarrow> ('p, 'a, 'info, 'conn, 'enr, 'd, 'fu, 'esf, 'st, 'g, 'wk, 'i, 'snd, 'o, 'q, 'k) node
   \<Rightarrow> ('p, 'info, 'conn, 'cx, 'i, 'dcx, 'n, 'g) call
   \<Rightarrow> ('p, 'a, 'info, 'conn, 'enr, 'd, 'fu, 'esf, 'st, 'g, 'wk, 'i, 'snd, 'o, 'q, 'k) node \<Rightarrow> bool"
  for P :: profile and E :: "('cx, 'wk, 'i, 'snd, 'o, 'q, 'k) handler_ext"
    and X :: "('enr, 'b, 'key, 'pk, 'p, 'sk, 'd, 'dcx, 'fut, 'fu, 'esf, 'st, 'n, 'a) disc_ext" and add :: "'p \<Rightarrow> 'g \<Rightarrow> 'g"
where
  program_call: "swarm_law c n \<Longrightarrow> swarm_call P E X c n = Inr (n1, ev) \<Longrightarrow>
    handle_event add order ev n1 = Inr n' \<Longrightarrow> program_step P E X add n c n'"

definition program_init ::
  "('enr, 'b, 'key, 'pk, 'p, 'sk, 'd, 'dcx, 'fut, 'fu, 'esf, 'st, 'n, 'a) disc_ext \<Rightarrow> u32
   \<Rightarrow> ('p, 'a, 'info, 'conn, 'enr, 'd, 'fu, 'esf, 'st, 'g, 'wk, 'i, 'snd, 'o, 'q, 'k) node \<Rightarrow> bool" where
  "program_init X target n \<longleftrightarrow>
     pm_init target (manager_of n) \<and> rpc (behaviour n) = RPC_new \<and> connections n = fmempty \<and>
     discovery_ok X (discovery (behaviour n))"

lemma program_init_inv:
  assumes "program_init X target n"
  shows "node_inv X live target n"
proof -
  obtain m where m: "manager_of n = (PeerManager_new target)\<lparr>peer_data := m\<rparr>"
    using assms pm_init_data by (auto simp: program_init_def)
  then have "connected_peers (manager_of n) = {||}" by (simp add: PeerManager_new_def)
  with assms peer_manager_system.inv_init [of target "manager_of n"] show ?thesis
    by (auto simp: program_init_def node_inv_def rpc_sys_inv_iff RPC_new_def linked_def peer_view_def)
qed

interpretation program: inductive_invariant "program_init X target" "program_step P E X add"
  "\<lambda>n. delay_queue_laws E live \<longrightarrow> node_inv X live target n" for P E X add live target
proof
  show "delay_queue_laws E live \<longrightarrow> node_inv X live target n" if "program_init X target n" for n
    using program_init_inv [OF that] by blast
next
  fix n c n'
  assume inv: "delay_queue_laws E live \<longrightarrow> node_inv X live target n" and step: "program_step P E X add n c n'"
  show "delay_queue_laws E live \<longrightarrow> node_inv X live target n'"
  proof
    assume laws: "delay_queue_laws E live"
    from step show "node_inv X live target n'"
    proof cases
      case (program_call n1 ev order)
      with swarm_call_keeps [OF laws _ program_call(1,2), of target] inv laws
      have "node_inv X live target n1" "quiet_event ev" by blast+
      from handle_event_keeps [OF this, of add order] program_call(3) show ?thesis by auto
    qed
  qed
qed

end
