(* ===== verification/Main_Properties.thy ===== *)
theory Main_Properties
  imports Main_Invariant
begin

section \<open>Properties of the whole program\<close>

text \<open>
  The theorems about \<open>main\<close> in \<open>src/main.rs\<close> and the components it composes. The swarm may report anything at any
  time: connections opened by anyone, several to one peer, dials answered after the manager gave them up. The
  hypotheses are \<open>swarm_law\<close> (a new connection has a new id, an iteration over a hash map visits every key once) and the
  documented laws of the other crates.
\<close>

subsection \<open>A concrete node\<close>

text \<open>
  The environments of the components' witnesses put together. The node knows one finished discovery query, which found
  peer 1.
\<close>

type_synonym demo_node =
  "(nat, string, unit, nat, demo_enr, unit, (demo_enr list, unit) result list, unit, nat, nat list,
    nat, RPCCodedResponse list, RPCCodedResponse list, RPCCodedResponse list, demo_queue, nat) node"

definition demo_start :: demo_node where
  "demo_start =
     \<lparr>behaviour = \<lparr>gossipsub = [], discovery = demo_discovery [Ok [(1, [])]], rpc = RPC_new,
        peer_manager = PeerManager_new 1\<rparr>, connections = fmempty\<rparr>"

definition demo_address :: string where
  "demo_address = ''/ip4/127.0.0.1/tcp/9000''"

definition demo_found :: demo_node where
  "demo_found =
     \<lparr>behaviour = \<lparr>gossipsub = [], discovery = demo_discovery [], rpc = RPC_new,
        peer_manager = add_peers sorted_list_of_fset (fmupd 1 (Some demo_address) fmempty) (PeerManager_new 1)\<rparr>,
      connections = fmempty\<rparr>"

lemma demo_start_init: "program_init demo_disc 1 demo_start"
proof -
  have "fork_id demo_disc demo_local_enr = Ok f \<Longrightarrow> is_ok (fork_id demo_disc demo_local_enr)" for f by simp
  then have "discovery_ok demo_disc (demo_discovery q)" for q
    using build_enr_fork_id [OF demo_enr_laws demo_local_enr_built]
    by (auto simp: discovery_ok_def demo_discovery_def)
  then show ?thesis using demo_new_init by (simp add: program_init_def demo_start_def manager_of_def)
qed

lemma demo_discovers:
  "program_step P demo_ext demo_disc (#) demo_start (PollDiscovery () ()) demo_found"
proof (rule program_call)
  show "swarm_call P demo_ext demo_disc (PollDiscovery () ()) demo_start =
      Inr (demo_start\<lparr>behaviour := (behaviour demo_start)\<lparr>discovery := demo_discovery []\<rparr>\<rparr>,
        Some (BehaviourEvent_Discovery \<lparr>peers = fmupd 1 (Some demo_address) fmempty\<rparr>))"
    by (simp add: demo_start_def demo_discovery_def Discovery_poll_def get_peers_def demo_disc_def as_peer_id_def
        enr_multiaddr_def demo_address_def)
  show "handle_event (#) sorted_list_of_fset (Some (BehaviourEvent_Discovery \<lparr>peers = fmupd 1 (Some demo_address) fmempty\<rparr>))
      (demo_start\<lparr>behaviour := (behaviour demo_start)\<lparr>discovery := demo_discovery []\<rparr>\<rparr>) = Inr demo_found"
    by (simp add: handle_event_def on_behaviour_event_def demo_start_def demo_found_def)
qed simp

definition demo_ticked :: demo_node where
  "demo_ticked = demo_found\<lparr>behaviour := (behaviour demo_found)\<lparr>peer_manager :=
     (peer_manager (behaviour demo_found))\<lparr>heartbeat := [demo_tick 7]\<rparr>\<rparr>\<rparr>"

lemma demo_ticks: "program_step P demo_ext demo_disc (#) demo_found (Ticks [demo_tick 7]) demo_ticked"
proof (rule program_call [where ev = None])
  show "swarm_call P demo_ext demo_disc (Ticks [demo_tick 7]) demo_found = Inr (demo_ticked, None)"
    by (simp add: demo_ticked_def demo_found_def pm_eval)
qed (simp_all add: demo_tick_orderly handle_event_def)

definition demo_dials :: demo_node where
  "demo_dials = demo_found\<lparr>behaviour := (behaviour demo_found)\<lparr>gossipsub := [1], peer_manager :=
     demo_dialling\<lparr>peer_data := fmupd 1 ((the (fmlookup (peer_data demo_dialling) 1))\<lparr>multiaddr := Some demo_address\<rparr>) fmempty\<rparr>\<rparr>\<rparr>"

lemma demo_dials_step: "program_step P demo_ext demo_disc (#) demo_ticked PollManager demo_dials"
proof (rule program_call)
  show "swarm_call P demo_ext demo_disc PollManager demo_ticked =
      Inr (demo_dials\<lparr>behaviour := (behaviour demo_dials)\<lparr>gossipsub := []\<rparr>\<rparr>, Some (BehaviourEvent_PeerManager (DialPeers [1])))"
    by (simp add: demo_dials_def demo_ticked_def demo_found_def pm_eval demo_dialling_def)
  show "handle_event (#) sorted_list_of_fset (Some (BehaviourEvent_PeerManager (DialPeers [1])))
      (demo_dials\<lparr>behaviour := (behaviour demo_dials)\<lparr>gossipsub := []\<rparr>\<rparr>) = Inr demo_dials"
    by (simp add: handle_event_def on_behaviour_event_def demo_dials_def)
qed simp

abbreviation demo_reach :: "profile \<Rightarrow> demo_node \<Rightarrow> bool" where
  "demo_reach P \<equiv> reach (program_init demo_disc 1) (program_step P demo_ext demo_disc (#))"

lemma demo_dials_reachable: "demo_reach P demo_dials"
proof -
  have "demo_reach P demo_start" using demo_start_init by (rule reach_init)
  then have "demo_reach P demo_found" using demo_discovers by (rule reach_step)
  then have "demo_reach P demo_ticked" using demo_ticks by (rule reach_step)
  then show ?thesis using demo_dials_step by (rule reach_step)
qed

lemma demo_opens:
  assumes "c |\<notin>| fmdom (connections n)" "last_status (peer_manager (behaviour n)) p \<noteq> None"
  shows "\<exists>n'. program_step P demo_ext demo_disc (#) n (Opened 9 c p) n' \<and>
    connections n' = fmupd c (p, RPC_new_handler demo_ext) (connections n) \<and>
    last_status (peer_manager (behaviour n')) p \<noteq> None"
proof -
  obtain pm where pm: "on_connection_established 9 p (peer_manager (behaviour n)) = Inr pm"
    using established_returns [OF assms(2)] by blast
  let ?n = "n\<lparr>behaviour := (behaviour n)\<lparr>peer_manager := pm\<rparr>,
    connections := fmupd c (p, RPC_new_handler demo_ext) (connections n)\<rparr>"
  have call: "swarm_call P demo_ext demo_disc (Opened 9 c p) n = Inr (?n, None)"
    by (simp add: manager_event_def on_swarm_event_def pm)
  have "last_status pm p \<noteq> None" using established_effect [OF pm] by (simp add: swarm_effect_def)
  with program_call [OF _ call, of "(#)" sorted_list_of_fset ?n] assms(1) show ?thesis
    by (intro exI [of _ ?n]) (simp add: handle_event_def)
qed

lemma demo_known: "last_status (peer_manager (behaviour demo_dials)) p = None \<longleftrightarrow> p \<noteq> 1" "connections demo_dials = fmempty"
  by (simp_all add: demo_dials_def demo_found_def demo_dialling_def last_status_def)

lemma demo_connected:
  "\<exists>n. demo_reach P n \<and> connections n = fmupd 5 (1, RPC_new_handler demo_ext) fmempty \<and>
     last_status (peer_manager (behaviour n)) 1 \<noteq> None"
  using demo_opens [of 5 demo_dials 1 P] demo_known reach_step [OF demo_dials_reachable] by fastforce

subsection \<open>The composed invariant\<close>

text \<open>
  C2: in every state the program reaches, whatever the swarm reported, the parts agree: every connected peer of the peer
  manager has an open connection, every peer with an open connection has a connection history, so has every peer that
  is being dialled, a peer waiting for its first dial is known and has none, and every connection's
  handler serves requests only: it has nothing to dial and no outbound substream, and at most 32 inbound ones.
\<close>

theorem node_parts_agree:
  assumes "delay_queue_laws E live" "reach (program_init X target) (program_step P E X add) n"
  shows "let pm = peer_manager (behaviour n) in
    (\<forall>p. p |\<in>| connected_peers pm \<longrightarrow> (\<exists>c h. fmlookup (connections n) c = Some (p, h))) \<and>
    (\<forall>c p h. fmlookup (connections n) c = Some (p, h) \<longrightarrow> last_status pm p \<noteq> None \<and>
       dial_queue h = [] \<and> outbound_substreams h = fmempty \<and> fcard (fmdom (inbound_substreams h)) \<le> 32) \<and>
    (\<forall>p. p |\<in>| dialling_peers pm \<longrightarrow> last_status pm p \<noteq> None) \<and>
    (\<forall>p. p |\<in>| new_peers pm \<longrightarrow> p |\<in>| fmdom (peer_data pm) \<and> last_status pm p = None)"
proof -
  define pm where "pm = peer_manager (behaviour n)"
  have inv: "node_inv X live target n" using program.reach_inv [OF assms(2)] assms(1) by blast
  have "linked pm (fmmap fst (connections n))" using inv by (simp add: node_inv_def manager_of_def peer_view_def pm_def)
  then have link: "\<And>p. p |\<in>| connected_peers pm \<Longrightarrow> \<exists>c h. fmlookup (connections n) c = Some (p, h)"
    "\<And>c p h. fmlookup (connections n) c = Some (p, h) \<Longrightarrow> last_status pm p \<noteq> None"
    unfolding linked_def by fastforce+
  have "handler_inv live h \<and> quiet h" if "fmlookup (connections n) c = Some (p, h)" for c p h
    using node_invD(3) [OF inv that] .
  then have hnd: "dial_queue h = [] \<and> outbound_substreams h = fmempty \<and> fcard (fmdom (inbound_substreams h)) \<le> 32"
    if "fmlookup (connections n) c = Some (p, h)" for c p h
    using that by (fastforce simp: quiet_def handler_inv_defs MAX_INBOUND_SUBSTREAMS_def)
  have "sets_ok pm" using node_invD(1) [OF inv] by (simp add: pm_inv_def manager_of_def pm_def)
  then have "\<forall>p. p |\<in>| dialling_peers pm \<longrightarrow> last_status pm p \<noteq> None"
    "\<forall>p. p |\<in>| new_peers pm \<longrightarrow> p |\<in>| fmdom (peer_data pm) \<and> last_status pm p = None"
    unfolding sets_ok_def connected_and_dialling_peers_def by blast+
  with link hnd show ?thesis unfolding Let_def pm_def by blast
qed

theorem node_parts_agree_witness:
  "\<exists>n. demo_reach Dev n \<and> fmlookup (connections n) 5 = Some (1, RPC_new_handler demo_ext) \<and>
     last_status (peer_manager (behaviour n)) 1 \<noteq> None"
proof -
  obtain n where n: "demo_reach Dev n" "connections n = fmupd 5 (1, RPC_new_handler demo_ext) fmempty"
    using demo_connected by blast
  then have "fmlookup (connections n) 5 = Some (1, RPC_new_handler demo_ext)" by simp
  with n(1) node_parts_agree [OF demo_delay_queue_laws n(1)] show ?thesis unfolding Let_def by blast
qed

text \<open>
  C3: which calls of the swarm make a release build panic: in every state the program reaches, a call panics exactly when
  it reports a connection to, or the failed dial of, a peer without connection history, as the first inbound
  connection of a stranger does. Every other call returns, and the main loop handles the event it may generate.
\<close>

theorem program_panics_only_for_unknown_peers:
  assumes "delay_queue_laws E live" "disc_laws X" "\<And>enr. \<not> panics (as_peer_id X enr)"
    and "reach (program_init X target) (program_step Release E X add) n" "swarm_law c n"
  shows "(panics (swarm_call Release E X c n) \<longleftrightarrow>
      (\<exists>now c' p. (c = Opened now c' p \<or> c = DialFailed now (Some p)) \<and> last_status (peer_manager (behaviour n)) p = None)) \<and>
    (\<not> panics (swarm_call Release E X c n) \<longrightarrow>
      (\<exists>n1 ev n'. swarm_call Release E X c n = Inr (n1, ev) \<and> handle_event add order ev n1 = Inr n' \<and>
         program_step Release E X add n c n'))"
proof -
  have inv: "node_inv X live target n" using program.reach_inv [OF assms(4)] assms(1) by blast
  have panic: "panics (swarm_call Release E X c n) \<longleftrightarrow> unknown_peer_call c n"
    using unknown_peer_panics [of c n Release E X] swarm_call_returns [OF assms(1-3) inv assms(5)]
    by (metis not_panics_iff sum.distinct(1) prod.exhaust)
  have "\<exists>n1 ev n'. swarm_call Release E X c n = Inr (n1, ev) \<and> handle_event add order ev n1 = Inr n' \<and>
      program_step Release E X add n c n'" if known: "\<not> unknown_peer_call c n"
  proof -
    obtain n1 ev where call: "swarm_call Release E X c n = Inr (n1, ev)"
      using swarm_call_returns [OF assms(1-3) inv assms(5) known] by blast
    obtain n' where "handle_event add order ev n1 = Inr n'"
      using swarm_call_keeps [OF assms(1) inv assms(5) call] handle_event_keeps by blast
    with call program_call [OF assms(5) call] show ?thesis by blast
  qed
  with panic show ?thesis unfolding unknown_peer_call_iff by blast
qed

theorem program_panics_only_for_unknown_peers_witness:
  "(\<exists>n1 ev. swarm_call Release demo_ext demo_disc (Opened 9 5 1) demo_dials = Inr (n1, ev)) \<and>
   panics (swarm_call Release demo_ext demo_disc (Opened 9 5 2) demo_dials)"
proof -
  have law: "swarm_law (Opened 9 5 p) demo_dials" for p by (simp add: demo_dials_def demo_found_def)
  have "panics (swarm_call Release demo_ext demo_disc (Opened 9 5 p) demo_dials) \<longleftrightarrow> p \<noteq> 1" for p
    using program_panics_only_for_unknown_peers
      [OF demo_delay_queue_laws demo_disc_laws demo_keys_valid demo_dials_reachable law [of p]]
    by (auto simp: demo_known simp del: swarm_call.simps)
  from this [of 1] this [of 2] show ?thesis by (auto simp: not_panics_iff simp del: swarm_call.simps)
qed

subsection \<open>Running the loop\<close>

text \<open>
  The turns of a run are lawful when every call obeys \<open>swarm_law\<close> in the state in which it is made. They surprise the
  program when one of the calls made before the deadline is about a peer without history.
\<close>

fun lawful_calls ::
  "profile \<Rightarrow> ('cx, 'wk, 'i, 'snd, 'o, 'q, 'k) handler_ext
   \<Rightarrow> ('enr, 'b, 'key, 'pk, 'p, 'sk, 'd, 'dcx, 'fut, 'fu, 'esf, 'st, 'n, 'a) disc_ext
   \<Rightarrow> ('p, 'info, 'conn, 'cx, 'i, 'dcx, 'n, 'g) call list
   \<Rightarrow> ('p, 'a, 'info, 'conn, 'enr, 'd, 'fu, 'esf, 'st, 'g, 'wk, 'i, 'snd, 'o, 'q, 'k) node \<Rightarrow> bool" where
  "lawful_calls P E X [] n = True"
| "lawful_calls P E X (c # cs) n \<longleftrightarrow> swarm_law c n \<and>
     (case swarm_call P E X c n of Inr (n', None) \<Rightarrow> lawful_calls P E X cs n' | _ \<Rightarrow> True)"

fun surprising_calls ::
  "profile \<Rightarrow> ('cx, 'wk, 'i, 'snd, 'o, 'q, 'k) handler_ext
   \<Rightarrow> ('enr, 'b, 'key, 'pk, 'p, 'sk, 'd, 'dcx, 'fut, 'fu, 'esf, 'st, 'n, 'a) disc_ext
   \<Rightarrow> ('p, 'info, 'conn, 'cx, 'i, 'dcx, 'n, 'g) call list
   \<Rightarrow> ('p, 'a, 'info, 'conn, 'enr, 'd, 'fu, 'esf, 'st, 'g, 'wk, 'i, 'snd, 'o, 'q, 'k) node \<Rightarrow> bool" where
  "surprising_calls P E X [] n = False"
| "surprising_calls P E X (c # cs) n \<longleftrightarrow> unknown_peer_call c n \<or>
     (case swarm_call P E X c n of Inr (n', None) \<Rightarrow> surprising_calls P E X cs n' | _ \<Rightarrow> False)"

definition main_turn ::
  "profile \<Rightarrow> ('cx, 'wk, 'i, 'snd, 'o, 'q, 'k) handler_ext
   \<Rightarrow> ('enr, 'b, 'key, 'pk, 'p, 'sk, 'd, 'dcx, 'fut, 'fu, 'esf, 'st, 'n, 'a) disc_ext \<Rightarrow> ('p \<Rightarrow> 'g \<Rightarrow> 'g)
   \<Rightarrow> ('p, 'info, 'conn, 'cx, 'i, 'dcx, 'n, 'g) turn
   \<Rightarrow> ('p, 'a, 'info, 'conn, 'enr, 'd, 'fu, 'esf, 'st, 'g, 'wk, 'i, 'snd, 'o, 'q, 'k) node
   \<Rightarrow> ('p, 'a, 'info, 'conn, 'enr, 'd, 'fu, 'esf, 'st, 'g, 'wk, 'i, 'snd, 'o, 'q, 'k) node run" where
  "main_turn P E X add t n =
     run_bind (swarm_calls P E X (swarm_turn t) n) (\<lambda>(n, ev). handle_event add (peers_order t) ev n)"

fun lawful_turns ::
  "profile \<Rightarrow> ('cx, 'wk, 'i, 'snd, 'o, 'q, 'k) handler_ext
   \<Rightarrow> ('enr, 'b, 'key, 'pk, 'p, 'sk, 'd, 'dcx, 'fut, 'fu, 'esf, 'st, 'n, 'a) disc_ext \<Rightarrow> ('p \<Rightarrow> 'g \<Rightarrow> 'g) \<Rightarrow> instant
   \<Rightarrow> ('p, 'info, 'conn, 'cx, 'i, 'dcx, 'n, 'g) turn list
   \<Rightarrow> ('p, 'a, 'info, 'conn, 'enr, 'd, 'fu, 'esf, 'st, 'g, 'wk, 'i, 'snd, 'o, 'q, 'k) node \<Rightarrow> bool" where
  "lawful_turns P E X add stop [] n = True"
| "lawful_turns P E X add stop (t # ts) n \<longleftrightarrow>
     (if loop_now t < stop
      then lawful_calls P E X (swarm_turn t) n \<and>
        (case main_turn P E X add t n of Inr n' \<Rightarrow> lawful_turns P E X add stop ts n' | Inl _ \<Rightarrow> True)
      else True)"

fun surprising_turns ::
  "profile \<Rightarrow> ('cx, 'wk, 'i, 'snd, 'o, 'q, 'k) handler_ext
   \<Rightarrow> ('enr, 'b, 'key, 'pk, 'p, 'sk, 'd, 'dcx, 'fut, 'fu, 'esf, 'st, 'n, 'a) disc_ext \<Rightarrow> ('p \<Rightarrow> 'g \<Rightarrow> 'g) \<Rightarrow> instant
   \<Rightarrow> ('p, 'info, 'conn, 'cx, 'i, 'dcx, 'n, 'g) turn list
   \<Rightarrow> ('p, 'a, 'info, 'conn, 'enr, 'd, 'fu, 'esf, 'st, 'g, 'wk, 'i, 'snd, 'o, 'q, 'k) node \<Rightarrow> bool" where
  "surprising_turns P E X add stop [] n = False"
| "surprising_turns P E X add stop (t # ts) n \<longleftrightarrow> loop_now t < stop \<and>
     (surprising_calls P E X (swarm_turn t) n \<or>
      (case main_turn P E X add t n of Inr n' \<Rightarrow> surprising_turns P E X add stop ts n' | Inl _ \<Rightarrow> False))"

lemma main_loop_Cons:
  "main_loop P E X add stop (t # ts) n =
     (if loop_now t < stop then run_bind (main_turn P E X add t n) (main_loop P E X add stop ts) else Inr n)"
  by (cases "swarm_calls P E X (swarm_turn t) n") (auto simp: main_turn_def)

text \<open>What a list of calls, a turn and the loop come to.\<close>

lemma swarm_calls_outcome:
  assumes "delay_queue_laws E live" "disc_laws X" "\<And>enr. \<not> panics (as_peer_id X enr)"
    and "node_inv X live target n" "lawful_calls Release E X cs n"
  shows "if surprising_calls Release E X cs n then \<exists>e. swarm_calls Release E X cs n = Inl e \<and> e \<noteq> OutOfFuel
    else \<exists>n' ev. swarm_calls Release E X cs n = Inr (n', ev) \<and> node_inv X live target n' \<and> quiet_event ev"
  using assms(4,5)
proof (induction cs arbitrary: n)
  case (Cons c cs)
  then have law: "swarm_law c n" by simp
  show ?case
  proof (cases "unknown_peer_call c n")
    case True
    from unknown_peer_panics [OF this, of Release E X] True show ?thesis by auto
  next
    case False
    then obtain n1 ev where call: "swarm_call Release E X c n = Inr (n1, ev)"
      using swarm_call_returns [OF assms(1-3) Cons.prems(1) law] by blast
    have keep: "node_inv X live target n1" "quiet_event ev"
      using swarm_call_keeps [OF assms(1) Cons.prems(1) law call] by blast+
    show ?thesis
    proof (cases ev)
      case None
      with Cons.IH [OF keep(1)] Cons.prems(2) call False show ?thesis by simp
    next
      case (Some e)
      with call keep False show ?thesis by simp
    qed
  qed
qed simp

lemma main_turn_outcome:
  assumes "delay_queue_laws E live" "disc_laws X" "\<And>enr. \<not> panics (as_peer_id X enr)"
    and "node_inv X live target n" "lawful_calls Release E X (swarm_turn t) n"
  shows "if surprising_calls Release E X (swarm_turn t) n then \<exists>e. main_turn Release E X add t n = Inl e \<and> e \<noteq> OutOfFuel
    else \<exists>n'. main_turn Release E X add t n = Inr n' \<and> node_inv X live target n'"
  using swarm_calls_outcome [OF assms] handle_event_keeps by (fastforce simp: main_turn_def split: if_splits)

lemma main_loop_outcome:
  assumes "delay_queue_laws E live" "disc_laws X" "\<And>enr. \<not> panics (as_peer_id X enr)"
    and "node_inv X live target n" "lawful_turns Release E X add stop ts n"
  shows "if surprising_turns Release E X add stop ts n then \<exists>e. main_loop Release E X add stop ts n = Inl e \<and> e \<noteq> OutOfFuel
    else if \<forall>t \<in> set ts. loop_now t < stop then main_loop Release E X add stop ts n = Inl OutOfFuel
    else \<exists>n'. main_loop Release E X add stop ts n = Inr n' \<and> node_inv X live target n'"
  using assms(4,5)
proof (induction ts arbitrary: n)
  case (Cons t ts)
  show ?case
  proof (cases "loop_now t < stop")
    case before: True
    with Cons.prems(2) have law: "lawful_calls Release E X (swarm_turn t) n" by simp
    note turn = main_turn_outcome [OF assms(1-3) Cons.prems(1) law, of add]
    show ?thesis
    proof (cases "surprising_calls Release E X (swarm_turn t) n")
      case True
      with before turn show ?thesis by (auto simp: main_loop_Cons simp del: main_loop.simps)
    next
      case False
      with turn obtain n1 where n1: "main_turn Release E X add t n = Inr n1" "node_inv X live target n1" by auto
      have "lawful_turns Release E X add stop ts n1" using Cons.prems(2) before n1(1) by simp
      from Cons.IH [OF n1(2) this] before n1(1) False show ?thesis by (simp add: main_loop_Cons del: main_loop.simps)
    qed
  next
    case False
    with Cons.prems(1) show ?thesis by auto
  qed
qed simp

subsection \<open>From start to end\<close>

lemma Discovery_new_ok:
  assumes "enr_laws X" "Discovery_new X root key = Inr d"
  shows "discovery_ok X d"
proof -
  obtain r where r: "key_from_libp2p X key = Inr r"
    using assms(2) by (auto simp: Discovery_new_def run_simps)
  obtain k enr where "build_enr X root k = Inr enr" "local_enr d = enr"
  proof (cases r)
    case (Ok k)
    then obtain enr where enr: "build_enr X root k = Inr enr"
      using assms(2) r by (auto simp: Discovery_new_def run_simps)
    with assms(2) r Ok have "local_enr d = enr"
      by (auto simp: Discovery_new_def run_simps split: option.splits)
    with enr that show ?thesis by blast
  qed (use assms(2) r in \<open>simp add: Discovery_new_def\<close>)
  with build_enr_fork_id [OF assms(1)] show ?thesis by (fastforce simp: discovery_ok_def)
qed

lemma question_Ok: "question r w f = Inr (Ok y) \<longleftrightarrow> (\<exists>x. r = Ok x \<and> f x = Inr (Ok y))"
  by (simp add: question_def split: result.splits)

lemma set_up_init:
  assumes "enr_laws X" "set_up T X root M J env = Inr (Ok n)"
  shows "program_init X target_num_peers n"
proof -
  obtain disc pm gs where "Discovery_new X root (local_key env) = Inr disc"
    and pm: "load_peer_data (from_json J) (data_file env) (PeerManager_new target_num_peers) = Inr pm"
    and n: "n = \<lparr>behaviour = \<lparr>gossipsub = gs, discovery = disc, rpc = RPC_new, peer_manager = pm\<rparr>, connections = fmempty\<rparr>"
    using assms(2) by (auto simp: set_up_def run_simps question_Ok)
  moreover from this(1) have "discovery_ok X disc" by (rule Discovery_new_ok [OF assms(1)])
  moreover have "pm_init target_num_peers pm" unfolding pm_init_def using pm by blast
  ultimately show ?thesis by (simp add: program_init_def manager_of_def)
qed

text \<open>
  C1: how a release build of \<open>main\<close> ends once the set-up has succeeded, whatever the swarm reports. If before the
  deadline the swarm opens a connection to, or reports the failed dial of, a peer without history, \<open>main\<close>
  panics and saves nothing. Otherwise, as long as no turn's clock has passed the deadline, the loop is still
  running; and once one has, the loop ends and \<open>main\<close> returns \<open>Ok\<close> exactly when the file can be created, the peer
  data serialised and the text written. The text is the peer data of the state the loop ended in, with exactly
  the connected peers recorded as disconnected.
\<close>

theorem main_outcome:
  assumes "delay_queue_laws E live" "disc_laws X" "\<And>enr. \<not> panics (as_peer_id X enr)" "enr_laws X"
    and "set_up T X root M J env = Inr (Ok n)"
    and "lawful_turns Release E X (gossipsub_add_explicit_peer M) (time_to_stop (start_time env)) (turns env) n"
    and "\<And>S. enumerates (save_order env S) S"
  shows "if surprising_turns Release E X (gossipsub_add_explicit_peer M) (time_to_stop (start_time env)) (turns env) n
    then \<exists>e. main Release E T X root M J env = Inl e \<and> e \<noteq> OutOfFuel
    else if \<forall>t \<in> set (turns env). loop_now t < time_to_stop (start_time env)
    then main Release E T X root M J env = Inl OutOfFuel
    else \<exists>n' pm.
      main_loop Release E X (gossipsub_add_explicit_peer M) (time_to_stop (start_time env)) (turns env) n = Inr n' \<and>
      disconnect_all_peers Release (save_now env) (save_order env) (peer_manager (behaviour n')) = Inr pm \<and>
      (\<forall>p. last_status pm p = (if p |\<in>| connected_peers (peer_manager (behaviour n')) then Some Disconnected
         else last_status (peer_manager (behaviour n')) p)) \<and>
      (\<forall>content. main Release E T X root M J env = Inr (Ok content) \<longleftrightarrow>
         can_create env \<and> to_json J (peer_data pm) = Some content \<and> can_write env content)"
proof -
  let ?loop = "main_loop Release E X (gossipsub_add_explicit_peer M) (time_to_stop (start_time env)) (turns env) n"
  have "node_inv X live target_num_peers n" by (rule program_init_inv [OF set_up_init [OF assms(4,5)]])
  note loop = main_loop_outcome [OF assms(1-3) this assms(6)]
  have main: "main Release E T X root M J env = run_bind ?loop (\<lambda>n.
      run_bind (save_peer_data Release (save_now env) (save_order env) (can_create env) (to_json J) (can_write env)
        (peer_manager (behaviour n))) (\<lambda>(_, text). Inr (Ok text)))"
    by (simp add: main_def assms(5) question_def)
  have saved: "\<exists>pm. disconnect_all_peers Release (save_now env) (save_order env) (peer_manager (behaviour n')) = Inr pm \<and>
      (\<forall>p. last_status pm p = (if p |\<in>| connected_peers (peer_manager (behaviour n')) then Some Disconnected
         else last_status (peer_manager (behaviour n')) p)) \<and>
      (\<forall>content. main Release E T X root M J env = Inr (Ok content) \<longleftrightarrow>
         can_create env \<and> to_json J (peer_data pm) = Some content \<and> can_write env content)"
    if n': "?loop = Inr n'" "node_inv X live target_num_peers n'" for n'
  proof -
    have "sets_ok (peer_manager (behaviour n'))" using node_invD(1) [OF n'(2)] by (simp add: pm_inv_def manager_of_def)
    from disconnect_all_result [where order = "save_order env", OF this assms(7)] obtain pm
      where pm: "disconnect_all_peers Release (save_now env) (save_order env) (peer_manager (behaviour n')) = Inr pm"
        "\<forall>p. last_status pm p = (if p |\<in>| connected_peers (peer_manager (behaviour n')) then Some Disconnected
          else last_status (peer_manager (behaviour n')) p)"
      by blast
    have "main Release E T X root M J env = Inr (Ok content) \<longleftrightarrow>
        can_create env \<and> to_json J (peer_data pm) = Some content \<and> can_write env content" for content
      by (auto simp: main n'(1) save_peer_data_def pm(1) split: option.splits)
    with pm show ?thesis by blast
  qed
  show ?thesis using loop saved by (auto simp: main split: if_splits)
qed

text \<open>
  A first run: no peer data file, one heartbeat, which asks for peers, then a query and the turn past the deadline.
\<close>

definition demo_main :: "(nat, unit, nat, nat list, nat, stack, string, stack \<times> string list) main_ext" where
  "demo_main =
     \<lparr>public_key = (\<lambda>_. 3), peer_id_from = id, sha256 = id, gossipsub_build = (\<lambda>c. Some (mesh_n c)),
      gossipsub_new = (\<lambda>_ _ _. Ok []), gossipsub_subscribe = (\<lambda>_ g. Ok g), gossipsub_add_explicit_peer = (#),
      swarm_build = (\<lambda>t _ _ _. (t, [])), parse_multiaddr = Ok, listen_on = (\<lambda>a (t, as). Ok (t, a # as))\<rparr>"

definition demo_json :: "(nat, string) json_ext" where
  "demo_json = \<lparr>to_json = (\<lambda>m. Some (replicate (fcard (fmdom m)) CHR ''p'')), from_json = (\<lambda>_. Some fmempty)\<rparr>"

type_synonym demo_turn = "(nat, unit, nat, nat, RPCCodedResponse list, unit, unit, nat list) turn"

definition demo_turns :: "demo_turn list" where
  "demo_turns =
     [\<lparr>loop_now = 0, swarm_turn = [Ticks [demo_tick 7], PollManager], peers_order = sorted_list_of_fset\<rparr>,
      \<lparr>loop_now = 9, swarm_turn = [PollDiscovery () (), PollRpc 5], peers_order = sorted_list_of_fset\<rparr>,
      \<lparr>loop_now = from_secs 180, swarm_turn = [], peers_order = sorted_list_of_fset\<rparr>]"

definition demo_execution :: "(nat, unit, nat, nat, RPCCodedResponse list, unit, unit, nat list, unit) execution" where
  "demo_execution =
     \<lparr>local_key = Keypair_Secp256k1 (), data_file = NoFile, start_time = 0, turns = demo_turns, save_now = (\<lambda>_. 0),
      save_order = sorted_list_of_fset, can_create = True, can_write = (\<lambda>_. True)\<rparr>"

lemma demo_bootnodes: "add_bootnodes demo_disc bs d = Inr d"
  by (induction bs) (simp_all add: demo_disc_def)

lemma demo_set_up: "\<exists>n :: demo_node. set_up (stack_ext True) demo_disc demo_root demo_main demo_json demo_execution = Inr (Ok n)"
proof -
  have "key_from_libp2p demo_disc (Keypair_Secp256k1 ()) = Inr (Ok ())"
    by (simp add: key_from_libp2p_def demo_disc_def)
  moreover have "discv5_new demo_disc e k c = Some ()" "discv5_start demo_disc () = Some ()" for e k c
    by (simp_all add: demo_disc_def)
  ultimately obtain d where "Discovery_new demo_disc demo_root (Keypair_Secp256k1 ()) = Inr d"
    by (simp add: Discovery_new_def demo_local_enr_built demo_bootnodes)
  then show ?thesis
    by (simp add: set_up_def demo_execution_def stack_ext_builds question_def load_peer_data_def build_gossipsub_def
        demo_main_def start_listening_def swarm_config_def NonZeroUsize_new_def)
qed

text \<open>The same run with the connection of a stranger in its first turn.\<close>

definition demo_stranger :: "(nat, unit, nat, nat, RPCCodedResponse list, unit, unit, nat list, unit) execution" where
  "demo_stranger = demo_execution\<lparr>turns := \<lparr>loop_now = 0, swarm_turn = [Opened 0 5 9], peers_order = sorted_list_of_fset\<rparr> # demo_turns\<rparr>"

theorem main_outcome_witness:
  "(\<exists>content. main Release demo_ext (stack_ext True) demo_disc demo_root demo_main demo_json demo_execution = Inr (Ok content)) \<and>
   (\<exists>e. main Release demo_ext (stack_ext True) demo_disc demo_root demo_main demo_json demo_stranger = Inl e \<and> e \<noteq> OutOfFuel)"
proof -
  obtain n :: demo_node
    where up: "set_up (stack_ext True) demo_disc demo_root demo_main demo_json demo_execution = Inr (Ok n)"
    using demo_set_up by blast
  let ?stop = "time_to_stop (start_time demo_execution)"
  have law: "lawful_turns Release demo_ext demo_disc (gossipsub_add_explicit_peer demo_main) ?stop (turns demo_execution) n"
    by (simp add: demo_execution_def demo_turns_def demo_tick_orderly time_to_stop_def split: sum.split option.split)
  have known: "\<not> surprising_turns Release demo_ext demo_disc (gossipsub_add_explicit_peer demo_main) ?stop (turns demo_execution) n"
    by (simp add: demo_execution_def demo_turns_def time_to_stop_def split: sum.split option.split)
  have late: "\<not> (\<forall>t \<in> set (turns demo_execution). loop_now t < ?stop)"
    by (simp add: demo_execution_def demo_turns_def time_to_stop_def)
  have order: "enumerates (save_order demo_execution S) S" for S
    by (simp add: demo_execution_def sorted_list_of_fset_enumerates)
  have "\<exists>content. main Release demo_ext (stack_ext True) demo_disc demo_root demo_main demo_json demo_execution = Inr (Ok content)"
    using main_outcome [OF demo_delay_queue_laws demo_disc_laws demo_keys_valid demo_enr_laws up law order,
        unfolded if_not_P [OF known] if_not_P [OF late]]
    by (auto simp: demo_json_def demo_execution_def)
  moreover have "\<exists>e. main Release demo_ext (stack_ext True) demo_disc demo_root demo_main demo_json demo_stranger = Inl e \<and> e \<noteq> OutOfFuel"
  proof -
    have up': "set_up (stack_ext True) demo_disc demo_root demo_main demo_json demo_stranger = Inr (Ok n)"
      using up by (simp add: demo_stranger_def set_up_def)
    have "peer_data (manager_of n) = fmempty" "connections n = fmempty"
      using up by (auto simp: demo_execution_def set_up_def run_simps question_Ok load_peer_data_def PeerManager_new_def manager_of_def)
    then have strange: "unknown_peer_call (Opened 0 5 9) n" "swarm_law (Opened 0 5 9) n"
      by (simp_all add: last_status_def manager_of_def)
    then obtain e where "swarm_call Release demo_ext demo_disc (Opened 0 5 9) n = Inl e"
      using unknown_peer_panics by blast
    with strange have "lawful_turns Release demo_ext demo_disc (gossipsub_add_explicit_peer demo_main) ?stop (turns demo_stranger) n"
      "surprising_turns Release demo_ext demo_disc (gossipsub_add_explicit_peer demo_main) ?stop (turns demo_stranger) n"
      by (simp_all add: demo_stranger_def main_turn_def demo_execution_def time_to_stop_def from_secs_def del: swarm_call.simps)
    then show ?thesis
      using main_outcome [OF demo_delay_queue_laws demo_disc_laws demo_keys_valid demo_enr_laws up'] order
      by (simp add: demo_stranger_def)
  qed
  ultimately show ?thesis by blast
qed

subsection \<open>A second connection\<close>

text \<open>
  C40: the manager forgets a peer when one of its connections closes, however many others are open: the swarm allows ten
  connections per peer, and the manager ignores how many remain.
\<close>

theorem second_connection_forgotten:
  assumes "fmlookup (connections n) c = Some (p, h)" "fmlookup (connections n) c' = Some (p, h')" "c \<noteq> c'"
    and "last_status (peer_manager (behaviour n)) p \<noteq> None"
  shows "\<exists>n'. swarm_call Release E X (Closed now c) n = Inr (n', None) \<and> fmlookup (connections n') c' = Some (p, h') \<and>
    p |\<notin>| connected_peers (peer_manager (behaviour n')) \<and>
    last_status (peer_manager (behaviour n')) p = Some Disconnected"
  using assms closed_Release [OF assms(4), of now]
  by (auto simp: manager_event_def on_swarm_event_def)

theorem second_connection_forgotten_witness:
  "\<exists>n n'. demo_reach Release n \<and> swarm_call Release demo_ext demo_disc (Closed 9 5) n = Inr (n', None) \<and>
     fmlookup (connections n') 6 = Some (1, RPC_new_handler demo_ext) \<and>
     1 |\<notin>| connected_peers (peer_manager (behaviour n'))"
proof -
  let ?h = "RPC_new_handler demo_ext"
  obtain n1 where n1: "demo_reach Release n1" "connections n1 = fmupd 5 (1, ?h) fmempty"
    "last_status (peer_manager (behaviour n1)) 1 \<noteq> None"
    using demo_connected by blast
  then obtain n where n: "program_step Release demo_ext demo_disc (#) n1 (Opened 9 6 1) n"
    "connections n = fmupd 6 (1, ?h) (fmupd 5 (1, ?h) fmempty)" "last_status (peer_manager (behaviour n)) 1 \<noteq> None"
    using demo_opens [of 6 n1 1 Release] by auto
  have "fmlookup (connections n) 5 = Some (1, ?h)" "fmlookup (connections n) 6 = Some (1, ?h)" "5 \<noteq> (6 :: nat)"
    by (simp_all add: n(2))
  from second_connection_forgotten [OF this n(3), of demo_ext demo_disc 9] reach_step [OF n1(1) n(1)] show ?thesis by blast
qed

end
