(* ===== verification/Spec2Isabelle.thy ===== *)
theory Spec2Isabelle
  imports Codec_Properties Upgrade Peer_Restart Main_Properties
begin

text \<open>
  This development models cl-p2p-setup, a consensus-layer networking node written in Rust, and proves
  what makes its components correct. File names are relative to \<open>src/src/\<close>.

  \<^bold>\<open>The program.\<close> A libp2p swarm drives one behaviour that combines five: gossipsub, identify, the
  RPC behaviour (\<open>rpc/mod.rs\<close>), discovery (\<open>discovery.rs\<close>) and the peer manager (\<open>peer_manager.rs\<close>). Each
  connection has an RPC handler (\<open>rpc/handler.rs\<close>) that owns the Req/Resp substreams; a substream is
  negotiated by the upgrades of \<open>rpc/protocol.rs\<close> and framed by the codecs of \<open>rpc/codec/\<close>. The peer manager asks the
  main loop (\<open>main.rs\<close>) for dials and for discovery; the main loop passes discovered peers back,
  answers RPC requests and gives gossip messages their identity. \<open>chain.rs\<close>, \<open>enr.rs\<close> and
  \<open>config.rs\<close> hold the fork identity the node advertises in its record.

  \<^bold>\<open>Theories.\<close>
  \<^item> \<open>Prelude\<close>: integers, \<open>Result\<close>, \<open>Poll\<close>, panics as values (\<open>run\<close>), arithmetic per build profile, and the
    locales for transition systems, simulations and event queues. \<open>Le_Bytes\<close>: little-endian bytes.
  \<^item> \<open>Methods\<close> and \<open>Rpc_Protocol\<close>: the messages, protocol identifiers, limits, requests and errors of
    \<open>rpc/methods.rs\<close> and \<open>rpc/protocol.rs\<close>.
  \<^item> \<open>Ssz_Snappy\<close> and \<open>Base_Codec\<close>: \<open>rpc/codec/ssz_snappy.rs\<close>, \<open>base.rs\<close>, \<open>mod.rs\<close>; one definition per
    \<open>encode\<close> and \<open>decode\<close>, with the codec's fields as a record. \<open>Codec_Instance\<close> gives a concrete
    codec that satisfies the laws, for the witnesses. \<open>Codec_Properties\<close>: the theorems.
  \<^item> \<open>Upgrade\<close>: \<open>upgrade_inbound\<close> and \<open>upgrade_outbound\<close> of \<open>rpc/protocol.rs\<close>.
  \<^item> \<open>Handler\<close> and \<open>Handler_Poll\<close>: the record \<open>RPCHandler\<close> and one definition per method of
    \<open>rpc/handler.rs\<close>; \<open>poll\<close> is cut into its blocks (timeouts, inbound substreams, outbound substreams, dials)
    composed in the order of the code. \<open>Handler_Invariant\<close>, \<open>Handler_System\<close>: the invariant, and the transition
    system of all calls a swarm makes. \<open>Handler_Properties\<close>: the theorems.
  \<^item> \<open>Swarm\<close> and \<open>Rpc\<close>: the libp2p enums the program uses, and the RPC behaviour.
  \<^item> \<open>Rpc_System\<close>: all connections' handlers, the RPC behaviour and the main loop as one transition system.
  \<^item> \<open>Peer_Manager\<close>: record and operations of \<open>peer_manager.rs\<close>. \<open>Peer_Manager_Invariant\<close>: the transition system of
    the manager, with the swarm free to report anything at any time. \<open>Peer_Manager_Properties\<close>: the theorems.
    \<open>Peer_Lifecycle\<close>: the abstract life cycle of peers and the simulation that shows that the manager implements it.
    \<open>Peer_Restart\<close>: saving the peer data, loading it and the first heartbeat after that.
  \<^item> \<open>Chain_Enr\<close>, \<open>Discovery\<close>, \<open>Node\<close>: \<open>config.rs\<close>, \<open>chain.rs\<close>, \<open>enr.rs\<close>, \<open>discovery.rs\<close> and the event
    dispatch, message identity and snappy transform of \<open>main.rs\<close>. \<open>Node_Properties\<close>: the theorems.
  \<^item> \<open>Transport\<close> and \<open>Main_Loop\<close>: the rest of \<open>main.rs\<close>: the transport, the configurations, the set-up with every
    error and panic, the loop with its deadline and the end of \<open>main\<close>. The record \<open>node\<close> is the behaviour and the
    handlers of the open connections. \<open>Main_Invariant\<close>: the invariant of the composed program, from those of its parts.
    \<open>Main_Properties\<close>: the theorems.

  \<^bold>\<open>Code outside the repository.\<close> It is an argument of the definitions: \<open>ssz_ext\<close> (derived
  SSZ code), \<open>codec_ext\<close> (varint and snappy frames), \<open>handler_ext\<close> (wakers, timers, delay queues, framed streams),
  \<open>upgrade_ext\<close>, \<open>enr_ext\<close>, \<open>disc_ext\<close>, \<open>transport_ext\<close>, \<open>main_ext\<close> (gossipsub, hashing, the swarm's builder and listener)
  and \<open>json_ext\<close>. What the code relies on is a named hypothesis (\<open>ssz_laws\<close>, \<open>codec_laws\<close>,
  \<open>delay_queue_laws\<close> and so on), satisfied by the concrete instances of the witnesses. The
  clock, the iteration order of hash maps and sets and the due heartbeat ticks are inputs too,
  and the theorems hold for all of them. libp2p's swarm is the environment of the program: in each turn of the loop it makes
  a list of calls of the program's methods (\<open>call\<close>, \<open>swarm_call\<close>) until one generates an event. The calls are arbitrary:
  connections of strangers, second connections, connections and failures of dials that were given up long ago. The
  theorems on the whole program assume only \<open>swarm_law\<close>: a new connection's id is not that of an open one, and an
  iteration over a hash map visits every key once. Where a call can make the program panic the theorems say
  exactly which call does (\<open>unknown_peer_call\<close>).

  \<^bold>\<open>What is shown.\<close>
  \<^item> Codecs: an encoded response is decoded to itself and the decoder is ready for the next one; what a
    decoder returns fits the protocol of its stream; exactly which inputs are errors and which panic.
  \<^item> Handler: in every reachable state \<open>poll\<close> returns without panic in both build profiles; the bounds on
    substreams and dials; the exact accounting of dial slots, and the leak it has on retries; each response is delivered
    once; events are delivered in order; a drained handler that shuts down closes.
  \<^item> RPC behaviour and main loop: requests are answered once, on their own substream, and in order; the way
    of one request through handler, behaviour, main loop and back is this theory's theorem. No interleaving of
    connections, polls and deliveries makes the service panic.
  \<^item> Peer manager, whatever the swarm reports: what the sets and the histories say of each other; the manager's own steps
    keep the target, and only a connection it has not dialled can exceed it; what a heartbeat dials, gives up and records; where the
    manager panics or wraps. Its runs are runs of the abstract life cycle of peers, which gives that a pending, connected or
    given-up peer is not dialled again before the swarm reports its failure or closure. A restart keeps the
    peers and redials them.
  \<^item> Discovery: polling returns, reports what a query found, and what a failed query leads to.
  \<^item> Gossip: the hashed bytes determine topic and payload; the transforms are inverse and enforce the limit.
  \<^item> The program: in every reachable state the connected peers have open connections, the peers of open connections have
    histories, and all parts keep their invariants. A release build panics exactly when a connection or a dial failure of a peer
    without history is reported; \<open>main\<close> ends in that panic, or runs until its deadline and then saves the peer
    data. A second connection to a peer makes the manager lose track of it.

  \<^bold>\<open>Loops and fuel.\<close> The loops over substreams and peers recurse on the list of keys. The loops that poll an
  external source (expired timers, running queries, buffered discovery events) run on fuel one larger than the
  number of items the source holds; the theorems on polling prove that this is enough. The loop
  that drives one inbound substream has a termination measure. The loop of \<open>main\<close> recurses on the turns the
  environment supplies; it runs out of them exactly when it does not panic and no turn is past the deadline.

  \<^bold>\<open>Not modelled.\<close> The code of libp2p, discv5 and the other crates, beyond the interfaces above. Logging, including
  \<open>log_identities\<close>, has no effect on the state and is left out, and so are the handlers of the dummy kind that discovery and the
  peer manager return. What remains of the files are imports, type aliases and the heads of \<open>impl\<close> blocks.
\<close>

section \<open>Properties that span components\<close>

text \<open>
  C10: a MetaData request is answered. When an active handler with room for it and nothing queued admits
  the request, its next poll reports the request; the RPC behaviour passes it to the main loop, the main loop
  answers, the behaviour passes the answer to the handler of the same connection, and the handler
  queues it on the substream of the request. If the stream accepts it, the next pass over that substream
  sends it, closes the substream, removes it and reports no error.
\<close>

theorem metadata_request_answered:
  assumes "delay_queue_laws E live" "h_state h = Active" "events_out h = []"
    and "fcard (fmdom (inbound_substreams h)) < 32" "current_inbound_substream_id h \<noteq> - 1" "events rpc0 = []"
    and "in_send_poll E cx (in_send E sub (RPCCodedResponse_Success (RPCResponse_MetaData local_metadata))) =
      (sending, Ready (sub', Ok ()))"
    and "in_close_poll E cx sub' = (sub'', Ready (Ok ()))"
  shows "\<exists>h1 h2 h3 ev rpc1 rpc2 rpc3 msg m w info info' q'.
    inject_fully_negotiated_inbound P E now (InboundRequest_MetaData, sub) h = Inr h1 \<and>
    RPCHandler_poll P E cx io oo h1 = Inr (h2, Ready (Custom ev)) \<and>
    RPC_poll (RPC_inject_event peer conn ev rpc0) = (rpc1, Ready (GenerateEvent msg)) \<and>
    on_rpc_message msg rpc1 = Inr rpc2 \<and>
    RPC_poll rpc2 = (rpc3, Ready (NotifyHandler peer (NotifyHandler_One conn) m)) \<and> events rpc3 = [] \<and>
    Handler.inject_event m h2 = (h3, w) \<and>
    fmlookup (inbound_substreams h3) (current_inbound_substream_id h) = Some info \<and>
    pending_items info = [RPCCodedResponse_Success (RPCResponse_MetaData local_metadata)] \<and>
    drive_inbound E cx False info (inbound_substreams_delay h3) (events_out h3) = Inr (info', q', events_out h3, True)"
proof -
  let ?id = "current_inbound_substream_id h" and ?r = "RPCCodedResponse_Success (RPCResponse_MetaData local_metadata)"
  obtain q k where ins: "dq_insert E (inbound_substreams_delay h) ?id (from_secs RESPONSE_TIMEOUT) = (q, k)"
    by fastforce
  then have "live q k = Some ?id" using dq_insertD [OF assms(1)] by fastforce
  then obtain q' where rem: "dq_remove E q k = Inr q'" using dq_removeD [OF assms(1)] by blast
  let ?info = "\<lparr>ii_state = Idle sub, pending_items = [], ii_protocol = Protocol_MetaData, remaining_chunks = 1,
    request_start_time = now, ii_delay_key = Some k\<rparr>"
  let ?h1 = "h\<lparr>inbound_substreams_delay := q, inbound_substreams := fmupd ?id ?info (inbound_substreams h),
    events_out := [Ok (RPCReceived_Request ?id InboundRequest_MetaData)], current_inbound_substream_id := ?id + 1\<rparr>"
  let ?h2 = "(update_waker E cx ?h1)\<lparr>events_out := []\<rparr>"
  let ?h3 = "?h2\<lparr>inbound_substreams := fmupd ?id (?info\<lparr>pending_items := [?r]\<rparr>) (inbound_substreams ?h2)\<rparr>"
  have add: "add_ovf P ?id 1 = Inr (?id + 1)"
    using usize_max [of ?id] assms(5) by (simp add: add_ovf_def)
  have 1: "inject_fully_negotiated_inbound P E now (InboundRequest_MetaData, sub) h = Inr ?h1"
    using assms(2-4) ins add
    by (simp add: inject_fully_negotiated_inbound_def MAX_INBOUND_SUBSTREAMS_def push_event_def Let_def)
  have 2: "RPCHandler_poll P E cx io oo ?h1 =
      Inr (?h2, Ready (Custom (Ok (RPCReceived_Request ?id InboundRequest_MetaData))))"
    by (simp add: RPCHandler_poll_def Let_def)
  have 3: "Handler.inject_event (RPCSend_Response ?id ?r) ?h2 = (?h3, waker ?h3)"
    using assms(2) by (simp add: Handler.inject_event_def send_response_def Let_def)
  have 4: "drive_inbound E cx False (?info\<lparr>pending_items := [?r]\<rparr>) (inbound_substreams_delay ?h3) (events_out ?h3) =
      Inr (?info\<lparr>ii_state := InPoisoned\<rparr>, q', events_out ?h3, True)"
    using drive_inbound_sends [OF _ _ _ _ assms(7,8), of "?info\<lparr>pending_items := [?r]\<rparr>" "[]" q q'] rem
    by (simp add: remove_delay_def)
  let ?ev = "Ok (RPCReceived_Request ?id InboundRequest_MetaData)"
  let ?msg = "\<lparr>msg_peer_id = peer, msg_conn_id = conn, msg_event = ?ev\<rparr>"
  let ?n = "NotifyHandler peer (NotifyHandler_One conn) (RPCSend_Response ?id ?r)"
  have 5: "RPC_poll (RPC_inject_event peer conn ?ev rpc0) = (rpc0, Ready (GenerateEvent ?msg))"
    "on_rpc_message ?msg rpc0 = Inr (push_action ?n rpc0)" "RPC_poll (push_action ?n rpc0) = (rpc0, Ready ?n)"
    using assms(6) by (simp_all add: RPC_poll_def RPC_inject_event_def push_action_def on_rpc_message_def answer_def
        RPC_send_response_def)
  show ?thesis
    using 1 2 3 4 5 assms(6) by (intro exI conjI) (rule 1 2 5 assms 3 4 | simp)+
qed


abbreviation demo_handler ::
  "(unit RequestId, nat, RPCCodedResponse list, RPCCodedResponse list, RPCCodedResponse list, demo_queue, nat) RPCHandler" where
  "demo_handler \<equiv> RPCHandler_new demo_ext RPCProtocol"

theorem metadata_request_answered_witness:
  "\<exists>h1 h2 h3 ev m w info. inject_fully_negotiated_inbound Dev demo_ext 3 (InboundRequest_MetaData, []) demo_handler = Inr h1 \<and>
     RPCHandler_poll Dev demo_ext 0 demo_order demo_order h1 = Inr (h2, Ready (Custom ev)) \<and>
     Handler.inject_event m h2 = (h3, w) \<and> fmlookup (inbound_substreams h3) 0 = Some info \<and>
     pending_items info = [RPCCodedResponse_Success (RPCResponse_MetaData local_metadata)]"
proof -
  let ?r = "RPCCodedResponse_Success (RPCResponse_MetaData local_metadata)"
  have h: "h_state demo_handler = Active" "events_out demo_handler = []"
    "fcard (fmdom (inbound_substreams demo_handler)) < 32" "current_inbound_substream_id demo_handler \<noteq> - 1"
    "events (RPC_new :: (nat, nat) node_rpc) = []"
    by (simp_all add: RPCHandler_new_def RPC_new_def fcard.rep_eq)
  have s: "in_send_poll demo_ext 0 (in_send demo_ext [] ?r) = ([?r], Ready ([?r], Ok ()))"
    "in_close_poll demo_ext 0 [?r] = ([?r], Ready (Ok ()))"
    by (simp_all add: demo_simps)
  have "current_inbound_substream_id demo_handler = 0" by (simp add: RPCHandler_new_def)
  with metadata_request_answered [OF demo_delay_queue_laws h s, of Dev 3 demo_order demo_order 1 2] show ?thesis
    by metis
qed

end
